(* ===== verification/Asx_Prelude.thy ===== *)
theory Asx_Prelude
  imports Main "HOL-Library.Word"
begin

text \<open>
  Shared vocabulary of the development: the result type of fallible Rust code and its
  sequencing operators, Rust's byte strings (a \<open>&str\<close> is its UTF-8 bytes, one \<open>char\<close> per
  byte) with the string operations the sources call, decimal and hexadecimal printing and
  reading, and the wrap-around of the signed 32-bit type. The collections \<open>res_simps\<close> and
  \<open>str_simps\<close> gather the rules the component theories hand to the simplifier.
\<close>

named_theorems res_simps
named_theorems str_simps
named_theorems errs_intros

section \<open>Results\<close>

text \<open>A Rust \<open>Result<T, E>\<close> is \<open>E + T\<close>; \<open>rbind\<close> is the operator \<open>?\<close>.\<close>

type_synonym ('e, 'a) result = "'e + 'a"

definition rbind :: "('e, 'a) result \<Rightarrow> ('a \<Rightarrow> ('e, 'b) result) \<Rightarrow> ('e, 'b) result" where
  "rbind r f = (case r of Inl e \<Rightarrow> Inl e | Inr x \<Rightarrow> f x)"

definition ok_or :: "'e \<Rightarrow> 'a option \<Rightarrow> ('e, 'a) result" where
  "ok_or e x = (case x of None \<Rightarrow> Inl e | Some y \<Rightarrow> Inr y)"

definition check :: "bool \<Rightarrow> 'e \<Rightarrow> ('e, unit) result" where
  "check b e = (if b then Inr () else Inl e)"

definition map_err :: "('e \<Rightarrow> 'f) \<Rightarrow> ('e, 'a) result \<Rightarrow> ('f, 'a) result" where
  "map_err f r = (case r of Inl e \<Rightarrow> Inl (f e) | Inr x \<Rightarrow> Inr x)"

definition is_ok :: "('e, 'a) result \<Rightarrow> bool" where
  "is_ok r = (case r of Inl _ \<Rightarrow> False | Inr _ \<Rightarrow> True)"

lemma rbind_simps [simp]: "rbind (Inl e) f = Inl e" "rbind (Inr x) f = f x"
  by (simp_all add: rbind_def)

lemma rbind_Inr_iff [res_simps]: "rbind r f = Inr y \<longleftrightarrow> (\<exists>x. r = Inr x \<and> f x = Inr y)"
  by (cases r) auto

lemma rbind_Inl_iff [res_simps]:
  "rbind r f = Inl e \<longleftrightarrow> r = Inl e \<or> (\<exists>x. r = Inr x \<and> f x = Inl e)"
  by (cases r) auto

lemma ok_or_simps [simp]: "ok_or e None = Inl e" "ok_or e (Some x) = Inr x"
  by (simp_all add: ok_or_def)

lemma ok_or_Inr_iff [res_simps]: "ok_or e x = Inr y \<longleftrightarrow> x = Some y"
  by (cases x) auto

lemma ok_or_Inl_iff [res_simps]: "ok_or e x = Inl e' \<longleftrightarrow> x = None \<and> e' = e"
  by (cases x) auto

lemma check_simps [simp]: "check True e = Inr ()" "check False e = Inl e"
  by (simp_all add: check_def)

lemma check_Inr_iff [res_simps]: "check b e = Inr u \<longleftrightarrow> b"
  by (simp add: check_def)

lemma check_Inl_iff [res_simps]: "check b e = Inl e' \<longleftrightarrow> \<not> b \<and> e' = e"
  by (auto simp: check_def)

lemma map_err_simps [simp]: "map_err f (Inl e) = Inl (f e)" "map_err f (Inr x) = Inr x"
  by (simp_all add: map_err_def)

lemma map_err_Inr_iff [res_simps]: "map_err f r = Inr x \<longleftrightarrow> r = Inr x"
  by (cases r) auto

lemma is_ok_simps [simp]: "is_ok (Inl e) = False" "is_ok (Inr x) = True"
  by (simp_all add: is_ok_def)

text \<open>A loop that stops at the first error: \<open>for x in xs { f(x)?; }\<close>.\<close>

fun for_each :: "('a \<Rightarrow> ('e, unit) result) \<Rightarrow> 'a list \<Rightarrow> ('e, unit) result" where
  "for_each f [] = Inr ()"
| "for_each f (x # xs) = rbind (f x) (\<lambda>_. for_each f xs)"

lemma for_each_Inr_iff [res_simps]:
  "for_each f xs = Inr u \<longleftrightarrow> (\<forall>x \<in> set xs. f x = Inr ())"
  by (induction xs) (auto simp: res_simps)

lemma for_each_Inl_first:
  "for_each f xs = Inl e \<Longrightarrow>
    \<exists>ys x zs. xs = ys @ x # zs \<and> (\<forall>y \<in> set ys. f y = Inr ()) \<and> f x = Inl e"
proof (induction xs)
  case (Cons a xs)
  show ?case
  proof (cases "f a")
    case (Inl e')
    then show ?thesis using Cons.prems by (intro exI [of _ "[]"]) auto
  next
    case (Inr u)
    then obtain ys x zs where "xs = ys @ x # zs" "\<forall>y \<in> set ys. f y = Inr ()" "f x = Inl e"
      using Cons by auto
    then show ?thesis using Inr by (intro exI [of _ "a # ys"]) auto
  qed
qed simp

text \<open>A loop over a state that stops at the first error, and a \<open>collect\<close> of results.\<close>

fun rfold :: "('s \<Rightarrow> 'a \<Rightarrow> ('e, 's) result) \<Rightarrow> 's \<Rightarrow> 'a list \<Rightarrow> ('e, 's) result" where
  "rfold f s [] = Inr s"
| "rfold f s (x # xs) = rbind (f s x) (\<lambda>t. rfold f t xs)"

fun rmap :: "('a \<Rightarrow> ('e, 'b) result) \<Rightarrow> 'a list \<Rightarrow> ('e, 'b list) result" where
  "rmap f [] = Inr []"
| "rmap f (x # xs) = rbind (f x) (\<lambda>y. rbind (rmap f xs) (\<lambda>ys. Inr (y # ys)))"

lemma rmap_Inr_iff [res_simps]: "rmap f xs = Inr ys \<longleftrightarrow> list_all2 (\<lambda>x y. f x = Inr y) xs ys"
  by (induction xs arbitrary: ys) (auto simp: res_simps list_all2_Cons1)

text \<open>A loop invariant over the elements consumed so far.\<close>

lemma rfold_invariant:
  assumes "rfold f s xs = Inr t" and "I [] s"
    and step: "\<And>ys x zs u v. xs = ys @ x # zs \<Longrightarrow> I ys u \<Longrightarrow> f u x = Inr v \<Longrightarrow> I (ys @ [x]) v"
  shows "I xs t"
proof -
  have "I (ys @ zs) t" if "xs = ys @ zs" "rfold f u zs = Inr t" "I ys u" for ys zs u
    using that
  proof (induction zs arbitrary: ys u)
    case (Cons z zs)
    from Cons.prems(2) obtain v where v: "f u z = Inr v" "rfold f v zs = Inr t"
      by (auto simp: rbind_Inr_iff)
    have "I (ys @ [z]) v" using step [OF Cons.prems(1,3) v(1)] .
    then show ?case using Cons.IH [of "ys @ [z]" v] Cons.prems(1) v(2) by simp
  qed simp
  from this [of "[]" xs s] assms(1,2) show ?thesis by simp
qed

text \<open>
  \<open>errs_only P r\<close>: an error of \<open>r\<close> satisfies \<open>P\<close>. The rules follow the sequencing operators, so the
  errors of a composed computation are found by \<open>intro errs_intros\<close>.
\<close>

definition errs_only :: "('e \<Rightarrow> bool) \<Rightarrow> ('e, 'a) result \<Rightarrow> bool" where
  "errs_only P r \<longleftrightarrow> (\<forall>e. r = Inl e \<longrightarrow> P e)"

lemma errs_onlyD: "errs_only P r \<Longrightarrow> r = Inl e \<Longrightarrow> P e"
  by (simp add: errs_only_def)

lemma errs_only_mono: "errs_only P r \<Longrightarrow> (\<And>e. P e \<Longrightarrow> Q e) \<Longrightarrow> errs_only Q r"
  by (auto simp: errs_only_def)

lemma errs_only_Inr [errs_intros]: "errs_only P (Inr x)"
  by (simp add: errs_only_def)

lemma errs_only_Inl [errs_intros]: "P e \<Longrightarrow> errs_only P (Inl e)"
  by (simp add: errs_only_def)

lemma errs_only_rbind [errs_intros]:
  "errs_only P r \<Longrightarrow> (\<And>x. r = Inr x \<Longrightarrow> errs_only P (f x)) \<Longrightarrow> errs_only P (rbind r f)"
  by (cases r) (auto simp: errs_only_def)

lemma errs_only_check [errs_intros]: "(\<not> b \<Longrightarrow> P e) \<Longrightarrow> errs_only P (check b e)"
  by (simp add: errs_only_def check_def)

lemma errs_only_ok_or [errs_intros]: "(x = None \<Longrightarrow> P e) \<Longrightarrow> errs_only P (ok_or e x)"
  by (cases x) (auto simp: errs_only_def)

lemma errs_only_map_err [errs_intros]: "errs_only (\<lambda>e. P (f e)) r \<Longrightarrow> errs_only P (map_err f r)"
  by (cases r) (auto simp: errs_only_def)

lemma errs_only_if [errs_intros]:
  "(b \<Longrightarrow> errs_only P x) \<Longrightarrow> (\<not> b \<Longrightarrow> errs_only P y) \<Longrightarrow> errs_only P (if b then x else y)"
  by simp

lemma errs_only_option [errs_intros]:
  "(x = None \<Longrightarrow> errs_only P n) \<Longrightarrow> (\<And>y. x = Some y \<Longrightarrow> errs_only P (s y)) \<Longrightarrow>
     errs_only P (case x of None \<Rightarrow> n | Some y \<Rightarrow> s y)"
  by (cases x) auto

lemma errs_only_sum [errs_intros]:
  "(\<And>e. r = Inl e \<Longrightarrow> errs_only P (f e)) \<Longrightarrow> (\<And>x. r = Inr x \<Longrightarrow> errs_only P (g x)) \<Longrightarrow>
     errs_only P (case r of Inl e \<Rightarrow> f e | Inr x \<Rightarrow> g x)"
  by (cases r) auto

lemma errs_only_for_each [errs_intros]:
  "(\<And>x. x \<in> set xs \<Longrightarrow> errs_only P (f x)) \<Longrightarrow> errs_only P (for_each f xs)"
  by (induction xs) (auto intro!: errs_only_rbind errs_only_Inr)

lemma errs_only_rfold [errs_intros]:
  "(\<And>s x. x \<in> set xs \<Longrightarrow> errs_only P (f s x)) \<Longrightarrow> errs_only P (rfold f s xs)"
  by (induction xs arbitrary: s) (auto intro!: errs_only_rbind errs_only_Inr)

lemma errs_only_rmap [errs_intros]:
  "(\<And>x. x \<in> set xs \<Longrightarrow> errs_only P (f x)) \<Longrightarrow> errs_only P (rmap f xs)"
  by (induction xs) (auto intro!: errs_only_rbind errs_only_Inr)

lemma errs_only_True: "errs_only (\<lambda>_. True) r"
  by (simp add: errs_only_def)

section \<open>Bytes and strings\<close>

definition byte :: "char \<Rightarrow> nat" where
  "byte c = of_char c"

lemma byte_less [simp]: "byte c < 256"
  by (simp add: byte_def)

lemma byte_inj [simp]: "byte c = byte d \<longleftrightarrow> c = d"
  by (simp add: byte_def)

lemma byte_char_of [simp]: "n < 256 \<Longrightarrow> byte (char_of n) = n"
  by (simp add: byte_def)

definition is_ascii_digit :: "char \<Rightarrow> bool" where
  "is_ascii_digit c \<longleftrightarrow> 48 \<le> byte c \<and> byte c \<le> 57"

definition ascii_lower :: "char \<Rightarrow> char" where
  "ascii_lower c = (if 65 \<le> byte c \<and> byte c \<le> 90 then char_of (byte c + 32) else c)"

definition ascii_upper :: "char \<Rightarrow> char" where
  "ascii_upper c = (if 97 \<le> byte c \<and> byte c \<le> 122 then char_of (byte c - 32) else c)"

definition to_ascii_lowercase :: "string \<Rightarrow> string" where
  "to_ascii_lowercase s = map ascii_lower s"

definition to_ascii_uppercase :: "string \<Rightarrow> string" where
  "to_ascii_uppercase s = map ascii_upper s"

definition eq_ignore_ascii_case :: "string \<Rightarrow> string \<Rightarrow> bool" where
  "eq_ignore_ascii_case a b \<longleftrightarrow> to_ascii_lowercase a = to_ascii_lowercase b"

text \<open>\<open>str::contains\<close> on a literal needle, \<open>starts_with\<close> and \<open>split\<close> on one byte.\<close>

fun starts_with :: "string \<Rightarrow> string \<Rightarrow> bool" where
  "starts_with s [] = True"
| "starts_with [] (p # ps) = False"
| "starts_with (c # cs) (p # ps) = (c = p \<and> starts_with cs ps)"

fun str_contains :: "string \<Rightarrow> string \<Rightarrow> bool" where
  "str_contains [] n = (n = [])"
| "str_contains (c # cs) n = (starts_with (c # cs) n \<or> str_contains cs n)"

fun split_on :: "char \<Rightarrow> string \<Rightarrow> string list" where
  "split_on d [] = [[]]"
| "split_on d (c # cs) =
     (if c = d then [] # split_on d cs
      else (case split_on d cs of [] \<Rightarrow> [[c]] | p # ps \<Rightarrow> (c # p) # ps))"

lemma starts_with_append [simp]: "starts_with (p @ s) p"
  by (induction p) auto

lemma starts_with_iff: "starts_with s p \<longleftrightarrow> (\<exists>r. s = p @ r)"
  by (induction s p rule: starts_with.induct) auto

lemma str_contains_iff: "str_contains s n \<longleftrightarrow> (\<exists>a b. s = a @ n @ b)"
proof (induction s)
  case (Cons c cs)
  show ?case unfolding str_contains.simps Cons.IH starts_with_iff
    by (auto simp: Cons_eq_append_conv)
qed auto

lemma split_on_not_Nil [simp]: "split_on d s \<noteq> []"
  by (induction s) (auto split: list.splits)

text \<open>
  \<open>char::is_whitespace\<close> on the UTF-8 bytes: the length of the whitespace character the
  string starts with, 0 where it starts with another character.
\<close>

fun ws_len :: "nat list \<Rightarrow> nat" where
  "ws_len (a # b # c # _) =
     (if (9 \<le> a \<and> a \<le> 13) \<or> a = 32 then 1
      else if a = 194 \<and> (b = 133 \<or> b = 160) then 2
      else if (a = 225 \<and> b = 154 \<and> c = 128)
           \<or> (a = 226 \<and> b = 128 \<and> ((128 \<le> c \<and> c \<le> 138) \<or> c = 168 \<or> c = 169 \<or> c = 175))
           \<or> (a = 226 \<and> b = 129 \<and> c = 159) \<or> (a = 227 \<and> b = 128 \<and> c = 128) then 3
      else 0)"
| "ws_len [a, b] =
     (if (9 \<le> a \<and> a \<le> 13) \<or> a = 32 then 1
      else if a = 194 \<and> (b = 133 \<or> b = 160) then 2 else 0)"
| "ws_len [a] = (if (9 \<le> a \<and> a \<le> 13) \<or> a = 32 then 1 else 0)"
| "ws_len [] = 0"

definition str_ws :: "string \<Rightarrow> nat" where
  "str_ws s = ws_len (map byte (take 3 s))"

text \<open>The same at the end of a string, whose last bytes are given in order.\<close>

definition str_ws_end :: "string \<Rightarrow> nat" where
  "str_ws_end s =
     (let n = length s; at = (\<lambda>k. if k \<le> n then ws_len (map byte (drop (n - k) s)) else 0)
      in if at 1 = 1 then 1 else if at 2 = 2 then 2 else if at 3 = 3 then 3 else 0)"

function trim_start :: "string \<Rightarrow> string" where
  "trim_start s = (if s = [] \<or> str_ws s = 0 then s else trim_start (drop (str_ws s) s))"
  by pat_completeness auto
termination by (relation "measure length") auto

function trim_end :: "string \<Rightarrow> string" where
  "trim_end s =
     (if s = [] \<or> str_ws_end s = 0 then s
      else trim_end (take (length s - str_ws_end s) s))"
  by pat_completeness auto
termination by (relation "measure length") auto

declare trim_start.simps [simp del] trim_end.simps [simp del]

definition trim :: "string \<Rightarrow> string" where
  "trim s = trim_end (trim_start s)"

text \<open>\<open>split_whitespace\<close>: the maximal runs of bytes that start no whitespace character.\<close>

function split_ws :: "string \<Rightarrow> string \<Rightarrow> string list" where
  "split_ws acc s =
     (if s = [] then (if acc = [] then [] else [rev acc])
      else if str_ws s = 0 then split_ws (hd s # acc) (tl s)
      else (if acc = [] then [] else [rev acc]) @ split_ws [] (drop (str_ws s) s))"
  by pat_completeness auto
termination by (relation "measure (\<lambda>(acc, s). length s)") auto

declare split_ws.simps [simp del]

definition split_whitespace :: "string \<Rightarrow> string list" where
  "split_whitespace s = split_ws [] s"

text \<open>A part of a message in single quotes.\<close>

definition squote :: "string \<Rightarrow> string" where
  "squote s = [CHR 0x27] @ s @ [CHR 0x27]"

text \<open>The UTF-8 bytes of the section sign and of the em dash.\<close>

definition sect :: "string \<Rightarrow> string" where
  "sect s = [CHR 0xC2, CHR 0xA7] @ s"

definition em_dash :: string where
  "em_dash = [CHR 0xE2, CHR 0x80, CHR 0x94]"

type_synonym bytes = "8 word list"

section \<open>Numbers in text\<close>

definition digit_char :: "nat \<Rightarrow> char" where
  "digit_char d = char_of (48 + d)"

definition digit_val :: "char \<Rightarrow> nat" where
  "digit_val c = byte c - 48"

lemma byte_digit_char [simp]: "d < 10 \<Longrightarrow> byte (digit_char d) = 48 + d"
  by (simp add: digit_char_def)

lemma is_ascii_digit_digit_char [simp]: "d < 10 \<Longrightarrow> is_ascii_digit (digit_char d)"
  by (simp add: is_ascii_digit_def)

lemma digit_val_digit_char [simp]: "d < 10 \<Longrightarrow> digit_val (digit_char d) = d"
  by (simp add: digit_val_def)

fun show_nat :: "nat \<Rightarrow> string" where
  "show_nat n = (if n < 10 then [digit_char n] else show_nat (n div 10) @ [digit_char (n mod 10)])"

declare show_nat.simps [simp del]

text \<open>\<open>format!("{n:0w}")\<close>\<close>

definition zpad :: "nat \<Rightarrow> nat \<Rightarrow> string" where
  "zpad w n = (let ds = show_nat n in replicate (w - length ds) (digit_char 0) @ ds)"

lemma show_nat_1 [str_simps]: "n < 10 \<Longrightarrow> show_nat n = [digit_char n]"
  by (simp add: show_nat.simps)

lemma show_nat_step: "10 \<le> n \<Longrightarrow> show_nat n = show_nat (n div 10) @ [digit_char (n mod 10)]"
  by (subst show_nat.simps) simp

lemma zpad_2 [str_simps]:
  assumes "n < 100"
  shows "zpad 2 n = [digit_char (n div 10), digit_char (n mod 10)]"
proof (cases "n < 10")
  case True
  then show ?thesis by (simp add: zpad_def show_nat_1)
next
  case False
  with assms have "show_nat n = [digit_char (n div 10), digit_char (n mod 10)]"
    by (simp add: show_nat_step show_nat_1)
  then show ?thesis by (simp add: zpad_def)
qed

lemma zpad_Suc:
  assumes "length (zpad w (n div 10)) = w" "10 \<le> n"
  shows "zpad (Suc w) n = zpad w (n div 10) @ [digit_char (n mod 10)]"
  using assms by (simp add: zpad_def Let_def show_nat_step)

lemma zpad_3 [str_simps]:
  assumes "n < 1000"
  shows "zpad 3 n = [digit_char (n div 100), digit_char (n div 10 mod 10), digit_char (n mod 10)]"
proof (cases "n < 10")
  case True
  then show ?thesis by (simp add: zpad_def show_nat_1 numeral_2_eq_2)
next
  case False
  have two: "zpad 2 (n div 10) = [digit_char (n div 10 div 10), digit_char (n div 10 mod 10)]"
    using assms by (intro zpad_2) simp
  have "zpad 3 n = zpad 2 (n div 10) @ [digit_char (n mod 10)]"
    using False zpad_Suc [of 2 n] by (simp add: two)
  moreover have "n div 10 div 10 = n div 100" by (simp flip: div_mult2_eq)
  ultimately show ?thesis by (simp add: two)
qed

lemma zpad_4 [str_simps]:
  assumes "n < 10000"
  shows "zpad 4 n = [digit_char (n div 1000), digit_char (n div 100 mod 10),
                     digit_char (n div 10 mod 10), digit_char (n mod 10)]"
proof (cases "n < 10")
  case True
  then show ?thesis by (simp add: zpad_def show_nat_1 numeral_3_eq_3)
next
  case False
  have three: "zpad 3 (n div 10) =
      [digit_char (n div 10 div 100), digit_char (n div 10 div 10 mod 10), digit_char (n div 10 mod 10)]"
    using assms by (intro zpad_3) simp
  have "zpad 4 n = zpad 3 (n div 10) @ [digit_char (n mod 10)]"
    using False zpad_Suc [of 3 n] by (simp add: three)
  moreover have "n div 10 div 100 = n div 1000" "n div 10 div 10 = n div 100"
    by (simp_all flip: div_mult2_eq)
  ultimately show ?thesis by (simp add: three)
qed

text \<open>\<open>format!("{b:02x}")\<close> over a byte sequence.\<close>

definition hex_digit :: "nat \<Rightarrow> char" where
  "hex_digit d = (if d < 10 then char_of (48 + d) else char_of (87 + d))"

definition hex_byte :: "8 word \<Rightarrow> string" where
  "hex_byte b = [hex_digit (unat b div 16), hex_digit (unat b mod 16)]"

definition hex :: "8 word list \<Rightarrow> string" where
  "hex bs = concat (map hex_byte bs)"

lemma hex_digit_inj: "a < 16 \<Longrightarrow> b < 16 \<Longrightarrow> hex_digit a = hex_digit b \<longleftrightarrow> a = b"
  by (auto simp: hex_digit_def split: if_splits dest: arg_cong [where f = byte])

lemma length_hex [simp]: "length (hex bs) = 2 * length bs"
  by (induction bs) (auto simp: hex_def hex_byte_def)

lemma unat_byte_less: "unat (b :: 8 word) < 256"
  using unsigned_less [of b, where ?'a = nat] by simp

lemma hex_byte_inj: "hex_byte a = hex_byte b \<longleftrightarrow> a = b"
proof
  assume "hex_byte a = hex_byte b"
  then have "unat a div 16 = unat b div 16" "unat a mod 16 = unat b mod 16"
    using unat_byte_less [of a] unat_byte_less [of b]
    by (simp_all add: hex_byte_def hex_digit_inj less_mult_imp_div_less)
  then have "unat a = unat b" by (metis div_mult_mod_eq)
  then show "a = b" by (simp add: word_unat_eq_iff)
qed simp

lemma hex_inj: "hex a = hex b \<longleftrightarrow> a = b"
proof (induction a arbitrary: b)
  case Nil
  then show ?case by (cases b) (auto simp: hex_def hex_byte_def)
next
  case (Cons x a)
  then show ?case
  proof (cases b)
    case Nil
    then show ?thesis by (simp add: hex_def hex_byte_def)
  next
    case (Cons y b')
    have "hex (x # a) = hex (y # b') \<longleftrightarrow> hex_byte x = hex_byte y \<and> hex a = hex b'"
      by (simp add: hex_def hex_byte_def)
    with Cons.IH Cons show ?thesis by (simp add: hex_byte_inj)
  qed
qed

text \<open>\<open>str::parse::<i64>\<close>: an optional sign, at least one digit, within the range of the type.\<close>

definition i64_min :: int where "i64_min = - 9223372036854775808"
definition i64_max :: int where "i64_max = 9223372036854775807"

definition parse_digits :: "string \<Rightarrow> nat option" where
  "parse_digits s =
     (if s \<noteq> [] \<and> list_all is_ascii_digit s
      then Some (fold (\<lambda>c n. n * 10 + digit_val c) s 0) else None)"

definition in_i64 :: "int \<Rightarrow> int option" where
  "in_i64 n = (if i64_min \<le> n \<and> n \<le> i64_max then Some n else None)"

definition parse_i64 :: "string \<Rightarrow> int option" where
  "parse_i64 s =
     (case s of [] \<Rightarrow> None
      | c # cs \<Rightarrow>
          if c = CHR ''-'' then Option.bind (parse_digits cs) (\<lambda>n. in_i64 (- int n))
          else if c = CHR ''+'' then Option.bind (parse_digits cs) (\<lambda>n. in_i64 (int n))
          else Option.bind (parse_digits s) (\<lambda>n. in_i64 (int n)))"

text \<open>The wrap-around of \<open>i32\<close> arithmetic and of \<open>as i32\<close>.\<close>

definition wrap_i32 :: "int \<Rightarrow> int" where
  "wrap_i32 x = (x + 2147483648) mod 4294967296 - 2147483648"

lemma wrap_i32_id: "- 2147483648 \<le> x \<Longrightarrow> x < 2147483648 \<Longrightarrow> wrap_i32 x = x"
  by (simp add: wrap_i32_def)

text \<open>The wrap-around of \<open>u64\<close> and \<open>u8\<close> arithmetic (builds without overflow checks).\<close>

definition wrap_u64 :: "int \<Rightarrow> int" where
  "wrap_u64 x = x mod 18446744073709551616"

definition wrap_u8 :: "int \<Rightarrow> int" where
  "wrap_u8 x = x mod 256"

lemma wrap_u64_id: "0 \<le> x \<Longrightarrow> x < 18446744073709551616 \<Longrightarrow> wrap_u64 x = x"
  by (simp add: wrap_u64_def)

lemma wrap_u8_id: "0 \<le> x \<Longrightarrow> x < 256 \<Longrightarrow> wrap_u8 x = x"
  by (simp add: wrap_u8_def)

lemma wrap_i32_range: "- 2147483648 \<le> wrap_i32 x \<and> wrap_i32 x < 2147483648"
  by (simp add: wrap_i32_def)

end
