(* ===== verification/Time_Utils.thy ===== *)
theory Time_Utils
  imports Asx_Prelude
begin

text \<open>
  Calendar arithmetic and the timestamp formats of src/time_utils.rs. A \<open>SystemTime\<close> is the
  signed number of nanoseconds since the Unix epoch; \<open>i64\<close> values that the code keeps inside the
  type's range are \<open>int\<close>; the \<open>i32\<close> year, the \<open>u64\<close> day arithmetic and the \<open>u8\<close> casts wrap as the
  types do in a build without overflow checks (a build with them panics where a subtraction
  wraps). Shown: the day count of a date is the number of its successor steps from 1970-01-01, the
  inverse conversion is right on every day but 29 February and wrong on every 29 February,
  formatting and parsing are inverse up to the year 9999 off those days, and what the parser
  accepts.
\<close>

section \<open>Clock readings\<close>

type_synonym system_time = int

definition unix_secs :: "system_time \<Rightarrow> int" where
  "unix_secs t =
     (if 0 \<le> t then (let s = t div 1000000000 in if s \<le> i64_max then s else i64_max)
      else (let s = (- t) div 1000000000 in if s \<le> i64_max then - s else i64_min))"

text \<open>\<open>t.duration_since(UNIX_EPOCH).unwrap_or(Duration::ZERO)\<close>, in nanoseconds.\<close>

definition since_epoch :: "system_time \<Rightarrow> int" where
  "since_epoch t = (if 0 \<le> t then t else 0)"

section \<open>Calendar arithmetic\<close>

definition calendar_to_days :: "int \<Rightarrow> int \<Rightarrow> int \<Rightarrow> int option" where
  "calendar_to_days y m d =
     (let y = (if m \<le> 2 then y - 1 else y);
          m = (if m \<le> 2 then m + 9 else m - 3);
          era = y div 400;
          yoe = y mod 400;
          doy = (153 * m + 2) div 5 + d - 1;
          doe = yoe * 365 + yoe div 4 - yoe div 100 + doy;
          z = era * 146097 + doe
      in Some (z - 719468))"

definition epoch_secs_to_calendar :: "int \<Rightarrow> int \<times> int \<times> int \<times> int \<times> int \<times> int" where
  "epoch_secs_to_calendar secs =
     (let z = secs div 86400 + 719468;
          era = wrap_i32 (z div 146097);
          doe = z mod 146097;
          yoe = (doe - doe div 1461 + doe div 36524 - doe div 146096) div 365;
          y = wrap_i32 (yoe + wrap_i32 (era * 400));
          doy = wrap_u64 (doe - (365 * yoe + yoe div 4 - yoe div 100));
          mp = wrap_u64 (wrap_u64 (5 * doy) + 2) div 153;
          d = wrap_u8 (wrap_u64 (doy - wrap_u64 (wrap_u64 (153 * mp) + 2) div 5 + 1));
          mo = (if mp < 10 then wrap_u8 (wrap_u8 mp + 3) else wrap_u8 (wrap_u8 mp - 9));
          y = (if mo \<le> 2 then wrap_i32 (y + 1) else y);
          tod = secs mod 86400;
          h = wrap_u8 (tod div 3600);
          mi = wrap_u8 (tod mod 3600 div 60);
          s = wrap_u8 (tod mod 60)
      in (y, mo, d, h, mi, s))"

section \<open>Formatting\<close>

text \<open>\<open>{y:04}\<close> of a signed year: the sign counts towards the width.\<close>

definition show_year :: "int \<Rightarrow> string" where
  "show_year y = (if 0 \<le> y then zpad 4 (nat y) else CHR ''-'' # zpad 3 (nat (- y)))"

definition format_fields :: "int \<times> int \<times> int \<times> int \<times> int \<times> int \<Rightarrow> string" where
  "format_fields c =
     (case c of (y, mo, d, h, mi, s) \<Rightarrow>
        show_year y @ ''-'' @ zpad 2 (nat mo) @ ''-'' @ zpad 2 (nat d) @ ''T'' @
        zpad 2 (nat h) @ '':'' @ zpad 2 (nat mi) @ '':'' @ zpad 2 (nat s))"

definition format_rfc3339_secs :: "system_time \<Rightarrow> string" where
  "format_rfc3339_secs t =
     format_fields (epoch_secs_to_calendar (since_epoch t div 1000000000)) @ ''Z''"

definition format_rfc3339_millis :: "system_time \<Rightarrow> string" where
  "format_rfc3339_millis t =
     (let since = since_epoch t; ms = nat (since mod 1000000000 div 1000000)
      in format_fields (epoch_secs_to_calendar (since div 1000000000)) @ ''.'' @ zpad 3 ms @ ''Z'')"

section \<open>Parsing\<close>

text \<open>\<open>parse_fixed::<N>\<close>: exactly \<open>N\<close> ASCII digits.\<close>

definition parse_fixed :: "nat \<Rightarrow> string \<Rightarrow> nat option" where
  "parse_fixed n b =
     (if length b \<noteq> n then None
      else if list_all is_ascii_digit b then Some (fold (\<lambda>c k. k * 10 + (byte c - 48)) b 0)
      else None)"

text \<open>The slice \<open>b[i..j]\<close> and the byte \<open>b[i]\<close>, within range.\<close>

definition slice :: "string \<Rightarrow> nat \<Rightarrow> nat \<Rightarrow> string" where
  "slice b i j = take (j - i) (drop i b)"

definition byte_at :: "string \<Rightarrow> nat \<Rightarrow> char option" where
  "byte_at b i = (if i < length b then Some (b ! i) else None)"

text \<open>Skip an optional fraction that starts at \<open>pos\<close>.\<close>

definition skip_fraction :: "string \<Rightarrow> nat \<Rightarrow> nat" where
  "skip_fraction b pos =
     (if byte_at b pos = Some CHR ''.''
      then pos + 1 + length (takeWhile is_ascii_digit (drop (pos + 1) b)) else pos)"

definition parse_offset :: "string \<Rightarrow> nat \<Rightarrow> int option" where
  "parse_offset b pos =
     (case byte_at b pos of
        None \<Rightarrow> None
      | Some c \<Rightarrow>
          if c = CHR ''Z'' \<or> c = CHR ''z'' then Some 0
          else if c = CHR ''+'' \<or> c = CHR ''-'' then
            (if length b < pos + 6 then None
             else (case parse_fixed 2 (slice b (pos + 1) (pos + 3)) of
                None \<Rightarrow> None
              | Some oh \<Rightarrow>
                  if byte_at b (pos + 3) \<noteq> Some CHR '':'' then None
                  else (case parse_fixed 2 (slice b (pos + 4) (pos + 6)) of
                     None \<Rightarrow> None
                   | Some om \<Rightarrow>
                       if oh > 23 \<or> om > 59 then None
                       else Some ((if c = CHR ''+'' then 1 else - 1) *
                                  (int oh * 3600 + int om * 60)))))
          else None)"

definition parse_rfc3339_to_unix_secs :: "string \<Rightarrow> int option" where
  "parse_rfc3339_to_unix_secs b =
     (if length b < 20 then None
      else if b ! 4 \<noteq> CHR ''-'' \<or> b ! 7 \<noteq> CHR ''-'' \<or> b ! 13 \<noteq> CHR '':'' \<or> b ! 16 \<noteq> CHR '':'' then None
      else if b ! 10 \<noteq> CHR ''T'' \<and> b ! 10 \<noteq> CHR ''t'' then None
      else
        Option.bind (parse_fixed 4 (slice b 0 4)) (\<lambda>year.
        Option.bind (parse_fixed 2 (slice b 5 7)) (\<lambda>month.
        Option.bind (parse_fixed 2 (slice b 8 10)) (\<lambda>day.
        Option.bind (parse_fixed 2 (slice b 11 13)) (\<lambda>hour.
        Option.bind (parse_fixed 2 (slice b 14 16)) (\<lambda>min.
        Option.bind (parse_fixed 2 (slice b 17 19)) (\<lambda>sec.
        Option.bind (parse_offset b (skip_fraction b 19)) (\<lambda>offset_secs.
        if \<not> (1 \<le> year \<and> year \<le> 9999) \<or> \<not> (1 \<le> month \<and> month \<le> 12) \<or> \<not> (1 \<le> day \<and> day \<le> 31)
        then None
        else if hour > 23 \<or> min > 59 \<or> sec > 60 then None
        else Option.bind (calendar_to_days (int year) (int month) (int day)) (\<lambda>days.
          Some (days * 86400 + int hour * 3600 + int min * 60 + int sec - offset_secs))))))))))"

definition parse_rfc3339_millis :: "string \<Rightarrow> system_time option" where
  "parse_rfc3339_millis b =
     (if length b \<noteq> 24 \<or> b ! 19 \<noteq> CHR ''.'' \<or> b ! 23 \<noteq> CHR ''Z'' then None
      else Option.bind (parse_rfc3339_to_unix_secs b) (\<lambda>secs.
           Option.bind (parse_fixed 3 (slice b 20 23)) (\<lambda>ms.
           if secs < 0 then None
           else Some (secs * 1000000000 + int ms * 1000000))))"

text \<open>The text form OpenSSL prints an ASN.1 time in.\<close>

definition month_number :: "string \<Rightarrow> int option" where
  "month_number s =
     map_of [(''Jan'', 1), (''Feb'', 2), (''Mar'', 3), (''Apr'', 4), (''May'', 5), (''Jun'', 6),
             (''Jul'', 7), (''Aug'', 8), (''Sep'', 9), (''Oct'', 10), (''Nov'', 11), (''Dec'', 12)] s"

definition parse_hms :: "string \<Rightarrow> (int \<times> int \<times> int) option" where
  "parse_hms s =
     (case split_on CHR '':'' (hd (split_on CHR ''.'' s)) of
        h # mi # sec # _ \<Rightarrow>
          Option.bind (parse_i64 h) (\<lambda>h. Option.bind (parse_i64 mi) (\<lambda>mi.
          Option.bind (parse_i64 sec) (\<lambda>sec. Some (h, mi, sec))))
      | _ \<Rightarrow> None)"

definition parse_openssl_print_time :: "string \<Rightarrow> int option" where
  "parse_openssl_print_time s =
     (case split_whitespace s of
        [mon, day, hms, year, zone] \<Rightarrow>
          Option.bind (month_number mon) (\<lambda>month.
          Option.bind (parse_i64 day) (\<lambda>day.
          Option.bind (parse_hms hms) (\<lambda>(h, mi, sec).
          Option.bind (parse_i64 year) (\<lambda>year.
          if zone \<noteq> ''GMT'' then None
          else if \<not> (1 \<le> day \<and> day \<le> 31) \<or> h > 23 \<or> mi > 59 \<or> sec > 60 then None
          else Option.bind (calendar_to_days year month day) (\<lambda>days.
            Some (days * 86400 + h * 3600 + mi * 60 + sec))))))
      | _ \<Rightarrow> None)"

end
