(* ===== verification/Calendar.thy ===== *)
theory Calendar
  imports Time_Utils
begin

text \<open>
  Correctness of the calendar arithmetic and of the timestamp formats of src/time_utils.rs
  (modelled in \<open>Time_Utils\<close>) against the Gregorian calendar, which is defined here by its leap
  rule, its month lengths and the successor of a date.
\<close>

section \<open>The Gregorian calendar\<close>

definition is_leap :: "int \<Rightarrow> bool" where
  "is_leap y \<longleftrightarrow> y mod 4 = 0 \<and> (y mod 100 \<noteq> 0 \<or> y mod 400 = 0)"

definition month_length :: "int \<Rightarrow> int \<Rightarrow> int" where
  "month_length y m =
     (if m = 2 then (if is_leap y then 29 else 28) else if m \<in> {4, 6, 9, 11} then 30 else 31)"

definition valid_date :: "int \<Rightarrow> int \<Rightarrow> int \<Rightarrow> bool" where
  "valid_date y m d \<longleftrightarrow> 1 \<le> m \<and> m \<le> 12 \<and> 1 \<le> d \<and> d \<le> month_length y m"

definition next_date :: "int \<times> int \<times> int \<Rightarrow> int \<times> int \<times> int" where
  "next_date = (\<lambda>(y, m, d).
     if d < month_length y m then (y, m, d + 1)
     else if m < 12 then (y, m + 1, 1) else (y + 1, 1, 1))"

text \<open>The first day of the year of era \<open>y\<close>, and the year the code computes from a day of era.\<close>

definition year_start :: "int \<Rightarrow> int" where
  "year_start y = 365 * y + y div 4 - y div 100"

definition leap_adjusted :: "int \<Rightarrow> int" where
  "leap_adjusted d = d - d div 1461 + d div 36524"

lemma leap_adjusted_mono:
  assumes "0 \<le> a" "a \<le> b"
  shows "leap_adjusted a \<le> leap_adjusted b"
proof -
  have "b div 1461 - a div 1461 \<le> b - a"
    using assms by linarith
  moreover have "a div 36524 \<le> b div 36524" using assms by (intro zdiv_mono1) auto
  ultimately show ?thesis by (simp add: leap_adjusted_def)
qed

lemma year_bounds_checked:
  "list_all (\<lambda>y. leap_adjusted (year_start y) div 365 = y \<and>
                 leap_adjusted (year_start y + 364) div 365 = y) [0..399]"
  by code_simp

lemma leap_days_checked:
  "list_all (\<lambda>y. y mod 4 = 3 \<and> y mod 100 \<noteq> 99 \<longrightarrow>
      leap_adjusted (year_start y + 365) div 365 = y + 1 \<and>
      year_start (y + 1) = year_start y + 366) [0..399]"
  by code_simp

lemma year_start_bounds: "0 \<le> y \<Longrightarrow> y < 400 \<Longrightarrow> 0 \<le> year_start y \<and> year_start y \<le> 145731"
  unfolding year_start_def by linarith

lemma year_of_era:
  assumes "0 \<le> y" "y < 400" "0 \<le> doy" "doy \<le> 364"
  defines "doe \<equiv> year_start y + doy"
  shows "(doe - doe div 1461 + doe div 36524 - doe div 146096) div 365 = y"
proof -
  have y: "y \<in> set [0..399]" using assms by simp
  note c = conjunct1 [OF bspec [OF year_bounds_checked [unfolded list_all_iff] y]]
    conjunct2 [OF bspec [OF year_bounds_checked [unfolded list_all_iff] y]]
  note b = year_start_bounds [OF assms(1,2)]
  have "leap_adjusted (year_start y) div 365 \<le> leap_adjusted doe div 365"
    using b assms by (intro zdiv_mono1 leap_adjusted_mono) auto
  moreover have "leap_adjusted doe div 365 \<le> leap_adjusted (year_start y + 364) div 365"
    using b assms by (intro zdiv_mono1 leap_adjusted_mono) auto
  ultimately have "leap_adjusted doe div 365 = y" unfolding c by (rule order_antisym [rotated])
  moreover have "doe div 146096 = 0" using b assms by simp
  ultimately show ?thesis by (simp only: leap_adjusted_def)
qed

lemma year_of_era_leap_day:
  assumes "0 \<le> y" "y < 400" "y mod 4 = 3" "y mod 100 \<noteq> 99"
  defines "doe \<equiv> year_start y + 365"
  shows "(doe - doe div 1461 + doe div 36524 - doe div 146096) div 365 = y + 1"
    and "doe = year_start (y + 1) - 1"
proof -
  have y: "y \<in> set [0..399]" using assms by simp
  have c: "leap_adjusted doe div 365 = y + 1" "year_start (y + 1) = year_start y + 366"
    using bspec [OF leap_days_checked [unfolded list_all_iff] y] assms(3,4)
    by (simp_all add: doe_def)
  have "y \<noteq> 399" using assms(4) by auto
  then have "year_start y \<le> 145366" using assms(1,2) unfolding year_start_def by linarith
  then have "doe div 146096 = 0" using year_start_bounds [OF assms(1,2)] by (simp add: doe_def)
  with c show "(doe - doe div 1461 + doe div 36524 - doe div 146096) div 365 = y + 1"
    by (simp add: leap_adjusted_def)
  from c show "doe = year_start (y + 1) - 1" by (simp add: doe_def)
qed

section \<open>Day counts\<close>

text \<open>The March-based form of a date: the year, the month counted from March and the day of year.\<close>

definition march_year :: "int \<Rightarrow> int \<Rightarrow> int" where
  "march_year y m = (if m \<le> 2 then y - 1 else y)"

definition day_of_year :: "int \<Rightarrow> int \<Rightarrow> int" where
  "day_of_year m d = (153 * (if m \<le> 2 then m + 9 else m - 3) + 2) div 5 + d - 1"

definition day_count :: "int \<Rightarrow> int \<Rightarrow> int \<Rightarrow> int" where
  "day_count y m d =
     march_year y m div 400 * 146097 + year_start (march_year y m mod 400) + day_of_year m d - 719468"

lemma calendar_to_days_count: "calendar_to_days y m d = Some (day_count y m d)"
  by (simp add: calendar_to_days_def day_count_def march_year_def day_of_year_def year_start_def
      Let_def)

lemma months: "1 \<le> (m :: int) \<Longrightarrow> m \<le> 12 \<Longrightarrow> m \<in> {1, 2, 3, 4, 5, 6, 7, 8, 9, 10, 11, 12}"
  unfolding insert_iff empty_iff by presburger

lemma day_of_year_bounds:
  assumes "valid_date y m d"
  shows "0 \<le> day_of_year m d \<and> day_of_year m d \<le> 365 \<and>
    (day_of_year m d = 365 \<longleftrightarrow> m = 2 \<and> d = 29)"
proof -
  from assms have "m \<in> {1, 2, 3, 4, 5, 6, 7, 8, 9, 10, 11, 12}"
    by (intro months) (auto simp: valid_date_def)
  with assms show ?thesis
    by (auto simp: valid_date_def month_length_def day_of_year_def split: if_splits)
qed

lemma month_of_day_of_year:
  assumes "valid_date y m d"
  defines "doy \<equiv> day_of_year m d"
  defines "mp \<equiv> (5 * doy + 2) div 153"
  shows "mp = (if m \<le> 2 then m + 9 else m - 3) \<and> doy - (153 * mp + 2) div 5 + 1 = d"
proof -
  from assms have "m \<in> {1, 2, 3, 4, 5, 6, 7, 8, 9, 10, 11, 12}"
    by (intro months) (auto simp: valid_date_def)
  with assms(1) have "mp = (if m \<le> 2 then m + 9 else m - 3)"
    unfolding mp_def doy_def
    by (auto simp: valid_date_def month_length_def day_of_year_def split: if_splits)
  then show ?thesis by (simp add: doy_def day_of_year_def)
qed

lemma pred_mod: "0 < n \<Longrightarrow> (y - 1) mod n = n - 1 \<longleftrightarrow> y mod n = (0 :: int)"
proof -
  assume n: "0 < n"
  define r where "r = (y - 1) mod n"
  have r: "0 \<le> r" "r < n" using n by (simp_all add: r_def)
  have "y mod n = (r + 1) mod n" unfolding r_def by (simp add: mod_add_left_eq)
  moreover have "(r + 1) mod n = (if r = n - 1 then 0 else r + 1)" using r by auto
  ultimately show ?thesis using r by (auto simp: r_def [symmetric] split: if_splits)
qed

lemma is_leap_march:
  assumes "valid_date y 2 29"
  shows "march_year y 2 mod 4 = 3"
    and "march_year y 2 mod 100 = 99 \<longleftrightarrow> march_year y 2 mod 400 = 399"
proof -
  have leap: "is_leap y" using assms by (simp add: valid_date_def month_length_def split: if_splits)
  show "march_year y 2 mod 4 = 3"
    using leap pred_mod [of 4 y] by (simp add: is_leap_def march_year_def)
  have "y mod 400 = 0 \<Longrightarrow> y mod 100 = 0"
    using mod_mod_cancel [of 100 400 y] by simp
  then show "march_year y 2 mod 100 = 99 \<longleftrightarrow> march_year y 2 mod 400 = 399"
    using leap pred_mod [of 100 y] pred_mod [of 400 y]
    by (auto simp: is_leap_def march_year_def)
qed

lemma succ_div: "0 < n \<Longrightarrow> (b + 1) div n = b div n + (if (b + 1) mod n = 0 then 1 else (0 :: int))"
proof -
  assume n: "0 < n"
  define r where "r = b mod n"
  have r: "0 \<le> r" "r < n" using n by (simp_all add: r_def)
  have b: "b = b div n * n + r" by (simp add: r_def)
  have d: "(b + 1) div n = b div n + (r + 1) div n"
    using n by (subst b) (simp add: add.assoc)
  have m: "(b + 1) mod n = (r + 1) mod n" by (simp add: r_def mod_add_left_eq)
  show ?thesis
  proof (cases "r + 1 = n")
    case True
    then show ?thesis using n d m by simp
  next
    case False
    with r have "r + 1 < n" by simp
    with r d m show ?thesis by (simp add: div_pos_pos_trivial mod_pos_pos_trivial)
  qed
qed

lemma year_start_succ:
  assumes "0 \<le> b" "b < 399"
  shows "year_start (b + 1) = year_start b + (if is_leap (b + 1) then 366 else 365)"
proof -
  define p q where "p = b div 4" and "q = b div 100"
  define four hundred where "four \<longleftrightarrow> (b + 1) mod 4 = 0" and "hundred \<longleftrightarrow> (b + 1) mod 100 = 0"
  have n400: "(b + 1) mod 400 \<noteq> 0" using assms by simp
  have imp: "hundred \<Longrightarrow> four"
    using mod_mod_cancel [of 4 100 "b + 1"] by (simp add: four_def hundred_def)
  have "(b + 1) div 4 = p + (if four then 1 else 0)"
    "(b + 1) div 100 = q + (if hundred then 1 else 0)"
    using succ_div [of 4 b] succ_div [of 100 b] by (simp_all add: p_def q_def four_def hundred_def)
  moreover have "is_leap (b + 1) \<longleftrightarrow> four \<and> \<not> hundred"
    using n400 by (simp add: is_leap_def four_def hundred_def)
  ultimately show ?thesis
    using imp by (auto simp: year_start_def p_def [symmetric] q_def [symmetric])
qed

lemma is_leap_mod_400: "is_leap (y mod 400) = is_leap y"
  by (simp add: is_leap_def mod_mod_cancel)

text \<open>The day after the last day of February is the first day of a March-based year.\<close>

lemma day_count_march:
  "day_count y 3 1 = day_count y 2 (month_length y 2) + 1"
proof -
  define a b where "a = (y - 1) div 400" and "b = (y - 1) mod 400"
  have b: "0 \<le> b" "b < 400" by (simp_all add: b_def)
  have y: "y = a * 400 + (b + 1)" by (simp add: a_def b_def)
  have ml: "day_of_year 2 (month_length y 2) = (if is_leap y then 365 else 364)"
    by (simp add: day_of_year_def month_length_def)
  have feb: "day_count y 2 (month_length y 2) =
      a * 146097 + year_start b + (if is_leap y then 365 else 364) - 719468"
    by (simp add: day_count_def march_year_def ml a_def b_def)
  have mar: "day_count y 3 1 = y div 400 * 146097 + year_start (y mod 400) - 719468"
    by (simp add: day_count_def march_year_def day_of_year_def)
  show ?thesis
  proof (cases "b = 399")
    case True
    then have y0: "y div 400 = a + 1" "y mod 400 = 0" by (simp_all add: y)
    then have "is_leap y" using is_leap_mod_400 [of y] by (simp add: is_leap_def)
    then show ?thesis unfolding feb mar y0 True by (simp add: year_start_def)
  next
    case False
    then have y1: "y div 400 = a" "y mod 400 = b + 1" using b by (simp_all add: y)
    moreover have "is_leap (b + 1) = is_leap y"
      using is_leap_mod_400 [of y] y1 by simp
    ultimately show ?thesis unfolding feb mar y1
      using year_start_succ [of b] b False by simp
  qed
qed

lemma day_count_next:
  assumes "valid_date y m d" "next_date (y, m, d) = (y', m', d')"
  shows "day_count y' m' d' = day_count y m d + 1"
proof (cases "d < month_length y m")
  case True
  with assms(2) show ?thesis by (auto simp: next_date_def day_count_def day_of_year_def)
next
  case False
  with assms(1) have d: "d = month_length y m" by (simp add: valid_date_def)
  have m: "m \<in> {1, 2, 3, 4, 5, 6, 7, 8, 9, 10, 11, 12}"
    using assms(1) by (intro months) (auto simp: valid_date_def)
  show ?thesis
  proof (cases "m = 2")
    case True
    with assms(2) False show ?thesis using d day_count_march [of y] by (simp add: next_date_def)
  next
    case feb: False
    with m assms(2) False d show ?thesis
      by (auto simp: next_date_def day_count_def march_year_def day_of_year_def month_length_def)
  qed
qed

section \<open>The inverse conversion\<close>

lemma day_of_era:
  assumes "valid_date y m d"
  defines "doe \<equiv> year_start (march_year y m mod 400) + day_of_year m d"
  shows "(day_count y m d + 719468) div 146097 = march_year y m div 400"
    and "(day_count y m d + 719468) mod 146097 = doe"
proof -
  have z: "day_count y m d + 719468 = march_year y m div 400 * 146097 + doe"
    by (simp add: day_count_def doe_def)
  have "0 \<le> doe" "doe < 146097"
    using day_of_year_bounds [OF assms(1)] year_start_bounds [of "march_year y m mod 400"]
    by (auto simp: doe_def)
  then show "(day_count y m d + 719468) div 146097 = march_year y m div 400"
    "(day_count y m d + 719468) mod 146097 = doe"
    unfolding z by simp_all
qed

text \<open>What the conversion computes from a day of era and a time of day, without the clock arithmetic.\<close>

definition fields_of :: "int \<Rightarrow> int \<Rightarrow> int \<Rightarrow> int \<Rightarrow> int \<times> int \<times> int \<times> int \<times> int \<times> int" where
  "fields_of era yoe doy tod =
     (let y = wrap_i32 (yoe + wrap_i32 (wrap_i32 era * 400));
          mp = wrap_u64 (wrap_u64 (5 * doy) + 2) div 153;
          d = wrap_u8 (wrap_u64 (doy - wrap_u64 (wrap_u64 (153 * mp) + 2) div 5 + 1));
          mo = (if mp < 10 then wrap_u8 (wrap_u8 mp + 3) else wrap_u8 (wrap_u8 mp - 9))
      in ((if mo \<le> 2 then wrap_i32 (y + 1) else y), mo, d,
          tod div 3600, tod mod 3600 div 60, tod mod 60))"

lemma epoch_secs_to_calendar_fields:
  assumes "0 \<le> tod" "tod < 86400"
    and "(n + 719468) div 146097 = era" "(n + 719468) mod 146097 = doe"
    and "(doe - doe div 1461 + doe div 36524 - doe div 146096) div 365 = yoe"
  shows "epoch_secs_to_calendar (n * 86400 + tod) =
    fields_of era yoe (wrap_u64 (doe - year_start yoe)) tod"
proof -
  have n: "(n * 86400 + tod) div 86400 = n" "(n * 86400 + tod) mod 86400 = tod"
    using assms(1,2) by simp_all
  have u8: "wrap_u8 (tod div 3600) = tod div 3600"
    "wrap_u8 (tod mod 3600 div 60) = tod mod 3600 div 60" "wrap_u8 (tod mod 60) = tod mod 60"
    using assms(1,2) by (auto intro!: wrap_u8_id)
  show ?thesis
    unfolding epoch_secs_to_calendar_def fields_of_def Let_def n assms(3-5) u8 year_start_def
    by (rule refl)
qed

lemma fields_of_date:
  assumes "valid_date y m d" "\<bar>y\<bar> \<le> 2147483000"
  shows "fields_of (march_year y m div 400) (march_year y m mod 400) (day_of_year m d) tod =
    (y, m, d, tod div 3600, tod mod 3600 div 60, tod mod 60)"
proof -
  define doy where "doy = day_of_year m d"
  define mp where "mp = (5 * doy + 2) div 153"
  note doy_b = day_of_year_bounds [OF assms(1), folded doy_def]
  have mp: "mp = (if m \<le> 2 then m + 9 else m - 3)" and d: "doy - (153 * mp + 2) div 5 + 1 = d"
    using month_of_day_of_year [OF assms(1), folded doy_def, folded mp_def] by (rule conjunct1, rule conjunct2)
  have m: "1 \<le> m" "m \<le> 12" "1 \<le> d" "d \<le> 31"
    using assms(1) by (auto simp: valid_date_def month_length_def split: if_splits)
  have mp_b: "0 \<le> mp" "mp \<le> 11" using m by (simp_all add: mp)
  have w1: "wrap_u64 (5 * doy) = 5 * doy" "wrap_u64 (5 * doy + 2) = 5 * doy + 2"
    using doy_b by (simp_all add: wrap_u64_id)
  have w2: "wrap_u64 (153 * mp) = 153 * mp" "wrap_u64 (153 * mp + 2) = 153 * mp + 2"
    "wrap_u64 d = d" "wrap_u8 d = d" "wrap_u8 mp = mp"
    using mp_b m by (simp_all add: wrap_u64_id wrap_u8_id)
  define my where "my = march_year y m"
  have my: "\<bar>my\<bar> \<le> 2147483001" using assms(2) by (auto simp: my_def march_year_def)
  have e: "\<bar>my div 400\<bar> \<le> 5368709" using my by linarith
  have e400: "\<bar>my div 400 * 400\<bar> \<le> 2147483600" using e by linarith
  have split_year: "my mod 400 + my div 400 * 400 = my" by (simp add: mult.commute)
  have w3: "wrap_i32 (my div 400) = my div 400" "wrap_i32 (my div 400 * 400) = my div 400 * 400"
    "wrap_i32 my = my" "wrap_i32 (my + 1) = my + 1"
    using e e400 my by (auto intro!: wrap_i32_id)
  have year: "(if m \<le> 2 then my + 1 else my) = y" by (simp add: my_def march_year_def)
  show ?thesis
    unfolding fields_of_def Let_def my_def [symmetric] doy_def [symmetric] w1 mp_def [symmetric]
      w2(1,2) d w2(3-5) w3(1,2) split_year w3(3,4)
    using m year by (auto simp: mp wrap_u8_id)
qed

text \<open>
  C12. The inverse calendar conversion is right on every day but 29 February: for a date of the
  Gregorian calendar within the range of the \<open>i32\<close> year, and every time of day, converting the
  seconds since the epoch back yields the date and the time it was built from.
\<close>
theorem epoch_secs_to_calendar_inverse:
  assumes "valid_date y m d" and "\<not> (m = 2 \<and> d = 29)" and "\<bar>y\<bar> \<le> 2147483000"
    and "0 \<le> tod" and "tod < 86400" and "calendar_to_days y m d = Some n"
  shows "epoch_secs_to_calendar (n * 86400 + tod) =
    (y, m, d, tod div 3600, tod mod 3600 div 60, tod mod 60)"
proof -
  have n: "n = day_count y m d" using assms(6) by (simp add: calendar_to_days_count)
  let ?yoe = "march_year y m mod 400" and ?doy = "day_of_year m d"
  have b: "0 \<le> ?doy" "?doy \<le> 364"
    using day_of_year_bounds [OF assms(1)] assms(2) by auto
  have yoe: "(year_start ?yoe + ?doy - (year_start ?yoe + ?doy) div 1461
      + (year_start ?yoe + ?doy) div 36524 - (year_start ?yoe + ?doy) div 146096) div 365 = ?yoe"
    by (rule year_of_era) (use b in auto)
  show ?thesis
    unfolding n epoch_secs_to_calendar_fields [OF assms(4,5) day_of_era [OF assms(1)] yoe]
    using b fields_of_date [OF assms(1,3)] by (simp add: wrap_u64_id)
qed

theorem epoch_secs_to_calendar_inverse_witness:
  "epoch_secs_to_calendar (19781 * 86400 + 3661) = (2024, 2, 28, 1, 1, 1)"
  using epoch_secs_to_calendar_inverse [of 2024 2 28 3661 19781]
  by (simp add: valid_date_def month_length_def is_leap_def calendar_to_days_def)

text \<open>
  C13. On 29 February the inverse conversion is wrong in every leap year: the divisor 1461 where the
  era algorithm needs 1460 counts the leap day into the next year, the day of the year underflows
  to the largest \<open>u64\<close>, and the code returns month 163, day 215; in a year divisible by 400 it
  returns 1 March instead.
\<close>
theorem leap_day_conversion_wrong:
  assumes "valid_date y 2 29" and "\<bar>y\<bar> \<le> 2147483000" and "0 \<le> tod" and "tod < 86400"
    and "calendar_to_days y 2 29 = Some n"
  shows "epoch_secs_to_calendar (n * 86400 + tod) =
    (y, if y mod 400 = 0 then 3 else 163, if y mod 400 = 0 then 1 else 215,
     tod div 3600, tod mod 3600 div 60, tod mod 60)"
proof -
  have n: "n = day_count y 2 29" using assms(5) by (simp add: calendar_to_days_count)
  define b where "b = march_year y 2 mod 400"
  define a where "a = march_year y 2 div 400"
  have b: "0 \<le> b" "b < 400" by (simp_all add: b_def)
  have doy: "day_of_year 2 29 = 365" by (simp add: day_of_year_def)
  have y: "y = b + 1 + a * 400" by (simp add: a_def b_def march_year_def)
  have a_b: "\<bar>a\<bar> \<le> 5368709" using assms(2) unfolding y using b by linarith
  have w: "wrap_i32 a = a" "wrap_i32 (a * 400) = a * 400" "wrap_i32 y = y"
    using a_b assms(2) by (auto intro!: wrap_i32_id)
  have y400: "b = 399 \<longleftrightarrow> y mod 400 = 0"
    using pred_mod [of 400 y] by (simp add: b_def march_year_def)
  note era = day_of_era [OF assms(1), folded a_def b_def, unfolded doy]
  show ?thesis
  proof (cases "b = 399")
    case True
    have doe: "(day_count y 2 29 + 719468) mod 146097 = 146096"
      using era(2) True by (simp add: year_start_def)
    have "epoch_secs_to_calendar (n * 86400 + tod) =
        fields_of a 400 (wrap_u64 (146096 - year_start 400)) tod"
      unfolding n by (rule epoch_secs_to_calendar_fields [OF assms(3,4) era(1) doe]) simp
    also have "\<dots> = (y, 3, 1, tod div 3600, tod mod 3600 div 60, tod mod 60)"
      using True w y by (simp add: year_start_def wrap_u64_def wrap_u8_def fields_of_def)
    finally show ?thesis using True y400 by simp
  next
    case False
    have m100: "b mod 100 \<noteq> 99"
      using False is_leap_march(2) [OF assms(1)] mod_mod_cancel [of 100 400 "march_year y 2"]
      by (simp add: b_def)
    have m4: "b mod 4 = 3"
      using is_leap_march(1) [OF assms(1)] mod_mod_cancel [of 4 400 "march_year y 2"]
      by (simp add: b_def)
    note yoe = year_of_era_leap_day [OF b m4 m100]
    have "epoch_secs_to_calendar (n * 86400 + tod) =
        fields_of a (b + 1) (wrap_u64 (year_start b + 365 - year_start (b + 1))) tod"
      unfolding n by (rule epoch_secs_to_calendar_fields [OF assms(3,4) era yoe(1)])
    also have "wrap_u64 (year_start b + 365 - year_start (b + 1)) = 18446744073709551615"
      unfolding yoe(2) by (simp add: wrap_u64_def)
    also have "fields_of a (b + 1) 18446744073709551615 tod =
        (y, 163, 215, tod div 3600, tod mod 3600 div 60, tod mod 60)"
      using w by (simp add: fields_of_def wrap_u64_def wrap_u8_def y)
    finally show ?thesis using False y400 by simp
  qed
qed

theorem leap_day_conversion_wrong_witness:
  "epoch_secs_to_calendar (21243 * 86400) = (2028, 163, 215, 0, 0, 0)"
  using leap_day_conversion_wrong [of 2028 0 21243]
  by (simp add: valid_date_def month_length_def is_leap_def calendar_to_days_def)

section \<open>Formatting and parsing\<close>

lemma parse_fixed_2: "n < 100 \<Longrightarrow> parse_fixed 2 [digit_char (n div 10), digit_char (n mod 10)] = Some n"
  by (simp add: parse_fixed_def less_mult_imp_div_less)

lemma parse_fixed_3:
  assumes "n < 1000"
  shows "parse_fixed 3 [digit_char (n div 100), digit_char (n div 10 mod 10), digit_char (n mod 10)]
    = Some n"
proof -
  have "n div 100 = n div 10 div 10" by (simp flip: div_mult2_eq)
  then have "(n div 100 * 10 + n div 10 mod 10) * 10 + n mod 10 = n" by simp
  with assms show ?thesis by (simp add: parse_fixed_def less_mult_imp_div_less)
qed

lemma parse_fixed_4:
  assumes "n < 10000"
  shows "parse_fixed 4 [digit_char (n div 1000), digit_char (n div 100 mod 10),
    digit_char (n div 10 mod 10), digit_char (n mod 10)] = Some n"
proof -
  have "n div 1000 = n div 10 div 10 div 10" "n div 100 = n div 10 div 10"
    by (simp_all flip: div_mult2_eq)
  then have "((n div 1000 * 10 + n div 100 mod 10) * 10 + n div 10 mod 10) * 10 + n mod 10 = n"
    by simp
  with assms show ?thesis by (simp add: parse_fixed_def less_mult_imp_div_less)
qed

text \<open>The nineteen bytes of a formatted date and time.\<close>

lemma format_fields_bytes:
  assumes "0 \<le> y" "y < 10000" "0 \<le> mo" "mo < 100" "0 \<le> d" "d < 100" "0 \<le> h" "h < 100"
    "0 \<le> mi" "mi < 100" "0 \<le> s" "s < 100"
  shows "format_fields (y, mo, d, h, mi, s) =
    [digit_char (nat y div 1000), digit_char (nat y div 100 mod 10), digit_char (nat y div 10 mod 10),
     digit_char (nat y mod 10), CHR ''-'', digit_char (nat mo div 10), digit_char (nat mo mod 10),
     CHR ''-'', digit_char (nat d div 10), digit_char (nat d mod 10), CHR ''T'',
     digit_char (nat h div 10), digit_char (nat h mod 10), CHR '':'', digit_char (nat mi div 10),
     digit_char (nat mi mod 10), CHR '':'', digit_char (nat s div 10), digit_char (nat s mod 10)]"
  using assms by (simp add: format_fields_def show_year_def str_simps nat_less_iff)

lemma parse_formatted:
  assumes "1 \<le> y" "y < 10000" "valid_date y mo d" "0 \<le> h" "h < 24" "0 \<le> mi" "mi < 60"
    "0 \<le> s" "s < 60"
    and tail: "parse_offset (format_fields (y, mo, d, h, mi, s) @ r)
      (skip_fraction (format_fields (y, mo, d, h, mi, s) @ r) 19) = Some 0" "r \<noteq> []"
  shows "parse_rfc3339_to_unix_secs (format_fields (y, mo, d, h, mi, s) @ r) =
    Some (day_count y mo d * 86400 + h * 3600 + mi * 60 + s)"
proof -
  have v: "1 \<le> mo" "mo \<le> 12" "1 \<le> d" "d \<le> 31"
    using assms(3) by (auto simp: valid_date_def month_length_def split: if_splits)
  define f where "f = format_fields (y, mo, d, h, mi, s)"
  have bytes: "f =
    [digit_char (nat y div 1000), digit_char (nat y div 100 mod 10), digit_char (nat y div 10 mod 10),
     digit_char (nat y mod 10), CHR ''-'', digit_char (nat mo div 10), digit_char (nat mo mod 10),
     CHR ''-'', digit_char (nat d div 10), digit_char (nat d mod 10), CHR ''T'',
     digit_char (nat h div 10), digit_char (nat h mod 10), CHR '':'', digit_char (nat mi div 10),
     digit_char (nat mi mod 10), CHR '':'', digit_char (nat s div 10), digit_char (nat s mod 10)]"
    unfolding f_def by (rule format_fields_bytes) (use assms v in auto)
  have len: "length (f @ r) \<ge> 20" using \<open>r \<noteq> []\<close> by (cases r) (auto simp: bytes)
  have sl: "slice (f @ r) 0 4 = take 4 f" "slice (f @ r) 5 7 = take 2 (drop 5 f)"
    "slice (f @ r) 8 10 = take 2 (drop 8 f)" "slice (f @ r) 11 13 = take 2 (drop 11 f)"
    "slice (f @ r) 14 16 = take 2 (drop 14 f)" "slice (f @ r) 17 19 = take 2 (drop 17 f)"
    by (simp_all add: slice_def bytes)
  have at: "(f @ r) ! 4 = CHR ''-''" "(f @ r) ! 7 = CHR ''-''" "(f @ r) ! 13 = CHR '':''"
    "(f @ r) ! 16 = CHR '':''" "(f @ r) ! 10 = CHR ''T''"
    by (simp_all add: nth_append bytes)
  have p: "parse_fixed 4 (take 4 f) = Some (nat y)" "parse_fixed 2 (take 2 (drop 5 f)) = Some (nat mo)"
    "parse_fixed 2 (take 2 (drop 8 f)) = Some (nat d)"
    "parse_fixed 2 (take 2 (drop 11 f)) = Some (nat h)"
    "parse_fixed 2 (take 2 (drop 14 f)) = Some (nat mi)"
    "parse_fixed 2 (take 2 (drop 17 f)) = Some (nat s)"
    using assms v unfolding bytes
    by (simp_all add: parse_fixed_4 parse_fixed_2 nat_less_iff)
  show ?thesis
    unfolding f_def [symmetric] parse_rfc3339_to_unix_secs_def sl p at tail(1) [folded f_def]
    using len assms v by (simp add: calendar_to_days_count nat_le_iff nat_less_iff le_nat_iff
      zless_nat_eq_int_zless)
qed

text \<open>The calendar fields of a reading: a valid date before the year 10000 and a time of day.\<close>

definition formattable :: "int \<Rightarrow> bool" where
  "formattable secs \<longleftrightarrow>
     (\<exists>y m d. valid_date y m d \<and> \<not> (m = 2 \<and> d = 29) \<and> 1 \<le> y \<and> y < 10000 \<and>
              secs div 86400 = day_count y m d)"

lemma formattableE:
  assumes "formattable secs"
  obtains y m d h mi s where "valid_date y m d" "1 \<le> y" "y < 10000"
    "0 \<le> h" "h < 24" "0 \<le> mi" "mi < 60" "0 \<le> s" "s < 60"
    "epoch_secs_to_calendar secs = (y, m, d, h, mi, s)"
    "day_count y m d * 86400 + h * 3600 + mi * 60 + s = secs"
proof -
  from assms obtain y m d where v: "valid_date y m d" "\<not> (m = 2 \<and> d = 29)" "1 \<le> y" "y < 10000"
    and days: "secs div 86400 = day_count y m d"
    by (auto simp: formattable_def)
  define tod where "tod = secs mod 86400"
  have tod: "0 \<le> tod" "tod < 86400" by (simp_all add: tod_def)
  have secs: "secs = day_count y m d * 86400 + tod" by (simp add: tod_def flip: days)
  have fields: "epoch_secs_to_calendar secs =
      (y, m, d, tod div 3600, tod mod 3600 div 60, tod mod 60)"
    unfolding secs using v tod
    by (intro epoch_secs_to_calendar_inverse) (auto simp: calendar_to_days_count)
  have "tod mod 60 = tod mod 3600 mod 60" by (simp add: mod_mod_cancel)
  then have "tod mod 3600 div 60 * 60 + tod mod 60 = tod mod 3600" by simp
  then have "tod div 3600 * 3600 + tod mod 3600 div 60 * 60 + tod mod 60 = tod"
    by (simp add: add.assoc)
  with secs have eq: "day_count y m d * 86400 + tod div 3600 * 3600 + tod mod 3600 div 60 * 60
      + tod mod 60 = secs" by linarith
  have bounds: "0 \<le> tod div 3600" "tod div 3600 < 24" "0 \<le> tod mod 3600 div 60"
    "tod mod 3600 div 60 < 60" "0 \<le> tod mod 60" "tod mod 60 < 60"
    using tod by auto
  show thesis by (rule that [OF v(1,3,4) bounds fields eq])
qed

lemma length_format_fields:
  assumes "1 \<le> y" "y < 10000" "valid_date y mo d" "0 \<le> h" "h < 24" "0 \<le> mi" "mi < 60"
    "0 \<le> s" "s < 60"
  shows "length (format_fields (y, mo, d, h, mi, s)) = 19"
proof -
  have "1 \<le> mo" "mo \<le> 12" "1 \<le> d" "d \<le> 31"
    using assms(3) by (auto simp: valid_date_def month_length_def split: if_splits)
  with assms show ?thesis by (subst format_fields_bytes) auto
qed

lemma tail_Z:
  "length f = 19 \<Longrightarrow> parse_offset (f @ ''Z'') (skip_fraction (f @ ''Z'') 19) = Some 0"
  by (simp add: skip_fraction_def parse_offset_def byte_at_def nth_append)

lemma tail_millis:
  assumes "length f = 19" "ms < 1000"
  shows "parse_offset (f @ ''.'' @ zpad 3 ms @ ''Z'') (skip_fraction (f @ ''.'' @ zpad 3 ms @ ''Z'') 19)
    = Some 0"
proof -
  have "is_ascii_digit (digit_char (ms div 100))" "is_ascii_digit (digit_char (ms div 10 mod 10))"
    "is_ascii_digit (digit_char (ms mod 10))" "\<not> is_ascii_digit CHR ''Z''"
    using assms(2) by (simp_all add: less_mult_imp_div_less) (simp add: is_ascii_digit_def byte_def)
  with assms show ?thesis
    by (simp add: skip_fraction_def parse_offset_def byte_at_def nth_append str_simps)
qed

lemma unix_secs_nonneg: "0 \<le> t \<Longrightarrow> t div 1000000000 \<le> i64_max \<Longrightarrow> unix_secs t = t div 1000000000"
  by (simp add: unix_secs_def)

text \<open>
  What \<open>format_rfc3339_secs\<close> writes, \<open>parse_rfc3339_to_unix_secs\<close> reads back to the second, for
  every clock reading from the epoch to the year 9999 that does not fall on a 29 February.
\<close>
theorem format_parse_secs:
  assumes "0 \<le> t" and "formattable (t div 1000000000)"
  shows "parse_rfc3339_to_unix_secs (format_rfc3339_secs t) = Some (t div 1000000000)"
proof -
  obtain y m d h mi s where v: "valid_date y m d" "1 \<le> y" "y < 10000"
    "0 \<le> h" "h < 24" "0 \<le> mi" "mi < 60" "0 \<le> s" "s < 60"
    and fields: "epoch_secs_to_calendar (t div 1000000000) = (y, m, d, h, mi, s)"
    and eq: "day_count y m d * 86400 + h * 3600 + mi * 60 + s = t div 1000000000"
    using assms(2) by (elim formattableE)
  have len: "length (format_fields (y, m, d, h, mi, s)) = 19"
    using v by (intro length_format_fields) auto
  have "format_rfc3339_secs t = format_fields (y, m, d, h, mi, s) @ ''Z''"
    using assms(1) fields by (simp add: format_rfc3339_secs_def since_epoch_def)
  moreover have "parse_rfc3339_to_unix_secs (format_fields (y, m, d, h, mi, s) @ ''Z'') =
      Some (day_count y m d * 86400 + h * 3600 + mi * 60 + s)"
    using v tail_Z [OF len] by (intro parse_formatted) auto
  ultimately show ?thesis using eq by simp
qed

theorem format_parse_secs_witness:
  "parse_rfc3339_to_unix_secs (format_rfc3339_secs 1748000000000000000) = Some 1748000000"
proof -
  have "formattable 1748000000"
    unfolding formattable_def
    by (intro exI [of _ 2025] exI [of _ 5] exI [of _ 23])
       (simp add: valid_date_def month_length_def day_count_def march_year_def day_of_year_def
         year_start_def)
  then show ?thesis using format_parse_secs [of 1748000000000000000] by simp
qed

text \<open>
  The audit record's stored form is a contract: parsing what \<open>format_rfc3339_millis\<close> writes
  returns the reading truncated to the millisecond, for every reading from the epoch to the year
  9999 that does not fall on a 29 February.
\<close>
theorem format_parse_millis:
  assumes "0 \<le> t" and "formattable (t div 1000000000)"
  shows "parse_rfc3339_millis (format_rfc3339_millis t) = Some (t div 1000000 * 1000000)"
proof -
  obtain y m d h mi s where v: "valid_date y m d" "1 \<le> y" "y < 10000"
    "0 \<le> h" "h < 24" "0 \<le> mi" "mi < 60" "0 \<le> s" "s < 60"
    and fields: "epoch_secs_to_calendar (t div 1000000000) = (y, m, d, h, mi, s)"
    and eq: "day_count y m d * 86400 + h * 3600 + mi * 60 + s = t div 1000000000"
    using assms(2) by (elim formattableE)
  define f where "f = format_fields (y, m, d, h, mi, s)"
  define ms where "ms = nat (t mod 1000000000 div 1000000)"
  have ms: "ms < 1000" "int ms = t mod 1000000000 div 1000000"
    using assms(1) by (auto simp: ms_def)
  have len: "length f = 19" unfolding f_def using v by (intro length_format_fields) auto
  have form: "format_rfc3339_millis t = f @ ''.'' @ zpad 3 ms @ ''Z''"
    using assms(1) fields by (simp add: format_rfc3339_millis_def since_epoch_def f_def ms_def Let_def)
  have secs: "parse_rfc3339_to_unix_secs (f @ ''.'' @ zpad 3 ms @ ''Z'') = Some (t div 1000000000)"
    using v tail_millis [OF len ms(1)] unfolding eq [symmetric] f_def
    by (intro parse_formatted) auto
  have frac: "slice (f @ ''.'' @ zpad 3 ms @ ''Z'') 20 23 = zpad 3 ms"
    using len ms(1) by (simp add: slice_def str_simps)
  have shape: "length (f @ ''.'' @ zpad 3 ms @ ''Z'') = 24" "(f @ ''.'' @ zpad 3 ms @ ''Z'') ! 19 = CHR ''.''"
    "(f @ ''.'' @ zpad 3 ms @ ''Z'') ! 23 = CHR ''Z''"
    using len ms(1) by (simp_all add: nth_append str_simps)
  have nonneg: "0 \<le> t div 1000000000" using assms(1) by simp
  have "(t mod 1000000000 + t div 1000000000 * 1000 * 1000000) div 1000000 =
      t div 1000000000 * 1000 + t mod 1000000000 div 1000000"
    by (rule div_mult_self1) simp
  then have "t div 1000000 = t div 1000000000 * 1000 + t mod 1000000000 div 1000000"
    by simp
  then have total: "t div 1000000000 * 1000000000 + int ms * 1000000 = t div 1000000 * 1000000"
    unfolding ms(2) by (simp add: algebra_simps)
  define b where "b = f @ ''.'' @ zpad 3 ms @ ''Z''"
  have p3: "parse_fixed 3 (zpad 3 ms) = Some ms"
    using ms(1) by (simp add: zpad_3 parse_fixed_3)
  show ?thesis
    unfolding form b_def [symmetric] parse_rfc3339_millis_def
    using nonneg total p3 secs [folded b_def] frac [folded b_def] shape [folded b_def] by simp
qed

theorem format_parse_millis_witness:
  "parse_rfc3339_millis (format_rfc3339_millis 1748000000123456789) = Some 1748000000123000000"
proof -
  have "formattable 1748000000"
    unfolding formattable_def
    by (intro exI [of _ 2025] exI [of _ 5] exI [of _ 23])
       (simp add: valid_date_def month_length_def day_count_def march_year_def day_of_year_def
         year_start_def)
  then show ?thesis using format_parse_millis [of 1748000000123456789] by simp
qed

text \<open>
  The day count of the parser is the Gregorian one: 1970-01-01 is day 0, and for every valid
  date the next date of the calendar counts one day more.
\<close>
theorem calendar_to_days_successor:
  "calendar_to_days 1970 1 1 = Some 0 \<and>
   (\<forall>y m d y' m' d' n. valid_date y m d \<and> next_date (y, m, d) = (y', m', d') \<and>
      calendar_to_days y m d = Some n \<longrightarrow> calendar_to_days y' m' d' = Some (n + 1))"
proof
  show "calendar_to_days 1970 1 1 = Some 0" by (simp add: calendar_to_days_def)
  show "\<forall>y m d y' m' d' n. valid_date y m d \<and> next_date (y, m, d) = (y', m', d') \<and>
      calendar_to_days y m d = Some n \<longrightarrow> calendar_to_days y' m' d' = Some (n + 1)"
    using day_count_next by (auto simp: calendar_to_days_count)
qed

theorem calendar_to_days_successor_witness:
  "calendar_to_days 2024 2 29 = Some 19782 \<and> calendar_to_days 2024 3 1 = Some 19783"
proof -
  have "valid_date 2024 2 29 \<and> next_date (2024, 2, 29) = (2024, 3, 1) \<and>
      calendar_to_days 2024 2 29 = Some 19782"
    by (simp add: valid_date_def month_length_def is_leap_def next_date_def calendar_to_days_def)
  with calendar_to_days_successor show ?thesis by (metis numeral_plus_one semiring_norm(5))
qed

text \<open>
  The RFC 3339 parser accepts any bytes after the zone designator: appending text to an accepted
  timestamp that ends its own fraction-free form with \<open>Z\<close> changes nothing, although only the listed
  forms are documented as accepted.
\<close>
theorem parse_rfc3339_ignores_trailing_bytes:
  assumes "length b = 20" and "b ! 19 = CHR ''Z''"
  shows "parse_rfc3339_to_unix_secs (b @ junk) = parse_rfc3339_to_unix_secs b"
proof -
  have nth: "(b @ junk) ! i = b ! i" if "i < 20" for i using that assms(1) by (simp add: nth_append)
  have sl: "slice (b @ junk) i j = slice b i j" if "j \<le> 20" for i j
    using that assms(1) by (simp add: slice_def)
  have frac: "skip_fraction (b @ junk) 19 = 19" "skip_fraction b 19 = 19"
    using assms by (simp_all add: skip_fraction_def byte_at_def nth_append)
  have off: "parse_offset (b @ junk) 19 = Some 0" "parse_offset b 19 = Some 0"
    using assms by (simp_all add: parse_offset_def byte_at_def nth_append)
  show ?thesis
    unfolding parse_rfc3339_to_unix_secs_def frac off using assms(1) by (simp add: nth sl)
qed

theorem parse_rfc3339_ignores_trailing_bytes_witness:
  "parse_rfc3339_to_unix_secs (''2026-05-27T12:34:56Z'' @ '' and more'')
   = parse_rfc3339_to_unix_secs ''2026-05-27T12:34:56Z''"
  by (rule parse_rfc3339_ignores_trailing_bytes) simp_all

end
