(* ===== verification/Core_Error.thy ===== *)
theory Core_Error
  imports Asx_Prelude
begin

text \<open>
  The two error types. The crate-private \<open>AsxError\<close> (src/core/error.rs: code, message and
  correlation context) is what every internal step returns; \<open>Error\<close> (src/error.rs) is the
  public error, built from it by the one mapping \<open>from_internal\<close>. The label telemetry and the
  audit record give an error code (src/telemetry.rs) is modelled beside it.
\<close>

section \<open>The internal error (core/error.rs)\<close>

datatype ErrorCode =
    InvalidInput | ParseFailed | SecurityVerificationFailed | DecryptionFailed
  | PolicyViolation | TransportFailure | InteropViolation | ReliabilityFailure | NotFound
  | CapacityExhausted | PayloadTooLarge | StorageBackendFailure | CertificateRevoked
  | CertificateExpired | Timeout

record ErrorContext =
  ec_stage :: string
  ec_message_id :: "string option"
  ec_partner_id :: "string option"
  ec_session_id :: "string option"

definition context_new :: "string \<Rightarrow> ErrorContext" where
  "context_new stage =
     \<lparr>ec_stage = stage, ec_message_id = None, ec_partner_id = None, ec_session_id = None\<rparr>"

definition with_session_and_partner :: "string \<Rightarrow> string \<Rightarrow> ErrorContext \<Rightarrow> ErrorContext" where
  "with_session_and_partner session_id partner_id c =
     c\<lparr>ec_session_id := Some session_id, ec_partner_id := Some partner_id\<rparr>"

definition with_message_id :: "string \<Rightarrow> ErrorContext \<Rightarrow> ErrorContext" where
  "with_message_id message_id c = c\<lparr>ec_message_id := Some message_id\<rparr>"

definition with_partner_id :: "string \<Rightarrow> ErrorContext \<Rightarrow> ErrorContext" where
  "with_partner_id partner_id c = c\<lparr>ec_partner_id := Some partner_id\<rparr>"

definition with_session_id :: "string \<Rightarrow> ErrorContext \<Rightarrow> ErrorContext" where
  "with_session_id session_id c = c\<lparr>ec_session_id := Some session_id\<rparr>"

text \<open>The two identifiers an \<open>ErrorContext\<close> takes from a \<open>SessionContext\<close>.\<close>

record Session =
  session_id :: string
  partner_id :: string

definition for_session :: "string \<Rightarrow> Session \<Rightarrow> ErrorContext" where
  "for_session stage s = with_session_and_partner (session_id s) (partner_id s) (context_new stage)"

definition for_session_with_message :: "string \<Rightarrow> Session \<Rightarrow> string \<Rightarrow> ErrorContext" where
  "for_session_with_message stage s message_id =
     with_message_id message_id
       (with_session_and_partner (session_id s) (partner_id s) (context_new stage))"

record AsxError =
  err_code :: ErrorCode
  err_message :: string
  err_context :: ErrorContext

type_synonym 'a res = "(AsxError, 'a) result"

definition asx_error :: "ErrorCode \<Rightarrow> string \<Rightarrow> ErrorContext \<Rightarrow> AsxError" where
  "asx_error code message ctx = \<lparr>err_code = code, err_message = message, err_context = ctx\<rparr>"

definition err_with_message_id :: "string \<Rightarrow> AsxError \<Rightarrow> AsxError" where
  "err_with_message_id message_id e =
     e\<lparr>err_context := with_message_id message_id (err_context e)\<rparr>"

definition err_with_partner_id :: "string \<Rightarrow> AsxError \<Rightarrow> AsxError" where
  "err_with_partner_id pid e = e\<lparr>err_context := with_partner_id pid (err_context e)\<rparr>"

definition err_with_session_id :: "string \<Rightarrow> AsxError \<Rightarrow> AsxError" where
  "err_with_session_id sid e = e\<lparr>err_context := with_session_id sid (err_context e)\<rparr>"

definition err_with_session_and_partner :: "string \<Rightarrow> string \<Rightarrow> AsxError \<Rightarrow> AsxError" where
  "err_with_session_and_partner sid pid e =
     e\<lparr>err_context := with_session_and_partner sid pid (err_context e)\<rparr>"

lemma asx_error_sel [simp]:
  "err_code (asx_error c m x) = c" "err_message (asx_error c m x) = m"
  "err_context (asx_error c m x) = x"
  by (simp_all add: asx_error_def)

lemma context_sel [simp]:
  "ec_stage (context_new s) = s" "ec_message_id (context_new s) = None"
  "ec_stage (for_session s t) = s" "ec_message_id (for_session s t) = None"
  "ec_stage (for_session_with_message s t m) = s"
  "ec_message_id (for_session_with_message s t m) = Some m"
  "ec_stage (with_message_id m c) = ec_stage c" "ec_message_id (with_message_id m c) = Some m"
  by (simp_all add: context_new_def for_session_def for_session_with_message_def
      with_session_and_partner_def with_message_id_def)

lemma err_with_message_id_sel [simp]:
  "err_code (err_with_message_id m e) = err_code e"
  "err_message (err_with_message_id m e) = err_message e"
  "ec_stage (err_context (err_with_message_id m e)) = ec_stage (err_context e)"
  "ec_message_id (err_context (err_with_message_id m e)) = Some m"
  by (simp_all add: err_with_message_id_def)

fun code_as_str :: "ErrorCode \<Rightarrow> string" where
  "code_as_str InvalidInput = ''invalid_input''"
| "code_as_str ParseFailed = ''parse_failed''"
| "code_as_str SecurityVerificationFailed = ''security_verification_failed''"
| "code_as_str DecryptionFailed = ''decryption_failed''"
| "code_as_str PolicyViolation = ''policy_violation''"
| "code_as_str TransportFailure = ''transport_failure''"
| "code_as_str InteropViolation = ''interop_violation''"
| "code_as_str ReliabilityFailure = ''reliability_failure''"
| "code_as_str NotFound = ''not_found''"
| "code_as_str CapacityExhausted = ''capacity_exhausted''"
| "code_as_str PayloadTooLarge = ''payload_too_large''"
| "code_as_str StorageBackendFailure = ''storage_backend_failure''"
| "code_as_str CertificateRevoked = ''certificate_revoked''"
| "code_as_str CertificateExpired = ''certificate_expired''"
| "code_as_str Timeout = ''timeout''"

fun to_http_status :: "ErrorCode \<Rightarrow> nat" where
  "to_http_status InvalidInput = 400"
| "to_http_status ParseFailed = 400"
| "to_http_status SecurityVerificationFailed = 401"
| "to_http_status DecryptionFailed = 400"
| "to_http_status PolicyViolation = 422"
| "to_http_status TransportFailure = 502"
| "to_http_status InteropViolation = 400"
| "to_http_status ReliabilityFailure = 503"
| "to_http_status NotFound = 404"
| "to_http_status CapacityExhausted = 429"
| "to_http_status PayloadTooLarge = 413"
| "to_http_status StorageBackendFailure = 503"
| "to_http_status CertificateRevoked = 403"
| "to_http_status CertificateExpired = 403"
| "to_http_status Timeout = 504"

definition is_duplicate :: "AsxError \<Rightarrow> bool" where
  "is_duplicate e \<longleftrightarrow> err_code e = ReliabilityFailure \<and> str_contains (err_message e) ''replay''"

definition is_storage_failure :: "AsxError \<Rightarrow> bool" where
  "is_storage_failure e \<longleftrightarrow> err_code e = StorageBackendFailure"

definition display_asx_error :: "AsxError \<Rightarrow> string" where
  "display_asx_error e =
     err_message e @ '' ['' @ code_as_str (err_code e) @ ''|stage='' @ ec_stage (err_context e) @ '']'' @
     (case ec_partner_id (err_context e) of Some p \<Rightarrow> ''[partner='' @ p @ '']'' | None \<Rightarrow> []) @
     (case ec_message_id (err_context e) of Some m \<Rightarrow> ''[msg='' @ m @ '']'' | None \<Rightarrow> []) @
     (case ec_session_id (err_context e) of Some s \<Rightarrow> ''[session='' @ s @ '']'' | None \<Rightarrow> [])"

section \<open>The public error (error.rs)\<close>

datatype ErrorKind = Config | Rejected | PartnerError | Transport | Indeterminate | Backend

datatype Stage =
    StageConfig | HttpNotWritten | HttpAfterWrite | ResponseVerify | AsyncMdnMatch
  | SmpLookup | StageInbound

fun kind_as_str :: "ErrorKind \<Rightarrow> string" where
  "kind_as_str Config = ''configuration error''"
| "kind_as_str Rejected = ''rejected''"
| "kind_as_str PartnerError = ''partner error''"
| "kind_as_str Transport = ''transport error''"
| "kind_as_str Indeterminate = ''indeterminate''"
| "kind_as_str Backend = ''backend error''"

text \<open>
  The public error and what it keeps as its source: an internal error, another public error
  or an embedder's error (its text). \<open>'r\<close> is the type of audit records.
\<close>

datatype 'r Error =
    Error (kind: ErrorKind) (message: string) (is_retryable: bool) (ebms_code: "string option")
      (mdn_disposition: "string option") (evidence: "'r option") (source: "'r ErrorSource option")
and 'r ErrorSource = SrcInternal AsxError | SrcError "'r Error" | SrcOther string

definition error_new :: "ErrorKind \<Rightarrow> string \<Rightarrow> 'r Error" where
  "error_new k m = Error k m (k = Transport \<or> k = Indeterminate \<or> k = Backend) None None None None"

definition error_config :: "string \<Rightarrow> 'r Error" where
  "error_config m = error_new Config m"

fun set_retryable :: "bool \<Rightarrow> 'r Error \<Rightarrow> 'r Error" where
  "set_retryable b (Error k m r eb md ev src) = Error k m b eb md ev src"

fun with_source :: "'r ErrorSource \<Rightarrow> 'r Error \<Rightarrow> 'r Error" where
  "with_source s (Error k m r eb md ev src) = Error k m r eb md ev (Some s)"

fun with_evidence :: "'r option \<Rightarrow> 'r Error \<Rightarrow> 'r Error" where
  "with_evidence rec (Error k m r eb md ev src) = Error k m r eb md rec src"

definition retryable_if :: "bool \<Rightarrow> 'r Error \<Rightarrow> 'r Error" where
  "retryable_if condition e = set_retryable (is_retryable e \<or> condition) e"

definition error_backend :: "string \<Rightarrow> string \<Rightarrow> 'r Error" where
  "error_backend m src = with_source (SrcOther src) (error_new Backend m)"

definition partner_ebms :: "string \<Rightarrow> string \<Rightarrow> 'r Error" where
  "partner_ebms code m =
     Error PartnerError m (code = ''EBMS:0202'') (Some code) None None None"

definition partner_mdn :: "string \<Rightarrow> string \<Rightarrow> 'r Error" where
  "partner_mdn disposition m =
     Error PartnerError m (str_contains disposition ''unexpected-processing-error'')
       None (Some disposition) None None"

definition display_error :: "'r Error \<Rightarrow> string" where
  "display_error e =
     kind_as_str (kind e) @ '': '' @ message e @
     (case ebms_code e of Some c \<Rightarrow> '' ('' @ c @ '')'' | None \<Rightarrow> []) @
     (case mdn_disposition e of Some d \<Rightarrow> '' ('' @ d @ '')'' | None \<Rightarrow> [])"

definition delivered_but_unrecorded :: "'r Error \<Rightarrow> 'r \<Rightarrow> 'r Error" where
  "delivered_but_unrecorded src record =
     Error Backend
       (''the message was delivered but its audit record was not written: '' @ display_error src)
       False None None (Some record) (Some (SrcError src))"

fun kind_of :: "Stage \<Rightarrow> ErrorCode \<Rightarrow> ErrorKind" where
  "kind_of _ CapacityExhausted = Transport"
| "kind_of _ StorageBackendFailure = Backend"
| "kind_of _ ReliabilityFailure = Backend"
| "kind_of StageConfig _ = Config"
| "kind_of HttpNotWritten TransportFailure = Transport"
| "kind_of HttpNotWritten InvalidInput = Transport"
| "kind_of HttpNotWritten PolicyViolation = Transport"
| "kind_of HttpNotWritten NotFound = Transport"
| "kind_of HttpNotWritten _ = Indeterminate"
| "kind_of HttpAfterWrite _ = Indeterminate"
| "kind_of ResponseVerify _ = Indeterminate"
| "kind_of AsyncMdnMatch _ = Rejected"
| "kind_of SmpLookup TransportFailure = Transport"
| "kind_of SmpLookup Timeout = Transport"
| "kind_of SmpLookup NotFound = Config"
| "kind_of SmpLookup InvalidInput = Config"
| "kind_of SmpLookup _ = Rejected"
| "kind_of StageInbound _ = Rejected"

definition address_pin_refusal :: "Stage \<Rightarrow> ErrorCode \<Rightarrow> bool" where
  "address_pin_refusal stage code \<longleftrightarrow>
     stage = HttpNotWritten \<and> (code = InvalidInput \<or> code = PolicyViolation \<or> code = NotFound)"

definition from_internal :: "Stage \<Rightarrow> AsxError \<Rightarrow> 'r Error" where
  "from_internal stage err =
     (let k = kind_of stage (err_code err);
          retryable = (case k of
              Transport \<Rightarrow> \<not> address_pin_refusal stage (err_code err)
            | Indeterminate \<Rightarrow> True | Backend \<Rightarrow> True | _ \<Rightarrow> False)
      in with_source (SrcInternal err) (set_retryable retryable (error_new k (err_message err))))"

definition error_internal :: "AsxError \<Rightarrow> 'r Error" where
  "error_internal err = from_internal StageConfig err"

section \<open>The error label of telemetry and audit (telemetry.rs)\<close>

fun error_kind_for :: "ErrorCode \<Rightarrow> string" where
  "error_kind_for InvalidInput = ''config''"
| "error_kind_for NotFound = ''config''"
| "error_kind_for ReliabilityFailure = ''config''"
| "error_kind_for TransportFailure = ''transport''"
| "error_kind_for Timeout = ''transport''"
| "error_kind_for CapacityExhausted = ''indeterminate''"
| "error_kind_for StorageBackendFailure = ''storage''"
| "error_kind_for _ = ''rejected''"

section \<open>Properties\<close>

lemma code_as_str_inj: "code_as_str a = code_as_str b \<Longrightarrow> a = b"
  by (cases a; cases b) simp_all

lemma from_internal_sel [simp]:
  "kind (from_internal s e) = kind_of s (err_code e)"
  "message (from_internal s e) = err_message e"
  "source (from_internal s e) = Some (SrcInternal e)"
  "evidence (from_internal s e) = None"
  "ebms_code (from_internal s e) = None" "mdn_disposition (from_internal s e) = None"
  by (simp_all add: from_internal_def error_new_def Let_def)

lemma from_internal_retryable:
  "is_retryable (from_internal s e) \<longleftrightarrow>
     kind_of s (err_code e) \<in> {Transport, Indeterminate, Backend} \<and>
     \<not> address_pin_refusal s (err_code e)"
  by (cases "err_code e"; cases s)
     (simp_all add: from_internal_def error_new_def address_pin_refusal_def Let_def)

lemma kind_of_pin_refusal: "address_pin_refusal s c \<Longrightarrow> kind_of s c = Transport"
  by (auto simp: address_pin_refusal_def)

lemma with_evidence_sel [simp]:
  "kind (with_evidence r e) = kind e" "is_retryable (with_evidence r e) = is_retryable e"
  "evidence (with_evidence r e) = r" "message (with_evidence r e) = message e"
  by (cases e, simp)+

lemma retryable_if_sel [simp]:
  "is_retryable (retryable_if b e) \<longleftrightarrow> is_retryable e \<or> b" "kind (retryable_if b e) = kind e"
  by (cases e, simp add: retryable_if_def)+

text \<open>
  C14. The one mapping from the internal to the public error is sound for a caller that acts on
  \<open>kind\<close> and \<open>is_retryable\<close>: (1) an error is retryable exactly for the kinds \<open>Transport\<close>,
  \<open>Indeterminate\<close> and \<open>Backend\<close>, less the refusals of the address pin; (2) a failure after the
  request may have been written, or while the response is verified, is never reported as a
  configuration error or a refusal, so a message that may have been delivered is reported
  \<open>Indeterminate\<close> unless a backend or the capacity limit failed; (3) a configuration error is
  never retryable; (4) the internal error is kept as the source.
\<close>
theorem from_internal_sound:
  "let out = (from_internal s e :: 'r Error) in
     (is_retryable out \<longleftrightarrow> kind out \<in> {Transport, Indeterminate, Backend} \<and>
        \<not> (s = HttpNotWritten \<and> err_code e \<in> {InvalidInput, PolicyViolation, NotFound})) \<and>
     (s \<in> {HttpAfterWrite, ResponseVerify} \<and>
        err_code e \<notin> {CapacityExhausted, StorageBackendFailure, ReliabilityFailure}
      \<longrightarrow> kind out = Indeterminate \<and> is_retryable out) \<and>
     (kind out \<in> {Config, Rejected, PartnerError} \<longrightarrow> \<not> is_retryable out) \<and>
     source out = Some (SrcInternal e)"
proof -
  have "kind_of s (err_code e) = Indeterminate"
    if "s \<in> {HttpAfterWrite, ResponseVerify}"
      "err_code e \<notin> {CapacityExhausted, StorageBackendFailure, ReliabilityFailure}"
    using that by (cases "err_code e") auto
  then show ?thesis
    by (auto simp: Let_def from_internal_retryable address_pin_refusal_def)
qed

theorem from_internal_sound_witness:
  "kind (from_internal ResponseVerify (asx_error ParseFailed ''x'' (context_new ''y'')) :: unit Error)
     = Indeterminate"
  using from_internal_sound [of ResponseVerify "asx_error ParseFailed ''x'' (context_new ''y'')"]
  by (simp add: Let_def)

end
