(* ===== verification/Wire_Text.thy ===== *)
theory Wire_Text
  imports Core_Error
begin

text \<open>
  Text and byte-slice operations of the standard library that the wire formats use: searching,
  slicing, stripping, trimming, lines, UTF-8 validation and the debug form of a string. A byte
  slice is the string of its bytes.
\<close>

section \<open>Slices\<close>

text \<open>\<open>slice.get(i..i + n)\<close>\<close>

definition slice_get :: "nat \<Rightarrow> nat \<Rightarrow> string \<Rightarrow> string option" where
  "slice_get i n s = (if i + n \<le> length s then Some (take n (drop i s)) else None)"

text \<open>\<open>memmem::find\<close>: the first position at which the needle occurs.\<close>

fun find_subslice :: "string \<Rightarrow> string \<Rightarrow> nat option" where
  "find_subslice [] needle = (if needle = [] then Some 0 else None)"
| "find_subslice (c # cs) needle =
     (if starts_with (c # cs) needle then Some 0 else map_option Suc (find_subslice cs needle))"

definition strip_prefix :: "string \<Rightarrow> string \<Rightarrow> string option" where
  "strip_prefix p s = (if starts_with s p then Some (drop (length p) s) else None)"

definition strip_suffix :: "string \<Rightarrow> string \<Rightarrow> string option" where
  "strip_suffix p s =
     (if length p \<le> length s \<and> drop (length s - length p) s = p then Some (take (length s - length p) s) else None)"

definition or_else :: "'a option \<Rightarrow> 'a \<Rightarrow> 'a" where
  "or_else x d = (case x of Some y \<Rightarrow> y | None \<Rightarrow> d)"

fun split_once :: "char \<Rightarrow> string \<Rightarrow> (string \<times> string) option" where
  "split_once d [] = None"
| "split_once d (c # cs) =
     (if c = d then Some ([], cs) else map_option (\<lambda>(a, b). (c # a, b)) (split_once d cs))"

definition is_ascii_ws :: "char \<Rightarrow> bool" where
  "is_ascii_ws c \<longleftrightarrow> byte c = 9 \<or> byte c = 10 \<or> byte c = 12 \<or> byte c = 13 \<or> byte c = 32"

definition trim_ascii_whitespace :: "string \<Rightarrow> string" where
  "trim_ascii_whitespace s = rev (dropWhile is_ascii_ws (rev (dropWhile is_ascii_ws s)))"

text \<open>\<open>str::lines\<close>: a final line terminator ends the last line, a carriage return before it is dropped.\<close>

definition str_lines :: "string \<Rightarrow> string list" where
  "str_lines s =
     (let ps = split_on (CHR 0x0A) s;
          strip = (\<lambda>l. or_else (strip_suffix [CHR 0x0D] l) l);
          ended = map strip (butlast ps)
      in if last ps = [] then ended else ended @ [last ps])"

text \<open>The bytes are well-formed UTF-8 (\<open>std::str::from_utf8\<close>).\<close>

fun utf8_ok :: "nat list \<Rightarrow> bool" where
  "utf8_ok [] = True"
| "utf8_ok (a # xs) =
     (let cont = (\<lambda>lo hi n. lo \<le> n \<and> n \<le> (hi :: nat)) in
      if a < 128 then utf8_ok xs
      else (case xs of
        b # ys \<Rightarrow>
          if 194 \<le> a \<and> a \<le> 223 then cont 128 191 b \<and> utf8_ok ys
          else (case ys of
            c # zs \<Rightarrow>
              if 224 \<le> a \<and> a \<le> 239 then
                cont (if a = 224 then 160 else 128) (if a = 237 then 159 else 191) b \<and> cont 128 191 c \<and> utf8_ok zs
              else (case zs of
                d # ws \<Rightarrow> 240 \<le> a \<and> a \<le> 244 \<and>
                  cont (if a = 240 then 144 else 128) (if a = 244 then 143 else 191) b \<and>
                  cont 128 191 c \<and> cont 128 191 d \<and> utf8_ok ws
              | [] \<Rightarrow> False)
          | [] \<Rightarrow> False)
      | [] \<Rightarrow> False))"

definition from_utf8 :: "string \<Rightarrow> string option" where
  "from_utf8 s = (if utf8_ok (map byte s) then Some s else None)"

definition is_ascii_control :: "char \<Rightarrow> bool" where
  "is_ascii_control c \<longleftrightarrow> byte c < 32 \<or> byte c = 127"

text \<open>Some character of the text is whitespace.\<close>

fun any_whitespace :: "string \<Rightarrow> bool" where
  "any_whitespace [] = False"
| "any_whitespace (c # cs) = (str_ws (c # cs) > 0 \<or> any_whitespace cs)"

text \<open>Some character of the text is a control character (U+0000 to U+001F, U+007F to U+009F).\<close>

fun any_control :: "string \<Rightarrow> bool" where
  "any_control [] = False"
| "any_control (c # cs) =
     (is_ascii_control c \<or> (byte c = 0xC2 \<and> cs \<noteq> [] \<and> 0x80 \<le> byte (hd cs) \<and> byte (hd cs) \<le> 0x9F) \<or> any_control cs)"

text \<open>\<open>str::ends_with\<close> and \<open>str::trim_start_matches\<close> of a string.\<close>

definition ends_with :: "string \<Rightarrow> string \<Rightarrow> bool" where
  "ends_with s suffix \<longleftrightarrow> strip_suffix suffix s \<noteq> None"

function trim_prefixes :: "string \<Rightarrow> string \<Rightarrow> string" where
  "trim_prefixes p s = (if p \<noteq> [] \<and> starts_with s p then trim_prefixes p (drop (length p) s) else s)"
  by pat_completeness auto
termination
  by (relation "measure (length \<circ> snd)") (auto simp: starts_with_iff)

declare trim_prefixes.simps [simp del]

definition is_ascii :: "string \<Rightarrow> bool" where
  "is_ascii s \<longleftrightarrow> list_all (\<lambda>c. byte c < 128) s"

text \<open>
  The debug form of a string: quotes, backslashes and ASCII control characters are escaped.
  (Rust also escapes the non-ASCII characters it takes for unprintable; they are kept here.)
\<close>

fun debug_char :: "char \<Rightarrow> string" where
  "debug_char c =
     (if c = CHR 0x22 then [CHR 0x5C, CHR 0x22]
      else if c = CHR 0x5C then [CHR 0x5C, CHR 0x5C]
      else if c = CHR 0x0A then [CHR 0x5C] @ ''n''
      else if c = CHR 0x0D then [CHR 0x5C] @ ''r''
      else if c = CHR 0x09 then [CHR 0x5C] @ ''t''
      else if c = CHR 0x00 then [CHR 0x5C] @ ''0''
      else if byte c < 32 \<or> byte c = 127 then
        [CHR 0x5C] @ ''u{'' @ (if byte c < 16 then [hex_digit (byte c)] else [hex_digit (byte c div 16), hex_digit (byte c mod 16)]) @ ''}''
      else [c])"

definition dquote :: "string \<Rightarrow> string" where
  "dquote s = [CHR 0x22] @ s @ [CHR 0x22]"

definition debug_str :: "string \<Rightarrow> string" where
  "debug_str s = dquote (concat (map debug_char s))"

text \<open>\<open>format!("{b:02X}")\<close>\<close>

definition hex_upper :: "char \<Rightarrow> string" where
  "hex_upper c = map ascii_upper [hex_digit (byte c div 16), hex_digit (byte c mod 16)]"

text \<open>\<open>core::bytes_to_utf8_str\<close>\<close>

definition bytes_to_utf8_str :: "string \<Rightarrow> string \<Rightarrow> Session \<Rightarrow> string res" where
  "bytes_to_utf8_str bs stage session =
     ok_or (asx_error ParseFailed (stage @ '': payload is not valid UTF-8'') (for_session stage session)) (from_utf8 bs)"

section \<open>Lemmas\<close>

lemma find_refuses [res_simps]:
  "(case find P xs of None \<Rightarrow> Inr y | Some x \<Rightarrow> Inl (f x)) = Inr z \<longleftrightarrow> (\<forall>x \<in> set xs. \<not> P x) \<and> z = y"
  by (induction xs) auto

lemma find_singleton: "filter P xs = [m] \<Longrightarrow> find P xs = Some m"
  by (induction xs) (auto split: if_splits)

lemma slice_get_Some: "slice_get i n s = Some t \<longleftrightarrow> i + n \<le> length s \<and> t = take n (drop i s)"
  by (auto simp: slice_get_def)

lemma find_subslice_None: "find_subslice s n = None \<longleftrightarrow> \<not> (\<exists>a b. s = a @ n @ b)"
proof (induction s)
  case (Cons c cs)
  show ?case
    using Cons by (auto simp: starts_with_iff Cons_eq_append_conv)
qed auto

lemma find_subslice_Some:
  "find_subslice s n = Some k \<longleftrightarrow>
     (\<exists>b. drop k s = n @ b) \<and> k \<le> length s \<and> (\<forall>j < k. \<not> (\<exists>b. drop j s = n @ b))"
proof (induction s arbitrary: k)
  case (Cons c cs)
  have z: "starts_with (c # cs) n \<longleftrightarrow> (\<exists>b. drop 0 (c # cs) = n @ b)" by (simp add: starts_with_iff)
  show ?case
  proof (cases "starts_with (c # cs) n")
    case True
    then show ?thesis using z by (cases k) auto
  next
    case False
    then show ?thesis
    proof (cases k)
      case 0
      then show ?thesis using False z by auto
    next
      case (Suc j)
      have "(\<forall>i < Suc j. \<not> (\<exists>b. drop i (c # cs) = n @ b)) \<longleftrightarrow> (\<forall>i < j. \<not> (\<exists>b. drop i cs = n @ b))"
        using False z by (simp add: All_less_Suc2)
      then show ?thesis using False Suc Cons.IH [of j] by auto
    qed
  qed
qed auto

lemma find_subslice_skip:
  assumes "c \<notin> set a"
  shows "find_subslice (a @ s) (c # n) = map_option ((+) (length a)) (find_subslice s (c # n))"
  using assms
proof (induction a)
  case Nil
  show ?case by (cases "find_subslice s (c # n)") auto
next
  case (Cons x a)
  then show ?case by (cases "find_subslice s (c # n)") auto
qed

lemma find_subslice_here [simp]: "find_subslice (n @ s) n = Some 0"
proof (cases "n @ s")
  case (Cons a l)
  then have "starts_with (a # l) n" by (metis starts_with_append)
  then show ?thesis using Cons by simp
qed auto

text \<open>A delimiter whose first byte occurs in it only there is found where it first stands.\<close>

lemma find_delimiter:
  assumes "\<not> str_contains body (c # n)" "c \<notin> set n"
  shows "find_subslice (body @ (c # n) @ rest) (c # n) = Some (length body)"
proof -
  have "\<not> (\<exists>b. drop j (body @ (c # n) @ rest) = (c # n) @ b)" if "j < length body" for j
  proof
    assume "\<exists>b. drop j (body @ (c # n) @ rest) = (c # n) @ b"
    then obtain b where b: "drop j body @ (c # n) @ rest = (c # n) @ b" 
      using \<open>j < length body\<close> by (cases "j - length body") auto
    show False
    proof (cases "length (c # n) \<le> length (drop j body)")
      case True
      from b have "take (length (c # n)) (drop j body @ (c # n) @ rest) = c # n" by simp
      with True have "take (length (c # n)) (drop j body) = c # n" by simp
      then have "drop j body = (c # n) @ drop (length (c # n)) (drop j body)"
        by (metis append_take_drop_id)
      then have "body = take j body @ (c # n) @ drop (length (c # n)) (drop j body)"
        by (metis append_take_drop_id)
      then show False using assms(1) str_contains_iff by blast
    next
      case False
      let ?d = "length (drop j body)"
      have d: "0 < ?d" "?d < length (c # n)" using that False by auto
      have "(drop j body @ (c # n) @ rest) ! ?d = c" by (simp add: nth_append)
      then have "(c # n) ! ?d = c" using b d by (metis nth_append)
      then have "c \<in> set n" using d by (cases ?d) (auto simp: nth_mem)
      then show False using assms(2) by simp
    qed
  qed
  then show ?thesis by (subst find_subslice_Some) auto
qed

section \<open>Trimming\<close>

definition is_graph :: "char \<Rightarrow> bool" where
  "is_graph c \<longleftrightarrow> 33 \<le> byte c \<and> byte c < 127"

lemma ws_len_graph: "33 \<le> a \<Longrightarrow> a < 127 \<Longrightarrow> ws_len (a # xs) = 0"
  by (cases "a # xs" rule: ws_len.cases) auto

lemma str_ws_graph: "is_graph c \<Longrightarrow> str_ws (c # cs) = 0"
  by (simp add: str_ws_def is_graph_def ws_len_graph)

lemma ws_len_2: "ws_len [a, b] = 2 \<Longrightarrow> 128 \<le> b" and ws_len_3: "ws_len [a, b, c] = 3 \<Longrightarrow> 128 \<le> c"
  by (auto split: if_splits)

lemma str_ws_end_graph:
  assumes "is_graph c"
  shows "str_ws_end (s @ [c]) = 0"
proof -
  have 1: "ws_len [byte c] = 0" using assms by (simp add: is_graph_def)
  have 2: "ws_len [a, byte c] \<noteq> 2" for a using assms ws_len_2 [of a "byte c"] by (auto simp: is_graph_def)
  have 3: "ws_len [a, b, byte c] \<noteq> 3" for a b using assms ws_len_3 [of a b "byte c"] by (auto simp: is_graph_def)
  have d2: "\<exists>a. map byte (drop (length s - 1) (s @ [c])) = [a, byte c]" if "1 \<le> length s"
    using that by (cases s rule: rev_cases) auto
  have d3: "\<exists>a b. map byte (drop (length s - 2) (s @ [c])) = [a, b, byte c]" if l: "2 \<le> length s"
  proof -
    obtain u y where u: "s = u @ [y]" using l by (cases s rule: rev_cases) auto
    then obtain t x where "u = t @ [x]" using l by (cases u rule: rev_cases) auto
    with u show ?thesis by simp
  qed
  show ?thesis
    using 1 2 3 d2 d3 by (fastforce simp: str_ws_end_def Let_def)
qed

lemma trim_graph:
  assumes "s \<noteq> []" "is_graph (hd s)" "is_graph (last s)"
  shows "trim s = s"
proof -
  obtain c cs where s: "s = c # cs" using assms(1) by (cases s) auto
  obtain t d where e: "s = t @ [d]" using assms(1) by (cases s rule: rev_cases) auto
  have "str_ws s = 0" using assms(2) s by (simp add: str_ws_graph)
  moreover have "str_ws_end s = 0" using assms(3) e by (simp add: str_ws_end_graph)
  ultimately show ?thesis by (simp add: trim_def trim_start.simps [of s] trim_end.simps [of s])
qed

lemma trim_start_space: "trim_start (CHR 0x20 # s) = trim_start s"
  by (subst trim_start.simps) (cases s rule: list.exhaust, simp add: str_ws_def byte_def,
      rename_tac a t, case_tac t, simp_all add: str_ws_def byte_def)

lemma trim_space_graph:
  assumes "s \<noteq> []" "is_graph (hd s)" "is_graph (last s)"
  shows "trim (CHR 0x20 # s) = s"
  using trim_graph [OF assms] by (simp add: trim_def trim_start_space)

lemma is_graph_not_ws: "is_graph c \<Longrightarrow> \<not> is_ascii_ws c"
  by (auto simp: is_graph_def is_ascii_ws_def)

lemma trim_ascii_graph:
  assumes "s \<noteq> []" "is_graph (hd s)" "is_graph (last s)"
  shows "trim_ascii_whitespace s = s"
proof -
  have "dropWhile is_ascii_ws s = s"
    using assms is_graph_not_ws by (cases s) auto
  moreover have "dropWhile is_ascii_ws (rev s) = rev s"
    using assms is_graph_not_ws by (cases s rule: rev_cases) auto
  ultimately show ?thesis by (simp add: trim_ascii_whitespace_def)
qed

lemma utf8_ok_ascii: "list_all (\<lambda>n. n < 128) ns \<Longrightarrow> utf8_ok ns"
  by (induction ns) auto

lemma from_utf8_ascii: "is_ascii s \<Longrightarrow> from_utf8 s = Some s"
  by (simp add: from_utf8_def is_ascii_def utf8_ok_ascii list_all_iff)

lemma split_once_here: "d \<notin> set a \<Longrightarrow> split_once d (a @ d # b) = Some (a, b)"
  by (induction a) auto

lemma split_on_append:
  "d \<notin> set a \<Longrightarrow> split_on d (a @ d # b) = a # split_on d b"
  by (induction a) (auto split: list.splits)

lemma split_on_none: "d \<notin> set a \<Longrightarrow> split_on d a = [a]"
  by (induction a) auto

end
