(* ===== verification/Xml_Dom.thy ===== *)
theory Xml_Dom
  imports Wire_Text
begin

text \<open>
  The XML layer: namespaces (src/xml/ns.rs), the limits of a document class (src/xml/limits.rs),
  the pre-scan that bounds nesting and attributes before a tree is built (src/xml/parse.rs), and
  the document tree the parser library returns, with the navigation the sources use. The library's own
  parser is a parameter. Shown: the pre-scan accepts only documents without a markup declaration, and never more
  nested start tags than the limit.
\<close>

section \<open>Namespaces\<close>

definition NS_SOAP12 :: string where "NS_SOAP12 = ''http://www.w3.org/2003/05/soap-envelope''"
definition NS_EBMS3 :: string where "NS_EBMS3 = ''http://docs.oasis-open.org/ebxml-msg/ebms/v3.0/ns/core/200704/''"
definition NS_EBBP_SIGNALS :: string where "NS_EBBP_SIGNALS = ''http://docs.oasis-open.org/ebxml-bp/ebbp-signals-2.0''"
definition NS_WSSE :: string where
  "NS_WSSE = ''http://docs.oasis-open.org/wss/2004/01/oasis-200401-wss-wssecurity-secext-1.0.xsd''"
definition NS_WSU :: string where
  "NS_WSU = ''http://docs.oasis-open.org/wss/2004/01/oasis-200401-wss-wssecurity-utility-1.0.xsd''"
definition NS_WSA :: string where "NS_WSA = ''http://www.w3.org/2005/08/addressing''"
definition NS_DS :: string where "NS_DS = ''http://www.w3.org/2000/09/xmldsig#''"
definition NS_XENC :: string where "NS_XENC = ''http://www.w3.org/2001/04/xmlenc#''"
definition NS_XENC11 :: string where "NS_XENC11 = ''http://www.w3.org/2009/xmlenc11#''"

definition NS_DSIG11 :: string where "NS_DSIG11 = ''http://www.w3.org/2009/xmldsig11#''"
definition NS_XML :: string where "NS_XML = ''http://www.w3.org/XML/1998/namespace''"
definition NS_WSSE11 :: string where
  "NS_WSSE11 = ''http://docs.oasis-open.org/wss/oasis-wss-wssecurity-secext-1.1.xsd''"
definition WSSE11_ENCRYPTED_KEY_TOKEN :: string where
  "WSSE11_ENCRYPTED_KEY_TOKEN = ''http://docs.oasis-open.org/wss/oasis-wss-soap-message-security-1.1#EncryptedKey''"
definition SWA_CONTENT_ONLY :: string where
  "SWA_CONTENT_ONLY = ''http://docs.oasis-open.org/wss/oasis-wss-SwAProfile-1.1#Attachment-Content-Only''"
definition SWA_CIPHERTEXT_TRANSFORM :: string where
  "SWA_CIPHERTEXT_TRANSFORM = ''http://docs.oasis-open.org/wss/oasis-wss-SwAProfile-1.1#Attachment-Ciphertext-Transform''"

section \<open>Limits and the pre-scan\<close>

record XmlLimits =
  max_doc_bytes :: nat
  max_nodes :: nat
  max_depth :: nat
  max_attributes :: nat

definition LIMITS_ENVELOPE :: XmlLimits where
  "LIMITS_ENVELOPE = \<lparr>max_doc_bytes = 4 * 1024 * 1024, max_nodes = 20000, max_depth = 64, max_attributes = 64\<rparr>"

definition LIMITS_SMP :: XmlLimits where
  "LIMITS_SMP = \<lparr>max_doc_bytes = 2 * 1024 * 1024, max_nodes = 20000, max_depth = 64, max_attributes = 64\<rparr>"

definition limits_payload :: "nat \<Rightarrow> XmlLimits" where
  "limits_payload n = \<lparr>max_doc_bytes = n, max_nodes = 4000000, max_depth = 256, max_attributes = 256\<rparr>"

definition MAX_C14N_DEPTH :: nat where
  "MAX_C14N_DEPTH = 256"

definition parse_fail :: "string \<Rightarrow> string \<Rightarrow> AsxError" where
  "parse_fail stage msg = asx_error ParseFailed msg (context_new stage)"

definition doctype_error :: "string \<Rightarrow> AsxError" where
  "doctype_error stage = parse_fail stage ''XML document type declarations (DOCTYPE) are not allowed''"

text \<open>What follows the needle, nothing where it does not occur.\<close>

definition skip_to :: "string \<Rightarrow> string \<Rightarrow> string" where
  "skip_to needle s = (case find_subslice s needle of Some at \<Rightarrow> drop (at + length needle) s | None \<Rightarrow> [])"

text \<open>
  The walk over one start tag: the open quote, the attributes counted and the byte before; it returns the
  attributes, whether the tag is self-closing, and what follows the tag.
\<close>

fun start_tag :: "char option \<Rightarrow> nat \<Rightarrow> char \<Rightarrow> string \<Rightarrow> nat \<times> bool \<times> string" where
  "start_tag quote attributes prev [] = (attributes, False, [])"
| "start_tag quote attributes prev (b # bs) =
     (case quote of
        Some q \<Rightarrow> start_tag (if b = q then None else quote) attributes b bs
      | None \<Rightarrow>
          if b = CHR 0x22 \<or> b = CHR 0x27 then start_tag (Some b) attributes b bs
          else if b = CHR ''='' then start_tag None (attributes + 1) b bs
          else if b = CHR ''>'' then (attributes, prev = CHR ''/'', bs)
          else start_tag None attributes b bs)"

lemma start_tag_length: "start_tag q n p bs = (attrs, closing, after) \<Longrightarrow> length after \<le> length bs"
proof (induction bs arbitrary: q n p)
  case (Cons b bs)
  then show ?case
    by (cases q) (auto simp del: start_tag.simps(1) split: if_splits intro: le_SucI)
qed simp

lemma skip_to_length: "length (skip_to needle s) \<le> length s"
  by (simp add: skip_to_def split: option.splits)

lemma skip_to_shorter: "length s < n \<Longrightarrow> length (skip_to needle (drop k s)) < n"
  using skip_to_length [of needle "drop k s"] by simp

lemma lt_shorter: "dropWhile P rest = c # s \<Longrightarrow> length s < length rest"
  using length_dropWhile_le [of P rest] by simp

text \<open>\<open>rest\<close> is what is not scanned yet.\<close>

function prescan :: "XmlLimits \<Rightarrow> string \<Rightarrow> nat \<Rightarrow> string \<Rightarrow> unit res" where
  "prescan limits stage depth rest =
     (case dropWhile (\<lambda>c. c \<noteq> CHR ''<'') rest of
        [] \<Rightarrow> Inr ()
      | lt # s \<Rightarrow>
          if starts_with s ''!--'' then prescan limits stage depth (skip_to ''-->'' (drop 3 s))
          else if starts_with s ''![CDATA['' then prescan limits stage depth (skip_to '']]>'' (drop 8 s))
          else if starts_with s ''?'' then prescan limits stage depth (skip_to ''?>'' (drop 1 s))
          else if starts_with s ''!'' then Inl (doctype_error stage)
          else if starts_with s ''/'' then prescan limits stage (depth - 1) (skip_to ''>'' (drop 1 s))
          else
            (let (attributes, self_closing, after) = start_tag None 0 lt s in
             if attributes > max_attributes limits then
               Inl (parse_fail stage (''XML element has more than '' @ show_nat (max_attributes limits) @
                 '' attributes (attribute limit)''))
             else if self_closing then prescan limits stage depth after
             else if depth + 1 > max_depth limits then
               Inl (parse_fail stage (''XML nesting exceeds the depth limit of '' @ show_nat (max_depth limits) @ '' levels''))
             else prescan limits stage (depth + 1) after))"
  by pat_completeness auto
termination
  by (relation "measure (\<lambda>(l, st, d, rest). length rest)")
     (auto dest!: lt_shorter dest: start_tag_length [OF sym] intro: skip_to_shorter le_less_trans)

declare prescan.simps [simp del]

section \<open>The tree\<close>

text \<open>
  The tree of the parser library: an element with its namespace, local name, attributes (each with an optional
  namespace) and children; text; a comment; a processing instruction. A document is the list of its top-level nodes.
\<close>

datatype xnode =
    Element (node_ns: "string option") (node_name: string)
      (node_attrs: "((string option \<times> string) \<times> string) list") (node_children: "xnode list")
  | TextNode string
  | CommentNode string
  | PiNode string "string option"

type_synonym document = "xnode list"

fun is_element :: "xnode \<Rightarrow> bool" where
  "is_element (Element _ _ _ _) = True"
| "is_element _ = False"

fun is_text :: "xnode \<Rightarrow> bool" where
  "is_text (TextNode _) = True"
| "is_text _ = False"

fun is_comment :: "xnode \<Rightarrow> bool" where
  "is_comment (CommentNode _) = True"
| "is_comment _ = False"

text \<open>The element has this namespace and local name.\<close>

fun is_named :: "string \<Rightarrow> string \<Rightarrow> xnode \<Rightarrow> bool" where
  "is_named ns local (Element n name _ _) = (n = Some ns \<and> name = local)"
| "is_named ns local _ = False"

lemma is_named_code [code]:
  "is_named ns local (Element n name as cs) = (if name = local then n = Some ns else False)"
  "is_named ns local (TextNode t) = False" "is_named ns local (CommentNode t) = False" "is_named ns local (PiNode t d) = False"
  by auto

fun children :: "xnode \<Rightarrow> xnode list" where
  "children (Element _ _ _ cs) = cs"
| "children _ = []"

fun attributes_of :: "xnode \<Rightarrow> ((string option \<times> string) \<times> string) list" where
  "attributes_of (Element _ _ as _) = as"
| "attributes_of _ = []"

text \<open>
  A lookup by a bare name compares local names only, so it also finds an attribute of a namespace (the
  library's rule, which src/crypto/wssec/xmlenc/parse.rs notes at \<open>element_id\<close>); a lookup by
  namespace and name compares both.
\<close>

definition attribute :: "string \<Rightarrow> xnode \<Rightarrow> string option" where
  "attribute name n = map_option snd (find (\<lambda>((_, local), _). local = name) (attributes_of n))"

definition attribute_ns :: "string \<Rightarrow> string \<Rightarrow> xnode \<Rightarrow> string option" where
  "attribute_ns ns name n = map_of (attributes_of n) (Some ns, name)"

text \<open>\<open>Node::text\<close>: of an element the text of its first child, where that is a text node.\<close>

fun node_text :: "xnode \<Rightarrow> string option" where
  "node_text (TextNode t) = Some t"
| "node_text (CommentNode t) = Some t"
| "node_text (Element _ _ _ (TextNode t # _)) = Some t"
| "node_text _ = None"

text \<open>The node and all below it, in document order; each with its ancestors, itself first.\<close>

fun descendants :: "xnode \<Rightarrow> xnode list" where
  "descendants (Element ns name as cs) = Element ns name as cs # concat (map descendants cs)"
| "descendants n = [n]"

fun walk :: "xnode list \<Rightarrow> xnode \<Rightarrow> (xnode list \<times> xnode) list" where
  "walk anc (Element ns name as cs) =
     (let n = Element ns name as cs in (n # anc, n) # concat (map (walk (n # anc)) cs))"
| "walk anc n = [(n # anc, n)]"

definition doc_descendants :: "document \<Rightarrow> xnode list" where
  "doc_descendants doc = concat (map descendants doc)"

text \<open>
  A node has an identity, which two equal subtrees do not share: its position, the child indices that lead to
  it. \<open>doc_nodes\<close> lists a document's nodes in document order with their positions.
\<close>

type_synonym node = "nat list \<times> xnode"

fun nodes_from :: "nat list \<Rightarrow> xnode \<Rightarrow> node list"
  and nodes_list :: "nat list \<Rightarrow> nat \<Rightarrow> xnode list \<Rightarrow> node list" where
  "nodes_from pos (Element ns name as cs) = (pos, Element ns name as cs) # nodes_list pos 0 cs"
| "nodes_from pos (TextNode t) = [(pos, TextNode t)]"
| "nodes_from pos (CommentNode t) = [(pos, CommentNode t)]"
| "nodes_from pos (PiNode t d) = [(pos, PiNode t d)]"
| "nodes_list pos i [] = []"
| "nodes_list pos i (c # cs) = nodes_from (pos @ [i]) c @ nodes_list pos (Suc i) cs"

definition doc_nodes :: "document \<Rightarrow> node list" where
  "doc_nodes doc = nodes_list [] 0 doc"

definition node_subtree :: "node \<Rightarrow> node list" where
  "node_subtree n = nodes_from (fst n) (snd n)"

definition child_nodes :: "node \<Rightarrow> node list" where
  "child_nodes n = (let cs = children (snd n) in zip (map (\<lambda>i. fst n @ [i]) [0..<length cs]) cs)"

text \<open>The node at a position, and the ancestors of a node, itself first (\<open>Node::ancestors\<close>).\<close>

fun subtree_at :: "xnode list \<Rightarrow> nat list \<Rightarrow> xnode option" where
  "subtree_at cs [] = None"
| "subtree_at cs (i # p) =
     (if i < length cs then (if p = [] then Some (cs ! i) else subtree_at (children (cs ! i)) p) else None)"

definition node_at :: "document \<Rightarrow> nat list \<Rightarrow> node option" where
  "node_at doc pos = map_option (Pair pos) (subtree_at doc pos)"

definition ancestors :: "document \<Rightarrow> node \<Rightarrow> node list" where
  "ancestors doc n = List.map_filter (\<lambda>k. node_at doc (take k (fst n))) (rev [1..<Suc (length (fst n))])"

definition parent_node :: "document \<Rightarrow> node \<Rightarrow> node option" where
  "parent_node doc n = node_at doc (butlast (fst n))"

definition root_element :: "document \<Rightarrow> xnode" where
  "root_element doc = hd (filter is_element doc)"

definition parent_of :: "xnode list \<Rightarrow> xnode option" where
  "parent_of path = (case path of _ # p # _ \<Rightarrow> Some p | _ \<Rightarrow> None)"

lemma walk_nodes: "map snd (walk anc n) = descendants n"
proof (induction n arbitrary: anc)
  case (Element ns name as cs)
  then show ?case by (auto simp: Let_def map_concat comp_def intro!: arg_cong [where f = concat] map_cong)
qed auto

lemma walk_self: "(path, m) \<in> set (walk anc n) \<Longrightarrow> \<exists>rest. path = m # rest"
proof (induction n arbitrary: anc path)
  case (Element ns name as cs)
  then show ?case by (auto simp: Let_def)
qed auto

lemma nodes_snd: "map snd (nodes_from pos n) = descendants n"
  and nodes_list_snd: "map snd (nodes_list pos i cs) = concat (map descendants cs)"
  by (induction pos n and pos i cs rule: nodes_from_nodes_list.induct) auto

lemma doc_nodes_snd: "map snd (doc_nodes doc) = doc_descendants doc"
  by (simp add: doc_nodes_def doc_descendants_def nodes_list_snd)

lemma nodes_below: "m \<in> set (nodes_from pos n) \<Longrightarrow> \<exists>p. fst m = pos @ p"
  and nodes_list_below: "m \<in> set (nodes_list pos i cs) \<Longrightarrow> \<exists>j p. i \<le> j \<and> fst m = pos @ j # p"
  by (induction pos n and pos i cs rule: nodes_from_nodes_list.induct) (fastforce dest: Suc_leD)+

lemma nodes_distinct: "distinct (map fst (nodes_from pos n))"
  and nodes_list_distinct: "distinct (map fst (nodes_list pos i cs))"
proof (induction pos n and pos i cs rule: nodes_from_nodes_list.induct)
  case (1 pos ns name as cs)
  then show ?case by (auto dest!: nodes_list_below)
next
  case (6 pos i c cs)
  have "fst m \<noteq> fst m'" if "m \<in> set (nodes_from (pos @ [i]) c)" "m' \<in> set (nodes_list pos (Suc i) cs)" for m m'
    using nodes_below [OF that(1)] nodes_list_below [OF that(2)] by auto
  then show ?case using 6 by auto
qed auto

text \<open>A position names one node.\<close>

lemma doc_nodes_unique:
  assumes "m \<in> set (doc_nodes doc)" "m' \<in> set (doc_nodes doc)" "fst m = fst m'"
  shows "m = m'"
  using assms nodes_list_distinct [of "[]" 0 doc] unfolding doc_nodes_def by (metis distinct_map inj_on_eq_iff)

lemma nodes_subtree:
  "m \<in> set (nodes_from pos n) \<longleftrightarrow>
     m = (pos, n) \<or> (\<exists>p. p \<noteq> [] \<and> fst m = pos @ p \<and> subtree_at (children n) p = Some (snd m))"
  and nodes_list_subtree:
  "m \<in> set (nodes_list pos i cs) \<longleftrightarrow> (\<exists>j p. fst m = pos @ (i + j) # p \<and> subtree_at cs (j # p) = Some (snd m))"
proof (induction pos n and pos i cs rule: nodes_from_nodes_list.induct)
  case (1 pos ns name as cs)
  have "(\<exists>p. p \<noteq> [] \<and> Q p) \<longleftrightarrow> (\<exists>j q. Q (j # q))" for Q :: "nat list \<Rightarrow> bool" by (metis list.distinct(1) neq_Nil_conv)
  then show ?case using 1 by (simp del: subtree_at.simps)
next
  case (6 pos i c cs)
  have "(\<exists>j p. fst m = pos @ (i + j) # p \<and> subtree_at (c # cs) (j # p) = Some (snd m)) \<longleftrightarrow>
      (\<exists>p. fst m = pos @ i # p \<and> subtree_at (c # cs) (0 # p) = Some (snd m)) \<or>
      (\<exists>j p. fst m = pos @ (Suc i + j) # p \<and> subtree_at cs (j # p) = Some (snd m))"
    (is "(\<exists>j. ?P j) \<longleftrightarrow> _")
  proof -
    have "(\<exists>j. ?P j) \<longleftrightarrow> ?P 0 \<or> (\<exists>j. ?P (Suc j))" by (metis not0_implies_Suc)
    then show ?thesis by simp
  qed
  then show ?case using 6 by (cases m) auto
qed (auto simp: neq_Nil_conv)

lemma node_at_Some: "node_at doc pos = Some m \<longleftrightarrow> m \<in> set (doc_nodes doc) \<and> fst m = pos"
  unfolding node_at_def doc_nodes_def nodes_list_subtree by (cases pos; cases m) auto

text \<open>The ancestors of a node are at the prefixes of its position.\<close>

lemma nodes_prefix:
  "m \<in> set (nodes_from pos n) \<Longrightarrow> fst m = pos @ p \<Longrightarrow> k \<le> length p \<Longrightarrow>
     \<exists>m' \<in> set (nodes_from pos n). fst m' = pos @ take k p"
  and nodes_list_prefix:
  "m \<in> set (nodes_list pos i cs) \<Longrightarrow> fst m = pos @ p \<Longrightarrow> 1 \<le> k \<Longrightarrow> k \<le> length p \<Longrightarrow>
     \<exists>m' \<in> set (nodes_list pos i cs). fst m' = pos @ take k p"
proof (induction pos n and pos i cs arbitrary: m p k and m p k rule: nodes_from_nodes_list.induct)
  case (1 pos ns name as cs)
  show ?case
  proof (cases k)
    case (Suc j)
    then have "m \<in> set (nodes_list pos 0 cs)" using "1.prems" by auto
    then show ?thesis using 1 Suc by fastforce
  qed simp
next
  case (6 pos i c cs)
  show ?case
  proof (cases "m \<in> set (nodes_from (pos @ [i]) c)")
    case True
    then obtain q where q: "fst m = (pos @ [i]) @ q" using nodes_below by blast
    obtain j where j: "k = Suc j" using 6(5) by (cases k) auto
    from q 6(4,6) j have "j \<le> length q" "take k p = i # take j q" by auto
    with 6(1) [OF True q] show ?thesis by fastforce
  next
    case False
    then have "m \<in> set (nodes_list pos (Suc i) cs)" using 6(3) by simp
    from 6(2) [OF this 6(4-6)] show ?thesis by auto
  qed
qed auto

lemma doc_nodes_nonroot: "m \<in> set (doc_nodes doc) \<Longrightarrow> fst m \<noteq> []"
  unfolding doc_nodes_def by (drule nodes_list_below) auto

lemma ancestors_doc: "t \<in> set (ancestors doc n) \<Longrightarrow> t \<in> set (doc_nodes doc)"
proof -
  assume "t \<in> set (ancestors doc n)"
  then obtain k where "node_at doc (take k (fst n)) = Some t"
    by (auto simp: ancestors_def List.map_filter_def simp del: upt_Suc)
  then show ?thesis by (simp add: node_at_Some)
qed

lemma map_filter_total:
  "\<forall>k \<in> set ks. \<exists>m. f k = Some m \<and> h m = g k \<Longrightarrow> map h (List.map_filter f ks) = map g ks"
  by (induction ks) (auto simp: map_filter_simps)

lemma ancestors_fst:
  assumes "n \<in> set (doc_nodes doc)"
  shows "map fst (ancestors doc n) = map (\<lambda>k. take k (fst n)) (rev [1..<Suc (length (fst n))])"
proof -
  have "\<exists>m. node_at doc (take k (fst n)) = Some m \<and> fst m = take k (fst n)" if "1 \<le> k" "k \<le> length (fst n)" for k
    using nodes_list_prefix [of n "[]" 0 doc "fst n" k] assms that
    by (auto simp: doc_nodes_def [symmetric] node_at_Some)
  then show ?thesis unfolding ancestors_def by (intro map_filter_total) auto
qed

text \<open>
  \<open>xml::parse\<close> under the limits of a class; \<open>parse_tree\<close> is the library's parser under a node limit, whose
  error is a text.
\<close>

definition xml_parse ::
  "(nat \<Rightarrow> string \<Rightarrow> (string, 'd) result) \<Rightarrow> string \<Rightarrow> XmlLimits \<Rightarrow> string \<Rightarrow> 'd res" where
  "xml_parse parse_tree text limits stage =
     (if length text > max_doc_bytes limits then
        Inl (parse_fail stage (''XML document exceeds the '' @ show_nat (max_doc_bytes limits) @ '' byte limit ('' @
          show_nat (length text) @ '' bytes)''))
      else
        rbind (prescan limits stage 0 text) (\<lambda>_.
          map_err (parse_fail stage) (parse_tree (max_nodes limits) text)))"

text \<open>UTF-8 bytes with an optional byte order mark.\<close>

definition BOM :: string where
  "BOM = map char_of [0xEF, 0xBB, 0xBF :: nat]"

definition xml_parse_bytes ::
  "(nat \<Rightarrow> string \<Rightarrow> (string, 'd) result) \<Rightarrow> (string \<Rightarrow> string) \<Rightarrow> string \<Rightarrow> XmlLimits \<Rightarrow> string \<Rightarrow> 'd res" where
  "xml_parse_bytes parse_tree utf8_error bytes limits stage =
     (case from_utf8 bytes of
        None \<Rightarrow> Inl (parse_fail stage (''XML document is not valid UTF-8: '' @ utf8_error bytes))
      | Some text \<Rightarrow> xml_parse parse_tree (or_else (strip_prefix BOM text) text) limits stage)"

section \<open>The pre-scan is exact on well-formed documents\<close>

text \<open>
  A document as written: an element with a start and an end tag, an empty-element tag, or text. \<open>render\<close> prints it,
  \<open>nesting\<close> is the deepest nesting of start tags and \<open>most_attributes\<close> the largest number of attributes of a tag.
\<close>

datatype written = Tag string "(string \<times> string) list" "written list" | Empty string "(string \<times> string) list" | Chars string

definition render_attrs :: "(string \<times> string) list \<Rightarrow> string" where
  "render_attrs as = concat (map (\<lambda>(k, v). '' '' @ k @ ''='' @ dquote v) as)"

fun render :: "written \<Rightarrow> string" where
  "render (Tag n as cs) = ''<'' @ n @ render_attrs as @ ''>'' @ concat (map render cs) @ ''</'' @ n @ ''>''"
| "render (Empty n as) = ''<'' @ n @ render_attrs as @ ''/>''"
| "render (Chars t) = t"

fun nesting :: "written \<Rightarrow> nat" where
  "nesting (Tag n as cs) = Suc (foldr (\<lambda>c m. max (nesting c) m) cs 0)"
| "nesting _ = 0"

fun most_attributes :: "written \<Rightarrow> nat" where
  "most_attributes (Tag n as cs) = foldr (\<lambda>c m. max (most_attributes c) m) cs (length as)"
| "most_attributes (Empty n as) = length as"
| "most_attributes (Chars t) = 0"

definition name_ok :: "string \<Rightarrow> bool" where
  "name_ok n \<longleftrightarrow> n \<noteq> [] \<and> hd n \<notin> set ''!?'' \<and>
     list_all (\<lambda>c. c \<notin> set (''<>=/'' @ [CHR 0x22, CHR 0x27])) n"

fun written_ok :: "written \<Rightarrow> bool" where
  "written_ok (Tag n as cs) \<longleftrightarrow> name_ok n \<and> list_all (\<lambda>(k, v). name_ok k \<and> CHR 0x22 \<notin> set v) as \<and> list_all written_ok cs"
| "written_ok (Empty n as) \<longleftrightarrow> name_ok n \<and> list_all (\<lambda>(k, v). name_ok k \<and> CHR 0x22 \<notin> set v) as"
| "written_ok (Chars t) \<longleftrightarrow> CHR ''<'' \<notin> set t"

text \<open>The bytes a tag is scanned over without effect.\<close>

definition inert :: "string \<Rightarrow> bool" where
  "inert w \<longleftrightarrow> list_all (\<lambda>c. c \<noteq> CHR 0x22 \<and> c \<noteq> CHR 0x27 \<and> c \<noteq> CHR ''='' \<and> c \<noteq> CHR ''>'') w"

lemma start_tag_inert: "inert w \<Longrightarrow> start_tag None n p (w @ s) = start_tag None n (last (p # w)) s"
  by (induction w arbitrary: p) (auto simp: inert_def)

lemma start_tag_quoted: "CHR 0x22 \<notin> set v \<Longrightarrow> start_tag (Some (CHR 0x22)) n p (v @ CHR 0x22 # s) = start_tag None n (CHR 0x22) s"
  by (induction v arbitrary: p) auto

lemma name_inert: "name_ok n \<Longrightarrow> inert n" "name_ok n \<Longrightarrow> inert (CHR 0x20 # n)" "name_ok n \<Longrightarrow> last n \<noteq> CHR ''/''"
  by (auto simp: name_ok_def inert_def list_all_iff dest: last_in_set)

lemma start_tag_attrs:
  "list_all (\<lambda>(k, v). name_ok k \<and> CHR 0x22 \<notin> set v) as \<Longrightarrow> p \<noteq> CHR ''/'' \<Longrightarrow>
     \<exists>p'. p' \<noteq> CHR ''/'' \<and> start_tag None n p (render_attrs as @ s) = start_tag None (n + length as) p' s"
proof (induction as arbitrary: n p)
  case (Cons a as)
  obtain k v where a: "a = (k, v)" by force
  have k: "name_ok k" "CHR 0x22 \<notin> set v" using Cons.prems a by auto
  have "start_tag None n p (render_attrs (a # as) @ s) =
      start_tag None n p ((CHR 0x20 # k) @ CHR ''='' # CHR 0x22 # v @ CHR 0x22 # render_attrs as @ s)"
    by (simp add: a render_attrs_def dquote_def)
  also have "\<dots> = start_tag None (n + 1) (CHR 0x22) (render_attrs as @ s)"
    unfolding start_tag_inert [OF name_inert(2) [OF k(1)]] using start_tag_quoted [OF k(2)] by simp
  finally show ?case using Cons.IH [of "CHR 0x22" "n + 1"] Cons.prems by simp
qed (auto simp: render_attrs_def)

lemma start_tag_rendered:
  assumes "name_ok n" "list_all (\<lambda>(k, v). name_ok k \<and> CHR 0x22 \<notin> set v) as"
  shows "start_tag None 0 lt (n @ render_attrs as @ ''>'' @ s) = (length as, False, s)"
    and "start_tag None 0 lt (n @ render_attrs as @ ''/>'' @ s) = (length as, True, s)"
proof -
  have l: "last (lt # n) \<noteq> CHR ''/''" using assms(1) name_inert(3) by (auto simp: name_ok_def)
  from start_tag_attrs [OF assms(2) l, of 0 "''>'' @ s"]
  obtain p' where p: "p' \<noteq> CHR ''/''" "start_tag None 0 (last (lt # n)) (render_attrs as @ ''>'' @ s) =
      start_tag None (0 + length as) p' (''>'' @ s)"
    by (elim exE conjE) (rule that)
  show "start_tag None 0 lt (n @ render_attrs as @ ''>'' @ s) = (length as, False, s)"
    unfolding start_tag_inert [OF name_inert(1) [OF assms(1)]] p(2) using p(1) by simp
  from start_tag_attrs [OF assms(2) l, of 0 "''/>'' @ s"]
  obtain q where q: "start_tag None 0 (last (lt # n)) (render_attrs as @ ''/>'' @ s) =
      start_tag None (0 + length as) q (''/>'' @ s)"
    by (elim exE conjE) (rule that)
  show "start_tag None 0 lt (n @ render_attrs as @ ''/>'' @ s) = (length as, True, s)"
    unfolding start_tag_inert [OF name_inert(1) [OF assms(1)]] q by simp
qed

text \<open>The tree is within the limits when it starts at nesting \<open>d\<close>.\<close>

definition fits :: "XmlLimits \<Rightarrow> nat \<Rightarrow> written \<Rightarrow> bool" where
  "fits l d t \<longleftrightarrow> (nesting t = 0 \<or> d + nesting t \<le> max_depth l) \<and> most_attributes t \<le> max_attributes l"

lemma foldr_max_le: "foldr (\<lambda>c m. max (f c) m) cs k \<le> (b :: nat) \<longleftrightarrow> k \<le> b \<and> (\<forall>c \<in> set cs. f c \<le> b)"
  by (induction cs) auto

lemma fits_Tag:
  "fits l d (Tag n as cs) \<longleftrightarrow> length as \<le> max_attributes l \<and> d + 1 \<le> max_depth l \<and> list_all (fits l (d + 1)) cs"
proof -
  have "d + Suc m \<le> b \<longleftrightarrow> d + 1 \<le> b \<and> m \<le> b - (d + 1)" for m b by auto
  moreover have "x \<le> b - (d + 1) \<longleftrightarrow> x = 0 \<or> (d + 1) + x \<le> b" if "d + 1 \<le> b" for x b :: nat
    using that by auto
  ultimately show ?thesis
    by (auto simp: fits_def foldr_max_le list_all_iff)
qed

lemma prescan_text: "CHR ''<'' \<notin> set t \<Longrightarrow> prescan l st d (t @ rest) = prescan l st d rest"
proof -
  assume "CHR ''<'' \<notin> set t"
  then have "dropWhile (\<lambda>c. c \<noteq> CHR ''<'') (t @ rest) = dropWhile (\<lambda>c. c \<noteq> CHR ''<'') rest"
    by (intro dropWhile_append2) auto
  then show ?thesis by (simp add: prescan.simps)
qed

lemma prescan_start:
  assumes "name_ok n"
  shows "prescan l st d (''<'' @ n @ s) =
    (let (attrs, closing, after) = start_tag None 0 (CHR ''<'') (n @ s) in
     if attrs > max_attributes l then
       Inl (parse_fail st (''XML element has more than '' @ show_nat (max_attributes l) @ '' attributes (attribute limit)''))
     else if closing then prescan l st d after
     else if d + 1 > max_depth l then
       Inl (parse_fail st (''XML nesting exceeds the depth limit of '' @ show_nat (max_depth l) @ '' levels''))
     else prescan l st (d + 1) after)"
proof -
  obtain c cs where n: "n = c # cs" using assms by (cases n) (auto simp: name_ok_def)
  have "c \<noteq> CHR ''!''" "c \<noteq> CHR ''?''" "c \<noteq> CHR ''/''" using assms n by (auto simp: name_ok_def)
  then show ?thesis by (subst prescan.simps) (simp add: n)
qed

lemma prescan_end:
  assumes "name_ok n"
  shows "prescan l st d (''</'' @ n @ ''>'' @ s) = prescan l st (d - 1) s"
proof -
  have "CHR ''>'' \<notin> set n" using assms by (auto simp: name_ok_def list_all_iff)
  then have "find_subslice (n @ ''>'' @ s) ''>'' = Some (length n)"
    using find_subslice_skip [of "CHR ''>''" n "''>'' @ s" "[]"] by simp
  then have "skip_to ''>'' (n @ ''>'' @ s) = s" by (simp add: skip_to_def)
  then show ?thesis by (subst prescan.simps) simp
qed

lemma prescan_children:
  assumes "\<And>c d rest. c \<in> set cs \<Longrightarrow> written_ok c \<Longrightarrow>
      (fits l d c \<longrightarrow> prescan l st d (render c @ rest) = prescan l st d rest) \<and>
      (\<not> fits l d c \<longrightarrow> (\<exists>e. prescan l st d (render c @ rest) = Inl e))"
    and "list_all written_ok cs"
  shows "(list_all (fits l d) cs \<longrightarrow> prescan l st d (concat (map render cs) @ rest) = prescan l st d rest) \<and>
      (\<not> list_all (fits l d) cs \<longrightarrow> (\<exists>e. prescan l st d (concat (map render cs) @ rest) = Inl e))"
  using assms
proof (induction cs)
  case (Cons c cs)
  have "written_ok c" using Cons.prems by simp
  note c = Cons.prems(1) [of c d "concat (map render cs) @ rest", OF _ this, simplified]
  have "(list_all (fits l d) cs \<longrightarrow> prescan l st d (concat (map render cs) @ rest) = prescan l st d rest) \<and>
      (\<not> list_all (fits l d) cs \<longrightarrow> (\<exists>e. prescan l st d (concat (map render cs) @ rest) = Inl e))"
    using Cons by simp
  then show ?case using c by (cases "fits l d c") auto
qed simp

lemma prescan_render:
  "written_ok t \<Longrightarrow> (fits l d t \<longrightarrow> prescan l st d (render t @ rest) = prescan l st d rest) \<and>
     (\<not> fits l d t \<longrightarrow> (\<exists>e. prescan l st d (render t @ rest) = Inl e))"
proof (induction t arbitrary: d rest)
  case (Tag n as cs)
  have n: "name_ok n" and as: "list_all (\<lambda>(k, v). name_ok k \<and> CHR 0x22 \<notin> set v) as" and cs: "list_all written_ok cs"
    using Tag.prems by simp_all
  let ?body = "concat (map render cs) @ ''</'' @ n @ ''>'' @ rest"
  have s: "prescan l st d (render (Tag n as cs) @ rest) =
     (if length as > max_attributes l then
       Inl (parse_fail st (''XML element has more than '' @ show_nat (max_attributes l) @ '' attributes (attribute limit)''))
      else if d + 1 > max_depth l then
       Inl (parse_fail st (''XML nesting exceeds the depth limit of '' @ show_nat (max_depth l) @ '' levels''))
      else prescan l st (d + 1) ?body)"
    using prescan_start [OF n, of l st d "render_attrs as @ ''>'' @ ?body"] start_tag_rendered(1) [OF n as]
    by simp
  have "(list_all (fits l (d + 1)) cs \<longrightarrow> prescan l st (d + 1) ?body = prescan l st (d + 1) (''</'' @ n @ ''>'' @ rest)) \<and>
      (\<not> list_all (fits l (d + 1)) cs \<longrightarrow> (\<exists>e. prescan l st (d + 1) ?body = Inl e))"
    using prescan_children [of cs l st "d + 1" "''</'' @ n @ ''>'' @ rest", OF _ cs] Tag.IH by blast
  then show ?case
    unfolding fits_Tag s using prescan_end [OF n, of l st "d + 1" rest] by auto
next
  case (Empty n as)
  have n: "name_ok n" and as: "list_all (\<lambda>(k, v). name_ok k \<and> CHR 0x22 \<notin> set v) as" using Empty.prems by simp_all
  have "prescan l st d (render (Empty n as) @ rest) =
     (if length as > max_attributes l then
       Inl (parse_fail st (''XML element has more than '' @ show_nat (max_attributes l) @ '' attributes (attribute limit)''))
      else prescan l st d rest)"
    using prescan_start [OF n, of l st d "render_attrs as @ ''/>'' @ rest"] start_tag_rendered(2) [OF n as]
    by simp
  then show ?case by (simp add: fits_def)
next
  case (Chars t)
  then show ?case by (simp add: fits_def prescan_text)
qed



end
