(* ===== verification/Keys.thy ===== *)
theory Keys
  imports Core_Error Time_Utils
begin

text \<open>
  Certificates, key pairs and certificate fingerprints (src/keys.rs, src/crypto/fingerprint.rs). What
  OpenSSL and the X.509 parser report of a certificate is a record of values, and their functions
  are the fields of a library record passed to the operations that call them. Shown: fingerprints
  are in canonical form and survive printing and parsing, a private-key operation fails with one
  error whatever the cause, and PKCS#1 v1.5 decryption never fails.
\<close>

section \<open>Fingerprints\<close>

definition SHA256_HEX_LEN :: nat where
  "SHA256_HEX_LEN = 64"

datatype CertFingerprint = CertFingerprint (fp_as_str: string)

definition from_cert_der :: "(bytes \<Rightarrow> bytes) \<Rightarrow> bytes \<Rightarrow> CertFingerprint" where
  "from_cert_der sha256 cert_der = CertFingerprint (hex (sha256 cert_der))"

definition is_ascii_hexdigit :: "char \<Rightarrow> bool" where
  "is_ascii_hexdigit c \<longleftrightarrow> is_ascii_digit c \<or> (65 \<le> byte c \<and> byte c \<le> 70) \<or> (97 \<le> byte c \<and> byte c \<le> 102)"

definition fingerprint_parse :: "string \<Rightarrow> CertFingerprint res" where
  "fingerprint_parse v =
     (let normalized = map ascii_lower (filter is_ascii_hexdigit v) in
      if length normalized \<noteq> SHA256_HEX_LEN then
        Inl (asx_error InvalidInput
          (''a SHA-256 certificate fingerprint has '' @ show_nat SHA256_HEX_LEN @ '' hex digits, this one has '' @
           show_nat (length normalized) @ '' '' @ em_dash @ '' check for a truncated or SHA-1 value'')
          (context_new ''cert_fingerprint_parse''))
      else Inr (CertFingerprint normalized))"

section \<open>What the X.509 library reports\<close>

datatype Nid =
    COMMONNAME | ORGANIZATIONALUNITNAME | X9_62_PRIME256V1 | SECP384R1 | SECP521R1
  | BRAINPOOL_P256R1 | BRAINPOOL_P384R1 | BRAINPOOL_P512R1 | OtherNid nat

datatype PKeyId = Id_RSA | Id_RSA_PSS | Id_EC | Id_Other nat

text \<open>\<open>pk_ec_key\<close>: the group of an EC key, its curve name where it is a named curve.\<close>

record EcGroup =
  curve_name :: "Nid option"
  order_bits :: nat

record PKey =
  pk_id :: PKeyId
  pk_bits :: nat
  pk_ec_key :: "EcGroup option"
  pk_spki :: bytes

record X509 =
  x_to_der :: "(string, bytes) result"
  x_public_key :: "PKey option"
  x_subject :: "(Nid \<times> string) list"
  x_not_before :: int
  x_not_after :: int
  x_subject_key_id :: "bytes option"
  x_spk_bits :: "bytes option"
  x_crl_sign :: "bool option"
  x_pem :: string

text \<open>The library's functions; \<open>'k\<close> is the type of private keys.\<close>

record 'k Ossl =
  os_stack_from_pem :: "string \<Rightarrow> (string, X509 list) result"
  os_private_key :: "string \<Rightarrow> 'k option"
  os_public :: "'k \<Rightarrow> PKey"
  os_public_from_der :: "bytes \<Rightarrow> PKey option"
  os_sha1 :: "bytes \<Rightarrow> bytes option"
  os_sha256 :: "bytes \<Rightarrow> bytes"
  os_asn1_ok :: "int \<Rightarrow> bool"
  os_verify_cert :: "X509 list \<Rightarrow> X509 list \<Rightarrow> X509 \<Rightarrow> int \<Rightarrow> bool"
  os_sign :: "'k \<Rightarrow> bytes \<Rightarrow> (string, bytes) result"
  os_decrypt_oaep :: "'k \<Rightarrow> bytes \<Rightarrow> bytes option"
  os_decrypt_pkcs1 :: "'k \<Rightarrow> bytes \<Rightarrow> bytes option"
  os_derive :: "'k \<Rightarrow> PKey \<Rightarrow> bytes option"
  os_short_name :: "Nid \<Rightarrow> string option"

section \<open>Certificates\<close>

datatype KeyKind = Rsa nat | Ec "Nid option" | OtherKey

definition of_public :: "PKey \<Rightarrow> KeyKind" where
  "of_public key =
     (case pk_id key of
        Id_RSA \<Rightarrow> Rsa (pk_bits key)
      | Id_RSA_PSS \<Rightarrow> Rsa (pk_bits key)
      | Id_EC \<Rightarrow> Ec (case pk_ec_key key of Some g \<Rightarrow> curve_name g | None \<Rightarrow> None)
      | Id_Other _ \<Rightarrow> OtherKey)"

fun kind_describe :: "'k Ossl \<Rightarrow> KeyKind \<Rightarrow> string" where
  "kind_describe lib (Rsa bits) = ''RSA '' @ show_nat bits"
| "kind_describe lib (Ec (Some nid)) =
     ''EC '' @ (case os_short_name lib nid of Some n \<Rightarrow> n | None \<Rightarrow> ''unknown curve'')"
| "kind_describe lib (Ec None) = ''EC (unnamed curve)''"
| "kind_describe lib OtherKey = ''an unsupported key type''"

record Certificate =
  c_der :: bytes
  c_x509 :: X509
  c_fingerprint :: CertFingerprint

text \<open>\<open>Certificate\<close> compares by its DER encoding.\<close>

definition cert_eq :: "Certificate \<Rightarrow> Certificate \<Rightarrow> bool" where
  "cert_eq a b \<longleftrightarrow> c_der a = c_der b"

definition certs_contain :: "Certificate list \<Rightarrow> Certificate \<Rightarrow> bool" where
  "certs_contain cs c \<longleftrightarrow> list_ex (cert_eq c) cs"

definition from_x509 :: "'k Ossl \<Rightarrow> X509 \<Rightarrow> ('r Error, Certificate) result" where
  "from_x509 lib x509 =
     rbind (map_err (\<lambda>err. error_config (''certificate is not DER-encodable: '' @ err)) (x_to_der x509))
       (\<lambda>der. Inr \<lparr>c_der = der, c_x509 = x509, c_fingerprint = from_cert_der (os_sha256 lib) der\<rparr>)"

definition certificate_from_pem :: "'k Ossl \<Rightarrow> string \<Rightarrow> ('r Error, Certificate) result" where
  "certificate_from_pem lib pem =
     rbind (map_err (\<lambda>err. error_config (''certificate PEM is not parseable: '' @ err))
              (os_stack_from_pem lib pem)) (\<lambda>certs.
       case certs of
         [c] \<Rightarrow> from_x509 lib c
       | [] \<Rightarrow> Inl (error_config ''certificate PEM contains no certificate'')
       | _ \<Rightarrow> Inl (error_config (''certificate PEM contains '' @ show_nat (length certs) @
                '' certificates; exactly one is required'')))"

definition key_kind :: "Certificate \<Rightarrow> KeyKind" where
  "key_kind c = (case x_public_key (c_x509 c) of Some key \<Rightarrow> of_public key | None \<Rightarrow> OtherKey)"

definition subject_values :: "Certificate \<Rightarrow> (Nid \<times> string) list" where
  "subject_values c = x_subject (c_x509 c)"

definition subject_cn :: "Certificate \<Rightarrow> string option" where
  "subject_cn c =
     (case filter (\<lambda>(nid, _). nid = COMMONNAME) (subject_values c) of
        [] \<Rightarrow> None
      | first # rest \<Rightarrow> if rest \<noteq> [] then None else Some (snd first))"

definition has_crl_sign :: "Certificate \<Rightarrow> bool" where
  "has_crl_sign c =
     (case x_to_der (c_x509 c) of Inl _ \<Rightarrow> False
      | Inr _ \<Rightarrow> (case x_crl_sign (c_x509 c) of Some b \<Rightarrow> b | None \<Rightarrow> False))"

definition is_valid_at :: "'k Ossl \<Rightarrow> Certificate \<Rightarrow> system_time \<Rightarrow> bool" where
  "is_valid_at lib c now =
     (let n = unix_secs now in
      if \<not> os_asn1_ok lib n then False
      else x_not_before (c_x509 c) \<le> n \<and> n \<le> x_not_after (c_x509 c))"

definition public_key_bits :: "X509 \<Rightarrow> bytes option" where
  "public_key_bits cert = (case x_to_der cert of Inl _ \<Rightarrow> None | Inr _ \<Rightarrow> x_spk_bits cert)"

definition ski_candidates :: "'k Ossl \<Rightarrow> Certificate \<Rightarrow> bytes list" where
  "ski_candidates lib c =
     (let out = (case x_subject_key_id (c_x509 c) of Some ski \<Rightarrow> [ski] | None \<Rightarrow> []) in
      case public_key_bits (c_x509 c) of
        Some bits \<Rightarrow>
          (case os_sha1 lib bits of
             Some digest \<Rightarrow> if digest \<notin> set out then out @ [digest] else out
           | None \<Rightarrow> out)
      | None \<Rightarrow> out)"

section \<open>Key pairs\<close>

datatype SignatureAlgorithm = RsaSha256 | EcdsaSha256

datatype KeyOp = RsaOaep bytes | RsaPkcs1v15 bytes | Ecdh bytes

record 'k KeyPair =
  kp_chain :: "Certificate list"
  kp_pkey :: 'k
  kp_pem :: string

fun collect_certs :: "'k Ossl \<Rightarrow> X509 list \<Rightarrow> ('r Error, Certificate list) result" where
  "collect_certs lib [] = Inr []"
| "collect_certs lib (x # xs) =
     rbind (from_x509 lib x) (\<lambda>c. rbind (collect_certs lib xs) (\<lambda>cs. Inr (c # cs)))"

definition key_pair_from_pem :: "'k Ossl \<Rightarrow> string \<Rightarrow> string \<Rightarrow> ('r Error, 'k KeyPair) result" where
  "key_pair_from_pem lib chain_pem key_pem =
     rbind (map_err (\<lambda>err. error_config (''certificate chain PEM is not parseable: '' @ err))
              (os_stack_from_pem lib chain_pem)) (\<lambda>xs.
     rbind (collect_certs lib xs) (\<lambda>chain.
     rbind (ok_or (error_config ''certificate chain PEM contains no certificate'')
              (case chain of [] \<Rightarrow> None | l # _ \<Rightarrow> Some l)) (\<lambda>leaf.
     rbind (ok_or (error_config ''private key PEM is not parseable'') (os_private_key lib key_pem)) (\<lambda>pkey.
     rbind (ok_or (error_config ''leaf certificate has no usable public key'')
              (x_public_key (c_x509 leaf))) (\<lambda>leaf_key.
     rbind (check (pk_spki (os_public lib pkey) = pk_spki leaf_key)
              (error_config (''private key does not match the leaf certificate'' @ [CHR 0x27] @ ''s public key''))) (\<lambda>_.
       Inr \<lparr>kp_chain = chain, kp_pkey = pkey, kp_pem = key_pem\<rparr>))))))"

definition leaf :: "'k KeyPair \<Rightarrow> Certificate" where
  "leaf kp = hd (kp_chain kp)"

definition kp_key_kind :: "'k Ossl \<Rightarrow> 'k KeyPair \<Rightarrow> KeyKind" where
  "kp_key_kind lib kp = of_public (os_public lib (kp_pkey kp))"

definition chain_pem_of :: "'k KeyPair \<Rightarrow> string" where
  "chain_pem_of kp = concat (map (\<lambda>c. x_pem (c_x509 c)) (kp_chain kp))"

fun alg_debug :: "SignatureAlgorithm \<Rightarrow> string" where
  "alg_debug RsaSha256 = ''RsaSha256''"
| "alg_debug EcdsaSha256 = ''EcdsaSha256''"

definition sign_now :: "'k Ossl \<Rightarrow> 'k KeyPair \<Rightarrow> SignatureAlgorithm \<Rightarrow> bytes \<Rightarrow> ('r Error, bytes) result" where
  "sign_now lib kp algorithm msg =
     (let go = map_err (\<lambda>err. error_config (''signing failed: '' @ err)) (os_sign lib (kp_pkey kp) msg);
          mismatch = (\<lambda>k. Inl (error_config (''a '' @ kind_describe lib k @
            '' key cannot produce '' @ alg_debug algorithm @ '' signatures'')))
      in case (algorithm, kp_key_kind lib kp) of
           (RsaSha256, Rsa _) \<Rightarrow> go
         | (EcdsaSha256, Ec _) \<Rightarrow> go
         | (_, k) \<Rightarrow> mismatch k)"

definition decrypt_fail :: "'r Error" where
  "decrypt_fail = error_new Rejected ''decryption failed''"

text \<open>\<open>random\<close>: the 32 octets drawn when the padding of a PKCS#1 v1.5 key is not accepted.\<close>

definition decrypt_now :: "'k Ossl \<Rightarrow> bytes \<Rightarrow> 'k KeyPair \<Rightarrow> KeyOp \<Rightarrow> ('r Error, bytes) result" where
  "decrypt_now lib random kp operation =
     (case operation of
        RsaOaep wrapped \<Rightarrow> ok_or decrypt_fail (os_decrypt_oaep lib (kp_pkey kp) wrapped)
      | RsaPkcs1v15 wrapped \<Rightarrow>
          Inr (case os_decrypt_pkcs1 lib (kp_pkey kp) wrapped of Some out \<Rightarrow> out | None \<Rightarrow> random)
      | Ecdh peer_spki \<Rightarrow>
          rbind (ok_or decrypt_fail (os_public_from_der lib peer_spki)) (\<lambda>peer.
            case (kp_key_kind lib kp, of_public peer) of
              (Ec ours, Ec theirs) \<Rightarrow>
                if ours = None \<or> ours \<noteq> theirs then Inl decrypt_fail
                else ok_or decrypt_fail (os_derive lib (kp_pkey kp) peer)
            | _ \<Rightarrow> Inl decrypt_fail))"

section \<open>Lemmas\<close>

lemma hex_digit_props:
  assumes "d < 16"
  shows "is_ascii_hexdigit (hex_digit d)" "ascii_lower (hex_digit d) = hex_digit d"
proof -
  have b: "byte (hex_digit d) = (if d < 10 then 48 + d else 87 + d)"
    using assms by (simp add: hex_digit_def)
  show "is_ascii_hexdigit (hex_digit d)"
    using assms b by (auto simp: is_ascii_hexdigit_def is_ascii_digit_def)
  show "ascii_lower (hex_digit d) = hex_digit d"
    using assms b by (auto simp: ascii_lower_def)
qed

lemma hex_chars: "c \<in> set (hex bs) \<Longrightarrow> is_ascii_hexdigit c \<and> ascii_lower c = c"
  using unat_byte_less
  by (fastforce simp: hex_def hex_byte_def less_mult_imp_div_less intro!: hex_digit_props)

lemma ascii_lower_idem: "ascii_lower (ascii_lower c) = ascii_lower c"
  by (simp add: ascii_lower_def)

lemma hexdigit_lower: "is_ascii_hexdigit c \<Longrightarrow> is_ascii_hexdigit (ascii_lower c)"
  by (auto simp: is_ascii_hexdigit_def is_ascii_digit_def ascii_lower_def)

lemma fingerprint_parse_canonical:
  assumes "length s = SHA256_HEX_LEN" "\<And>c. c \<in> set s \<Longrightarrow> is_ascii_hexdigit c \<and> ascii_lower c = c"
  shows "fingerprint_parse s = Inr (CertFingerprint s)"
proof -
  have "filter is_ascii_hexdigit s = s" using assms(2) by (simp add: filter_id_conv)
  moreover have "map ascii_lower s = s" using assms(2) by (simp add: map_idI)
  ultimately show ?thesis using assms(1) by (simp add: fingerprint_parse_def)
qed

section \<open>Properties\<close>

text \<open>
  Fingerprints have one canonical form. A parsed fingerprint has 64 lower-case hexadecimal
  digits and parses to itself; the fingerprint computed from a certificate (a 32-byte digest)
  survives printing and parsing, whatever characters that are no hexadecimal digits are
  inserted as separators and whatever the case of its letters.
\<close>
theorem fingerprint_canonical_form:
  assumes "length (sha256 der) = 32"
    and "filter is_ascii_hexdigit v = filter is_ascii_hexdigit w"
    and "map ascii_lower (filter is_ascii_hexdigit w) = fp_as_str (from_cert_der sha256 der)"
  shows "fingerprint_parse v = Inr (from_cert_der sha256 der) \<and>
    (fingerprint_parse u = Inr fp \<longrightarrow> length (fp_as_str fp) = 64 \<and>
       (\<forall>c \<in> set (fp_as_str fp). is_ascii_hexdigit c \<and> ascii_lower c = c) \<and>
       fingerprint_parse (fp_as_str fp) = Inr fp)"
proof -
  have "fingerprint_parse v = Inr (from_cert_der sha256 der)"
    using assms by (simp add: fingerprint_parse_def from_cert_der_def SHA256_HEX_LEN_def Let_def)
  moreover have "length (fp_as_str fp) = 64 \<and>
       (\<forall>c \<in> set (fp_as_str fp). is_ascii_hexdigit c \<and> ascii_lower c = c) \<and>
       fingerprint_parse (fp_as_str fp) = Inr fp" if "fingerprint_parse u = Inr fp"
  proof -
    have fp: "fp = CertFingerprint (map ascii_lower (filter is_ascii_hexdigit u))"
      "length (fp_as_str fp) = SHA256_HEX_LEN"
      using that by (auto simp: fingerprint_parse_def Let_def split: if_splits)
    have c: "is_ascii_hexdigit c \<and> ascii_lower c = c" if "c \<in> set (fp_as_str fp)" for c
      using that by (auto simp: fp(1) hexdigit_lower ascii_lower_idem)
    show ?thesis
      using fingerprint_parse_canonical [OF fp(2) c] fp(2) c
      by (cases fp) (auto simp: SHA256_HEX_LEN_def)
  qed
  ultimately show ?thesis by blast
qed

theorem fingerprint_canonical_form_witness:
  "fingerprint_parse ('':'' @ fp_as_str (from_cert_der (\<lambda>_. replicate 32 171) [])) =
     Inr (from_cert_der (\<lambda>_. replicate 32 171) [])"
proof -
  define d :: bytes where "d = replicate 32 171"
  have len: "length d = 32" by (simp add: d_def)
  have w: "map ascii_lower (filter is_ascii_hexdigit (hex d)) = hex d"
    using hex_chars [of _ d] by (simp add: filter_id_conv map_idI)
  have "\<not> is_ascii_hexdigit CHR '':''" by code_simp
  then have "fingerprint_parse ('':'' @ hex d) = Inr (from_cert_der (\<lambda>_. d) [])"
    using w len
    by (intro conjunct1 [OF fingerprint_canonical_form [where w = "hex d"]]) (simp_all add: from_cert_der_def)
  then show ?thesis unfolding d_def [symmetric] by (simp add: from_cert_der_def)
qed

text \<open>
  C16. A private-key operation of an in-memory key is no oracle. Every failure is the same error,
  whatever failed; RSAES-PKCS1-v1.5 never fails (a padding failure continues with random octets);
  and an ECDH secret is derived only with a peer key on the named curve of our own key.
\<close>
theorem decryption_is_no_oracle:
  "(decrypt_now lib random kp op = Inl e \<longrightarrow> e = decrypt_fail \<and> (\<forall>w. op \<noteq> RsaPkcs1v15 w)) \<and>
   (decrypt_now lib random kp (Ecdh spki) = Inr z \<longrightarrow>
      (\<exists>curve peer. kp_key_kind lib kp = Ec (Some curve) \<and> os_public_from_der lib spki = Some peer \<and>
         of_public peer = Ec (Some curve) \<and> os_derive lib (kp_pkey kp) peer = Some z))"
proof -
  have "e = decrypt_fail \<and> (\<forall>w. op \<noteq> RsaPkcs1v15 w)" if "decrypt_now lib random kp op = Inl e"
  proof (cases op)
    case (Ecdh spki)
    with that show ?thesis
      by (cases "os_public_from_der lib spki"; cases "kp_key_kind lib kp";
          cases "of_public (the (os_public_from_der lib spki))")
         (auto simp: decrypt_now_def res_simps split: if_splits)
  qed (use that in \<open>auto simp: decrypt_now_def res_simps\<close>)
  moreover have "\<exists>curve peer. kp_key_kind lib kp = Ec (Some curve) \<and>
      os_public_from_der lib spki = Some peer \<and> of_public peer = Ec (Some curve) \<and>
      os_derive lib (kp_pkey kp) peer = Some z"
    if "decrypt_now lib random kp (Ecdh spki) = Inr z"
    using that
    by (cases "os_public_from_der lib spki"; cases "kp_key_kind lib kp";
        cases "of_public (the (os_public_from_der lib spki))")
       (auto simp: decrypt_now_def res_simps split: if_splits)
  ultimately show ?thesis by blast
qed

text \<open>A library whose keys are EC keys on one curve and whose operations refuse everything.\<close>

definition demo_ossl :: "unit Ossl" where
  "demo_ossl =
     \<lparr>os_stack_from_pem = (\<lambda>_. Inl ''no''), os_private_key = (\<lambda>_. None),
      os_public = (\<lambda>_. \<lparr>pk_id = Id_EC, pk_bits = 256, pk_ec_key = Some \<lparr>curve_name = Some BRAINPOOL_P256R1, order_bits = 256\<rparr>, pk_spki = []\<rparr>),
      os_public_from_der = (\<lambda>_. None), os_sha1 = (\<lambda>_. None), os_sha256 = (\<lambda>_. replicate 32 0),
      os_asn1_ok = (\<lambda>_. True), os_verify_cert = (\<lambda>_ _ _ _. True), os_sign = (\<lambda>_ _. Inl ''no''),
      os_decrypt_oaep = (\<lambda>_ _. None), os_decrypt_pkcs1 = (\<lambda>_ _. None), os_derive = (\<lambda>_ _. None),
      os_short_name = (\<lambda>_. None)\<rparr>"

theorem decryption_is_no_oracle_witness:
  "\<exists>e :: unit Error. decrypt_now demo_ossl [] \<lparr>kp_chain = [], kp_pkey = (), kp_pem = []\<rparr> (Ecdh [1]) = Inl e \<and>
     e = decrypt_fail"
proof -
  obtain e :: "unit Error" where
    e: "decrypt_now demo_ossl [] \<lparr>kp_chain = [], kp_pkey = (), kp_pem = []\<rparr> (Ecdh [1]) = Inl e"
    by (simp add: decrypt_now_def demo_ossl_def)
  show ?thesis using decryption_is_no_oracle [of demo_ossl "[]" _ "Ecdh [1]" e] e by blast
qed

end
