(* ===== verification/Crypto_Alg.thy ===== *)
theory Crypto_Alg
  imports Keys
begin

text \<open>
  The algorithm registry and the two forms of an ECDSA signature value (src/crypto/alg.rs and
  src/crypto/alg/ecdsa.rs). The registry is one table of roles, identifiers and algorithms, read in
  both directions; a signature value is DER at the key seam and two fixed-width integers on the
  wire. OpenSSL's integers and DER codec are parameters. Shown: the two directions of the registry
  are inverse, and the two conversions of a signature value are inverse.
\<close>

section \<open>Identifiers\<close>

definition URI_SHA256 :: string where
  "URI_SHA256 = ''http://www.w3.org/2001/04/xmlenc#sha256''"

definition URI_SHA384 :: string where
  "URI_SHA384 = ''http://www.w3.org/2001/04/xmldsig-more#sha384''"

definition URI_SHA512 :: string where
  "URI_SHA512 = ''http://www.w3.org/2001/04/xmlenc#sha512''"

definition URI_RSA_SHA256 :: string where
  "URI_RSA_SHA256 = ''http://www.w3.org/2001/04/xmldsig-more#rsa-sha256''"

definition URI_RSA_SHA384 :: string where
  "URI_RSA_SHA384 = ''http://www.w3.org/2001/04/xmldsig-more#rsa-sha384''"

definition URI_RSA_SHA512 :: string where
  "URI_RSA_SHA512 = ''http://www.w3.org/2001/04/xmldsig-more#rsa-sha512''"

definition URI_ECDSA_SHA256 :: string where
  "URI_ECDSA_SHA256 = ''http://www.w3.org/2001/04/xmldsig-more#ecdsa-sha256''"

definition URI_ECDSA_SHA384 :: string where
  "URI_ECDSA_SHA384 = ''http://www.w3.org/2001/04/xmldsig-more#ecdsa-sha384''"

definition URI_ECDSA_SHA512 :: string where
  "URI_ECDSA_SHA512 = ''http://www.w3.org/2001/04/xmldsig-more#ecdsa-sha512''"

definition URI_EXC_C14N :: string where
  "URI_EXC_C14N = ''http://www.w3.org/2001/10/xml-exc-c14n#''"

definition URI_INC_C14N :: string where
  "URI_INC_C14N = ''http://www.w3.org/TR/2001/REC-xml-c14n-20010315''"

definition URI_SWA_ATTACHMENT_CONTENT :: string where
  "URI_SWA_ATTACHMENT_CONTENT = ''http://docs.oasis-open.org/wss/oasis-wss-SwAProfile-1.1#Attachment-Content-Signature-Transform''"

definition URI_ENVELOPED_SIGNATURE :: string where
  "URI_ENVELOPED_SIGNATURE = ''http://www.w3.org/2000/09/xmldsig#enveloped-signature''"

definition URI_RSA_OAEP :: string where
  "URI_RSA_OAEP = ''http://www.w3.org/2009/xmlenc11#rsa-oaep''"

definition URI_ECDH_ES :: string where
  "URI_ECDH_ES = ''http://www.w3.org/2009/xmlenc11#ECDH-ES''"

definition URI_CONCAT_KDF :: string where
  "URI_CONCAT_KDF = ''http://www.w3.org/2009/xmlenc11#ConcatKDF''"

definition URI_KW_AES128 :: string where
  "URI_KW_AES128 = ''http://www.w3.org/2001/04/xmlenc#kw-aes128''"

definition URI_KW_AES192 :: string where
  "URI_KW_AES192 = ''http://www.w3.org/2001/04/xmlenc#kw-aes192''"

definition URI_KW_AES256 :: string where
  "URI_KW_AES256 = ''http://www.w3.org/2001/04/xmlenc#kw-aes256''"

definition URI_AES128_GCM :: string where
  "URI_AES128_GCM = ''http://www.w3.org/2009/xmlenc11#aes128-gcm''"

definition URI_AES256_GCM :: string where
  "URI_AES256_GCM = ''http://www.w3.org/2009/xmlenc11#aes256-gcm''"

definition URI_MGF1_SHA256 :: string where
  "URI_MGF1_SHA256 = ''http://www.w3.org/2009/xmlenc11#mgf1sha256''"

definition URI_CURVE_P256 :: string where
  "URI_CURVE_P256 = ''urn:oid:1.2.840.10045.3.1.7''"

definition URI_CURVE_P384 :: string where
  "URI_CURVE_P384 = ''urn:oid:1.3.132.0.34''"

definition URI_CURVE_P521 :: string where
  "URI_CURVE_P521 = ''urn:oid:1.3.132.0.35''"

definition URI_CURVE_BP256R1 :: string where
  "URI_CURVE_BP256R1 = ''urn:oid:1.3.36.3.3.2.8.1.1.7''"

definition URI_CURVE_BP384R1 :: string where
  "URI_CURVE_BP384R1 = ''urn:oid:1.3.36.3.3.2.8.1.1.11''"

definition URI_CURVE_BP512R1 :: string where
  "URI_CURVE_BP512R1 = ''urn:oid:1.3.36.3.3.2.8.1.1.13''"

section \<open>Roles and algorithms\<close>

datatype DsSignatureAlgorithm =
  DsRsaSha256 | DsRsaSha384 | DsRsaSha512 | DsEcdsaSha256 | DsEcdsaSha384 | DsEcdsaSha512

datatype WsSecDigestMethod = Sha256 | Sha384 | Sha512

datatype WsSecCanonicalizationKind = Exclusive | Inclusive

datatype XmlEncPayloadAlgorithm = Aes128Gcm | Aes256Gcm

datatype Role =
    RoleDigest | RoleSignature | RoleC14n | RoleTransform | RoleKeyTransport | RoleKeyAgreement
  | RoleKdf | RoleKeyWrap | RoleContentCipher | RoleMgf | RoleCurve

fun role_label :: "Role \<Rightarrow> string" where
  "role_label RoleDigest = ''digest''"
| "role_label RoleSignature = ''signature''"
| "role_label RoleC14n = ''canonicalization''"
| "role_label RoleTransform = ''transform''"
| "role_label RoleKeyTransport = ''key transport''"
| "role_label RoleKeyAgreement = ''key agreement''"
| "role_label RoleKdf = ''key derivation''"
| "role_label RoleKeyWrap = ''key wrap''"
| "role_label RoleContentCipher = ''content encryption''"
| "role_label RoleMgf = ''mask generation function''"
| "role_label RoleCurve = ''named curve''"

datatype TransformAlg = TC14n WsSecCanonicalizationKind | AttachmentContent | EnvelopedSignature

datatype KeyTransportAlg = KtRsaOaep

datatype AgreementAlg = EcdhEs

datatype KdfAlg = ConcatKdf

datatype KeyWrapAlg = KwAes128 | KwAes192 | KwAes256

datatype MgfAlg = Mgf1Sha256

datatype NamedCurve = P256 | P384 | P521 | BrainpoolP256r1 | BrainpoolP384r1 | BrainpoolP512r1

datatype KeyFamily = FamilyRsa | FamilyEc

datatype Alg =
    ADigest WsSecDigestMethod | ASignature DsSignatureAlgorithm | AC14n WsSecCanonicalizationKind
  | ATransform TransformAlg | AKeyTransport KeyTransportAlg | AKeyAgreement AgreementAlg
  | AKdf KdfAlg | AKeyWrap KeyWrapAlg | AContentCipher XmlEncPayloadAlgorithm | AMgf MgfAlg
  | ACurve NamedCurve

section \<open>The registry\<close>

definition REGISTRY :: "(Role \<times> string \<times> Alg) list" where
  "REGISTRY =
     [
      (RoleDigest, URI_SHA256, ADigest Sha256),
      (RoleDigest, URI_SHA384, ADigest Sha384),
      (RoleDigest, URI_SHA512, ADigest Sha512),
      (RoleSignature, URI_RSA_SHA256, ASignature DsRsaSha256),
      (RoleSignature, URI_RSA_SHA384, ASignature DsRsaSha384),
      (RoleSignature, URI_RSA_SHA512, ASignature DsRsaSha512),
      (RoleSignature, URI_ECDSA_SHA256, ASignature DsEcdsaSha256),
      (RoleSignature, URI_ECDSA_SHA384, ASignature DsEcdsaSha384),
      (RoleSignature, URI_ECDSA_SHA512, ASignature DsEcdsaSha512),
      (RoleC14n, URI_EXC_C14N, AC14n Exclusive),
      (RoleC14n, URI_INC_C14N, AC14n Inclusive),
      (RoleTransform, URI_EXC_C14N, ATransform (TC14n Exclusive)),
      (RoleTransform, URI_INC_C14N, ATransform (TC14n Inclusive)),
      (RoleTransform, URI_SWA_ATTACHMENT_CONTENT, ATransform AttachmentContent),
      (RoleTransform, URI_ENVELOPED_SIGNATURE, ATransform EnvelopedSignature),
      (RoleKeyTransport, URI_RSA_OAEP, AKeyTransport KtRsaOaep),
      (RoleKeyAgreement, URI_ECDH_ES, AKeyAgreement EcdhEs),
      (RoleKdf, URI_CONCAT_KDF, AKdf ConcatKdf),
      (RoleKeyWrap, URI_KW_AES128, AKeyWrap KwAes128),
      (RoleKeyWrap, URI_KW_AES192, AKeyWrap KwAes192),
      (RoleKeyWrap, URI_KW_AES256, AKeyWrap KwAes256),
      (RoleContentCipher, URI_AES128_GCM, AContentCipher Aes128Gcm),
      (RoleContentCipher, URI_AES256_GCM, AContentCipher Aes256Gcm),
      (RoleMgf, URI_MGF1_SHA256, AMgf Mgf1Sha256),
      (RoleCurve, URI_CURVE_P256, ACurve P256),
      (RoleCurve, URI_CURVE_P384, ACurve P384),
      (RoleCurve, URI_CURVE_P521, ACurve P521),
      (RoleCurve, URI_CURVE_BP256R1, ACurve BrainpoolP256r1),
      (RoleCurve, URI_CURVE_BP384R1, ACurve BrainpoolP384r1),
      (RoleCurve, URI_CURVE_BP512R1, ACurve BrainpoolP512r1)]"

definition unsupported :: "Role \<Rightarrow> string \<Rightarrow> AsxError" where
  "unsupported role uri =
     asx_error InteropViolation (''unsupported '' @ role_label role @ '' algorithm: '' @ uri)
       (with_message_id uri (context_new ''xmlsec_algorithm_registry''))"

definition alg_lookup :: "Role \<Rightarrow> string \<Rightarrow> Alg res" where
  "alg_lookup role uri =
     ok_or (unsupported role uri)
       (map_option (\<lambda>(_, _, alg). alg) (find (\<lambda>(r, u, _). r = role \<and> u = uri) REGISTRY))"

lemma alg_lookup_code [code]:
  "alg_lookup ro uri =
     ok_or (unsupported ro uri)
       (map_option (\<lambda>(_, _, alg). alg) (find (\<lambda>(r, u, _). if r = ro then u = uri else False) REGISTRY))"
proof -
  have "(\<lambda>(r, u, _). r = ro \<and> u = uri) = (\<lambda>(r, u, _ :: Alg). if r = ro then u = uri else False)" by (auto simp: fun_eq_iff)
  then show ?thesis by (simp add: alg_lookup_def)
qed
definition alg_uri :: "Alg \<Rightarrow> string" where
  "alg_uri self =
     (case find (\<lambda>(_, _, alg). alg = self) REGISTRY of Some (_, uri, _) \<Rightarrow> uri | None \<Rightarrow> [])"

text \<open>The macro \<open>typed_lookup!\<close>: a lookup narrowed to the algorithms of one role.\<close>

definition typed_lookup :: "Role \<Rightarrow> (Alg \<Rightarrow> 'a option) \<Rightarrow> string \<Rightarrow> 'a res" where
  "typed_lookup role variant uri =
     rbind (alg_lookup role uri) (\<lambda>a. ok_or (unsupported role uri) (variant a))"

definition signature_from_uri :: "string \<Rightarrow> DsSignatureAlgorithm res" where
  "signature_from_uri = typed_lookup RoleSignature (\<lambda>a. case a of ASignature v \<Rightarrow> Some v | _ \<Rightarrow> None)"

definition digest_from_algorithm_uri :: "string \<Rightarrow> WsSecDigestMethod res" where
  "digest_from_algorithm_uri = typed_lookup RoleDigest (\<lambda>a. case a of ADigest v \<Rightarrow> Some v | _ \<Rightarrow> None)"

definition c14n_from_uri :: "string \<Rightarrow> WsSecCanonicalizationKind res" where
  "c14n_from_uri = typed_lookup RoleC14n (\<lambda>a. case a of AC14n v \<Rightarrow> Some v | _ \<Rightarrow> None)"

definition transform_from_uri :: "string \<Rightarrow> TransformAlg res" where
  "transform_from_uri = typed_lookup RoleTransform (\<lambda>a. case a of ATransform v \<Rightarrow> Some v | _ \<Rightarrow> None)"

definition cipher_from_uri :: "string \<Rightarrow> XmlEncPayloadAlgorithm res" where
  "cipher_from_uri = typed_lookup RoleContentCipher (\<lambda>a. case a of AContentCipher v \<Rightarrow> Some v | _ \<Rightarrow> None)"

definition key_transport_from_uri :: "string \<Rightarrow> KeyTransportAlg res" where
  "key_transport_from_uri = typed_lookup RoleKeyTransport (\<lambda>a. case a of AKeyTransport v \<Rightarrow> Some v | _ \<Rightarrow> None)"

definition agreement_from_uri :: "string \<Rightarrow> AgreementAlg res" where
  "agreement_from_uri = typed_lookup RoleKeyAgreement (\<lambda>a. case a of AKeyAgreement v \<Rightarrow> Some v | _ \<Rightarrow> None)"

definition kdf_from_uri :: "string \<Rightarrow> KdfAlg res" where
  "kdf_from_uri = typed_lookup RoleKdf (\<lambda>a. case a of AKdf v \<Rightarrow> Some v | _ \<Rightarrow> None)"

definition key_wrap_from_uri :: "string \<Rightarrow> KeyWrapAlg res" where
  "key_wrap_from_uri = typed_lookup RoleKeyWrap (\<lambda>a. case a of AKeyWrap v \<Rightarrow> Some v | _ \<Rightarrow> None)"

definition mgf_from_uri :: "string \<Rightarrow> MgfAlg res" where
  "mgf_from_uri = typed_lookup RoleMgf (\<lambda>a. case a of AMgf v \<Rightarrow> Some v | _ \<Rightarrow> None)"

definition curve_from_uri :: "string \<Rightarrow> NamedCurve res" where
  "curve_from_uri = typed_lookup RoleCurve (\<lambda>a. case a of ACurve v \<Rightarrow> Some v | _ \<Rightarrow> None)"

section \<open>Per-algorithm behaviour\<close>

fun message_digest :: "DsSignatureAlgorithm \<Rightarrow> WsSecDigestMethod" where
  "message_digest DsRsaSha256 = Sha256"
| "message_digest DsEcdsaSha256 = Sha256"
| "message_digest DsRsaSha384 = Sha384"
| "message_digest DsEcdsaSha384 = Sha384"
| "message_digest DsRsaSha512 = Sha512"
| "message_digest DsEcdsaSha512 = Sha512"

fun key_family :: "DsSignatureAlgorithm \<Rightarrow> KeyFamily" where
  "key_family DsRsaSha256 = FamilyRsa"
| "key_family DsRsaSha384 = FamilyRsa"
| "key_family DsRsaSha512 = FamilyRsa"
| "key_family DsEcdsaSha256 = FamilyEc"
| "key_family DsEcdsaSha384 = FamilyEc"
| "key_family DsEcdsaSha512 = FamilyEc"

fun output_len :: "WsSecDigestMethod \<Rightarrow> nat" where
  "output_len Sha256 = 32"
| "output_len Sha384 = 48"
| "output_len Sha512 = 64"

fun key_len :: "XmlEncPayloadAlgorithm \<Rightarrow> nat" where
  "key_len Aes128Gcm = 16"
| "key_len Aes256Gcm = 32"

fun kek_len :: "KeyWrapAlg \<Rightarrow> nat" where
  "kek_len KwAes128 = 16"
| "kek_len KwAes192 = 24"
| "kek_len KwAes256 = 32"

definition for_kek_len :: "nat \<Rightarrow> KeyWrapAlg res" where
  "for_kek_len len =
     (if len = 16 then Inr KwAes128 else if len = 24 then Inr KwAes192 else if len = 32 then Inr KwAes256
      else Inl (asx_error InvalidInput (''no AES key wrap algorithm for a '' @ show_nat len @ ''-octet KEK'')
        (context_new ''xmlsec_algorithm_registry'')))"

fun curve_nid :: "NamedCurve \<Rightarrow> Nid" where
  "curve_nid P256 = X9_62_PRIME256V1"
| "curve_nid P384 = SECP384R1"
| "curve_nid P521 = SECP521R1"
| "curve_nid BrainpoolP256r1 = BRAINPOOL_P256R1"
| "curve_nid BrainpoolP384r1 = BRAINPOOL_P384R1"
| "curve_nid BrainpoolP512r1 = BRAINPOOL_P512R1"

text \<open>\<open>nid_debug\<close>: the debug text of an optional NID.\<close>

definition from_group :: "(Nid option \<Rightarrow> string) \<Rightarrow> EcGroup \<Rightarrow> NamedCurve res" where
  "from_group nid_debug grp =
     ok_or (asx_error InteropViolation
         (''unsupported EC curve '' @ nid_debug (curve_name grp) @
          '' (supported: P-256, P-384, P-521, brainpoolP256r1/P384r1/P512r1)'')
         (context_new ''xmlsec_algorithm_registry''))
       (find (\<lambda>curve. Some (curve_nid curve) = curve_name grp)
         [P256, P384, P521, BrainpoolP256r1, BrainpoolP384r1, BrainpoolP512r1])"

fun field_len :: "NamedCurve \<Rightarrow> nat" where
  "field_len P256 = 32"
| "field_len BrainpoolP256r1 = 32"
| "field_len P384 = 48"
| "field_len BrainpoolP384r1 = 48"
| "field_len BrainpoolP512r1 = 64"
| "field_len P521 = 66"

section \<open>ECDSA signature values\<close>

definition order_len :: "EcGroup \<Rightarrow> nat" where
  "order_len grp = (order_bits grp + 7) div 8"

text \<open>OpenSSL's big numbers and the DER codec of a signature.\<close>

record EcdsaLib =
  sig_from_der :: "bytes \<Rightarrow> (int \<times> int) option"
  sig_to_der :: "int \<times> int \<Rightarrow> bytes option"
  bn_num_bytes :: "int \<Rightarrow> nat"
  bn_to_vec_padded :: "int \<Rightarrow> nat \<Rightarrow> bytes option"
  bn_from_slice :: "bytes \<Rightarrow> int option"

definition malformed :: AsxError where
  "malformed = asx_error SecurityVerificationFailed
     (''signing key returned a malformed ECDSA signature: the key seam must return one '' @
      ''ASN.1 DER ECDSA-Sig-Value (SEQUENCE of two minimal non-negative INTEGERs)'')
     (context_new ''xmldsig_ecdsa_der_to_wire'')"

definition i32_max :: nat where
  "i32_max = 2147483647"

definition der_to_wire :: "EcdsaLib \<Rightarrow> bytes \<Rightarrow> nat \<Rightarrow> bytes res" where
  "der_to_wire lib der l =
     rbind (ok_or malformed (sig_from_der lib der)) (\<lambda>(r, s).
     rbind (ok_or malformed (sig_to_der lib (r, s))) (\<lambda>again.
     rbind (check (again = der) malformed) (\<lambda>_.
     rbind (check (\<not> (r < 0 \<or> s < 0)) malformed) (\<lambda>_.
     rbind (check (\<not> (bn_num_bytes lib r > l \<or> bn_num_bytes lib s > l)) malformed) (\<lambda>_.
     rbind (check (l \<le> i32_max) malformed) (\<lambda>_.
     rbind (ok_or malformed (bn_to_vec_padded lib r l)) (\<lambda>wire_r.
     rbind (ok_or malformed (bn_to_vec_padded lib s l)) (\<lambda>wire_s.
       Inr (wire_r @ wire_s)))))))))"

text \<open>The UTF-8 bytes of the concatenation sign.\<close>

definition r_cat_s :: string where
  "r_cat_s = ''r '' @ [CHR 0xE2, CHR 0x80, CHR 0x96] @ '' s, XMLDSig 1.1 '' @ sect ''6.4.3''"

definition wire_to_der :: "EcdsaLib \<Rightarrow> bytes \<Rightarrow> nat \<Rightarrow> bytes res" where
  "wire_to_der lib v l =
     (let to_err = asx_error SecurityVerificationFailed ''ECDSA SignatureValue could not be decoded''
            (context_new ''xmldsig_ecdsa_wire_to_der'') in
      rbind (check (length v = 2 * l) (asx_error SecurityVerificationFailed
          (''ECDSA SignatureValue is '' @ show_nat (length v) @ '' octets; '' @ show_nat (2 * l) @
           '' required ('' @ r_cat_s @ '')'') (context_new ''xmldsig_ecdsa_wire_to_der''))) (\<lambda>_.
      rbind (ok_or to_err (bn_from_slice lib (take l v))) (\<lambda>r.
      rbind (ok_or to_err (bn_from_slice lib (drop l v))) (\<lambda>s.
        ok_or to_err (sig_to_der lib (r, s))))))"

definition ec_order_len :: "DsSignatureAlgorithm \<Rightarrow> X509 \<Rightarrow> nat res" where
  "ec_order_len algorithm cert =
     rbind (ok_or (asx_error SecurityVerificationFailed
         (alg_uri (ASignature algorithm) @ '' requires an EC certificate key'')
         (context_new ''xmldsig_ecdsa_signature_value''))
       (Option.bind (x_public_key cert) pk_ec_key)) (\<lambda>grp. Inr (order_len grp))"

definition to_wire :: "EcdsaLib \<Rightarrow> DsSignatureAlgorithm \<Rightarrow> bytes \<Rightarrow> X509 \<Rightarrow> bytes res" where
  "to_wire lib self raw signer_cert =
     (case key_family self of
        FamilyRsa \<Rightarrow> Inr raw
      | FamilyEc \<Rightarrow> rbind (ec_order_len self signer_cert) (\<lambda>l. der_to_wire lib raw l))"

fun curve_debug :: "NamedCurve \<Rightarrow> string" where
  "curve_debug P256 = ''P256''"
| "curve_debug P384 = ''P384''"
| "curve_debug P521 = ''P521''"
| "curve_debug BrainpoolP256r1 = ''BrainpoolP256r1''"
| "curve_debug BrainpoolP384r1 = ''BrainpoolP384r1''"
| "curve_debug BrainpoolP512r1 = ''BrainpoolP512r1''"

definition from_wire :: "EcdsaLib \<Rightarrow> DsSignatureAlgorithm \<Rightarrow> bytes \<Rightarrow> X509 \<Rightarrow> bytes res" where
  "from_wire lib self v signer_cert =
     (case key_family self of
        FamilyRsa \<Rightarrow> Inr v
      | FamilyEc \<Rightarrow>
          rbind (ec_order_len self signer_cert) (\<lambda>l.
            map_err (\<lambda>err.
              let curve = (case Option.bind (x_public_key signer_cert) pk_ec_key of
                    Some g \<Rightarrow> (case from_group (\<lambda>_. []) g of
                        Inr c \<Rightarrow> curve_debug c
                      | Inl _ \<Rightarrow> ''the signer'' @ [CHR 0x27] @ ''s curve'')
                  | None \<Rightarrow> ''the signer'' @ [CHR 0x27] @ ''s curve'')
              in if length v = 2 * l then err
                 else asx_error SecurityVerificationFailed
                   (''ECDSA SignatureValue is '' @ show_nat (length v) @ '' octets; '' @ curve @
                    '' requires '' @ show_nat (2 * l) @ '' ('' @ r_cat_s @ '')'')
                   (context_new ''xmldsig_ecdsa_signature_value''))
              (wire_to_der lib v l)))"

definition internal_alg :: "SignatureAlgorithm \<Rightarrow> DsSignatureAlgorithm" where
  "internal_alg a = (case a of RsaSha256 \<Rightarrow> DsRsaSha256 | EcdsaSha256 \<Rightarrow> DsEcdsaSha256)"

section \<open>Lemmas\<close>

text \<open>The role of an algorithm, and every algorithm.\<close>

fun alg_role :: "Alg \<Rightarrow> Role" where
  "alg_role (ADigest _) = RoleDigest"
| "alg_role (ASignature _) = RoleSignature"
| "alg_role (AC14n _) = RoleC14n"
| "alg_role (ATransform _) = RoleTransform"
| "alg_role (AKeyTransport _) = RoleKeyTransport"
| "alg_role (AKeyAgreement _) = RoleKeyAgreement"
| "alg_role (AKdf _) = RoleKdf"
| "alg_role (AKeyWrap _) = RoleKeyWrap"
| "alg_role (AContentCipher _) = RoleContentCipher"
| "alg_role (AMgf _) = RoleMgf"
| "alg_role (ACurve _) = RoleCurve"

lemmas uri_defs =
  URI_SHA256_def URI_SHA384_def URI_SHA512_def URI_RSA_SHA256_def URI_RSA_SHA384_def URI_RSA_SHA512_def URI_ECDSA_SHA256_def URI_ECDSA_SHA384_def URI_ECDSA_SHA512_def URI_EXC_C14N_def URI_INC_C14N_def URI_SWA_ATTACHMENT_CONTENT_def URI_ENVELOPED_SIGNATURE_def URI_RSA_OAEP_def URI_ECDH_ES_def URI_CONCAT_KDF_def URI_KW_AES128_def URI_KW_AES192_def URI_KW_AES256_def URI_AES128_GCM_def URI_AES256_GCM_def URI_MGF1_SHA256_def URI_CURVE_P256_def URI_CURVE_P384_def URI_CURVE_P521_def URI_CURVE_BP256R1_def URI_CURVE_BP384R1_def URI_CURVE_BP512R1_def

lemma registry_roles: "(r, u, a) \<in> set REGISTRY \<Longrightarrow> r = alg_role a"
  by (auto simp: REGISTRY_def)

lemma registry_complete: "\<exists>u. (alg_role a, u, a) \<in> set REGISTRY"
proof (cases a)
  case (ATransform t)
  then show ?thesis
    by (cases t; cases "(case t of TC14n k \<Rightarrow> k | _ \<Rightarrow> Exclusive)") (auto simp: REGISTRY_def)
next
  case (ADigest x) then show ?thesis by (cases x) (auto simp: REGISTRY_def)
next
  case (ASignature x) then show ?thesis by (cases x) (auto simp: REGISTRY_def)
next
  case (AC14n x) then show ?thesis by (cases x) (auto simp: REGISTRY_def)
next
  case (AKeyTransport x) then show ?thesis by (cases x) (auto simp: REGISTRY_def)
next
  case (AKeyAgreement x) then show ?thesis by (cases x) (auto simp: REGISTRY_def)
next
  case (AKdf x) then show ?thesis by (cases x) (auto simp: REGISTRY_def)
next
  case (AKeyWrap x) then show ?thesis by (cases x) (auto simp: REGISTRY_def)
next
  case (AContentCipher x) then show ?thesis by (cases x) (auto simp: REGISTRY_def)
next
  case (AMgf x) then show ?thesis by (cases x) (auto simp: REGISTRY_def)
next
  case (ACurve x) then show ?thesis by (cases x) (auto simp: REGISTRY_def)
qed

lemma registry_keys_distinct: "distinct (map (\<lambda>(r, u, a). (r, u)) REGISTRY)"
  by code_simp

lemma registry_algs_distinct: "distinct (map (\<lambda>(r, u, a). a) REGISTRY)"
  by code_simp

lemma find_by_key:
  assumes "distinct (map f xs)" "x \<in> set xs"
  shows "find (\<lambda>y. f y = f x) xs = Some x"
  using assms by (induction xs) (auto simp: image_iff)

lemma alg_lookup_row: "(r, u, a) \<in> set REGISTRY \<Longrightarrow> alg_lookup r u = Inr a"
  using find_by_key [OF registry_keys_distinct, of "(r, u, a)"]
  by (simp add: alg_lookup_def case_prod_unfold)

lemma alg_uri_row: "(r, u, a) \<in> set REGISTRY \<Longrightarrow> alg_uri a = u"
  using find_by_key [OF registry_algs_distinct, of "(r, u, a)"]
  by (simp add: alg_uri_def case_prod_unfold)

lemma find_SomeD: "find P xs = Some x \<Longrightarrow> x \<in> set xs \<and> P x"
  by (induction xs) (auto split: if_splits)

lemma alg_lookup_Inr: "alg_lookup r u = Inr a \<Longrightarrow> (r, u, a) \<in> set REGISTRY"
  by (auto simp: alg_lookup_def res_simps dest!: find_SomeD)

lemma alg_lookup_iff: "alg_lookup r u = Inr a \<longleftrightarrow> r = alg_role a \<and> u = alg_uri a"
proof
  assume "alg_lookup r u = Inr a"
  then have "(r, u, a) \<in> set REGISTRY" by (rule alg_lookup_Inr)
  then show "r = alg_role a \<and> u = alg_uri a" using registry_roles alg_uri_row by metis
next
  assume "r = alg_role a \<and> u = alg_uri a"
  then show "alg_lookup r u = Inr a"
    using registry_complete [of a] alg_uri_row alg_lookup_row by metis
qed

lemma wire_to_der_to_wire:
  assumes pad: "\<And>n. 0 \<le> n \<Longrightarrow> bn_num_bytes lib n \<le> l \<Longrightarrow>
      \<exists>v. bn_to_vec_padded lib n l = Some v \<and> length v = l \<and> bn_from_slice lib v = Some n"
    and ok: "der_to_wire lib der l = Inr w"
  shows "length w = 2 * l \<and> wire_to_der lib w l = Inr der"
proof -
  obtain r s vr vs where d: "sig_to_der lib (r, s) = Some der" "0 \<le> r" "0 \<le> s"
    "bn_num_bytes lib r \<le> l" "bn_num_bytes lib s \<le> l"
    "bn_to_vec_padded lib r l = Some vr" "bn_to_vec_padded lib s l = Some vs" "w = vr @ vs"
    using ok by (auto simp: der_to_wire_def res_simps split: prod.splits)
  moreover have "length vr = l" "bn_from_slice lib vr = Some r" "length vs = l" "bn_from_slice lib vs = Some s"
    using pad [of r] pad [of s] d by auto
  ultimately show ?thesis by (simp add: wire_to_der_def Let_def)
qed

section \<open>Properties\<close>

text \<open>
  The registry reads the same in both directions. An identifier names an algorithm in a role
  exactly when it is the identifier this crate writes for that algorithm and the role is the
  algorithm's; so no identifier has two meanings in one role, every algorithm has a non-empty
  identifier, and every identifier without a row is refused as \<open>InteropViolation\<close>.
\<close>
theorem registry_round_trip:
  "(alg_lookup role u = Inr a \<longleftrightarrow> role = alg_role a \<and> u = alg_uri a) \<and> alg_uri a \<noteq> [] \<and>
   (case alg_lookup role u of
      Inl e \<Rightarrow> err_code e = InteropViolation \<and> (\<nexists>b. role = alg_role b \<and> u = alg_uri b)
    | Inr b \<Rightarrow> True)"
proof -
  have "u' \<noteq> []" if "(r, u', b) \<in> set REGISTRY" for r u' b
    using that by (auto simp: REGISTRY_def uri_defs)
  then have ne: "alg_uri a \<noteq> []" using registry_complete [of a] alg_uri_row by metis
  have "err_code e = InteropViolation" if "alg_lookup role u = Inl e" for e
    using that by (auto simp: alg_lookup_def res_simps unsupported_def)
  moreover have lk: "alg_lookup (alg_role b) (alg_uri b) = Inr b" for b by (simp add: alg_lookup_iff)
  ultimately show ?thesis
    using ne alg_lookup_iff [of role u a] by (auto simp: lk split: sum.splits)
qed

text \<open>
  C15. The two forms of a signature value are inverse. For a big-number library that pads and reads
  back integers of at most \<open>l\<close> octets, what the signing side puts on the wire is twice the order
  length of the signer's curve for an ECDSA method, and the verifying side turns it back into the
  DER value the key seam returned (an RSA value is passed through unchanged).
\<close>
theorem signature_value_round_trip:
  assumes "\<forall>n k. 0 \<le> n \<and> bn_num_bytes lib n \<le> k \<longrightarrow>
      (\<exists>v. bn_to_vec_padded lib n k = Some v \<and> length v = k \<and> bn_from_slice lib v = Some n)"
    and "to_wire lib alg raw cert = Inr w"
  shows "from_wire lib alg w cert = Inr raw \<and>
    (key_family alg = FamilyEc \<longrightarrow>
      (\<exists>key grp. x_public_key cert = Some key \<and> pk_ec_key key = Some grp \<and> length w = 2 * order_len grp))"
proof (cases "key_family alg")
  case FamilyRsa
  then show ?thesis using assms(2) by (simp add: to_wire_def from_wire_def)
next
  case FamilyEc
  then obtain key grp where g: "x_public_key cert = Some key" "pk_ec_key key = Some grp"
    and w: "der_to_wire lib raw (order_len grp) = Inr w"
    using assms(2) by (auto simp: to_wire_def ec_order_len_def res_simps bind_eq_Some_conv)
  have "length w = 2 * order_len grp \<and> wire_to_der lib w (order_len grp) = Inr raw"
    by (rule wire_to_der_to_wire [OF _ w]) (use assms(1) in blast)
  then show ?thesis using FamilyEc g by (simp add: from_wire_def ec_order_len_def)
qed

text \<open>Big-endian integers, and signatures encoded as two two-octet integers.\<close>

fun i2osp :: "int \<Rightarrow> nat \<Rightarrow> bytes" where
  "i2osp n 0 = []"
| "i2osp n (Suc l) = i2osp (n div 256) l @ [word_of_int n]"

definition os2ip :: "bytes \<Rightarrow> int" where
  "os2ip bs = foldl (\<lambda>a b. a * 256 + uint b) 0 bs"

fun num_bytes :: "nat \<Rightarrow> nat" where
  "num_bytes n = (if n = 0 then 0 else Suc (num_bytes (n div 256)))"

declare num_bytes.simps [simp del]

definition demo_ecdsa :: EcdsaLib where
  "demo_ecdsa =
     \<lparr>sig_from_der = (\<lambda>d. if length d = 4 then Some (os2ip (take 2 d), os2ip (drop 2 d)) else None),
      sig_to_der = (\<lambda>(r, s). Some (i2osp r 2 @ i2osp s 2)),
      bn_num_bytes = (\<lambda>n. num_bytes (nat n)),
      bn_to_vec_padded = (\<lambda>n k. Some (i2osp n k)), bn_from_slice = (\<lambda>v. Some (os2ip v))\<rparr>"

lemma length_i2osp [simp]: "length (i2osp n k) = k"
  by (induction n k rule: i2osp.induct) auto

lemma os2ip_snoc: "os2ip (bs @ [b]) = os2ip bs * 256 + uint b"
  by (simp add: os2ip_def)

lemma uint_byte_of_int: "uint (word_of_int n :: 8 word) = n mod 256"
  by (simp add: unsigned_of_int take_bit_eq_mod)

lemma os2ip_i2osp: "0 \<le> n \<Longrightarrow> n < 256 ^ k \<Longrightarrow> os2ip (i2osp n k) = n"
proof (induction n k rule: i2osp.induct)
  case (2 n k)
  have "n div 256 < 256 ^ k" using 2(3) by (simp add: div_less_iff_less_mult mult.commute)
  then show ?case using 2 by (simp add: os2ip_snoc uint_byte_of_int)
qed (simp add: os2ip_def)

lemma num_bytes_bound: "n < 256 ^ num_bytes n"
proof (induction n rule: num_bytes.induct)
  case (1 n)
  then show ?case
    by (cases "n = 0") (simp_all add: num_bytes.simps [of n] div_less_iff_less_mult mult.commute)
qed

theorem signature_value_round_trip_witness:
  "\<exists>w. to_wire demo_ecdsa DsEcdsaSha256 (i2osp 5 2 @ i2osp 7 2)
      \<lparr>x_to_der = Inr [], x_public_key = Some \<lparr>pk_id = Id_EC, pk_bits = 256,
         pk_ec_key = Some \<lparr>curve_name = None, order_bits = 16\<rparr>, pk_spki = []\<rparr>,
       x_subject = [], x_not_before = 0, x_not_after = 0, x_subject_key_id = None,
       x_spk_bits = None, x_crl_sign = None, x_pem = []\<rparr> = Inr w \<and> length w = 4"
proof -
  define cert where "cert = \<lparr>x_to_der = Inr [], x_public_key = Some \<lparr>pk_id = Id_EC, pk_bits = 256,
         pk_ec_key = Some \<lparr>curve_name = None, order_bits = 16\<rparr>, pk_spki = []\<rparr>,
       x_subject = [], x_not_before = 0, x_not_after = 0, x_subject_key_id = None,
       x_spk_bits = None, x_crl_sign = None, x_pem = []\<rparr>"
  have os: "os2ip (i2osp 5 2) = 5" "os2ip (i2osp 7 2) = 7" by (rule os2ip_i2osp; simp)+
  have nb: "num_bytes 5 = 1" "num_bytes 7 = 1" by (simp_all add: num_bytes.simps)
  obtain w where w: "to_wire demo_ecdsa DsEcdsaSha256 (i2osp 5 2 @ i2osp 7 2) cert = Inr w"
    using os nb by (simp add: to_wire_def ec_order_len_def order_len_def der_to_wire_def demo_ecdsa_def
        cert_def i32_max_def)
  have "\<forall>n k. 0 \<le> n \<and> bn_num_bytes demo_ecdsa n \<le> k \<longrightarrow>
      (\<exists>v. bn_to_vec_padded demo_ecdsa n k = Some v \<and> length v = k \<and> bn_from_slice demo_ecdsa v = Some n)"
  proof (intro allI impI)
    fix n :: int and k assume a: "0 \<le> n \<and> bn_num_bytes demo_ecdsa n \<le> k"
    then have "nat n < 256 ^ k"
      using num_bytes_bound [of "nat n"] by (auto simp: demo_ecdsa_def intro: less_le_trans power_increasing)
    with a have "n < 256 ^ k" by (simp add: nat_less_iff)
    with a show "\<exists>v. bn_to_vec_padded demo_ecdsa n k = Some v \<and> length v = k \<and>
        bn_from_slice demo_ecdsa v = Some n"
      by (simp add: demo_ecdsa_def os2ip_i2osp)
  qed
  from signature_value_round_trip [OF this w] w show ?thesis
    unfolding cert_def by (auto simp: order_len_def)
qed

end
