(* ===== verification/Dedup.thy ===== *)
theory Dedup
  imports Asx_Prelude
begin

text \<open>
  Two-phase replay protection (src/dedup.rs): a key is claimed under a lease token and then
  accepted or abandoned under that token. The trait's contract is the locale \<open>dedup_store\<close>, with
  what a client may rely on over any sequence of operations proved inside it; \<open>MemoryDedup\<close> (a map
  under a mutex, so each operation is atomic) is modelled operation by operation and is shown to
  satisfy the contract. An \<open>Instant\<close> is a number of nanoseconds.
\<close>

section \<open>The store's vocabulary\<close>

type_synonym instant = nat

datatype ClaimToken = ClaimToken (token_str: string)

datatype Claim = Claimed ClaimToken | Duplicate | InFlight

section \<open>The contract of a dedup store\<close>

text \<open>
  The operations take the time of the call; \<open>'r\<close> is the randomness a claim draws. \<open>accepted s k n\<close>:
  the store answers a claim of \<open>k\<close> at time \<open>n\<close> as a duplicate; \<open>held s k n t\<close>: \<open>t\<close> is the current,
  unexpired lease of \<open>k\<close> at time \<open>n\<close>.
\<close>

locale dedup_store =
  fixes claim :: "instant \<Rightarrow> 'r \<Rightarrow> string \<Rightarrow> 's \<Rightarrow> (string, Claim) result \<times> 's"
    and accept :: "instant \<Rightarrow> string \<Rightarrow> ClaimToken \<Rightarrow> 's \<Rightarrow> (string, unit) result \<times> 's"
    and abandon :: "instant \<Rightarrow> string \<Rightarrow> ClaimToken \<Rightarrow> 's \<Rightarrow> (string, unit) result \<times> 's"
    and accepted :: "'s \<Rightarrow> string \<Rightarrow> instant \<Rightarrow> bool"
    and held :: "'s \<Rightarrow> string \<Rightarrow> instant \<Rightarrow> ClaimToken \<Rightarrow> bool"
    and retention :: nat
    and lease :: nat
  assumes claim_duplicate: "fst (claim n r k s) = Inr Duplicate \<longleftrightarrow> accepted s k n"
    and claim_in_flight: "fst (claim n r k s) = Inr InFlight \<longleftrightarrow> (\<exists>t. held s k n t)"
    and claim_takes: "claim n r k s = (Inr (Claimed t), s') \<Longrightarrow> n \<le> n' \<Longrightarrow> n' < n + lease \<Longrightarrow> held s' k n' t"
    and claim_keeps_accepted: "n \<le> n' \<Longrightarrow> accepted s k' n' \<Longrightarrow> accepted (snd (claim n r k s)) k' n'"
    and claim_adds_no_accepted: "accepted (snd (claim n r k s)) k' n' \<Longrightarrow> accepted s k' n'"
    and claim_keeps_held: "n \<le> n' \<Longrightarrow> held s k' n' t \<Longrightarrow> held (snd (claim n r k s)) k' n' t"
    and accept_ok: "fst (accept n k t s) = Inr () \<longleftrightarrow> held s k n t"
    and accept_remembers: "fst (accept n k t s) = Inr () \<Longrightarrow> n' < n + retention \<Longrightarrow>
      accepted (snd (accept n k t s)) k n'"
    and accept_stale: "\<not> held s k n t \<Longrightarrow> snd (accept n k t s) = s"
    and accept_other: "k' \<noteq> k \<Longrightarrow> accepted (snd (accept n k t s)) k' n' = accepted s k' n' \<and>
      held (snd (accept n k t s)) k' n' t' = held s k' n' t'"
    and abandon_ok: "fst (abandon n k t s) = Inr () \<longleftrightarrow> held s k n t"
    and abandon_releases: "fst (abandon n k t s) = Inr () \<Longrightarrow>
      \<not> accepted (snd (abandon n k t s)) k n' \<and> \<not> held (snd (abandon n k t s)) k n' t'"
    and abandon_stale: "\<not> held s k n t \<Longrightarrow> snd (abandon n k t s) = s"
    and abandon_other: "k' \<noteq> k \<Longrightarrow> accepted (snd (abandon n k t s)) k' n' = accepted s k' n' \<and>
      held (snd (abandon n k t s)) k' n' t' = held s k' n' t'"
    and not_both: "accepted s k n \<Longrightarrow> \<not> held s k n t"
    and held_unique: "held s k n t \<Longrightarrow> held s k n t' \<Longrightarrow> t = t'"
    and accepted_earlier: "accepted s k n' \<Longrightarrow> n \<le> n' \<Longrightarrow> accepted s k n"
    and held_earlier: "held s k n' t \<Longrightarrow> n \<le> n' \<Longrightarrow> held s k n t"

text \<open>
  Concurrent deliveries interleave whole operations (each runs under the store's lock): an
  execution is a sequence of timed operations. \<open>dedup_step\<close> is one operation, with whether it
  succeeded as an acceptance of its key.
\<close>

datatype 'r dedup_op =
    OpClaim instant 'r string
  | OpAccept instant string ClaimToken
  | OpAbandon instant string ClaimToken

fun op_time :: "'r dedup_op \<Rightarrow> instant" where
  "op_time (OpClaim n r k) = n"
| "op_time (OpAccept n k t) = n"
| "op_time (OpAbandon n k t) = n"

fun dedup_step ::
  "(instant \<Rightarrow> 'r \<Rightarrow> string \<Rightarrow> 's \<Rightarrow> (string, Claim) result \<times> 's) \<Rightarrow>
   (instant \<Rightarrow> string \<Rightarrow> ClaimToken \<Rightarrow> 's \<Rightarrow> (string, unit) result \<times> 's) \<Rightarrow>
   (instant \<Rightarrow> string \<Rightarrow> ClaimToken \<Rightarrow> 's \<Rightarrow> (string, unit) result \<times> 's) \<Rightarrow>
   's \<Rightarrow> 'r dedup_op \<Rightarrow> 's" where
  "dedup_step claim accept abandon s (OpClaim n r k) = snd (claim n r k s)"
| "dedup_step claim accept abandon s (OpAccept n k t) = snd (accept n k t s)"
| "dedup_step claim accept abandon s (OpAbandon n k t) = snd (abandon n k t s)"

definition dedup_run ::
  "(instant \<Rightarrow> 'r \<Rightarrow> string \<Rightarrow> 's \<Rightarrow> (string, Claim) result \<times> 's) \<Rightarrow>
   (instant \<Rightarrow> string \<Rightarrow> ClaimToken \<Rightarrow> 's \<Rightarrow> (string, unit) result \<times> 's) \<Rightarrow>
   (instant \<Rightarrow> string \<Rightarrow> ClaimToken \<Rightarrow> 's \<Rightarrow> (string, unit) result \<times> 's) \<Rightarrow>
   's \<Rightarrow> 'r dedup_op list \<Rightarrow> 's" where
  "dedup_run claim accept abandon = foldl (dedup_step claim accept abandon)"

lemma dedup_run_simps [simp]:
  "dedup_run c a b s [] = s"
  "dedup_run c a b s (x # ops) = dedup_run c a b (dedup_step c a b s x) ops"
  by (simp_all add: dedup_run_def)

text \<open>The operation settles key \<open>k\<close> under token \<open>t\<close>.\<close>

fun settles :: "string \<Rightarrow> ClaimToken \<Rightarrow> 'r dedup_op \<Rightarrow> bool" where
  "settles k t (OpClaim n r j) = False"
| "settles k t (OpAccept n j u) = (j = k \<and> u = t)"
| "settles k t (OpAbandon n j u) = (j = k \<and> u = t)"

context dedup_store
begin

abbreviation run :: "'s \<Rightarrow> 'r dedup_op list \<Rightarrow> 's" where
  "run \<equiv> dedup_run claim accept abandon"

lemma step_keeps_accepted:
  assumes "accepted s k n" "op_time x \<le> n"
  shows "accepted (dedup_step claim accept abandon s x) k n"
proof (cases x)
  case (OpClaim m r j)
  with assms show ?thesis by (simp add: claim_keeps_accepted)
next
  case (OpAccept m j t)
  show ?thesis
  proof (cases "j = k")
    case True
    have "\<not> held s k m t" using assms OpAccept not_both accepted_earlier by auto
    then show ?thesis using assms(1) OpAccept True accept_stale by simp
  next
    case False
    then show ?thesis using assms(1) OpAccept accept_other by simp
  qed
next
  case (OpAbandon m j t)
  show ?thesis
  proof (cases "j = k")
    case True
    have "\<not> held s k m t" using assms OpAbandon not_both accepted_earlier by auto
    then show ?thesis using assms(1) OpAbandon True abandon_stale by simp
  next
    case False
    then show ?thesis using assms(1) OpAbandon abandon_other by simp
  qed
qed

lemma run_keeps_accepted:
  "accepted s k n \<Longrightarrow> (\<forall>x \<in> set ops. op_time x \<le> n) \<Longrightarrow> accepted (run s ops) k n"
  by (induction ops arbitrary: s) (auto intro: step_keeps_accepted)

text \<open>A claim of an accepted key within the retention is a duplicate, whatever ran in between.\<close>

lemma replay_is_duplicate:
  assumes "fst (accept a k t s) = Inr ()" "n < a + retention" "\<forall>x \<in> set ops. op_time x \<le> n"
  shows "fst (claim n r k (run (snd (accept a k t s)) ops)) = Inr Duplicate"
  using assms accept_remembers run_keeps_accepted claim_duplicate by blast

text \<open>Within the retention no other holder can accept or abandon the key.\<close>

lemma settled_once:
  assumes "fst (accept a k t s) = Inr ()" "n < a + retention" "\<forall>x \<in> set ops. op_time x \<le> n"
  shows "fst (accept n k t' (run (snd (accept a k t s)) ops)) \<noteq> Inr ()"
    and "fst (abandon n k t' (run (snd (accept a k t s)) ops)) \<noteq> Inr ()"
proof -
  have "accepted (run (snd (accept a k t s)) ops) k n"
    using assms accept_remembers run_keeps_accepted by blast
  then have "\<not> held (run (snd (accept a k t s)) ops) k n t'" by (rule not_both)
  then show "fst (accept n k t' (run (snd (accept a k t s)) ops)) \<noteq> Inr ()"
    and "fst (abandon n k t' (run (snd (accept a k t s)) ops)) \<noteq> Inr ()"
    by (simp_all add: accept_ok abandon_ok)
qed

text \<open>
  A lease is exclusive: until it expires or its own token settles it, no other delivery takes the
  key, and no other token settles it.
\<close>

lemma step_keeps_held:
  assumes "held s k n t" "op_time x \<le> n" "\<not> settles k t x"
  shows "held (dedup_step claim accept abandon s x) k n t"
proof (cases x)
  case (OpClaim m r j)
  with assms show ?thesis by (simp add: claim_keeps_held)
next
  case (OpAccept m j t')
  show ?thesis
  proof (cases "j = k")
    case True
    with assms(3) OpAccept have "t' \<noteq> t" by auto
    then have "\<not> held s k m t'" using assms OpAccept held_unique held_earlier by fastforce
    then show ?thesis using assms(1) OpAccept True accept_stale by simp
  next
    case False
    then show ?thesis using assms(1) OpAccept accept_other by simp
  qed
next
  case (OpAbandon m j t')
  show ?thesis
  proof (cases "j = k")
    case True
    with assms(3) OpAbandon have "t' \<noteq> t" by auto
    then have "\<not> held s k m t'" using assms OpAbandon held_unique held_earlier by fastforce
    then show ?thesis using assms(1) OpAbandon True abandon_stale by simp
  next
    case False
    then show ?thesis using assms(1) OpAbandon abandon_other by simp
  qed
qed

lemma run_keeps_held:
  "held s k n t \<Longrightarrow> (\<forall>x \<in> set ops. op_time x \<le> n \<and> \<not> settles k t x) \<Longrightarrow> held (run s ops) k n t"
  by (induction ops arbitrary: s) (auto intro: step_keeps_held)

lemma lease_exclusive:
  assumes "claim a r k s = (Inr (Claimed t), s')" "a \<le> n" "n < a + lease"
    "\<forall>x \<in> set ops. op_time x \<le> n \<and> \<not> settles k t x"
  shows "fst (claim n r' k (run s' ops)) = Inr InFlight"
    and "fst (accept n k t (run s' ops)) = Inr ()"
    and "t' \<noteq> t \<Longrightarrow> fst (accept n k t' (run s' ops)) \<noteq> Inr () \<and>
           fst (abandon n k t' (run s' ops)) \<noteq> Inr ()"
proof -
  have h: "held (run s' ops) k n t"
    using assms claim_takes run_keeps_held by blast
  show "fst (claim n r' k (run s' ops)) = Inr InFlight" using h claim_in_flight by blast
  show "fst (accept n k t (run s' ops)) = Inr ()" using h accept_ok by blast
  show "fst (accept n k t' (run s' ops)) \<noteq> Inr () \<and> fst (abandon n k t' (run s' ops)) \<noteq> Inr ()"
    if "t' \<noteq> t" using h that held_unique accept_ok abandon_ok by blast
qed

end

section \<open>The in-memory store\<close>

datatype Entry = Held (entry_token: ClaimToken) (until: instant) | Accepted (until: instant)

type_synonym memory_dedup = "string \<rightharpoonup> Entry"

definition MIN_RETENTION :: nat where
  "MIN_RETENTION = 7 * 24 * 60 * 60 * 1000000000"

definition LEASE :: nat where
  "LEASE = 5 * 60 * 1000000000"

definition RETENTION :: nat where
  "RETENTION = MIN_RETENTION"

text \<open>\<open>getrandom::fill\<close> is a parameter: sixteen random bytes, or an error.\<close>

definition fresh_token :: "(string, 8 word list) result \<Rightarrow> (string, string) result" where
  "fresh_token rnd =
     (case rnd of Inl err \<Rightarrow> Inl (''no randomness for a claim token: '' @ err)
      | Inr bytes \<Rightarrow> Inr (hex bytes))"

definition retain_unexpired :: "instant \<Rightarrow> memory_dedup \<Rightarrow> memory_dedup" where
  "retain_unexpired now entries =
     (\<lambda>k. case entries k of Some e \<Rightarrow> if until e > now then Some e else None | None \<Rightarrow> None)"

definition claim_now ::
  "instant \<Rightarrow> (string, 8 word list) result \<Rightarrow> string \<Rightarrow> memory_dedup \<Rightarrow>
   (string, Claim) result \<times> memory_dedup" where
  "claim_now now rnd key entries =
     (let entries = retain_unexpired now entries in
      case entries key of
        Some (Accepted _) \<Rightarrow> (Inr Duplicate, entries)
      | Some (Held _ _) \<Rightarrow> (Inr InFlight, entries)
      | None \<Rightarrow>
          (case fresh_token rnd of
             Inl e \<Rightarrow> (Inl e, entries)
           | Inr t \<Rightarrow> (Inr (Claimed (ClaimToken t)),
                       entries(key \<mapsto> Held (ClaimToken t) (now + LEASE)))))"

definition settle ::
  "bool \<Rightarrow> instant \<Rightarrow> string \<Rightarrow> ClaimToken \<Rightarrow> memory_dedup \<Rightarrow> (string, unit) result \<times> memory_dedup" where
  "settle accept now key token entries =
     (let stale = (Inl ''the claim is not held under this token (lease expired or settled)'', entries) in
      case entries key of
        Some (Held h u) \<Rightarrow>
          if h = token \<and> u > now then
            (Inr (), if accept then entries(key \<mapsto> Accepted (now + RETENTION)) else entries(key := None))
          else stale
      | _ \<Rightarrow> stale)"

text \<open>What the map says of a key at a time.\<close>

definition mem_accepted :: "memory_dedup \<Rightarrow> string \<Rightarrow> instant \<Rightarrow> bool" where
  "mem_accepted m k n \<longleftrightarrow> (case m k of Some (Accepted u) \<Rightarrow> u > n | _ \<Rightarrow> False)"

definition mem_held :: "memory_dedup \<Rightarrow> string \<Rightarrow> instant \<Rightarrow> ClaimToken \<Rightarrow> bool" where
  "mem_held m k n t \<longleftrightarrow> (case m k of Some (Held h u) \<Rightarrow> h = t \<and> u > n | _ \<Rightarrow> False)"

lemmas mem_defs = mem_accepted_def mem_held_def claim_now_def settle_def retain_unexpired_def Let_def

interpretation mem: dedup_store claim_now "settle True" "settle False" mem_accepted mem_held
  RETENTION LEASE
proof unfold_locales
  fix n r k s
  show "fst (claim_now n r k s) = Inr Duplicate \<longleftrightarrow> mem_accepted s k n"
    by (auto simp: mem_defs split: option.splits Entry.splits sum.splits if_splits)
  show "fst (claim_now n r k s) = Inr InFlight \<longleftrightarrow> (\<exists>t. mem_held s k n t)"
    by (auto simp: mem_defs split: option.splits Entry.splits sum.splits if_splits)
next
  fix n r k s t s' n'
  assume "claim_now n r k s = (Inr (Claimed t), s')" "n \<le> n'" "n' < n + LEASE"
  then show "mem_held s' k n' t"
    by (auto simp: mem_defs split: option.splits Entry.splits sum.splits if_splits)
next
  fix n n' s k' r k assume "n \<le> n'" "mem_accepted s k' n'"
  then show "mem_accepted (snd (claim_now n r k s)) k' n'"
    by (auto simp: mem_defs split: option.splits Entry.splits sum.splits if_splits)
next
  fix n r k s k' n' assume "mem_accepted (snd (claim_now n r k s)) k' n'"
  then show "mem_accepted s k' n'"
    by (auto simp: mem_defs split: option.splits Entry.splits sum.splits if_splits)
next
  fix n n' s k' t r k assume "n \<le> n'" "mem_held s k' n' t"
  then show "mem_held (snd (claim_now n r k s)) k' n' t"
    by (auto simp: mem_defs split: option.splits Entry.splits sum.splits if_splits)
qed (auto simp: mem_defs split: option.splits Entry.splits if_splits)

section \<open>The dedup key\<close>

datatype DedupProtocol = As4Key | As2Key

definition bytes_of :: "string \<Rightarrow> 8 word list" where
  "bytes_of s = map (\<lambda>c. word_of_nat (byte c)) s"

fun key_protocol :: "DedupProtocol \<Rightarrow> string" where
  "key_protocol As4Key = ''as4''"
| "key_protocol As2Key = ''as2''"

text \<open>The bytes fed to the hash, and the key; SHA-256 is a parameter.\<close>

definition dedup_preimage :: "DedupProtocol \<Rightarrow> string \<Rightarrow> string \<Rightarrow> string \<Rightarrow> 8 word list" where
  "dedup_preimage protocol sender_type sender_id message_id =
     bytes_of ''asx-dedup-v1'' @
     concat (map (\<lambda>part. 0 # bytes_of part)
       [key_protocol protocol, sender_type, sender_id, message_id])"

definition dedup_key ::
  "(8 word list \<Rightarrow> 8 word list) \<Rightarrow> DedupProtocol \<Rightarrow> string \<Rightarrow> string \<Rightarrow> string \<Rightarrow> string" where
  "dedup_key sha256 protocol sender_type sender_id message_id =
     hex (sha256 (dedup_preimage protocol sender_type sender_id message_id))"

lemma bytes_of_inj: "bytes_of a = bytes_of b \<longleftrightarrow> a = b"
proof -
  have "inj (\<lambda>c. word_of_nat (byte c) :: 8 word)"
    by (rule injI) (auto dest!: arg_cong [where f = unat] simp: unat_of_nat)
  then show ?thesis unfolding bytes_of_def by (metis inj_map_eq_map)
qed

lemma zero_in_bytes_of: "0 \<in> set (bytes_of s) \<longleftrightarrow> CHR 0x00 \<in> set s"
proof -
  have "(word_of_nat (byte c) :: 8 word) = 0 \<longleftrightarrow> c = CHR 0x00" for c
  proof -
    have "(word_of_nat (byte c) :: 8 word) = 0 \<longleftrightarrow> byte c = 0"
      using byte_less [of c] by (auto simp: word_eq_iff_unsigned dest!: arg_cong [where f = unat] simp: unat_of_nat)
    also have "\<dots> \<longleftrightarrow> byte c = byte CHR 0x00" by (simp add: byte_def)
    finally show ?thesis by simp
  qed
  then show ?thesis by (auto simp: bytes_of_def image_iff)
qed

lemma split_at_zero:
  assumes "a @ (0 :: 8 word) # x = b @ 0 # y" "0 \<notin> set a" "0 \<notin> set b"
  shows "a = b \<and> x = y"
  using assms
proof (induction a arbitrary: b)
  case Nil
  then show ?case by (cases b) auto
next
  case (Cons c a)
  then show ?case by (cases b) auto
qed

lemma dedup_preimage_inj:
  assumes "CHR 0x00 \<notin> set ty \<union> set i" "CHR 0x00 \<notin> set ty' \<union> set i'"
    and "dedup_preimage p ty i m = dedup_preimage p' ty' i' m'"
  shows "p = p' \<and> ty = ty' \<and> i = i' \<and> m = m'"
proof -
  have zero: "0 \<notin> set (bytes_of (key_protocol q))" for q
    by (cases q) (auto simp: zero_in_bytes_of)
  have "bytes_of (key_protocol p) @ 0 # bytes_of ty @ 0 # bytes_of i @ 0 # bytes_of m =
      bytes_of (key_protocol p') @ 0 # bytes_of ty' @ 0 # bytes_of i' @ 0 # bytes_of m'"
    using assms(3) by (simp add: dedup_preimage_def)
  then have 1: "bytes_of (key_protocol p) = bytes_of (key_protocol p')"
    and "bytes_of ty @ 0 # bytes_of i @ 0 # bytes_of m = bytes_of ty' @ 0 # bytes_of i' @ 0 # bytes_of m'"
    using split_at_zero zero by blast+
  then have 2: "bytes_of ty = bytes_of ty'"
    and "bytes_of i @ 0 # bytes_of m = bytes_of i' @ 0 # bytes_of m'"
    using split_at_zero assms(1,2) zero_in_bytes_of by blast+
  then have 3: "bytes_of i = bytes_of i'" "bytes_of m = bytes_of m'"
    using split_at_zero assms(1,2) zero_in_bytes_of by blast+
  from 1 have "p = p'" by (cases p; cases p') (auto simp: bytes_of_inj)
  with 2 3 show ?thesis by (simp add: bytes_of_inj)
qed

section \<open>Properties\<close>

text \<open>
  C5. Replay protection of the in-memory store. After \<open>accept\<close> succeeded at time \<open>a\<close>, then whatever
  operations other deliveries interleave (claims, settlements of this or any key, under any
  token, in any order) up to a time \<open>n\<close> within the retention of seven days, a claim of the key at
  \<open>n\<close> is answered \<open>Duplicate\<close> and no settlement of the key succeeds: the handler runs at most once
  to acceptance.
\<close>
theorem accepted_key_stays_duplicate:
  assumes "fst (settle True a k t m) = Inr ()" and "n < a + MIN_RETENTION"
    and "\<forall>x \<in> set ops. op_time x \<le> n"
  shows "fst (claim_now n rnd k
           (dedup_run claim_now (settle True) (settle False) (snd (settle True a k t m)) ops)) = Inr Duplicate
       \<and> fst (settle b n k t'
           (dedup_run claim_now (settle True) (settle False) (snd (settle True a k t m)) ops)) \<noteq> Inr ()"
proof -
  have r: "n < a + RETENTION" using assms(2) by (simp add: RETENTION_def)
  show ?thesis
    using mem.replay_is_duplicate [OF assms(1) r assms(3)] mem.settled_once [OF assms(1) r assms(3)]
    by (cases b) auto
qed

theorem accepted_key_stays_duplicate_witness:
  "let m = snd (claim_now 5 (Inr [1]) ''k'' Map.empty); m' = snd (settle True 7 ''k'' (ClaimToken ''01'') m)
   in fst (settle True 7 ''k'' (ClaimToken ''01'') m) = Inr () \<and>
      fst (claim_now 1000 (Inr [2]) ''k''
        (dedup_run claim_now (settle True) (settle False) m'
          [OpClaim 8 (Inr [3]) ''k'', OpAbandon 900 ''k'' (ClaimToken ''01'')])) = Inr Duplicate"
proof -
  define m where "m = snd (claim_now 5 (Inr [1]) ''k'' Map.empty)"
  have tok: "hex [1] = ''01''" by code_simp
  have "fst (settle True 7 ''k'' (ClaimToken ''01'') m) = Inr ()"
    by (simp add: m_def claim_now_def settle_def retain_unexpired_def fresh_token_def LEASE_def tok)
  with accepted_key_stays_duplicate [of 7 "''k''" "ClaimToken ''01''" m 1000
      "[OpClaim 8 (Inr [3]) ''k'', OpAbandon 900 ''k'' (ClaimToken ''01'')]" "Inr [2]"]
  show ?thesis by (simp add: m_def [symmetric] MIN_RETENTION_def)
qed

text \<open>
  C6. A lease of the in-memory store is exclusive and fenced. From a successful claim until the
  lease of five minutes ends, and as long as its own token does not settle it, every other claim of
  the key is answered \<open>InFlight\<close>, the holder's \<open>accept\<close> succeeds, and \<open>accept\<close> or \<open>abandon\<close> under any
  other token fails, whatever operations are interleaved.
\<close>
theorem lease_is_exclusive:
  assumes "claim_now a rnd k m = (Inr (Claimed t), m')" and "a \<le> n" and "n < a + LEASE"
    and "\<forall>x \<in> set ops. op_time x \<le> n \<and> \<not> settles k t x"
  shows "let s = dedup_run claim_now (settle True) (settle False) m' ops in
    fst (claim_now n rnd' k s) = Inr InFlight \<and> fst (settle True n k t s) = Inr () \<and>
    (t' \<noteq> t \<longrightarrow> fst (settle b n k t' s) \<noteq> Inr () \<and> snd (settle b n k t' s) = s)"
proof -
  define s where "s = dedup_run claim_now (settle True) (settle False) m' ops"
  note l = mem.lease_exclusive [OF assms, folded s_def]
  have "snd (settle b n k t' s) = s" if "fst (settle b n k t' s) \<noteq> Inr ()"
    using that by (auto simp: settle_def Let_def split: option.splits Entry.splits if_splits)
  with l show ?thesis unfolding Let_def s_def [symmetric] by (cases b) auto
qed

theorem lease_is_exclusive_witness:
  "fst (claim_now 9 (Inr [7]) ''k'' (snd (claim_now 5 (Inr [1]) ''k'' Map.empty))) = Inr InFlight"
proof -
  have "claim_now 5 (Inr [1]) ''k'' Map.empty =
      (Inr (Claimed (ClaimToken (hex [1]))), snd (claim_now 5 (Inr [1]) ''k'' Map.empty))"
    by (simp add: claim_now_def retain_unexpired_def fresh_token_def)
  from lease_is_exclusive [OF this, of 9 "[]" "Inr [7]"]
  show ?thesis by (simp add: LEASE_def Let_def)
qed

text \<open>
  C17. The dedup key identifies the message: for sender types and ids without a NUL byte (XML text
  and AS2 identifiers have none), equal keys mean equal protocol, sender type, sender id and
  message id, unless the two hash inputs are a SHA-256 collision.
\<close>
theorem dedup_key_identifies:
  assumes "CHR 0x00 \<notin> set ty \<union> set i" and "CHR 0x00 \<notin> set ty' \<union> set i'"
    and "dedup_key sha256 p ty i m = dedup_key sha256 p' ty' i' m'"
  shows "(p = p' \<and> ty = ty' \<and> i = i' \<and> m = m') \<or>
    (dedup_preimage p ty i m \<noteq> dedup_preimage p' ty' i' m' \<and>
     sha256 (dedup_preimage p ty i m) = sha256 (dedup_preimage p' ty' i' m'))"
  using assms dedup_preimage_inj by (auto simp: dedup_key_def hex_inj)

theorem dedup_key_identifies_witness:
  "dedup_key id As4Key ''t'' ''sender'' ''m'' = dedup_key id As4Key ''t'' ''sender'' ''m'' \<and>
   dedup_key id As4Key ''ab'' ''c'' ''m'' \<noteq> dedup_key id As4Key ''a'' ''bc'' ''m''"
  using dedup_key_identifies [of "''ab''" "''c''" "''a''" "''bc''" id As4Key "''m''" As4Key "''m''"]
  by auto

end
