(* ===== verification/Profile.thy ===== *)
theory Profile
  imports Crypto_Alg Dedup
begin

text \<open>
  Network profiles, the only source of security settings (src/profile.rs), with the parties they are
  applied to (src/party.rs) and the policy views the pipelines read (src/as4/types/push_policy.rs,
  src/as4/types/send_policy.rs, src/as4/receipt_verify.rs). A \<open>Profile\<close> is a preset name with an optional
  tighter size limit; every setting is a function of the preset. Durations are in seconds.
\<close>

section \<open>Constants\<close>

definition CEILING :: nat where
  "CEILING = 256 * 1024 * 1024"

definition BDEW_PARTY_TYPES :: "string list" where
  "BDEW_PARTY_TYPES =
     [''urn:oasis:names:tc:ebcore:partyid-type:iso6523:0088'',
      ''urn:oasis:names:tc:ebcore:partyid-type:unregistered:BDEW'',
      ''urn:oasis:names:tc:ebcore:partyid-type:unregistered:DVGW'',
      ''urn:oasis:names:tc:ebcore:partyid-type:unregistered:BAHN'']"

definition BDEW_SERVICES :: "string list" where
  "BDEW_SERVICES =
     [''https://www.bdew.de/as4/communication/services/MP'',
      ''https://www.bdew.de/as4/communication/services/FP'',
      ''https://www.bdew.de/as4/communication/services/RD'',
      ''https://www.bdew.de/as4/communication/services/KW'',
      ''https://www.bdew.de/as4/communication/services/SO'']"

definition PATH_SWITCH_SERVICE :: string where
  "PATH_SWITCH_SERVICE = ''https://www.bdew.de/as4/communication/services/pathSwitch''"

definition REQUEST_SWITCH_ACTION :: string where
  "REQUEST_SWITCH_ACTION = ''https://www.bdew.de/as4/communication/actions/requestSwitch''"

definition CONFIRM_SWITCH_ACTION :: string where
  "CONFIRM_SWITCH_ACTION = ''https://www.bdew.de/as4/communication/actions/confirmSwitch''"

definition BDEW_AGREEMENT :: string where
  "BDEW_AGREEMENT = ''https://www.bdew.de/as4/communication/agreement''"

definition PEPPOL_AGREEMENT :: string where
  "PEPPOL_AGREEMENT = ''urn:fdc:peppol.eu:2017:agreements:tia:ap_provider''"

definition PEPPOL_PARTY_TYPE :: string where
  "PEPPOL_PARTY_TYPE = ''urn:fdc:peppol.eu:2017:identifiers:ap''"

definition DEFAULT_ACTION :: string where
  "DEFAULT_ACTION = ''http://docs.oasis-open.org/ebxml-msg/as4/200902/action''"

definition INITIATOR_ROLE :: string where
  "INITIATOR_ROLE = ''http://docs.oasis-open.org/ebxml-msg/ebms/v3.0/ns/core/200704/initiator''"

definition RESPONDER_ROLE :: string where
  "RESPONDER_ROLE = ''http://docs.oasis-open.org/ebxml-msg/ebms/v3.0/ns/core/200704/responder''"

definition TEST_SERVICE :: string where
  "TEST_SERVICE = ''http://docs.oasis-open.org/ebxml-msg/ebms/v3.0/ns/core/200704/service''"

definition TEST_ACTION :: string where
  "TEST_ACTION = ''http://docs.oasis-open.org/ebxml-msg/ebms/v3.0/ns/core/200704/test''"

section \<open>Presets\<close>

datatype ProfileId = Bdew12 | Peppol203 | Edelivery115 | Entsog36 | As2Profile

datatype Protocol = As4 | As2

record Profile =
  pr_id :: ProfileId
  pr_max_message_bytes :: "nat option"

datatype SenderRule = AnchorAndSubject | AnchorAndCn | RegisteredOnly

datatype TokenRef = PkiPath | X509v3

datatype KeyRule = EcCurve Nid | RsaMin nat | RsaOrEc nat "Nid list"

fun allows :: "KeyRule \<Rightarrow> KeyKind \<Rightarrow> bool" where
  "allows (EcCurve want) (Ec (Some have_curve)) = (want = have_curve)"
| "allows (RsaMin mn) (Rsa bits) = (bits \<ge> mn)"
| "allows (RsaOrEc rsa_min _) (Rsa bits) = (bits \<ge> rsa_min)"
| "allows (RsaOrEc _ curves) (Ec (Some have_curve)) = (have_curve \<in> set curves)"
| "allows _ _ = False"

fun rule_describe :: "'k Ossl \<Rightarrow> KeyRule \<Rightarrow> string" where
  "rule_describe lib (EcCurve nid) = ''EC '' @ (case os_short_name lib nid of Some n \<Rightarrow> n | None \<Rightarrow> ''?'')"
| "rule_describe lib (RsaMin mn) = ''RSA >= '' @ show_nat mn"
| "rule_describe lib (RsaOrEc rsa_min _) = ''RSA >= '' @ show_nat rsa_min @ '' or EC P-256/P-384''"

datatype PartyTypeRule = PtOneOf "string list" | PtFixed string | PtCallerSet

datatype ServiceRule = SvOneOf "string list" | SvRequired

definition AS2_CURVES :: "Nid list" where
  "AS2_CURVES = [X9_62_PRIME256V1, SECP384R1]"

definition preset :: "ProfileId \<Rightarrow> Profile" where
  "preset i = \<lparr>pr_id = i, pr_max_message_bytes = None\<rparr>"

definition max_message_bytes :: "nat \<Rightarrow> Profile \<Rightarrow> Profile" where
  "max_message_bytes n p = p\<lparr>pr_max_message_bytes := Some n\<rparr>"

definition profile_name :: "Profile \<Rightarrow> string" where
  "profile_name p =
     (case pr_id p of
        Bdew12 \<Rightarrow> ''bdew-1.2'' | Peppol203 \<Rightarrow> ''peppol-2.0.3'' | Edelivery115 \<Rightarrow> ''edelivery-1.15''
      | Entsog36 \<Rightarrow> ''entsog-3.6'' | As2Profile \<Rightarrow> ''as2'')"

definition citation :: "Profile \<Rightarrow> string" where
  "citation p =
     (case pr_id p of
        Bdew12 \<Rightarrow> ''BDEW AS4-Profil 1.2'' | Peppol203 \<Rightarrow> ''Peppol AS4 Profile 2.0.3''
      | Edelivery115 \<Rightarrow> ''eDelivery AS4 1.15'' | Entsog36 \<Rightarrow> ''ENTSOG AS4 Usage Profile 3.6''
      | As2Profile \<Rightarrow> ''RFC 4130'')"

definition protocol :: "Profile \<Rightarrow> Protocol" where
  "protocol p = (case pr_id p of As2Profile \<Rightarrow> As2 | _ \<Rightarrow> As4)"

definition ceiling_bytes :: "Profile \<Rightarrow> nat" where
  "ceiling_bytes p = CEILING"

definition requested_max :: "Profile \<Rightarrow> nat option" where
  "requested_max p = pr_max_message_bytes p"

definition max_bytes :: "Profile \<Rightarrow> nat" where
  "max_bytes p = min (case pr_max_message_bytes p of Some n \<Rightarrow> n | None \<Rightarrow> CEILING) CEILING"

definition sender_rule :: "Profile \<Rightarrow> SenderRule" where
  "sender_rule p =
     (case pr_id p of Bdew12 \<Rightarrow> AnchorAndSubject | Peppol203 \<Rightarrow> AnchorAndCn | _ \<Rightarrow> RegisteredOnly)"

definition signer_keys :: "Profile \<Rightarrow> KeyRule" where
  "signer_keys p =
     (case pr_id p of
        Bdew12 \<Rightarrow> EcCurve BRAINPOOL_P256R1 | As2Profile \<Rightarrow> RsaOrEc 2048 AS2_CURVES | _ \<Rightarrow> RsaMin 2048)"

definition decrypter_keys :: "Profile \<Rightarrow> KeyRule" where
  "decrypter_keys p = (case pr_id p of Bdew12 \<Rightarrow> EcCurve BRAINPOOL_P256R1 | _ \<Rightarrow> RsaMin 2048)"

definition signature_algorithm :: "Profile \<Rightarrow> SignatureAlgorithm" where
  "signature_algorithm p = (case pr_id p of Bdew12 \<Rightarrow> EcdsaSha256 | _ \<Rightarrow> RsaSha256)"

definition token_ref :: "Profile \<Rightarrow> TokenRef" where
  "token_ref p = (case pr_id p of Bdew12 \<Rightarrow> PkiPath | _ \<Rightarrow> X509v3)"

datatype RecipientForm = Bst | Ski

definition recipient_form :: "Profile \<Rightarrow> RecipientForm" where
  "recipient_form p = (case pr_id p of Bdew12 \<Rightarrow> Ski | _ \<Rightarrow> Bst)"

record Suite =
  key_method :: string
  agreement :: "(string \<times> string \<times> string) option"
  content :: string

definition encryption_suite :: "Profile \<Rightarrow> Suite" where
  "encryption_suite p =
     (let c = alg_uri (AContentCipher Aes128Gcm) in
      case pr_id p of
        Bdew12 \<Rightarrow>
          \<lparr>key_method = alg_uri (AKeyWrap KwAes128),
           agreement = Some (alg_uri (AKeyAgreement EcdhEs), alg_uri (AKdf ConcatKdf), alg_uri (ADigest Sha256)),
           content = c\<rparr>
      | _ \<Rightarrow> \<lparr>key_method = alg_uri (AKeyTransport KtRsaOaep), agreement = None, content = c\<rparr>)"

definition separate_keys :: "Profile \<Rightarrow> bool" where
  "separate_keys p \<longleftrightarrow> pr_id p = Bdew12"

definition compress :: "Profile \<Rightarrow> bool" where
  "compress p \<longleftrightarrow> protocol p = As4"

definition filename_allowed :: "Profile \<Rightarrow> bool" where
  "filename_allowed p \<longleftrightarrow> pr_id p \<noteq> Peppol203"

definition fixed_part_type :: "Profile \<Rightarrow> string option" where
  "fixed_part_type p = (if pr_id p = Bdew12 then Some ''application/octet-stream'' else None)"

definition fixed_action :: "Profile \<Rightarrow> string option" where
  "fixed_action p = (if pr_id p = Bdew12 then Some DEFAULT_ACTION else None)"

definition service_rule :: "Profile \<Rightarrow> ServiceRule" where
  "service_rule p = (case pr_id p of Bdew12 \<Rightarrow> SvOneOf BDEW_SERVICES | _ \<Rightarrow> SvRequired)"

definition path_switch :: "Profile \<Rightarrow> bool" where
  "path_switch p \<longleftrightarrow> pr_id p = Bdew12"

definition conversation_id_allowed :: "Profile \<Rightarrow> bool" where
  "conversation_id_allowed p \<longleftrightarrow> pr_id p \<noteq> Bdew12"

definition agreement_ref :: "Profile \<Rightarrow> string option" where
  "agreement_ref p =
     (case pr_id p of Bdew12 \<Rightarrow> Some BDEW_AGREEMENT | Peppol203 \<Rightarrow> Some PEPPOL_AGREEMENT | _ \<Rightarrow> None)"

definition party_types :: "Profile \<Rightarrow> PartyTypeRule" where
  "party_types p =
     (case pr_id p of
        Bdew12 \<Rightarrow> PtOneOf BDEW_PARTY_TYPES | Peppol203 \<Rightarrow> PtFixed PEPPOL_PARTY_TYPE | _ \<Rightarrow> PtCallerSet)"

datatype Quirk = UnsignedMdn | ReceiptWithoutNonRepudiation

fun quirk_protocol :: "Quirk \<Rightarrow> Protocol" where
  "quirk_protocol UnsignedMdn = As2"
| "quirk_protocol ReceiptWithoutNonRepudiation = As4"

fun quirk_name :: "Quirk \<Rightarrow> string" where
  "quirk_name UnsignedMdn = ''unsigned_mdn''"
| "quirk_name ReceiptWithoutNonRepudiation = ''receipt_without_non_repudiation''"

section \<open>Parties (party.rs)\<close>

text \<open>A signer by its certificate chain and a decrypter by its certificate, with the key pair where
  it is in memory.\<close>

record 'k LocalDecrypter =
  ld_certificate :: Certificate
  ld_key_pair :: "'k KeyPair option"

record 'k LocalParty =
  lp_id :: string
  lp_party_type :: "string option"
  lp_signers :: "Certificate list list"
  lp_decrypters :: "'k LocalDecrypter list"
  lp_tls :: "'k KeyPair option"

definition local_party_new :: "string \<Rightarrow> 'k LocalParty" where
  "local_party_new i = \<lparr>lp_id = i, lp_party_type = None, lp_signers = [], lp_decrypters = [], lp_tls = None\<rparr>"

definition local_party_type :: "string \<Rightarrow> 'k LocalParty \<Rightarrow> 'k LocalParty" where
  "local_party_type t l = l\<lparr>lp_party_type := Some t\<rparr>"

definition local_signer :: "Certificate list \<Rightarrow> 'k LocalParty \<Rightarrow> 'k LocalParty" where
  "local_signer chain l = l\<lparr>lp_signers := lp_signers l @ [chain]\<rparr>"

definition local_decrypter :: "'k LocalDecrypter \<Rightarrow> 'k LocalParty \<Rightarrow> 'k LocalParty" where
  "local_decrypter d l = l\<lparr>lp_decrypters := lp_decrypters l @ [d]\<rparr>"

definition tls_identity :: "'k KeyPair \<Rightarrow> 'k LocalParty \<Rightarrow> 'k LocalParty" where
  "tls_identity kp l = l\<lparr>lp_tls := Some kp\<rparr>"

record Partner =
  pa_id :: string
  pa_party_type :: "string option"
  pa_endpoint :: "string option"
  pa_signing :: "Certificate list"
  pa_encryption :: "Certificate option"
  pa_quirks :: "Quirk list"

definition partner_new :: "string \<Rightarrow> Partner" where
  "partner_new i = \<lparr>pa_id = i, pa_party_type = None, pa_endpoint = None, pa_signing = [],
     pa_encryption = None, pa_quirks = []\<rparr>"

definition partner_type :: "string \<Rightarrow> Partner \<Rightarrow> Partner" where
  "partner_type t p = p\<lparr>pa_party_type := Some t\<rparr>"

definition partner_endpoint :: "string \<Rightarrow> Partner \<Rightarrow> Partner" where
  "partner_endpoint url p = p\<lparr>pa_endpoint := Some url\<rparr>"

definition partner_signing_cert :: "Certificate \<Rightarrow> Partner \<Rightarrow> Partner" where
  "partner_signing_cert c p = p\<lparr>pa_signing := pa_signing p @ [c]\<rparr>"

definition partner_encryption_cert :: "Certificate \<Rightarrow> Partner \<Rightarrow> Partner" where
  "partner_encryption_cert c p = p\<lparr>pa_encryption := Some c\<rparr>"

definition partner_quirk :: "Quirk \<Rightarrow> Partner \<Rightarrow> Partner" where
  "partner_quirk q p = (if q \<notin> set (pa_quirks p) then p\<lparr>pa_quirks := pa_quirks p @ [q]\<rparr> else p)"

definition partner_key :: "Partner \<Rightarrow> string option \<times> string" where
  "partner_key p = (pa_party_type p, pa_id p)"

section \<open>Resolved policies\<close>

record PartnerPolicy =
  pp_profile :: Profile
  pp_partner :: "Partner option"
  pp_pins :: "CertFingerprint list"
  pp_encryption_cert :: "Certificate option"
  pp_endpoint :: "string option"
  pp_quirks :: "Quirk list"

definition resolve :: "Profile \<Rightarrow> Partner \<Rightarrow> PartnerPolicy" where
  "resolve profile partner =
     \<lparr>pp_profile = profile, pp_partner = Some partner, pp_pins = map c_fingerprint (pa_signing partner),
      pp_encryption_cert = pa_encryption partner, pp_endpoint = pa_endpoint partner,
      pp_quirks = pa_quirks partner\<rparr>"

definition has_quirk :: "PartnerPolicy \<Rightarrow> Quirk \<Rightarrow> bool" where
  "has_quirk p q \<longleftrightarrow> q \<in> set (pp_quirks p)"

datatype PathSwitch = SwitchRequest | SwitchConfirm

definition classify_path_switch :: "string \<Rightarrow> string \<Rightarrow> PathSwitch option" where
  "classify_path_switch service action =
     (if service \<noteq> PATH_SWITCH_SERVICE then None
      else if action = REQUEST_SWITCH_ACTION then Some SwitchRequest
      else if action = CONFIRM_SWITCH_ACTION then Some SwitchConfirm
      else None)"

record SendHeader =
  sh_from_party :: string
  sh_from_type :: "string option"
  sh_to_party :: string
  sh_to_type :: "string option"
  sh_service :: string
  sh_service_type :: string
  sh_action :: string
  sh_conversation_id :: "string option"

datatype WsSecOutboundKeyInfoProfile =
  BinarySecurityTokenX509v3 | X509DataAndRsaKeyValue | X509DataOnly | X509PKIPathv1

text \<open>\<open>'w\<close> and \<open>'h\<close>: WS-Addressing and SBDH headers, which the profile never sets.\<close>

record ('w, 'h) As4SendPolicy =
  sp_outbound_key_info_profile :: WsSecOutboundKeyInfoProfile
  sp_sign :: bool
  sp_encrypt :: bool
  sp_outbound_xmlenc_payload_algorithm :: XmlEncPayloadAlgorithm
  sp_recipient_form :: RecipientForm
  sp_compress :: bool
  sp_action :: string
  sp_service :: string
  sp_service_type :: string
  sp_from_party_id :: "string option"
  sp_to_party_id :: "string option"
  sp_from_party_id_type :: "string option"
  sp_to_party_id_type :: "string option"
  sp_from_role :: string
  sp_to_role :: string
  sp_agreement_ref :: "string option"
  sp_agreement_ref_type :: "string option"
  sp_ref_to_message_id :: "string option"
  sp_original_sender :: "string option"
  sp_final_recipient :: "string option"
  sp_tracking_identifier :: "string option"
  sp_conversation_id :: "string option"
  sp_ws_addressing :: "'w option"
  sp_sbdh_header :: "'h option"

definition send_view :: "PartnerPolicy \<Rightarrow> SendHeader \<Rightarrow> ('w, 'h) As4SendPolicy" where
  "send_view self header =
     (let profile = pp_profile self;
          payload_less = (path_switch profile \<and>
            classify_path_switch (sh_service header) (sh_action header) \<noteq> None)
      in \<lparr>sp_outbound_key_info_profile =
            (case token_ref profile of PkiPath \<Rightarrow> X509PKIPathv1 | X509v3 \<Rightarrow> BinarySecurityTokenX509v3),
          sp_sign = True,
          sp_encrypt = (\<not> payload_less),
          sp_outbound_xmlenc_payload_algorithm = Aes128Gcm,
          sp_recipient_form = recipient_form profile,
          sp_compress = (compress profile \<and> \<not> payload_less),
          sp_action = sh_action header,
          sp_service = sh_service header,
          sp_service_type = sh_service_type header,
          sp_from_party_id = Some (sh_from_party header),
          sp_to_party_id = Some (sh_to_party header),
          sp_from_party_id_type = sh_from_type header,
          sp_to_party_id_type = sh_to_type header,
          sp_from_role = INITIATOR_ROLE,
          sp_to_role = RESPONDER_ROLE,
          sp_agreement_ref = agreement_ref profile,
          sp_agreement_ref_type = None,
          sp_ref_to_message_id = None,
          sp_original_sender = None,
          sp_final_recipient = None,
          sp_tracking_identifier = None,
          sp_conversation_id = sh_conversation_id header,
          sp_ws_addressing = None,
          sp_sbdh_header = None\<rparr>)"

record TimestampWindow =
  tw_future :: nat
  tw_past :: nat

record As4PushPolicy =
  require_signed_receipt :: bool
  require_signed_push :: bool
  require_encrypted_inbound :: bool
  accept_path_switch :: bool
  timestamp_window :: "TimestampWindow option"

definition receive_view :: "Profile \<Rightarrow> As4PushPolicy" where
  "receive_view profile =
     \<lparr>require_signed_receipt = True, require_signed_push = True, require_encrypted_inbound = True,
      accept_path_switch = path_switch profile,
      timestamp_window = Some \<lparr>tw_future = 300, tw_past = MIN_RETENTION div 1000000000\<rparr>\<rparr>"

definition DEFAULT_MAX_RECEIPT_BYTES :: nat where
  "DEFAULT_MAX_RECEIPT_BYTES = 256 * 1024"

record As4ReceiptPolicy =
  rp_reject_unexpected_references :: bool
  rp_require_signed_receipt :: bool
  rp_require_non_repudiation :: bool
  rp_expected_signer_fingerprint :: "string option"
  rp_timestamp_freshness_window :: "nat option"
  rp_max_receipt_bytes :: nat

definition receipt_view :: "PartnerPolicy \<Rightarrow> As4ReceiptPolicy" where
  "receipt_view self =
     \<lparr>rp_reject_unexpected_references = True, rp_require_signed_receipt = True,
      rp_require_non_repudiation = (\<not> has_quirk self ReceiptWithoutNonRepudiation),
      rp_expected_signer_fingerprint = None, rp_timestamp_freshness_window = Some 300,
      rp_max_receipt_bytes = DEFAULT_MAX_RECEIPT_BYTES\<rparr>"

section \<open>Properties\<close>

lemma classify_path_switch_Some:
  "classify_path_switch s a \<noteq> None \<longleftrightarrow>
     s = PATH_SWITCH_SERVICE \<and> (a = REQUEST_SWITCH_ACTION \<or> a = CONFIRM_SWITCH_ACTION)"
  by (simp add: classify_path_switch_def)


text \<open>
  C20. The key rules fit the algorithms. A key the profile allows for signing can produce the
  profile's signature algorithm (under AS2 an EC key is also allowed, and signs with ECDSA); a key
  it allows for decryption belongs to the family of the profile's key-encryption method: EC with
  the key agreement for BDEW, RSA of at least 2048 bits with OAEP elsewhere.
\<close>
theorem key_rules_fit_algorithms:
  assumes "allows (signer_keys p) (kp_key_kind lib kp)" and "allows (decrypter_keys p) dk"
  shows "(signature_algorithm p = RsaSha256 \<and> (\<exists>bits. kp_key_kind lib kp = Rsa bits \<and> 2048 \<le> bits) \<or>
      signature_algorithm p = EcdsaSha256 \<and> kp_key_kind lib kp = Ec (Some BRAINPOOL_P256R1) \<or>
      protocol p = As2 \<and> (\<exists>c. kp_key_kind lib kp = Ec (Some c) \<and> c \<in> set AS2_CURVES)) \<and>
    (protocol p = As4 \<longrightarrow> (sign_now lib kp (signature_algorithm p) msg :: ('r Error, bytes) result) =
       map_err (\<lambda>err. error_config (''signing failed: '' @ err)) (os_sign lib (kp_pkey kp) msg)) \<and>
    (if agreement (encryption_suite p) = None then \<exists>bits. dk = Rsa bits \<and> 2048 \<le> bits
     else dk = Ec (Some BRAINPOOL_P256R1))"
proof -
  have d: "if agreement (encryption_suite p) = None then \<exists>bits. dk = Rsa bits \<and> 2048 \<le> bits
     else dk = Ec (Some BRAINPOOL_P256R1)"
    using assms(2) by (cases dk; cases "pr_id p")
      (auto simp: decrypter_keys_def encryption_suite_def Let_def elim: allows.elims)
  show ?thesis
    using assms(1) d
    by (cases "kp_key_kind lib kp"; cases "pr_id p")
       (auto simp: signer_keys_def signature_algorithm_def protocol_def sign_now_def Let_def
         elim: allows.elims)
qed

theorem key_rules_fit_algorithms_witness:
  "allows (signer_keys (preset Bdew12)) (kp_key_kind demo_ossl \<lparr>kp_chain = [], kp_pkey = (), kp_pem = []\<rparr>) \<and>
   agreement (encryption_suite (preset Bdew12)) \<noteq> None"
proof -
  define kp :: "unit KeyPair" where "kp = \<lparr>kp_chain = [], kp_pkey = (), kp_pem = []\<rparr>"
  have a: "allows (signer_keys (preset Bdew12)) (kp_key_kind demo_ossl kp)"
    by (simp add: signer_keys_def preset_def kp_key_kind_def demo_ossl_def of_public_def)
  have "allows (decrypter_keys (preset Bdew12)) (Ec (Some BRAINPOOL_P256R1))"
    by (simp add: decrypter_keys_def preset_def)
  from key_rules_fit_algorithms [OF a this, where ?'r = unit and msg = "[]"] a show ?thesis
    unfolding kp_def by (auto split: if_splits)
qed

end
