(* ===== verification/Xmlenc_Parse.thy ===== *)
theory Xmlenc_Parse
  imports Profile Xml_Dom
begin

text \<open>
  Reading an encryption envelope (src/crypto/wssec/xmlenc/parse.rs and the parameter decoding of
  src/crypto/wssec/xmlenc/kdf.rs): one xenc:EncryptedKey and one xenc:EncryptedData per encrypted part,
  checked against the declared parts and the profile's algorithm suite before any key is used. The base64
  codec is a parameter. Shown: an accepted envelope encrypts declared parts only, each at most once, with the
  suite's algorithms, and no encryption markup stands anywhere else in the document.
\<close>

section \<open>Elements\<close>

definition XSTAGE :: string where
  "XSTAGE = ''wssec_decrypt_payload''"

definition xrefused :: "string \<Rightarrow> AsxError" where
  "xrefused msg = asx_error InteropViolation msg (context_new XSTAGE)"

definition xmalformed :: "string \<Rightarrow> AsxError" where
  "xmalformed msg = asx_error ParseFailed msg (context_new XSTAGE)"

definition is_node :: "string \<Rightarrow> string \<Rightarrow> node \<Rightarrow> bool" where
  "is_node ns local n = is_named ns local (snd n)"

definition element_children :: "node \<Rightarrow> node list" where
  "element_children n = filter (\<lambda>c. is_element (snd c)) (child_nodes n)"

definition named_children :: "node \<Rightarrow> string \<Rightarrow> node list" where
  "named_children parent local = filter (\<lambda>c. node_name (snd c) = local) (element_children parent)"

definition children_in :: "node \<Rightarrow> string \<Rightarrow> string \<Rightarrow> node list res" where
  "children_in parent namespace local =
     (let all = named_children parent local in
      case find (\<lambda>n. node_ns (snd n) \<noteq> Some namespace) all of
        Some stray \<Rightarrow> Inl (xrefused (local @ '' is declared in namespace '' @ or_else (node_ns (snd stray)) ''(none)'' @
          ''; it is defined only in '' @ namespace))
      | None \<Rightarrow> Inr all)"

definition exactly_one :: "node list \<Rightarrow> string \<Rightarrow> node res" where
  "exactly_one nodes what =
     (case nodes of
        [one] \<Rightarrow> Inr one
      | [] \<Rightarrow> Inl (xrefused (what @ '' is absent; exactly one is required''))
      | _ \<Rightarrow> Inl (xrefused (what @ '' appears '' @ show_nat (length nodes) @ '' times; exactly one is required'')))"

definition one_child :: "node \<Rightarrow> string \<Rightarrow> string \<Rightarrow> string \<Rightarrow> node res" where
  "one_child parent namespace local what =
     rbind (children_in parent namespace local) (\<lambda>cs. exactly_one cs what)"

definition trimmed_nonempty :: "string option \<Rightarrow> string option" where
  "trimmed_nonempty v = (case v of None \<Rightarrow> None | Some a \<Rightarrow> (let a = trim a in if a = [] then None else Some a))"

definition algorithm :: "node \<Rightarrow> string \<Rightarrow> string res" where
  "algorithm n what =
     ok_or (xmalformed (what @ '' has no Algorithm'')) (trimmed_nonempty (attribute ''Algorithm'' (snd n)))"

text \<open>\<open>STANDARD.decode\<close>: the bytes, or the error's text.\<close>

type_synonym base64 = "string \<Rightarrow> (string, bytes) result"

definition base64_text :: "base64 \<Rightarrow> node \<Rightarrow> string \<Rightarrow> bytes res" where
  "base64_text b64 n what =
     (let text = filter (\<lambda>c. \<not> is_ascii_ws c)
            (concat (List.map_filter node_text (filter is_text (descendants (snd n))))) in
      if text = [] then Inl (xmalformed (what @ '' is empty''))
      else map_err (\<lambda>e. xmalformed (what @ '' is not base64: '' @ e)) (b64 text))"

definition cipher_value :: "base64 \<Rightarrow> node \<Rightarrow> string \<Rightarrow> bytes res" where
  "cipher_value b64 parent what =
     rbind (one_child parent NS_XENC ''CipherData'' ''xenc:CipherData'') (\<lambda>data.
     rbind (one_child data NS_XENC ''CipherValue'' ''xenc:CipherData/xenc:CipherValue'') (\<lambda>val.
       base64_text b64 val what))"

section \<open>Key derivation parameters (kdf.rs)\<close>

record ConcatKdfParams =
  algorithm_id :: bytes
  party_u_info :: bytes
  party_v_info :: bytes
  supp_pub_info :: bytes
  supp_priv_info :: bytes

definition kdf_invalid :: "string \<Rightarrow> AsxError" where
  "kdf_invalid detail = asx_error InteropViolation (''invalid ConcatKDFParams attribute: '' @ detail) (context_new XSTAGE)"

definition nibble :: "char \<Rightarrow> nat res" where
  "nibble c =
     (let b = byte c in
      if 48 \<le> b \<and> b \<le> 57 then Inr (b - 48)
      else if 97 \<le> b \<and> b \<le> 102 then Inr (b - 97 + 10)
      else if 65 \<le> b \<and> b \<le> 70 then Inr (b - 65 + 10)
      else Inl (kdf_invalid (''non-hex character 0x'' @ [hex_digit (b div 16), hex_digit (b mod 16)] @
        '' in hexBinary value'')))"

fun hex_octets :: "string \<Rightarrow> bytes res" where
  "hex_octets (a # b # rest) =
     rbind (nibble a) (\<lambda>h. rbind (nibble b) (\<lambda>l. rbind (hex_octets rest) (\<lambda>os. Inr (word_of_nat (h * 16 + l) # os))))"
| "hex_octets _ = Inr []"

definition decode_concat_kdf_param_bits :: "string \<Rightarrow> bytes res" where
  "decode_concat_kdf_param_bits raw =
     (let trimmed = filter (\<lambda>c. \<not> is_ascii_ws c) raw in
      if trimmed = [] then Inr []
      else if length trimmed mod 2 \<noteq> 0 then
        Inl (kdf_invalid (''hexBinary value has odd length '' @ show_nat (length trimmed)))
      else
        rbind (hex_octets trimmed) (\<lambda>octets.
          let padding_bits = unat (hd octets) in
          if padding_bits \<noteq> 0 then
            Inl (kdf_invalid (''bit strings with '' @ show_nat padding_bits @
              '' padding bits are not supported (only byte-aligned KDF parameters are accepted)''))
          else Inr (tl octets)))"

definition kdf_params_from_node :: "node \<Rightarrow> ConcatKdfParams res" where
  "kdf_params_from_node n =
     (let read = (\<lambda>name. case attribute name (snd n) of None \<Rightarrow> Inr [] | Some raw \<Rightarrow> decode_concat_kdf_param_bits raw) in
      rbind (read ''AlgorithmID'') (\<lambda>a. rbind (read ''PartyUInfo'') (\<lambda>u. rbind (read ''PartyVInfo'') (\<lambda>v.
      rbind (read ''SuppPubInfo'') (\<lambda>p. rbind (read ''SuppPrivInfo'') (\<lambda>q.
        Inr \<lparr>algorithm_id = a, party_u_info = u, party_v_info = v, supp_pub_info = p, supp_priv_info = q\<rparr>))))))"

section \<open>The encrypted key\<close>

record RsaOaepParams =
  oaep_digest :: WsSecDigestMethod
  oaep_mgf :: MgfAlg

datatype KeyDerivation = KdConcatKdf WsSecDigestMethod ConcatKdfParams

record AgreementSpec =
  ag_kdf :: KeyDerivation
  ag_curve :: NamedCurve
  ag_point :: bytes
  ag_wrap :: KeyWrapAlg

datatype KeyTransportSpec = TsRsaOaep RsaOaepParams | TsAgreement AgreementSpec

datatype RecipientRef = RefSki bytes | RefCertificate bytes | RefIssuerSerial string string

record EncryptedKeySpec =
  ek_transport :: KeyTransportSpec
  ek_wrapped_key :: bytes
  ek_recipient :: "RecipientRef option"

definition under_originator :: "document \<Rightarrow> node \<Rightarrow> bool" where
  "under_originator doc n \<longleftrightarrow> (\<exists>a \<in> set (ancestors doc n). is_node NS_XENC ''OriginatorKeyInfo'' a)"

definition ok_opt :: "('e, 'a) result \<Rightarrow> 'a option" where
  "ok_opt r = (case r of Inl _ \<Rightarrow> None | Inr x \<Rightarrow> Some x)"

text \<open>The text of the node without whitespace.\<close>

definition solid_text :: "node \<Rightarrow> string option" where
  "solid_text n = map_option (\<lambda>t. concat (split_whitespace t)) (node_text (snd n))"

fun recipient_ref_in :: "base64 \<Rightarrow> node list \<Rightarrow> RecipientRef option" where
  "recipient_ref_in b64 [] = None"
| "recipient_ref_in b64 (n # rest) =
     (let decoded = Option.bind (solid_text n) (\<lambda>t. ok_opt (b64 t)) in
      if is_node NS_DS ''X509SKI'' n then map_option RefSki decoded
      else if is_node NS_DS ''X509Certificate'' n then map_option RefCertificate decoded
      else if is_node NS_DS ''X509IssuerSerial'' n then
        (let child = (\<lambda>local. Option.bind (find (\<lambda>c. node_name (snd c) = local) (element_children n))
               (\<lambda>c. map_option trim (node_text (snd c)))) in
         Option.bind (child ''X509IssuerName'') (\<lambda>issuer.
         Option.bind (child ''X509SerialNumber'') (\<lambda>serial. Some (RefIssuerSerial issuer serial))))
      else if is_node NS_WSSE ''KeyIdentifier'' n then
        (let value_type = or_else (attribute ''ValueType'' (snd n)) [] in
         Option.bind decoded (\<lambda>bytes.
           if ends_with value_type ''#X509SubjectKeyIdentifier'' then Some (RefSki bytes)
           else if ends_with value_type ''#X509v3'' then Some (RefCertificate bytes)
           else recipient_ref_in b64 rest))
      else recipient_ref_in b64 rest)"

definition recipient_ref :: "base64 \<Rightarrow> document \<Rightarrow> node \<Rightarrow> RecipientRef option" where
  "recipient_ref b64 doc key =
     recipient_ref_in b64 (filter (\<lambda>n. is_element (snd n) \<and> \<not> under_originator doc n) (node_subtree key))"

definition parse_rsa_oaep_params :: "node \<Rightarrow> RsaOaepParams res" where
  "parse_rsa_oaep_params meth =
     rbind (children_in meth NS_DS ''DigestMethod'') (\<lambda>ds.
     rbind (case ds of
         [] \<Rightarrow> Inl (xrefused ''RSA-OAEP DigestMethod absent (SHA-1 default); SHA-256 is required'')
       | [one] \<Rightarrow>
           rbind (algorithm one ''RSA-OAEP DigestMethod'') (\<lambda>uri.
             case digest_from_algorithm_uri uri of
               Inr Sha256 \<Rightarrow> Inr Sha256
             | _ \<Rightarrow> Inl (xrefused (''RSA-OAEP DigestMethod '' @ uri @ '' is not supported; SHA-256 is required'')))
       | _ \<Rightarrow> Inl (xrefused (''RSA-OAEP DigestMethod appears '' @ show_nat (length ds) @ '' times''))) (\<lambda>digest.
     rbind (children_in meth NS_XENC11 ''MGF'') (\<lambda>ms.
     rbind (case ms of
         [] \<Rightarrow> Inl (xrefused ''RSA-OAEP MGF absent (MGF1-SHA-1 default); MGF1-SHA-256 is required'')
       | [one] \<Rightarrow>
           rbind (algorithm one ''RSA-OAEP MGF'') (\<lambda>uri.
             map_err (\<lambda>_. xrefused (''RSA-OAEP MGF '' @ uri @ '' is not supported; MGF1-SHA-256 is required''))
               (mgf_from_uri uri))
       | _ \<Rightarrow> Inl (xrefused (''RSA-OAEP MGF appears '' @ show_nat (length ms) @ '' times''))) (\<lambda>mgf.
     rbind (children_in meth NS_XENC ''OAEPparams'') (\<lambda>labels.
     rbind (check (\<forall>l \<in> set labels. \<forall>t \<in> set (List.map_filter node_text (filter is_text (descendants (snd l)))). trim t = [])
        (xrefused ''RSA-OAEP OAEPparams (a label) is not supported; it must be absent or empty'')) (\<lambda>_.
       Inr \<lparr>oaep_digest = digest, oaep_mgf = mgf\<rparr>))))))"

definition parse_agreement_method :: "base64 \<Rightarrow> node \<Rightarrow> KeyWrapAlg \<Rightarrow> AgreementSpec res" where
  "parse_agreement_method b64 n wrap =
     rbind (algorithm n ''AgreementMethod'') (\<lambda>uri.
     rbind (agreement_from_uri uri) (\<lambda>_.
     rbind (one_child n NS_XENC11 ''KeyDerivationMethod''
        ''xenc11:KeyDerivationMethod (ECDH-ES has no default KDF)'') (\<lambda>kdm.
     rbind (algorithm kdm ''KeyDerivationMethod'') (\<lambda>uri.
     rbind (kdf_from_uri uri) (\<lambda>_.
     rbind (one_child kdm NS_XENC11 ''ConcatKDFParams'' ''xenc11:ConcatKDFParams'') (\<lambda>params_node.
     rbind (one_child params_node NS_DS ''DigestMethod'' ''ConcatKDFParams/DigestMethod'') (\<lambda>digest_node.
     rbind (algorithm digest_node ''ConcatKDFParams/DigestMethod'') (\<lambda>uri.
     rbind (case digest_from_algorithm_uri uri of
          Inr Sha256 \<Rightarrow> Inr Sha256
        | _ \<Rightarrow> Inl (xrefused (''ConcatKDF digest '' @ uri @ '' is not supported; SHA-256 is required''))) (\<lambda>digest.
     rbind (kdf_params_from_node params_node) (\<lambda>params.
     rbind (one_child n NS_XENC ''OriginatorKeyInfo'' ''xenc:OriginatorKeyInfo'') (\<lambda>originator.
     rbind (one_child originator NS_DS ''KeyValue'' ''OriginatorKeyInfo/ds:KeyValue'') (\<lambda>key_value.
     rbind (one_child key_value NS_DSIG11 ''ECKeyValue'' ''dsig11:ECKeyValue'') (\<lambda>ec.
     rbind (check (\<not> list_ex (is_node NS_DSIG11 ''ECParameters'') (child_nodes ec))
        (xrefused ''dsig11:ECParameters (explicit curve parameters) is not supported; a dsig11:NamedCurve is required'')) (\<lambda>_.
     rbind (one_child ec NS_DSIG11 ''NamedCurve'' ''dsig11:NamedCurve'') (\<lambda>curve_node.
     rbind (curve_from_uri (or_else (map_option trim (attribute ''URI'' (snd curve_node))) [])) (\<lambda>curve.
     rbind (one_child ec NS_DSIG11 ''PublicKey'' ''dsig11:PublicKey'') (\<lambda>point_node.
     rbind (base64_text b64 point_node ''originator public key'') (\<lambda>point.
       Inr \<lparr>ag_kdf = KdConcatKdf digest params, ag_curve = curve, ag_point = point, ag_wrap = wrap\<rparr>))))))))))))))))))"

definition parse_encrypted_key :: "base64 \<Rightarrow> document \<Rightarrow> node \<Rightarrow> EncryptedKeySpec res" where
  "parse_encrypted_key b64 doc n =
     rbind (one_child n NS_XENC ''EncryptionMethod'' ''xenc:EncryptedKey/xenc:EncryptionMethod'') (\<lambda>meth.
     rbind (algorithm meth ''EncryptedKey method'') (\<lambda>uri.
     rbind (case key_transport_from_uri uri of
         Inr KtRsaOaep \<Rightarrow> rbind (parse_rsa_oaep_params meth) (\<lambda>p. Inr (TsRsaOaep p))
       | Inl _ \<Rightarrow>
           (case key_wrap_from_uri uri of
              Inr wrap \<Rightarrow>
                rbind (one_child n NS_DS ''KeyInfo'' ''xenc:EncryptedKey/ds:KeyInfo'') (\<lambda>key_info.
                rbind (one_child key_info NS_XENC ''AgreementMethod'' ''xenc:AgreementMethod'') (\<lambda>am.
                rbind (parse_agreement_method b64 am wrap) (\<lambda>a. Inr (TsAgreement a))))
            | Inl _ \<Rightarrow> Inl (xrefused (''unsupported key transport or key wrap algorithm: '' @ uri)))) (\<lambda>transport.
     rbind (cipher_value b64 n ''wrapped XML Encryption key'') (\<lambda>wrapped_key.
       Inr \<lparr>ek_transport = transport, ek_wrapped_key = wrapped_key, ek_recipient = recipient_ref b64 doc n\<rparr>))))"

section \<open>The envelope\<close>

record DataSpec =
  ds_cid :: string
  ds_cipher :: XmlEncPayloadAlgorithm
  ds_mime_type :: "string option"

record ResolvedEnvelope =
  re_key :: EncryptedKeySpec
  re_data :: "DataSpec list"

definition suite_refused :: "string \<Rightarrow> AsxError" where
  "suite_refused detail = asx_error PolicyViolation
     (''encryption algorithm outside the partner'' @ [CHR 0x27] @ ''s profile suite: '' @ detail) (context_new XSTAGE)"

definition plain_id :: "xnode \<Rightarrow> string option" where
  "plain_id n = map_of (attributes_of n) (None, ''Id'')"

definition element_id :: "node \<Rightarrow> string option res" where
  "element_id n =
     (case (plain_id (snd n), attribute_ns NS_WSU ''Id'' (snd n)) of
        (Some a, Some b) \<Rightarrow>
          if a \<noteq> b then Inl (xrefused (node_name (snd n) @ '' carries Id '' @ debug_str a @ '' and wsu:Id '' @ debug_str b))
          else Inr (Some a)
      | (Some a, None) \<Rightarrow> Inr (Some a)
      | (None, b) \<Rightarrow> Inr b)"

definition elements_with_id :: "document \<Rightarrow> string \<Rightarrow> node list" where
  "elements_with_id doc i =
     filter (\<lambda>n. is_element (snd n) \<and>
        (attribute ''Id'' (snd n) = Some i \<or> attribute_ns NS_WSU ''Id'' (snd n) = Some i \<or>
         attribute_ns NS_XML ''id'' (snd n) = Some i)) (doc_nodes doc)"

definition fragment :: "string \<Rightarrow> string option" where
  "fragment uri = (case strip_prefix ''#'' (trim uri) of Some i \<Rightarrow> if i = [] then None else Some i | None \<Rightarrow> None)"

definition is_cid :: "string \<Rightarrow> bool" where
  "is_cid s \<longleftrightarrow> length s \<ge> 4 \<and> eq_ignore_ascii_case (take 4 s) ''cid:''"

definition normalize_cid :: "string \<Rightarrow> string" where
  "normalize_cid v =
     (let v = trim v;
          v = or_else (strip_prefix ''<'' v) v;
          v = or_else (strip_suffix ''>'' v) v
      in if is_cid v then drop 4 v else v)"

definition points_at_key :: "node \<Rightarrow> string option \<Rightarrow> bool" where
  "points_at_key key_info key_id =
     (case element_children key_info of
        [str] \<Rightarrow>
          is_node NS_WSSE ''SecurityTokenReference'' str \<and>
          (case attribute_ns NS_WSSE11 ''TokenType'' (snd str) of None \<Rightarrow> True | Some t \<Rightarrow> t = WSSE11_ENCRYPTED_KEY_TOKEN) \<and>
          (case element_children str of
             [r] \<Rightarrow> is_node NS_WSSE ''Reference'' r \<and>
               Option.bind (attribute ''URI'' (snd r)) fragment \<noteq> None \<and>
               Option.bind (attribute ''URI'' (snd r)) fragment = key_id
           | _ \<Rightarrow> False)
      | _ \<Rightarrow> False)"

definition resolve_data :: "node \<Rightarrow> string option \<Rightarrow> string list \<Rightarrow> DataSpec res" where
  "resolve_data n key_id declared =
     rbind (element_id n) (\<lambda>_.
     let type_uri = or_else (attribute ''Type'' (snd n)) ''(absent)'' in
     rbind (check (type_uri = SWA_CONTENT_ONLY)
        (xrefused (''xenc:EncryptedData Type '' @ type_uri @
          '' is not supported; only Attachment-Content-Only is accepted (WSS SwA 1.1 '' @ sect ''5.4.2)''))) (\<lambda>_.
     rbind (one_child n NS_XENC ''EncryptionMethod'' ''xenc:EncryptedData/xenc:EncryptionMethod'') (\<lambda>meth.
     rbind (algorithm meth ''EncryptedData method'') (\<lambda>uri.
     rbind (cipher_from_uri uri) (\<lambda>cipher.
     rbind (children_in n NS_DS ''KeyInfo'') (\<lambda>key_infos.
     rbind (check (list_all (\<lambda>k. points_at_key k key_id) key_infos)
        (xrefused ''xenc:EncryptedData/ds:KeyInfo does not reference the xenc:EncryptedKey that names it'')) (\<lambda>_.
     rbind (one_child n NS_XENC ''CipherData'' ''xenc:EncryptedData/xenc:CipherData'') (\<lambda>cipher_data.
     rbind (children_in cipher_data NS_XENC ''CipherValue'') (\<lambda>inline.
     rbind (check (inline = []) (xrefused (''an attachment xenc:EncryptedData carries an inline xenc:CipherValue; a CipherReference to the MIME part is required (WSS SwA 1.1 '' @ sect ''5.5)''))) (\<lambda>_.
     rbind (one_child cipher_data NS_XENC ''CipherReference'' ''xenc:CipherData/xenc:CipherReference'') (\<lambda>reference.
     let uri = or_else (attribute ''URI'' (snd reference)) [] in
     rbind (check (is_cid (trim uri))
        (xrefused (''xenc:CipherReference URI '' @ debug_str uri @ '' is not a cid: reference''))) (\<lambda>_.
     let cid = normalize_cid uri in
     rbind (check (list_ex (\<lambda>d. normalize_cid d = cid) declared)
        (xrefused (''xenc:CipherReference cid:'' @ cid @ '' is not a part eb:PartInfo declares''))) (\<lambda>_.
     rbind (children_in reference NS_XENC ''Transforms'') (\<lambda>ts.
     let transforms = concat (map element_children ts);
         exactly_ciphertext = (case transforms of
            [t] \<Rightarrow> is_node NS_DS ''Transform'' t \<and> attribute ''Algorithm'' (snd t) = Some SWA_CIPHERTEXT_TRANSFORM
          | _ \<Rightarrow> False) in
     rbind (check (exactly_ciphertext \<and> length (element_children reference) = 1)
        (xrefused (''xenc:CipherReference cid:'' @ cid @ '' must carry exactly the Attachment-Ciphertext-Transform''))) (\<lambda>_.
       Inr \<lparr>ds_cid = cid, ds_cipher = cipher, ds_mime_type = attribute ''MimeType'' (snd n)\<rparr>)))))))))))))))"

definition child_named :: "node \<Rightarrow> string \<Rightarrow> string \<Rightarrow> node option" where
  "child_named parent namespace local = find (is_node namespace local) (child_nodes parent)"

definition attr_of :: "node option \<Rightarrow> string" where
  "attr_of n = or_else (map_option trim (Option.bind n (\<lambda>m. attribute ''Algorithm'' (snd m)))) ''(absent)''"

definition check_suite :: "node \<Rightarrow> node list \<Rightarrow> Suite \<Rightarrow> unit res" where
  "check_suite key datas suite =
     (let meth = attr_of (child_named key NS_XENC ''EncryptionMethod'') in
      rbind (check (meth = key_method suite)
         (suite_refused (''EncryptedKey method '' @ meth @ '' (the profile requires '' @ key_method suite @ '')''))) (\<lambda>_.
      rbind (case (agreement suite, Option.bind (child_named key NS_DS ''KeyInfo'') (\<lambda>k. child_named k NS_XENC ''AgreementMethod'')) of
          (None, Some _) \<Rightarrow> Inl (suite_refused ''key agreement where the profile requires key transport'')
        | (Some (want, _, _), None) \<Rightarrow>
            Inl (suite_refused (''no xenc:AgreementMethod (the profile requires '' @ want @ '')''))
        | (Some (want_agreement, want_kdf, want_digest), Some am) \<Rightarrow>
            (let have1 = attr_of (Some am); kdm = child_named am NS_XENC11 ''KeyDerivationMethod''; have2 = attr_of kdm;
                 digest = Option.bind (Option.bind kdm (\<lambda>k. child_named k NS_XENC11 ''ConcatKDFParams''))
                   (\<lambda>p. child_named p NS_DS ''DigestMethod''); have3 = attr_of digest in
             rbind (check (have1 = want_agreement)
               (suite_refused (''AgreementMethod '' @ have1 @ '' (the profile requires '' @ want_agreement @ '')''))) (\<lambda>_.
             rbind (check (have2 = want_kdf)
               (suite_refused (''KeyDerivationMethod '' @ have2 @ '' (the profile requires '' @ want_kdf @ '')''))) (\<lambda>_.
             check (have3 = want_digest)
               (suite_refused (''ConcatKDF digest '' @ have3 @ '' (the profile requires '' @ want_digest @ '')'')))))
        | (None, None) \<Rightarrow> Inr ()) (\<lambda>_.
      for_each (\<lambda>d. let cipher = attr_of (child_named d NS_XENC ''EncryptionMethod'') in
         check (cipher = content suite) (suite_refused (''content encryption '' @ cipher @ '' (the profile requires '' @
           content suite @ '')''))) datas)))"

definition bst_reference :: "base64 \<Rightarrow> document \<Rightarrow> node \<Rightarrow> node \<Rightarrow> RecipientRef option res" where
  "bst_reference b64 doc security key =
     (case find (\<lambda>n. is_node NS_WSSE ''Reference'' n \<and> \<not> under_originator doc n)
         (concat (map node_subtree (filter (is_node NS_DS ''KeyInfo'') (child_nodes key)))) of
        None \<Rightarrow> Inr None
      | Some reference \<Rightarrow>
          (case fragment (or_else (attribute ''URI'' (snd reference)) []) of
             None \<Rightarrow> Inr None
           | Some i \<Rightarrow>
               (case elements_with_id doc i of
                  [one] \<Rightarrow>
                    if is_node NS_WSSE ''BinarySecurityToken'' one \<and> map_option fst (parent_node doc one) = Some (fst security) \<and>
                       (case attribute ''ValueType'' (snd one) of Some v \<Rightarrow> ends_with v ''#X509v3'' | None \<Rightarrow> False)
                    then Inr (map_option RefCertificate (ok_opt (base64_text b64 one ''recipient BinarySecurityToken'')))
                    else Inr None
                | _ \<Rightarrow> Inr None)))"

text \<open>Encryption markup, and whether it stands where the header allows it.\<close>

definition xenc_markup :: "node \<Rightarrow> bool" where
  "xenc_markup n \<longleftrightarrow> is_element (snd n) \<and>
     (node_ns (snd n) = Some NS_XENC \<or> node_ns (snd n) = Some NS_XENC11 \<or> is_node NS_WSSE11 ''EncryptedHeader'' n)"

definition top_below :: "document \<Rightarrow> node \<Rightarrow> node \<Rightarrow> node option" where
  "top_below doc security n =
     (let anc = ancestors doc n; inner = takeWhile (\<lambda>a. fst a \<noteq> fst security) anc in
      if inner \<noteq> [] \<and> (\<exists>a \<in> set anc. fst a = fst security) then Some (last inner) else None)"

definition xenc_placed :: "document \<Rightarrow> node \<Rightarrow> node \<Rightarrow> bool" where
  "xenc_placed doc security n =
     (case top_below doc security n of None \<Rightarrow> False
      | Some t \<Rightarrow> is_node NS_XENC ''EncryptedKey'' t \<or> is_node NS_XENC ''EncryptedData'' t \<or> is_node NS_XENC ''ReferenceList'' t)"

definition misplaced :: "node \<Rightarrow> AsxError" where
  "misplaced n = xrefused (node_name (snd n) @
     '' outside an xenc:EncryptedKey, xenc:EncryptedData or xenc:ReferenceList of the targeted wsse:Security header (eb:Messaging and the Body are never encrypted; eDelivery AS4 1.15 '' @ sect ''3.2.6)'')"

text \<open>One xenc:DataReference; the EncryptedData named so far.\<close>

definition data_reference :: "document \<Rightarrow> node list \<Rightarrow> node list \<Rightarrow> node \<Rightarrow> node list res" where
  "data_reference doc datas seen reference =
     (if \<not> is_node NS_XENC ''DataReference'' reference then
        Inl (xrefused (''xenc:ReferenceList carries '' @ node_name (snd reference) @ ''; only xenc:DataReference is accepted''))
      else
        let uri = or_else (attribute ''URI'' (snd reference)) [] in
        rbind (ok_or (xrefused (''xenc:DataReference URI '' @ debug_str uri @ '' is not a same-document reference''))
          (fragment uri)) (\<lambda>i.
        rbind (case elements_with_id doc i of
            [] \<Rightarrow> Inl (xrefused (''xenc:DataReference '' @ debug_str uri @ '' resolves to no element''))
          | [one] \<Rightarrow> Inr one
          | _ \<Rightarrow> Inl (xrefused (''xenc:DataReference '' @ debug_str uri @ '' resolves to several elements''))) (\<lambda>target.
        rbind (check (fst target \<in> fst ` set datas)
          (xrefused (''xenc:DataReference '' @ debug_str uri @ '' does not name an xenc:EncryptedData of the header''))) (\<lambda>_.
        rbind (check (fst target \<notin> fst ` set seen)
          (xrefused (''xenc:EncryptedData '' @ debug_str uri @ '' is named twice''))) (\<lambda>_.
          Inr (seen @ [target]))))))"

definition collect_data ::
  "string option \<Rightarrow> string list \<Rightarrow> DataSpec list \<Rightarrow> node \<Rightarrow> DataSpec list res" where
  "collect_data key_id declared data n =
     rbind (resolve_data n key_id declared) (\<lambda>spec.
     rbind (check (\<not> list_ex (\<lambda>d. ds_cid d = ds_cid spec) data)
        (xrefused (''two xenc:EncryptedData target cid:'' @ ds_cid spec))) (\<lambda>_.
       Inr (data @ [spec])))"

definition resolve_envelope ::
  "base64 \<Rightarrow> document \<Rightarrow> node \<Rightarrow> string list \<Rightarrow> Suite option \<Rightarrow> nat \<Rightarrow> ResolvedEnvelope option res" where
  "resolve_envelope b64 doc security declared suite max_parts =
     rbind (for_each (\<lambda>n. check (xenc_placed doc security n) (misplaced n)) (filter xenc_markup (doc_nodes doc))) (\<lambda>_.
     let keys = filter (is_node NS_XENC ''EncryptedKey'') (child_nodes security);
         datas = filter (is_node NS_XENC ''EncryptedData'') (child_nodes security) in
     if keys = [] \<and> datas = [] then Inr None
     else
       rbind (case keys of
           [one] \<Rightarrow> Inr one
         | [] \<Rightarrow> Inl (xrefused ''xenc:EncryptedData without an xenc:EncryptedKey'')
         | _ \<Rightarrow> Inl (xrefused (show_nat (length keys) @ '' xenc:EncryptedKey elements; exactly one is accepted''))) (\<lambda>key.
       rbind (check (length datas \<le> max_parts)
           (xrefused (show_nat (length datas) @ '' xenc:EncryptedData elements exceed the part cap '' @ show_nat max_parts))) (\<lambda>_.
       rbind (element_id key) (\<lambda>key_id.
       rbind (children_in key NS_XENC ''ReferenceList'') (\<lambda>inner_lists.
       let lists = inner_lists @ filter (is_node NS_XENC ''ReferenceList'') (child_nodes security) in
       rbind (rfold (data_reference doc datas) [] (concat (map element_children lists))) (\<lambda>seen.
       rbind (case find (\<lambda>d. fst d \<notin> fst ` set seen) datas of
           Some orphan \<Rightarrow> Inl (xrefused (''xenc:EncryptedData '' @ debug_str (or_else (attribute ''Id'' (snd orphan)) []) @
             '' is named by no xenc:DataReference''))
         | None \<Rightarrow> Inr ()) (\<lambda>_.
       rbind (rfold (collect_data key_id declared) [] datas) (\<lambda>data.
       rbind (case suite of Some s \<Rightarrow> check_suite key datas s | None \<Rightarrow> Inr ()) (\<lambda>_.
       rbind (parse_encrypted_key b64 doc key) (\<lambda>spec.
       rbind (if ek_recipient spec = None then bst_reference b64 doc security key else Inr (ek_recipient spec)) (\<lambda>recipient.
         Inr (Some \<lparr>re_key = spec\<lparr>ek_recipient := recipient\<rparr>, re_data = data\<rparr>))))))))))))"

section \<open>What an accepted envelope has\<close>

lemma is_node_iff: "is_node ns local n \<longleftrightarrow> is_element (snd n) \<and> node_ns (snd n) = Some ns \<and> node_name (snd n) = local"
  by (cases "snd n") (auto simp: is_node_def)

lemma children_in_Inr:
  "children_in p ns local = Inr cs \<longleftrightarrow> cs = named_children p local \<and> (\<forall>n \<in> set cs. node_ns (snd n) = Some ns)"
  unfolding children_in_def Let_def find_refuses by auto

lemma exactly_one_Inr: "exactly_one nodes what = Inr m \<longleftrightarrow> nodes = [m]"
  by (cases nodes rule: remdups_adj.cases) (auto simp: exactly_one_def)

lemma one_child_Inr:
  "one_child p ns local what = Inr m \<longleftrightarrow> named_children p local = [m] \<and> node_ns (snd m) = Some ns"
  by (auto simp: one_child_def rbind_Inr_iff children_in_Inr exactly_one_Inr)

text \<open>The child the structural checks read is the child the suite check reads.\<close>

lemma one_child_named:
  assumes "one_child p ns local what = Inr m"
  shows "child_named p ns local = Some m"
proof -
  have c: "filter (\<lambda>c. node_name (snd c) = local) (filter (\<lambda>c. is_element (snd c)) (child_nodes p)) = [m]"
    and ns: "node_ns (snd m) = Some ns"
    using assms by (simp_all add: one_child_Inr named_children_def element_children_def)
  let ?P = "is_node ns local"
  have "filter ?P (child_nodes p) = filter (\<lambda>c. node_ns (snd c) = Some ns) [m]"
    by (subst c [symmetric]) (auto simp: is_node_iff intro: filter_cong)
  then have f: "filter ?P (child_nodes p) = [m]" using ns by simp
  then show ?thesis unfolding child_named_def by (rule find_singleton)
qed

lemma algorithm_Inr: "algorithm m what = Inr uri \<Longrightarrow> attr_of (Some m) = uri"
  by (auto simp: algorithm_def trimmed_nonempty_def attr_of_def or_else_def Let_def res_simps
      split: option.splits if_splits)

lemma resolve_data_Inr:
  assumes "resolve_data n key_id declared = Inr d"
  shows "cipher_from_uri (attr_of (child_named n NS_XENC ''EncryptionMethod'')) = Inr (ds_cipher d)"
    and "ds_cid d \<in> normalize_cid ` set declared"
proof -
  from assms obtain m uri where m: "one_child n NS_XENC ''EncryptionMethod'' ''xenc:EncryptedData/xenc:EncryptionMethod'' = Inr m"
    "algorithm m ''EncryptedData method'' = Inr uri" "cipher_from_uri uri = Inr (ds_cipher d)"
    and cid: "list_ex (\<lambda>e. normalize_cid e = ds_cid d) declared"
    unfolding resolve_data_def Let_def res_simps sum.inject
    by clarify (rule that, assumption, assumption, simp_all)
  then show "cipher_from_uri (attr_of (child_named n NS_XENC ''EncryptionMethod'')) = Inr (ds_cipher d)"
    using one_child_named algorithm_Inr by simp
  show "ds_cid d \<in> normalize_cid ` set declared" using cid by (auto simp: list_ex_iff intro: image_eqI [OF sym])
qed

lemma collect_data_all:
  assumes "rfold (collect_data key_id declared) [] datas = Inr data"
  shows "list_all2 (\<lambda>n d. resolve_data n key_id declared = Inr d) datas data \<and> distinct (map ds_cid data)"
  using assms
proof (rule rfold_invariant)
  fix ys x zs u v
  assume "list_all2 (\<lambda>n d. resolve_data n key_id declared = Inr d) ys u \<and> distinct (map ds_cid u)"
    and "collect_data key_id declared u x = Inr v"
  then show "list_all2 (\<lambda>n d. resolve_data n key_id declared = Inr d) (ys @ [x]) v \<and> distinct (map ds_cid v)"
    by (fastforce simp: collect_data_def res_simps list_ex_iff list_all2_appendI)
qed simp

text \<open>The key transport and content cipher of the profile.\<close>

fun transport_of :: "ProfileId \<Rightarrow> KeyTransportSpec \<Rightarrow> bool" where
  "transport_of Bdew12 (TsAgreement a) \<longleftrightarrow> ag_wrap a = KwAes128 \<and> (\<exists>p. ag_kdf a = KdConcatKdf Sha256 p)"
| "transport_of Bdew12 (TsRsaOaep p) \<longleftrightarrow> False"
| "transport_of _ (TsRsaOaep p) \<longleftrightarrow> oaep_digest p = Sha256 \<and> oaep_mgf p = Mgf1Sha256"
| "transport_of _ (TsAgreement a) \<longleftrightarrow> False"

lemma check_suite_Inr:
  assumes "check_suite key datas suite = Inr ()"
  shows "attr_of (child_named key NS_XENC ''EncryptionMethod'') = key_method suite"
    and "d \<in> set datas \<Longrightarrow> attr_of (child_named d NS_XENC ''EncryptionMethod'') = content suite"
  using assms unfolding check_suite_def Let_def rbind_Inr_iff check_Inr_iff for_each_Inr_iff by blast+

lemma key_method_lookup:
  "key_transport_from_uri (alg_uri (AKeyTransport KtRsaOaep)) = Inr KtRsaOaep"
  "\<exists>e. key_transport_from_uri (alg_uri (AKeyWrap KwAes128)) = Inl e"
  "key_wrap_from_uri (alg_uri (AKeyWrap KwAes128)) = Inr KwAes128"
  "cipher_from_uri (alg_uri (AContentCipher Aes128Gcm)) = Inr Aes128Gcm"
proof -
  show "key_transport_from_uri (alg_uri (AKeyTransport KtRsaOaep)) = Inr KtRsaOaep" by code_simp
  have "\<not> is_ok (key_transport_from_uri (alg_uri (AKeyWrap KwAes128)))" by code_simp
  then show "\<exists>e. key_transport_from_uri (alg_uri (AKeyWrap KwAes128)) = Inl e"
    by (auto simp: is_ok_def split: sum.splits)
  show "key_wrap_from_uri (alg_uri (AKeyWrap KwAes128)) = Inr KwAes128" by code_simp
  show "cipher_from_uri (alg_uri (AContentCipher Aes128Gcm)) = Inr Aes128Gcm" by code_simp
qed

lemma sha256_only:
  "(case digest_from_algorithm_uri u of Inr Sha256 \<Rightarrow> Inr Sha256 | _ \<Rightarrow> Inl e) = Inr d \<Longrightarrow> d = Sha256"
  by (cases "digest_from_algorithm_uri u") (auto split: WsSecDigestMethod.splits)

lemma rsa_params_sha256: "parse_rsa_oaep_params m = Inr p \<Longrightarrow> oaep_digest p = Sha256 \<and> oaep_mgf p = Mgf1Sha256"
proof -
  assume "parse_rsa_oaep_params m = Inr p"
  then obtain ds digest mgf where
    "(case ds of
         [] \<Rightarrow> Inl (xrefused ''RSA-OAEP DigestMethod absent (SHA-1 default); SHA-256 is required'')
       | [one] \<Rightarrow>
           rbind (algorithm one ''RSA-OAEP DigestMethod'') (\<lambda>uri.
             case digest_from_algorithm_uri uri of
               Inr Sha256 \<Rightarrow> Inr Sha256
             | _ \<Rightarrow> Inl (xrefused (''RSA-OAEP DigestMethod '' @ uri @ '' is not supported; SHA-256 is required'')))
       | _ \<Rightarrow> Inl (xrefused (''RSA-OAEP DigestMethod appears '' @ show_nat (length ds) @ '' times''))) = Inr digest"
    and p: "p = \<lparr>oaep_digest = digest, oaep_mgf = mgf\<rparr>"
    unfolding parse_rsa_oaep_params_def rbind_Inr_iff sum.inject by clarify (rule that, assumption, simp)
  then have "digest = Sha256"
    by (cases ds rule: remdups_adj.cases) (auto simp: rbind_Inr_iff dest: sha256_only)
  then show ?thesis using p by (cases mgf) simp
qed

lemma agreement_sha256:
  assumes "parse_agreement_method b64 n wrap = Inr a"
  shows "ag_wrap a = wrap \<and> (\<exists>p. ag_kdf a = KdConcatKdf Sha256 p)"
proof -
  from assms obtain uri digest params curve point where
    "(case digest_from_algorithm_uri uri of Inr Sha256 \<Rightarrow> Inr Sha256
        | _ \<Rightarrow> Inl (xrefused (''ConcatKDF digest '' @ uri @ '' is not supported; SHA-256 is required''))) = Inr digest"
    "a = \<lparr>ag_kdf = KdConcatKdf digest params, ag_curve = curve, ag_point = point, ag_wrap = wrap\<rparr>"
    unfolding parse_agreement_method_def Let_def res_simps sum.inject
    by clarify (rule that, assumption, simp)
  then show ?thesis by (auto dest: sha256_only)
qed

lemma key_transport_of:
  assumes "parse_encrypted_key b64 doc key = Inr spec"
    and "attr_of (child_named key NS_XENC ''EncryptionMethod'') = key_method (encryption_suite p)"
  shows "transport_of (pr_id p) (ek_transport spec)"
proof -
  from assms(1) obtain m uri where m: "one_child key NS_XENC ''EncryptionMethod'' ''xenc:EncryptedKey/xenc:EncryptionMethod'' = Inr m"
    "algorithm m ''EncryptedKey method'' = Inr uri"
    and t: "(case key_transport_from_uri uri of
         Inr KtRsaOaep \<Rightarrow> rbind (parse_rsa_oaep_params m) (\<lambda>p. Inr (TsRsaOaep p))
       | Inl _ \<Rightarrow>
           (case key_wrap_from_uri uri of
              Inr wrap \<Rightarrow>
                rbind (one_child key NS_DS ''KeyInfo'' ''xenc:EncryptedKey/ds:KeyInfo'') (\<lambda>key_info.
                rbind (one_child key_info NS_XENC ''AgreementMethod'' ''xenc:AgreementMethod'') (\<lambda>am.
                rbind (parse_agreement_method b64 am wrap) (\<lambda>a. Inr (TsAgreement a))))
            | Inl _ \<Rightarrow> Inl (xrefused (''unsupported key transport or key wrap algorithm: '' @ uri)))) = Inr (ek_transport spec)"
    unfolding parse_encrypted_key_def rbind_Inr_iff sum.inject by clarify (rule that, assumption, assumption, simp)
  have uri: "uri = key_method (encryption_suite p)"
    using assms(2) one_child_named [OF m(1)] algorithm_Inr [OF m(2)] by simp
  show ?thesis
    using t key_method_lookup unfolding uri
    by (cases "pr_id p"; cases "ek_transport spec") (auto simp: encryption_suite_def Let_def res_simps dest: rsa_params_sha256 agreement_sha256)
qed

lemma xenc_placed_below:
  assumes "xenc_placed doc security n" "n \<in> set (doc_nodes doc)" "security \<in> set (doc_nodes doc)"
  shows "\<exists>t \<in> set (doc_nodes doc). (\<exists>i rest. fst n = fst security @ i # rest \<and> fst t = fst security @ [i]) \<and>
    (is_node NS_XENC ''EncryptedKey'' t \<or> is_node NS_XENC ''EncryptedData'' t \<or> is_node NS_XENC ''ReferenceList'' t)"
proof -
  let ?s = "fst security" and ?pos = "fst n"
  let ?l = "length ?s" and ?inner = "takeWhile (\<lambda>a. fst a \<noteq> fst security) (ancestors doc n)"
  note anc = ancestors_fst [OF assms(2)]
  obtain t where t: "top_below doc security n = Some t"
    "is_node NS_XENC ''EncryptedKey'' t \<or> is_node NS_XENC ''EncryptedData'' t \<or> is_node NS_XENC ''ReferenceList'' t"
    using assms(1) by (auto simp: xenc_placed_def split: option.splits)
  then have ne: "?inner \<noteq> []" "t = last ?inner" and "\<exists>a \<in> set (ancestors doc n). fst a = ?s"
    by (auto simp: top_below_def Let_def split: if_splits)
  then have "?s \<in> set (map fst (ancestors doc n))" by (metis image_eqI list.set_map)
  then obtain k where "?s = take k ?pos" "k \<le> length ?pos" unfolding anc by auto
  then have s: "?s = take ?l ?pos" "?l \<le> length ?pos" by auto
  have l: "1 \<le> ?l" using doc_nodes_nonroot [OF assms(3)] by (cases ?s) auto
  have "map fst ?inner = takeWhile (\<lambda>x. x \<noteq> ?s) (map (\<lambda>k. take k ?pos) (rev [1..<Suc (length ?pos)]))"
    unfolding anc [symmetric] by (simp add: takeWhile_map comp_def)
  also have "\<dots> = map (\<lambda>k. take k ?pos) (takeWhile (\<lambda>k. take k ?pos \<noteq> ?s) (rev [1..<Suc (length ?pos)]))"
    by (simp add: takeWhile_map comp_def)
  also have "rev [1..<Suc (length ?pos)] = rev [Suc ?l..<Suc (length ?pos)] @ ?l # rev [1..<?l]"
    using upt_add_eq_append [of 1 ?l "Suc (length ?pos) - ?l"] upt_conv_Cons [of ?l "Suc (length ?pos)"] l s(2) by simp
  also have "takeWhile (\<lambda>k. take k ?pos \<noteq> ?s) (rev [Suc ?l..<Suc (length ?pos)] @ ?l # rev [1..<?l]) = rev [Suc ?l..<Suc (length ?pos)]"
    using s(1) by (subst takeWhile_append2) (auto dest: arg_cong [where f = length])
  finally have f: "map fst ?inner = map (\<lambda>k. take k ?pos) (rev [Suc ?l..<Suc (length ?pos)])" .
  then have lt: "?l < length ?pos" using ne(1) by (cases "?l < length ?pos") auto
  have "fst t = last (map fst ?inner)" using ne by (simp add: last_map)
  also have "\<dots> = take (Suc ?l) ?pos" unfolding f using lt by (simp add: last_map last_rev)
  finally have ft: "fst t = ?s @ [?pos ! ?l]" using s lt by (simp add: take_Suc_conv_app_nth)
  have "t \<in> set (ancestors doc n)" using ne by (metis last_in_set set_takeWhileD)
  then have "t \<in> set (doc_nodes doc)" by (rule ancestors_doc)
  moreover have "?pos = ?s @ ?pos ! ?l # drop (Suc ?l) ?pos" using s lt by (metis id_take_nth_drop)
  ultimately show ?thesis using ft t(2) by blast
qed

lemma resolve_envelope_Some:
  assumes "resolve_envelope b64 doc security declared (Some suite) max_parts = Inr (Some env)"
  obtains key key_id spec data recipient where
    "\<forall>n \<in> set (filter xenc_markup (doc_nodes doc)). xenc_placed doc security n"
    "length (filter (is_node NS_XENC ''EncryptedData'') (child_nodes security)) \<le> max_parts"
    "rfold (collect_data key_id declared) [] (filter (is_node NS_XENC ''EncryptedData'') (child_nodes security)) = Inr data"
    "check_suite key (filter (is_node NS_XENC ''EncryptedData'') (child_nodes security)) suite = Inr ()"
    "parse_encrypted_key b64 doc key = Inr spec"
    "env = \<lparr>re_key = spec\<lparr>ek_recipient := recipient\<rparr>, re_data = data\<rparr>"
proof -
  have ne: "\<not> (filter (is_node NS_XENC ''EncryptedKey'') (child_nodes security) = [] \<and>
      filter (is_node NS_XENC ''EncryptedData'') (child_nodes security) = [])"
    using assms by (auto simp: resolve_envelope_def Let_def rbind_Inr_iff)
  show ?thesis
    using assms
    unfolding resolve_envelope_def Let_def if_not_P [OF ne] rbind_Inr_iff for_each_Inr_iff check_Inr_iff sum.inject option.inject
      option.case(2)
    by clarify (rule that; (assumption | simp only:))
qed


text \<open>An accepted envelope: one part encrypted for a certificate, RSA-OAEP and AES-128-GCM.\<close>

definition el :: "string \<Rightarrow> string \<Rightarrow> (string \<times> string) list \<Rightarrow> xnode list \<Rightarrow> xnode" where
  "el ns name as cs = Element (Some ns) name (map (\<lambda>(k, v). ((None, k), v)) as) cs"

definition demo_security :: document where
  "demo_security =
     [el NS_WSSE ''Security'' []
       [el NS_XENC ''EncryptedKey'' [(''Id'', ''ek'')]
          [el NS_XENC ''EncryptionMethod'' [(''Algorithm'', URI_RSA_OAEP)]
             [el NS_DS ''DigestMethod'' [(''Algorithm'', URI_SHA256)] [],
              el NS_XENC11 ''MGF'' [(''Algorithm'', URI_MGF1_SHA256)] []],
           el NS_XENC ''CipherData'' [] [el NS_XENC ''CipherValue'' [] [TextNode ''AA'']],
           el NS_XENC ''ReferenceList'' [] [el NS_XENC ''DataReference'' [(''URI'', ''#ed'')] []]],
        el NS_XENC ''EncryptedData'' [(''Id'', ''ed''), (''Type'', SWA_CONTENT_ONLY)]
          [el NS_XENC ''EncryptionMethod'' [(''Algorithm'', URI_AES128_GCM)] [],
           el NS_XENC ''CipherData'' []
             [el NS_XENC ''CipherReference'' [(''URI'', ''cid:p1@asx'')]
                [el NS_XENC ''Transforms'' [] [el NS_DS ''Transform'' [(''Algorithm'', SWA_CIPHERTEXT_TRANSFORM)] []]]]]]]"

definition demo_b64 :: base64 where
  "demo_b64 s = Inr (map (\<lambda>c. word_of_nat (byte c)) s)"

lemma ns_distinct [simp]:
  "NS_XENC \<noteq> NS_XENC11" "NS_XENC11 \<noteq> NS_XENC" "NS_XENC \<noteq> NS_DS" "NS_DS \<noteq> NS_XENC" "NS_XENC \<noteq> NS_WSSE" "NS_WSSE \<noteq> NS_XENC"
  "NS_XENC11 \<noteq> NS_DS" "NS_DS \<noteq> NS_XENC11" "NS_XENC11 \<noteq> NS_WSSE" "NS_WSSE \<noteq> NS_XENC11" "NS_DS \<noteq> NS_WSSE" "NS_WSSE \<noteq> NS_DS"
  "NS_XENC \<noteq> NS_WSSE11" "NS_XENC11 \<noteq> NS_WSSE11" "NS_DS \<noteq> NS_WSSE11" "NS_WSSE \<noteq> NS_WSSE11"
  by (simp_all add: NS_XENC_def NS_XENC11_def NS_DS_def NS_WSSE_def NS_WSSE11_def)

lemma demo_placed: "for_each (\<lambda>n. check (xenc_placed demo_security ([0], hd demo_security) n) (misplaced n)) (filter xenc_markup (doc_nodes demo_security)) = Inr ()"
  by (simp add: demo_security_def doc_nodes_def el_def xenc_markup_def is_node_def xenc_placed_def top_below_def ancestors_def node_at_def
    map_filter_simps Let_def upt_rec)

lemma uri_trim: "trim URI_RSA_OAEP = URI_RSA_OAEP" "trim URI_SHA256 = URI_SHA256" "trim URI_MGF1_SHA256 = URI_MGF1_SHA256"
  "trim URI_AES128_GCM = URI_AES128_GCM" "trim ''cid:p1@asx'' = ''cid:p1@asx''" "trim ''#ed'' = ''#ed''" "trim ''p1@asx'' = ''p1@asx''"
  by (rule trim_graph; simp add: is_graph_def byte_def URI_RSA_OAEP_def URI_SHA256_def URI_MGF1_SHA256_def URI_AES128_GCM_def)+

lemma uri_ne: "URI_RSA_OAEP \<noteq> []" "URI_SHA256 \<noteq> []" "URI_MGF1_SHA256 \<noteq> []" "URI_AES128_GCM \<noteq> []"
  by (simp_all add: URI_RSA_OAEP_def URI_SHA256_def URI_MGF1_SHA256_def URI_AES128_GCM_def)

lemma uri_lookup:
  "key_transport_from_uri URI_RSA_OAEP = Inr KtRsaOaep" "digest_from_algorithm_uri URI_SHA256 = Inr Sha256"
  "mgf_from_uri URI_MGF1_SHA256 = Inr Mgf1Sha256" "cipher_from_uri URI_AES128_GCM = Inr Aes128Gcm"
  "alg_uri (AKeyTransport KtRsaOaep) = URI_RSA_OAEP" "alg_uri (AContentCipher Aes128Gcm) = URI_AES128_GCM"
  by code_simp+

lemma demo_cid: "is_cid ''cid:p1@asx''" "normalize_cid ''cid:p1@asx'' = ''p1@asx''" "normalize_cid ''p1@asx'' = ''p1@asx''"
  by code_simp+

lemma demo_resolves: "(case resolve_envelope demo_b64 demo_security ([0], hd demo_security) [''p1@asx''] (Some (encryption_suite (preset Peppol203))) 16 of
      Inr (Some env) \<Rightarrow> map ds_cid (re_data env) = [''p1@asx''] | _ \<Rightarrow> False)"
  unfolding resolve_envelope_def demo_placed rbind_simps
  by (simp add: demo_security_def doc_nodes_def el_def is_node_def Let_def child_nodes_def element_id_def plain_id_def attribute_ns_def
    children_in_def named_children_def element_children_def data_reference_def attribute_def or_else_def fragment_def strip_prefix_def
    elements_with_id_def collect_data_def resolve_data_def one_child_def exactly_one_def algorithm_def trimmed_nonempty_def uri_trim uri_ne
    uri_lookup demo_cid check_suite_def child_named_def attr_of_def encryption_suite_def preset_def parse_encrypted_key_def
    parse_rsa_oaep_params_def cipher_value_def base64_text_def demo_b64_def recipient_ref_def node_subtree_def bst_reference_def
    map_filter_simps NS_WSU_def is_ascii_ws_def byte_def)


end
