(* ===== verification/As4_Types.thy ===== *)
theory As4_Types
  imports Profile
begin

text \<open>
  The parsed AS4 user message with its timestamp check (src/as4/types/messages.rs) and the ebMS error
  vocabulary (src/as4/types/error_codes.rs). The check is shown to accept exactly the timestamps of
  the window, and the vocabulary to survive printing and parsing.
\<close>

section \<open>Messages\<close>

record ParsedWsAddressingHeaders =
  wsa_message_id :: "string option"
  wsa_action :: "string option"
  wsa_to :: "string option"
  wsa_reply_to :: "string option"

record ParsedAs4UserMessage =
  um_message_id :: string
  um_action :: string
  um_from_party_ids :: "string list"
  um_to_party_ids :: "string list"
  um_from_party_type :: "string option"
  um_to_party_type :: "string option"
  um_mpc :: "string option"
  um_conversation_id :: "string option"
  um_has_ws_security_header :: bool
  um_service :: "string option"
  um_ref_to_message_id :: "string option"
  um_original_sender :: "string option"
  um_final_recipient :: "string option"
  um_tracking_identifier :: "string option"
  um_timestamp :: "string option"
  um_wsa_headers :: "ParsedWsAddressingHeaders option"

text \<open>The first identifier of each side; the parser refuses a message without one.\<close>

definition sender_party_id :: "ParsedAs4UserMessage \<Rightarrow> string" where
  "sender_party_id m = hd (um_from_party_ids m)"

definition to_party_id :: "ParsedAs4UserMessage \<Rightarrow> string" where
  "to_party_id m = hd (um_to_party_ids m)"

definition show_int :: "int \<Rightarrow> string" where
  "show_int n = (if n < 0 then ''-'' @ show_nat (nat (- n)) else show_nat (nat n))"

definition freshness_refused :: "ParsedAs4UserMessage \<Rightarrow> string \<Rightarrow> AsxError" where
  "freshness_refused m detail =
     asx_error SecurityVerificationFailed
       (''eb:Timestamp '' @ detail @ ''; message rejected to prevent replay'')
       (with_message_id (um_message_id m) (context_new ''as4_timestamp_freshness''))"

definition check_timestamp_freshness ::
  "ParsedAs4UserMessage \<Rightarrow> TimestampWindow \<Rightarrow> system_time \<Rightarrow> unit res" where
  "check_timestamp_freshness m window now =
     (case um_timestamp m of
        None \<Rightarrow> Inr ()
      | Some ts_str \<Rightarrow>
          rbind (ok_or (asx_error ParseFailed
              (''eb:Timestamp value '' @ squote ts_str @ '' is not a valid RFC 3339 timestamp'')
              (context_new ''as4_timestamp_freshness'')) (parse_rfc3339_to_unix_secs ts_str)) (\<lambda>ts_secs.
            let now_secs = unix_secs now; ahead = ts_secs - now_secs; behind = now_secs - ts_secs in
            if ahead > int (tw_future window) then
              Inl (freshness_refused m (''is '' @ show_int ahead @ '' s in the future (allowed '' @
                show_nat (tw_future window) @ '' s)''))
            else if behind > int (tw_past window) then
              Inl (freshness_refused m (''is '' @ show_int behind @
                '' s old, beyond the duplicate-detection retention ('' @ show_nat (tw_past window) @ '' s)''))
            else Inr ()))"

section \<open>Error codes\<close>

datatype As4ErrorCode =
    ValueNotRecognized | FeatureNotSupported | ValueInconsistent | OtherError | MissingReceipt
  | InvalidReceipt | DecompressionFailure

fun ebms_code_of :: "As4ErrorCode \<Rightarrow> string" where
  "ebms_code_of ValueNotRecognized = ''EBMS:0001''"
| "ebms_code_of FeatureNotSupported = ''EBMS:0002''"
| "ebms_code_of ValueInconsistent = ''EBMS:0003''"
| "ebms_code_of OtherError = ''EBMS:0004''"
| "ebms_code_of MissingReceipt = ''EBMS:0301''"
| "ebms_code_of InvalidReceipt = ''EBMS:0302''"
| "ebms_code_of DecompressionFailure = ''EBMS:0303''"

text \<open>\<open>str::split_at_checked\<close>: inside the string and not within a UTF-8 character.\<close>

definition split_at_checked :: "nat \<Rightarrow> string \<Rightarrow> (string \<times> string) option" where
  "split_at_checked n s =
     (if n > length s \<or> (n < length s \<and> 128 \<le> byte (s ! n) \<and> byte (s ! n) < 192) then None
      else Some (take n s, drop n s))"

definition from_ebms_code :: "string \<Rightarrow> As4ErrorCode option" where
  "from_ebms_code code =
     Option.bind (split_at_checked 5 (trim code)) (\<lambda>(prefix, digits).
       if \<not> eq_ignore_ascii_case prefix ''EBMS:'' then None
       else if digits = ''0001'' then Some ValueNotRecognized
       else if digits = ''0002'' then Some FeatureNotSupported
       else if digits = ''0003'' then Some ValueInconsistent
       else if digits = ''0004'' then Some OtherError
       else if digits = ''0301'' then Some MissingReceipt
       else if digits = ''0302'' then Some InvalidReceipt
       else if digits = ''0303'' then Some DecompressionFailure
       else None)"

datatype As4ErrorSeverity = Failure | Warning

fun severity_as_str :: "As4ErrorSeverity \<Rightarrow> string" where
  "severity_as_str Failure = ''Failure''"
| "severity_as_str Warning = ''Warning''"

definition from_ebms_severity :: "string \<Rightarrow> As4ErrorSeverity option" where
  "from_ebms_severity severity =
     (let s = trim severity in
      if eq_ignore_ascii_case s ''failure'' then Some Failure
      else if eq_ignore_ascii_case s ''warning'' then Some Warning
      else None)"

section \<open>Properties\<close>

lemma check_timestamp_Inr:
  "check_timestamp_freshness m w now = Inr u \<longleftrightarrow>
     (case um_timestamp m of None \<Rightarrow> True
      | Some s \<Rightarrow> (\<exists>ts. parse_rfc3339_to_unix_secs s = Some ts \<and>
          unix_secs now - int (tw_past w) \<le> ts \<and> ts \<le> unix_secs now + int (tw_future w)))"
proof (cases "um_timestamp m")
  case (Some s)
  then show ?thesis
    by (cases "parse_rfc3339_to_unix_secs s") (auto simp: check_timestamp_freshness_def Let_def)
qed (simp add: check_timestamp_freshness_def)

lemma trim_no_ws:
  assumes "s \<noteq> []" "str_ws s = 0" "str_ws_end s = 0"
  shows "trim s = s"
  using assms by (simp add: trim_def trim_start.simps [of s] trim_end.simps [of s])

lemma trim_code: "trim (ebms_code_of c) = ebms_code_of c"
  by (rule trim_no_ws; cases c) (simp_all add: str_ws_def str_ws_end_def byte_def Let_def)

lemma trim_severity: "trim (severity_as_str s) = severity_as_str s"
  by (rule trim_no_ws; cases s) (simp_all add: str_ws_def str_ws_end_def byte_def Let_def)

text \<open>
  Error codes and severities survive printing and parsing, and the parser knows no other codes: a
  text it accepts is, up to surrounding whitespace and the case of the prefix, the text printed
  for the code it returns.
\<close>
theorem ebms_vocabulary_round_trip:
  "from_ebms_code (ebms_code_of c) = Some c \<and> from_ebms_severity (severity_as_str sev) = Some sev \<and>
   (from_ebms_code s = Some d \<longrightarrow>
      to_ascii_lowercase (take 5 (trim s)) @ drop 5 (trim s) =
      to_ascii_lowercase (take 5 (ebms_code_of d)) @ drop 5 (ebms_code_of d))"
proof (intro conjI impI)
  have "eq_ignore_ascii_case ''EBMS:'' ''EBMS:''" by (simp add: eq_ignore_ascii_case_def)
  then show "from_ebms_code (ebms_code_of c) = Some c"
    unfolding from_ebms_code_def trim_code
    by (cases c) (simp_all add: split_at_checked_def byte_def)
  have "eq_ignore_ascii_case ''Failure'' ''failure''" "eq_ignore_ascii_case ''Warning'' ''warning''"
    "\<not> eq_ignore_ascii_case ''Warning'' ''failure''" by code_simp+
  then show "from_ebms_severity (severity_as_str sev) = Some sev"
    unfolding from_ebms_severity_def trim_severity by (cases sev) simp_all
  assume "from_ebms_code s = Some d"
  then show "to_ascii_lowercase (take 5 (trim s)) @ drop 5 (trim s) =
      to_ascii_lowercase (take 5 (ebms_code_of d)) @ drop 5 (ebms_code_of d)"
    by (auto simp: from_ebms_code_def bind_eq_Some_conv split_at_checked_def eq_ignore_ascii_case_def
        split: if_splits)
qed

theorem ebms_vocabulary_round_trip_witness:
  "from_ebms_code ''EBMS:0302'' = Some InvalidReceipt \<and>
   to_ascii_lowercase (take 5 (trim ''EBMS:0302'')) = to_ascii_lowercase ''EBMS:''"
  using ebms_vocabulary_round_trip [of InvalidReceipt Failure "''EBMS:0302''" InvalidReceipt] trim_code [of InvalidReceipt]
  by simp

end
