(* ===== verification/As4_Parser.thy ===== *)
theory As4_Parser
  imports As4_Types Xml_Dom
begin

text \<open>
  The two envelope parsers of src/as4/parser.rs: the user message of an inbound request and the signal
  message of a synchronous answer, over the document tree. Shown: what an accepted user message has (one
  mandatory eb:Messaging, one security header for the receiver, no mandatory block that is not
  understood, one message id, and identified parties), and that an accepted signal is unambiguous and bounded.
\<close>

section \<open>User messages\<close>

record As4UserMessageParseState =
  ps_from_party_type :: "string option"
  ps_to_party_type :: "string option"
  ps_has_messaging :: bool
  ps_has_user_message :: bool
  ps_has_security :: bool
  ps_must_understand_true :: bool
  ps_message_id :: "string option"
  ps_ref_to_message_id :: "string option"
  ps_action :: "string option"
  ps_original_sender :: "string option"
  ps_final_recipient :: "string option"
  ps_tracking_identifier :: "string option"
  ps_service :: "string option"
  ps_conversation_id :: "string option"
  ps_timestamp :: "string option"
  ps_from_party_ids :: "string list"
  ps_to_party_ids :: "string list"
  ps_mpc :: "string option"
  ps_wsa_message_id :: "string option"
  ps_wsa_action :: "string option"
  ps_wsa_to :: "string option"
  ps_wsa_reply_to :: "string option"

definition parse_state_default :: As4UserMessageParseState where
  "parse_state_default =
     \<lparr>ps_from_party_type = None, ps_to_party_type = None, ps_has_messaging = False, ps_has_user_message = False,
      ps_has_security = False, ps_must_understand_true = False, ps_message_id = None, ps_ref_to_message_id = None,
      ps_action = None, ps_original_sender = None, ps_final_recipient = None, ps_tracking_identifier = None,
      ps_service = None, ps_conversation_id = None, ps_timestamp = None, ps_from_party_ids = [],
      ps_to_party_ids = [], ps_mpc = None, ps_wsa_message_id = None, ps_wsa_action = None, ps_wsa_to = None,
      ps_wsa_reply_to = None\<rparr>"

definition user_stage :: string where
  "user_stage = ''as4_parse_user_message''"

definition user_err :: "Session \<Rightarrow> ErrorCode \<Rightarrow> string \<Rightarrow> AsxError" where
  "user_err session code msg = asx_error code msg (for_session user_stage session)"

definition user_msg_err :: "Session \<Rightarrow> string \<Rightarrow> ErrorCode \<Rightarrow> string \<Rightarrow> AsxError" where
  "user_msg_err session mid code msg = asx_error code msg (for_session_with_message user_stage session mid)"

definition parse_as4_user_message_document ::
  "(nat \<Rightarrow> string \<Rightarrow> (string, 'd) result) \<Rightarrow> string \<Rightarrow> Session \<Rightarrow> 'd res" where
  "parse_as4_user_message_document parse_tree xml session =
     map_err (\<lambda>e. user_err session ParseFailed (''failed to parse AS4 SOAP envelope: '' @ err_message e))
       (xml_parse parse_tree xml LIMITS_ENVELOPE user_stage)"

definition build_parsed_wsa_headers :: "As4UserMessageParseState \<Rightarrow> ParsedWsAddressingHeaders option" where
  "build_parsed_wsa_headers st =
     (if ps_wsa_message_id st = None \<and> ps_wsa_action st = None \<and> ps_wsa_to st = None \<and> ps_wsa_reply_to st = None
      then None
      else Some \<lparr>wsa_message_id = ps_wsa_message_id st, wsa_action = ps_wsa_action st,
                 wsa_to = ps_wsa_to st, wsa_reply_to = ps_wsa_reply_to st\<rparr>)"

definition SOAP12_ROLE_ULTIMATE_RECEIVER :: string where
  "SOAP12_ROLE_ULTIMATE_RECEIVER = ''http://www.w3.org/2003/05/soap-envelope/role/ultimateReceiver''"

record SoapHeaderTargetingDom =
  must_understand_true :: bool
  invalid_must_understand :: bool
  role :: "string option"

definition targeting_attr ::
  "string \<Rightarrow> (string option \<times> string) \<times> string \<Rightarrow> SoapHeaderTargetingDom \<Rightarrow> SoapHeaderTargetingDom" where
  "targeting_attr soap_ns attr t =
     (case attr of ((ns, name), val) \<Rightarrow>
        if ns \<noteq> Some soap_ns then t
        else
          let normalized = trim val in
          if name = ''mustUnderstand'' then
            (let v = to_ascii_lowercase normalized in
             if v = ''true'' \<or> v = ''1'' then t\<lparr>must_understand_true := True\<rparr>
             else if v \<noteq> ''false'' \<and> v \<noteq> ''0'' then t\<lparr>invalid_must_understand := True\<rparr>
             else t)
          else if name = ''role'' \<and> soap_ns = NS_SOAP12 then t\<lparr>role := Some normalized\<rparr>
          else t)"

definition parse_soap_header_targeting_dom :: "xnode \<Rightarrow> string \<Rightarrow> SoapHeaderTargetingDom" where
  "parse_soap_header_targeting_dom node soap_ns =
     fold (targeting_attr soap_ns) (attributes_of node)
       \<lparr>must_understand_true = False, invalid_must_understand = False, role = None\<rparr>"

definition header_is_targeted_to_receiver_dom :: "SoapHeaderTargetingDom \<Rightarrow> bool" where
  "header_is_targeted_to_receiver_dom t =
     (case role t of
        Some role_value \<Rightarrow> (let n = trim role_value in n = [] \<or> n = SOAP12_ROLE_ULTIMATE_RECEIVER)
      | None \<Rightarrow> True)"

text \<open>\<open>node.text()\<close>, trimmed, where not empty.\<close>

definition trimmed_text :: "xnode \<Rightarrow> string option" where
  "trimmed_text n =
     (case node_text n of None \<Rightarrow> None | Some v \<Rightarrow> (let v = trim v in if v = [] then None else Some v))"

definition descendant_texts :: "xnode \<Rightarrow> string \<Rightarrow> string \<Rightarrow> string list" where
  "descendant_texts node ns local_name = List.map_filter trimmed_text (filter (is_named ns local_name) (descendants node))"

definition first_of :: "'a list \<Rightarrow> 'a option" where
  "first_of xs = (case xs of [] \<Rightarrow> None | x # _ \<Rightarrow> Some x)"

definition descendant_text :: "xnode \<Rightarrow> string \<Rightarrow> string \<Rightarrow> string option" where
  "descendant_text node ns local_name = first_of (descendant_texts node ns local_name)"

text \<open>
  The user message with its ancestors is \<open>(anc, um)\<close>; the nodes below it with an ancestor (itself included) of
  this name.
\<close>

definition below :: "xnode list \<Rightarrow> xnode \<Rightarrow> (xnode \<Rightarrow> bool) \<Rightarrow> string \<Rightarrow> xnode list" where
  "below anc um p direction =
     map snd (filter (\<lambda>(path, n). p n \<and> (\<exists>a \<in> set path. is_named NS_EBMS3 direction a)) (walk anc um))"

text \<open>The same, without building the paths.\<close>

fun under :: "(xnode \<Rightarrow> bool) \<Rightarrow> string \<Rightarrow> bool \<Rightarrow> xnode \<Rightarrow> xnode list" where
  "under p direction inside (Element ns name as cs) =
     (let n = Element ns name as cs; inside = (inside \<or> is_named NS_EBMS3 direction n)
      in (if inside \<and> p n then [n] else []) @ concat (map (under p direction inside) cs))"
| "under p direction inside n = (if inside \<and> p n then [n] else [])"

lemma walk_under:
  "map snd (filter (\<lambda>(path, n). p n \<and> (\<exists>a \<in> set path. is_named NS_EBMS3 d a)) (walk anc um)) =
     under p d (list_ex (is_named NS_EBMS3 d) anc) um"
proof (induction um arbitrary: anc)
  case (Element ns name as cs)
  let ?n = "Element ns name as cs" and ?P = "\<lambda>(path, n). p n \<and> (\<exists>a \<in> set path. is_named NS_EBMS3 d a)"
  have b: "(list_ex (is_named NS_EBMS3 d) anc \<or> is_named NS_EBMS3 d ?n) = list_ex (is_named NS_EBMS3 d) (?n # anc)" by auto
  have "map snd (filter ?P (concat (map (walk (?n # anc)) cs))) = concat (map (\<lambda>c. map snd (filter ?P (walk (?n # anc) c))) cs)"
    by (simp add: filter_concat map_concat comp_def)
  also have "\<dots> = concat (map (under p d (list_ex (is_named NS_EBMS3 d) (?n # anc))) cs)"
    using Element by (intro arg_cong [where f = concat] map_cong) auto
  finally have c: "map snd (filter ?P (concat (map (walk (?n # anc)) cs))) = concat (map (under p d (list_ex (is_named NS_EBMS3 d) (?n # anc))) cs)" .
  show ?case unfolding walk.simps under.simps Let_def b filter.simps c [symmetric] by (simp add: list_ex_iff)
qed (auto simp: list_ex_iff)

lemma below_code [code]: "below anc um p d = under p d (list_ex (is_named NS_EBMS3 d) anc) um"
  unfolding below_def by (rule walk_under)

definition first_party_type :: "xnode list \<Rightarrow> xnode \<Rightarrow> string \<Rightarrow> string option" where
  "first_party_type anc um direction =
     Option.bind (first_of (below anc um (is_named NS_EBMS3 ''PartyId'') direction))
       (\<lambda>n. map_option trim (attribute ''type'' n))"

definition party_ids_for :: "xnode list \<Rightarrow> xnode \<Rightarrow> string \<Rightarrow> string list" where
  "party_ids_for anc um direction =
     List.map_filter trimmed_text (below anc um (is_named NS_EBMS3 ''PartyId'') direction)"

definition texts_of_children :: "xnode \<Rightarrow> string" where
  "texts_of_children n = concat (List.map_filter node_text (filter is_text (children n)))"

definition property_value_from_node :: "xnode \<Rightarrow> Session \<Rightarrow> string \<Rightarrow> string option res" where
  "property_value_from_node node session stage =
     (let text = trim (texts_of_children node) in
      if text \<noteq> [] then Inr (Some text)
      else if attribute ''value'' node \<noteq> None then
        Inl (asx_error InteropViolation
          (''eb:Property '' @ dquote (or_else (attribute ''name'' node) []) @ '' carries its value in a '' @
           [CHR 0x60] @ ''value'' @ [CHR 0x60] @ '' attribute; ebMS3 Property values are element text'')
          (for_session stage session))
      else Inr None)"

definition message_property_values :: "xnode list \<Rightarrow> xnode \<Rightarrow> string \<Rightarrow> Session \<Rightarrow> string list res" where
  "message_property_values anc um property_name session =
     rbind (rmap (\<lambda>n. property_value_from_node n session user_stage)
         (below anc um (\<lambda>n. is_named NS_EBMS3 ''Property'' n \<and> attribute ''name'' n = Some property_name)
            ''MessageProperties'')) (\<lambda>vs.
       Inr (List.map_filter id vs))"

text \<open>At most one value; the first.\<close>

definition at_most_one :: "Session \<Rightarrow> string \<Rightarrow> string list \<Rightarrow> string option res" where
  "at_most_one session what vs =
     (if length vs > 1 then Inl (user_err session InteropViolation (''AS4 UserMessage contains duplicate '' @ what))
      else Inr (first_of vs))"

definition or_old :: "'a option \<Rightarrow> 'a option \<Rightarrow> 'a option" where
  "or_old new old = (case new of Some x \<Rightarrow> Some x | None \<Rightarrow> old)"

text \<open>A WS-Addressing header.\<close>

definition wsa_header :: "xnode \<Rightarrow> As4UserMessageParseState \<Rightarrow> As4UserMessageParseState" where
  "wsa_header child st =
     (if node_name child = ''MessageID'' then st\<lparr>ps_wsa_message_id := or_old (trimmed_text child) (ps_wsa_message_id st)\<rparr>
      else if node_name child = ''Action'' then st\<lparr>ps_wsa_action := or_old (trimmed_text child) (ps_wsa_action st)\<rparr>
      else if node_name child = ''To'' then st\<lparr>ps_wsa_to := or_old (trimmed_text child) (ps_wsa_to st)\<rparr>
      else if node_name child = ''ReplyTo'' then
        st\<lparr>ps_wsa_reply_to := or_old (Option.bind (find (is_named NS_WSA ''Address'') (descendants child)) trimmed_text)
             (ps_wsa_reply_to st)\<rparr>
      else st)"

text \<open>One block of the SOAP header; the state and the eb:Messaging found.\<close>

definition header_block ::
  "Session \<Rightarrow> As4UserMessageParseState \<times> xnode option \<Rightarrow> xnode \<Rightarrow> (As4UserMessageParseState \<times> xnode option) res" where
  "header_block session acc child =
     (case acc of (st, messaging) \<Rightarrow>
      let t = parse_soap_header_targeting_dom child NS_SOAP12;
          violation = (\<lambda>msg. Inl (user_err session InteropViolation msg)) in
      if is_named NS_EBMS3 ''Messaging'' child then
        if ps_has_messaging st then violation ''AS4 SOAP Header contains duplicate eb:Messaging blocks''
        else if invalid_must_understand t then violation ''AS4 eb:Messaging has invalid SOAP mustUnderstand token''
        else if \<not> header_is_targeted_to_receiver_dom t then
          violation ''AS4 eb:Messaging SOAP targeting must resolve to receiver role''
        else Inr (st\<lparr>ps_has_messaging := True,
                     ps_must_understand_true := must_understand_true t \<or> ps_must_understand_true st\<rparr>,
                  if messaging = None then Some child else messaging)
      else if is_named NS_WSSE ''Security'' child then
        if invalid_must_understand t then violation ''AS4 SOAP Header block has invalid SOAP mustUnderstand token''
        else if header_is_targeted_to_receiver_dom t \<and> ps_has_security st then
          violation ''AS4 SOAP Header contains duplicate receiver-targeted wsse:Security blocks''
        else if header_is_targeted_to_receiver_dom t then Inr (st\<lparr>ps_has_security := True\<rparr>, messaging)
        else Inr (st, messaging)
      else if node_ns child = Some NS_WSA then Inr (wsa_header child st, messaging)
      else if must_understand_true t \<and> header_is_targeted_to_receiver_dom t then
        violation ''AS4 SOAP Header contains unknown mandatory receiver-targeted block''
      else if invalid_must_understand t then
        violation ''AS4 SOAP Header block has invalid SOAP mustUnderstand token''
      else Inr (st, messaging))"

text \<open>The fields of the user message.\<close>

definition user_message_fields ::
  "Session \<Rightarrow> xnode list \<Rightarrow> xnode \<Rightarrow> As4UserMessageParseState \<Rightarrow> As4UserMessageParseState res" where
  "user_message_fields session anc um st =
     (let st = st\<lparr>ps_has_user_message := True,
            ps_mpc := (case attribute ''mpc'' um of
               Some m \<Rightarrow> (let m = trim m in if m = [] then ps_mpc st else Some m) | None \<Rightarrow> ps_mpc st)\<rparr> in
      rbind (at_most_one session ''MessageId'' (descendant_texts um NS_EBMS3 ''MessageId'')) (\<lambda>message_id.
      rbind (at_most_one session ''Action'' (descendant_texts um NS_EBMS3 ''Action'')) (\<lambda>action.
      rbind (at_most_one session ''ConversationId'' (descendant_texts um NS_EBMS3 ''ConversationId'')) (\<lambda>conversation_id.
      rbind (message_property_values anc um ''originalSender'' session) (\<lambda>os.
      rbind (at_most_one session ''Property originalSender'' os) (\<lambda>original_sender.
      rbind (message_property_values anc um ''finalRecipient'' session) (\<lambda>fr.
      rbind (at_most_one session ''Property finalRecipient'' fr) (\<lambda>final_recipient.
      rbind (message_property_values anc um ''trackingIdentifier'' session) (\<lambda>ti.
      rbind (at_most_one session ''Property trackingIdentifier'' ti) (\<lambda>tracking_identifier.
        Inr (st\<lparr>ps_message_id := message_id,
                ps_ref_to_message_id := descendant_text um NS_EBMS3 ''RefToMessageId'',
                ps_action := action,
                ps_service := descendant_text um NS_EBMS3 ''Service'',
                ps_conversation_id := conversation_id,
                ps_timestamp := descendant_text um NS_EBMS3 ''Timestamp'',
                ps_original_sender := original_sender,
                ps_final_recipient := final_recipient,
                ps_tracking_identifier := tracking_identifier,
                ps_from_party_ids := party_ids_for anc um ''From'',
                ps_from_party_type := first_party_type anc um ''From'',
                ps_to_party_type := first_party_type anc um ''To'',
                ps_to_party_ids := party_ids_for anc um ''To''\<rparr>)))))))))))"

definition parse_as4_user_message_summary_dom_from_doc :: "document \<Rightarrow> Session \<Rightarrow> As4UserMessageParseState res" where
  "parse_as4_user_message_summary_dom_from_doc doc session =
     (let root = root_element doc; fail = user_err session ParseFailed in
      if node_name root \<noteq> ''Envelope'' then Inl (fail ''AS4 payload root element must be SOAP Envelope'')
      else if node_ns root = None then Inl (fail ''AS4 SOAP Envelope must declare namespace'')
      else if node_ns root \<noteq> Some NS_SOAP12 then
        Inl (user_err session InteropViolation ''AS4 policy requires SOAP 1.2 envelope namespace'')
      else
        rbind (ok_or (fail ''AS4 SOAP Envelope missing Header'')
            (find (is_named NS_SOAP12 ''Header'') (children root))) (\<lambda>header.
        if find (is_named NS_SOAP12 ''Body'') (children root) = None then
          Inl (fail ''AS4 SOAP Envelope missing Body'')
        else
          rbind (rfold (header_block session) (parse_state_default, None) (filter is_element (children header))) (\<lambda>(st, messaging).
            case messaging of
              None \<Rightarrow> Inr st
            | Some m \<Rightarrow>
                (case find (\<lambda>(path, n). is_named NS_EBMS3 ''UserMessage'' n) (walk [header, root] m) of
                   None \<Rightarrow> Inr st
                 | Some (path, um) \<Rightarrow> user_message_fields session (tl path) um st))))"

definition is_valid_mpc_uri :: "string \<Rightarrow> bool" where
  "is_valid_mpc_uri val =
     (let trimmed = trim val in
      if trimmed = [] then False
      else if list_ex is_ascii_control trimmed \<or> any_whitespace trimmed then False
      else (case find_subslice trimmed '':'' of
          None \<Rightarrow> False
        | Some colon_idx \<Rightarrow> colon_idx > 0 \<and> colon_idx < length trimmed - 1))"

text \<open>\<open>profile_built\<close> is the flag of that name of the session's metadata.\<close>

definition parse_as4_user_message_from_doc ::
  "bool \<Rightarrow> Session \<Rightarrow> document \<Rightarrow> ParsedAs4UserMessage res" where
  "parse_as4_user_message_from_doc profile_built session doc =
     rbind (parse_as4_user_message_summary_dom_from_doc doc session) (\<lambda>st.
     rbind (check (ps_has_messaging st) (user_err session ParseFailed ''AS4 SOAP Header missing eb:Messaging'')) (\<lambda>_.
     rbind (check (ps_has_user_message st) (user_err session ParseFailed ''AS4 eb:Messaging missing UserMessage'')) (\<lambda>_.
     rbind (check (ps_must_understand_true st)
        (user_err session InteropViolation ''AS4 eb:Messaging must set SOAP mustUnderstand=true'')) (\<lambda>_.
     rbind (check (ps_has_security st) (user_err session ParseFailed ''AS4 SOAP Header missing wsse:Security'')) (\<lambda>_.
     rbind (ok_or (user_err session ParseFailed ''AS4 UserMessage missing MessageId'') (ps_message_id st)) (\<lambda>message_id.
     let err = user_msg_err session message_id in
     rbind (ok_or (err ParseFailed ''AS4 UserMessage missing Action'') (ps_action st)) (\<lambda>action.
     rbind (check (ps_from_party_ids st \<noteq> []) (err ParseFailed ''AS4 UserMessage missing From/PartyId'')) (\<lambda>_.
     rbind (check (ps_to_party_ids st \<noteq> []) (err ParseFailed ''AS4 UserMessage missing To/PartyId'')) (\<lambda>_.
     rbind (check (case ps_mpc st of Some m \<Rightarrow> is_valid_mpc_uri m | None \<Rightarrow> True)
        (err InteropViolation ''AS4 UserMessage mpc must be a valid URI'')) (\<lambda>_.
     rbind (check (ps_original_sender st \<noteq> None \<or> profile_built)
        (err ParseFailed ''AS4 UserMessage missing Property originalSender'')) (\<lambda>_.
     rbind (check (ps_final_recipient st \<noteq> None \<or> profile_built)
        (err ParseFailed ''AS4 UserMessage missing Property finalRecipient'')) (\<lambda>_.
     rbind (check (ps_tracking_identifier st \<noteq> None \<or> profile_built)
        (err ParseFailed ''AS4 UserMessage missing Property trackingIdentifier'')) (\<lambda>_.
       Inr \<lparr>um_message_id = message_id, um_action = action, um_from_party_ids = ps_from_party_ids st,
            um_to_party_ids = ps_to_party_ids st, um_from_party_type = ps_from_party_type st,
            um_to_party_type = ps_to_party_type st, um_mpc = ps_mpc st, um_conversation_id = ps_conversation_id st,
            um_has_ws_security_header = ps_has_security st, um_service = ps_service st,
            um_ref_to_message_id = ps_ref_to_message_id st, um_original_sender = ps_original_sender st,
            um_final_recipient = ps_final_recipient st, um_tracking_identifier = ps_tracking_identifier st,
            um_timestamp = ps_timestamp st, um_wsa_headers = build_parsed_wsa_headers st\<rparr>)))))))))))))"

section \<open>Signal messages\<close>

definition MAX_SIGNAL_NRI_REFERENCES :: nat where
  "MAX_SIGNAL_NRI_REFERENCES = 256"

definition MAX_SIGNAL_ERRORS :: nat where
  "MAX_SIGNAL_ERRORS = 64"

record As4NriReference =
  nri_uri :: string
  nri_digest_method_uri :: string
  nri_digest_value_b64 :: string

record As4ReceivedError =
  re_error_code :: string
  re_severity :: "string option"
  re_category :: "string option"
  re_origin :: "string option"
  re_ref_to_message_id :: "string option"
  re_short_description :: "string option"
  re_description :: "string option"
  re_error_detail :: "string option"

record ParsedAs4SignalEnvelope =
  sig_has_signal_message :: bool
  sig_has_receipt :: bool
  sig_has_non_repudiation_info :: bool
  sig_has_signature :: bool
  sig_message_id :: "string option"
  sig_ref_to_message_id :: "string option"
  sig_timestamp :: "string option"
  sig_nri_references :: "As4NriReference list"
  sig_errors :: "As4ReceivedError list"

definition element_text :: "xnode \<Rightarrow> string option" where
  "element_text n =
     (let t = trim (concat (List.map_filter node_text (filter is_text (descendants n)))) in
      if t = [] then None else Some t)"

definition signal_attribute :: "xnode \<Rightarrow> string \<Rightarrow> string option" where
  "signal_attribute n name =
     (case attribute name n of None \<Rightarrow> None | Some v \<Rightarrow> (let v = trim v in if v = [] then None else Some v))"

definition signal_wrapping_error :: "Session \<Rightarrow> string \<Rightarrow> string \<Rightarrow> AsxError" where
  "signal_wrapping_error session stage msg = asx_error SecurityVerificationFailed msg (for_session stage session)"

text \<open>One value of the slot \<open>eb:local\<close>; a second is refused.\<close>

definition fill_slot :: "Session \<Rightarrow> string \<Rightarrow> string \<Rightarrow> string option \<Rightarrow> xnode \<Rightarrow> string option res" where
  "fill_slot session stage local slot node =
     (case element_text node of
        None \<Rightarrow> Inr slot
      | Some v \<Rightarrow>
          if slot \<noteq> None then
            Inl (signal_wrapping_error session stage (''AS4 eb:SignalMessage contains more than one eb:'' @ local @
              ''; a repeated element makes the signal ambiguous (possible element injection)''))
          else Inr (Some v))"

definition fill_slots :: "Session \<Rightarrow> string \<Rightarrow> string \<Rightarrow> string option \<Rightarrow> xnode \<Rightarrow> string option res" where
  "fill_slots session stage local slot info =
     rfold (fill_slot session stage local) slot (filter (is_named NS_EBMS3 local) (descendants info))"

definition message_info ::
  "Session \<Rightarrow> string \<Rightarrow> ParsedAs4SignalEnvelope \<Rightarrow> xnode \<Rightarrow> ParsedAs4SignalEnvelope res" where
  "message_info session stage out info =
     rbind (fill_slots session stage ''MessageId'' (sig_message_id out) info) (\<lambda>mid.
     rbind (fill_slots session stage ''RefToMessageId'' (sig_ref_to_message_id out) info) (\<lambda>ref.
     rbind (fill_slots session stage ''Timestamp'' (sig_timestamp out) info) (\<lambda>ts.
       Inr (out\<lparr>sig_message_id := mid, sig_ref_to_message_id := ref, sig_timestamp := ts\<rparr>))))"

definition nri_reference ::
  "Session \<Rightarrow> string \<Rightarrow> As4NriReference list \<Rightarrow> xnode \<Rightarrow> As4NriReference list res" where
  "nri_reference session stage refs reference =
     (if length refs \<ge> MAX_SIGNAL_NRI_REFERENCES then
        Inl (asx_error ParseFailed (''AS4 receipt NonRepudiationInformation exceeds the MessagePartNRInformation limit ('' @
          show_nat MAX_SIGNAL_NRI_REFERENCES @ '')'') (for_session stage session))
      else
        let digest_method_uri = Option.bind (find (is_named NS_DS ''DigestMethod'') (descendants reference))
              (\<lambda>n. signal_attribute n ''Algorithm'');
            digest_value_b64 = Option.bind (find (is_named NS_DS ''DigestValue'') (descendants reference)) element_text
        in (case (signal_attribute reference ''URI'', digest_method_uri, digest_value_b64) of
            (Some uri, Some method, Some val) \<Rightarrow>
              Inr (refs @ [\<lparr>nri_uri = uri, nri_digest_method_uri = method, nri_digest_value_b64 = val\<rparr>])
          | _ \<Rightarrow> Inr refs))"

definition is_nri :: "xnode \<Rightarrow> bool" where
  "is_nri n \<longleftrightarrow> is_named NS_EBBP_SIGNALS ''NonRepudiationInformation'' n \<or> is_named NS_EBMS3 ''NonRepudiationInformation'' n"

definition receipt_nri ::
  "Session \<Rightarrow> string \<Rightarrow> ParsedAs4SignalEnvelope \<Rightarrow> xnode \<Rightarrow> ParsedAs4SignalEnvelope res" where
  "receipt_nri session stage out nri =
     rbind (rfold (nri_reference session stage) (sig_nri_references out)
         (filter (is_named NS_DS ''Reference'') (descendants nri))) (\<lambda>refs.
       Inr (out\<lparr>sig_has_non_repudiation_info := True, sig_nri_references := refs\<rparr>))"

definition signal_receipt ::
  "Session \<Rightarrow> string \<Rightarrow> ParsedAs4SignalEnvelope \<Rightarrow> xnode \<Rightarrow> ParsedAs4SignalEnvelope res" where
  "signal_receipt session stage out receipt =
     rfold (receipt_nri session stage) (out\<lparr>sig_has_receipt := True\<rparr>) (filter is_nri (descendants receipt))"

definition received_error :: "xnode \<Rightarrow> As4ReceivedError" where
  "received_error e =
     (let child_text = (\<lambda>local. Option.bind (find (is_named NS_EBMS3 local) (descendants e)) element_text) in
      \<lparr>re_error_code = or_else (signal_attribute e ''errorCode'') ''unknown'',
       re_severity = signal_attribute e ''severity'', re_category = signal_attribute e ''category'',
       re_origin = signal_attribute e ''origin'', re_ref_to_message_id = signal_attribute e ''refToMessageId'',
       re_short_description = signal_attribute e ''shortDescription'',
       re_description = child_text ''Description'', re_error_detail = child_text ''ErrorDetail''\<rparr>)"

definition parse_as4_signal_envelope :: "document \<Rightarrow> Session \<Rightarrow> string \<Rightarrow> ParsedAs4SignalEnvelope res" where
  "parse_as4_signal_envelope doc session stage =
     (let all = doc_descendants doc;
          out = \<lparr>sig_has_signal_message = False, sig_has_receipt = False, sig_has_non_repudiation_info = False,
             sig_has_signature = list_ex (is_named NS_DS ''Signature'') all, sig_message_id = None,
             sig_ref_to_message_id = None, sig_timestamp = None, sig_nri_references = [], sig_errors = []\<rparr>
      in if length (filter (is_named NS_EBMS3 ''Messaging'') all) > 1 then
           Inl (signal_wrapping_error session stage
             ''AS4 signal envelope contains more than one eb:Messaging header block (possible XML signature wrapping)'')
         else (case filter (is_named NS_EBMS3 ''SignalMessage'') all of
             [] \<Rightarrow> Inr out
           | signal # others \<Rightarrow>
               if others \<noteq> [] then
                 Inl (signal_wrapping_error session stage
                   ''AS4 signal envelope contains more than one eb:SignalMessage; bundled signals are not accepted because the acknowledgement cannot be unambiguously correlated to the sent message'')
               else
                 let inside = descendants signal in
                 rbind (rfold (message_info session stage) (out\<lparr>sig_has_signal_message := True\<rparr>)
                     (filter (is_named NS_EBMS3 ''MessageInfo'') inside)) (\<lambda>out.
                 rbind (rfold (signal_receipt session stage) out (filter (is_named NS_EBMS3 ''Receipt'') inside)) (\<lambda>out.
                   Inr (out\<lparr>sig_errors := map received_error
                     (take MAX_SIGNAL_ERRORS (filter (is_named NS_EBMS3 ''Error'') inside))\<rparr>)))))"

section \<open>What an accepted user message has\<close>

definition targeted :: "xnode \<Rightarrow> bool" where
  "targeted b \<longleftrightarrow> header_is_targeted_to_receiver_dom (parse_soap_header_targeting_dom b NS_SOAP12)"

definition mandatory :: "xnode \<Rightarrow> bool" where
  "mandatory b \<longleftrightarrow> must_understand_true (parse_soap_header_targeting_dom b NS_SOAP12)"

definition understood :: "xnode \<Rightarrow> bool" where
  "understood b \<longleftrightarrow> is_named NS_EBMS3 ''Messaging'' b \<or> is_named NS_WSSE ''Security'' b \<or> node_ns b = Some NS_WSA"

text \<open>What the loop over the header blocks has established after the blocks \<open>ys\<close>.\<close>

definition header_inv :: "xnode list \<Rightarrow> As4UserMessageParseState \<times> xnode option \<Rightarrow> bool" where
  "header_inv ys acc \<longleftrightarrow>
     (case acc of (st, messaging) \<Rightarrow>
        filter (is_named NS_EBMS3 ''Messaging'') ys = (case messaging of None \<Rightarrow> [] | Some m \<Rightarrow> [m]) \<and>
        (ps_has_messaging st \<longleftrightarrow> messaging \<noteq> None) \<and>
        (ps_must_understand_true st \<longleftrightarrow> (\<exists>m. messaging = Some m \<and> mandatory m)) \<and>
        (\<forall>m. messaging = Some m \<longrightarrow> targeted m) \<and>
        length (filter (\<lambda>b. is_named NS_WSSE ''Security'' b \<and> targeted b) ys) = (if ps_has_security st then 1 else 0) \<and>
        (\<forall>b \<in> set ys. mandatory b \<and> targeted b \<longrightarrow> understood b) \<and> \<not> ps_has_user_message st)"

lemma wsa_header_frame [simp]:
  "ps_has_messaging (wsa_header c st) = ps_has_messaging st"
  "ps_must_understand_true (wsa_header c st) = ps_must_understand_true st"
  "ps_has_security (wsa_header c st) = ps_has_security st"
  "ps_has_user_message (wsa_header c st) = ps_has_user_message st"
  by (simp_all add: wsa_header_def)

lemma named_exclusive: "is_named NS_EBMS3 l b \<Longrightarrow> \<not> is_named NS_WSSE l' b"
  by (cases b) (auto simp: NS_EBMS3_def NS_WSSE_def)

lemma header_block_inv:
  assumes "header_inv ys acc" "header_block session acc b = Inr acc'"
  shows "header_inv (ys @ [b]) acc'"
proof -
  obtain st messaging where acc: "acc = (st, messaging)" by force
  show ?thesis
  proof (cases "is_named NS_EBMS3 ''Messaging'' b")
    case True
    then show ?thesis
      using assms named_exclusive [OF True, of "''Security''"]
      by (auto simp: acc header_inv_def header_block_def Let_def understood_def mandatory_def targeted_def
          split: if_splits option.splits)
  next
    case False
    then show ?thesis
      using assms by (auto simp: acc header_inv_def header_block_def Let_def understood_def mandatory_def targeted_def
          split: if_splits)
  qed
qed

lemma header_loop_inv:
  assumes "rfold (header_block session) (parse_state_default, None) bs = Inr acc"
  shows "header_inv bs acc"
  using assms
proof (rule rfold_invariant)
  show "header_inv [] (parse_state_default, None)"
    by (simp add: header_inv_def parse_state_default_def)
qed (rule header_block_inv)

lemma trimmed_text_nonempty: "trimmed_text n = Some t \<Longrightarrow> t \<noteq> []"
  by (auto simp: trimmed_text_def Let_def split: option.splits if_splits)

lemma map_filter_trimmed_nonempty: "t \<in> set (List.map_filter trimmed_text ns) \<Longrightarrow> t \<noteq> []"
  by (auto simp: List.map_filter_def dest: trimmed_text_nonempty)

lemma at_most_one_Inr: "at_most_one session what vs = Inr v \<Longrightarrow> vs = (case v of None \<Rightarrow> [] | Some x \<Rightarrow> [x])"
  by (cases vs) (auto simp: at_most_one_def first_of_def split: if_splits)

lemma user_message_fields_Inr:
  assumes "user_message_fields session anc um st = Inr st'"
  shows "ps_has_messaging st' = ps_has_messaging st" "ps_has_security st' = ps_has_security st"
    "ps_must_understand_true st' = ps_must_understand_true st"
    "descendant_texts um NS_EBMS3 ''MessageId'' = (case ps_message_id st' of None \<Rightarrow> [] | Some x \<Rightarrow> [x])"
    "descendant_texts um NS_EBMS3 ''Action'' = (case ps_action st' of None \<Rightarrow> [] | Some x \<Rightarrow> [x])"
    "ps_from_party_ids st' = party_ids_for anc um ''From''" "ps_to_party_ids st' = party_ids_for anc um ''To''"
  using assms by (auto simp: user_message_fields_def Let_def res_simps dest!: at_most_one_Inr)

text \<open>
  C23. An accepted user message is one the receiver is meant to process and can name: the envelope is SOAP
  1.2; the header has exactly one eb:Messaging, mandatory and addressed to the receiver, exactly one
  wsse:Security addressed to the receiver, and no other mandatory block for the receiver that is not
  understood; the user message inside has exactly one non-empty MessageId and Action, which are the ones
  reported, and at least one party on each side, none of them empty.
\<close>
theorem accepted_user_message:
  assumes "parse_as4_user_message_from_doc profile_built session doc = Inr msg"
  shows "\<exists>header messaging um.
     is_named NS_SOAP12 ''Header'' header \<and> header \<in> set (children (root_element doc)) \<and>
     node_ns (root_element doc) = Some NS_SOAP12 \<and> node_name (root_element doc) = ''Envelope'' \<and>
     filter (is_named NS_EBMS3 ''Messaging'') (filter is_element (children header)) = [messaging] \<and>
     mandatory messaging \<and> targeted messaging \<and>
     length (filter (\<lambda>b. is_named NS_WSSE ''Security'' b \<and> targeted b) (filter is_element (children header))) = 1 \<and>
     (\<forall>b \<in> set (filter is_element (children header)). mandatory b \<and> targeted b \<longrightarrow> understood b) \<and>
     um \<in> set (descendants messaging) \<and> is_named NS_EBMS3 ''UserMessage'' um \<and>
     descendant_texts um NS_EBMS3 ''MessageId'' = [um_message_id msg] \<and>
     descendant_texts um NS_EBMS3 ''Action'' = [um_action msg] \<and>
     um_from_party_ids msg \<noteq> [] \<and> um_to_party_ids msg \<noteq> [] \<and>
     (\<forall>p \<in> set (um_from_party_ids msg) \<union> set (um_to_party_ids msg). p \<noteq> [])"
proof -
  from assms obtain st where st: "parse_as4_user_message_summary_dom_from_doc doc session = Inr st"
    and flags: "ps_has_messaging st" "ps_has_user_message st" "ps_must_understand_true st" "ps_has_security st"
    and mid: "ps_message_id st = Some (um_message_id msg)" "ps_action st = Some (um_action msg)"
    and ids: "um_from_party_ids msg = ps_from_party_ids st" "um_to_party_ids msg = ps_to_party_ids st"
      "ps_from_party_ids st \<noteq> []" "ps_to_party_ids st \<noteq> []"
    by (auto simp: parse_as4_user_message_from_doc_def Let_def res_simps)
  let ?root = "root_element doc"
  from st obtain header acc where h: "find (is_named NS_SOAP12 ''Header'') (children ?root) = Some header"
    and root: "node_ns ?root = Some NS_SOAP12" "node_name ?root = ''Envelope''"
    and loop: "rfold (header_block session) (parse_state_default, None) (filter is_element (children header)) = Inr acc"
    and rest: "(case acc of (st0, messaging) \<Rightarrow> case messaging of None \<Rightarrow> Inr st0
            | Some m \<Rightarrow> (case find (\<lambda>(path, n). is_named NS_EBMS3 ''UserMessage'' n) (walk [header, ?root] m) of
                   None \<Rightarrow> Inr st0 | Some (path, um) \<Rightarrow> user_message_fields session (tl path) um st0)) = Inr st"
    by (auto simp: parse_as4_user_message_summary_dom_from_doc_def Let_def res_simps split: if_splits)
  note inv = header_loop_inv [OF loop]
  obtain st0 m path um where acc: "acc = (st0, Some m)"
    and um: "find (\<lambda>(path, n). is_named NS_EBMS3 ''UserMessage'' n) (walk [header, ?root] m) = Some (path, um)"
    and fields: "user_message_fields session (tl path) um st0 = Inr st"
    using rest inv flags(2) by (auto simp: header_inv_def split: option.splits prod.splits)
  note f = user_message_fields_Inr [OF fields]
  have named: "is_named NS_EBMS3 ''UserMessage'' um" using um by (auto simp: find_Some_iff)
  have "(path, um) \<in> set (walk [header, ?root] m)" using um by (metis find_Some_iff nth_mem)
  then have "um \<in> snd ` set (walk [header, ?root] m)" by force
  then have "um \<in> set (descendants m)" by (metis image_set walk_nodes)
  moreover have "header \<in> set (children ?root)" "is_named NS_SOAP12 ''Header'' header"
    using h by (auto simp: find_Some_iff)
  moreover have "\<forall>p \<in> set (um_from_party_ids msg) \<union> set (um_to_party_ids msg). p \<noteq> []"
    using ids(1,2) f(6,7) map_filter_trimmed_nonempty by (auto simp: party_ids_for_def)
  moreover have "filter (is_named NS_EBMS3 ''Messaging'') (filter is_element (children header)) = [m]"
    "mandatory m" "targeted m"
    "length (filter (\<lambda>b. is_named NS_WSSE ''Security'' b \<and> targeted b) (filter is_element (children header))) = 1"
    "\<forall>b \<in> set (filter is_element (children header)). mandatory b \<and> targeted b \<longrightarrow> understood b"
    using inv flags f(1-3) by (simp_all add: header_inv_def acc)
  moreover have "descendant_texts um NS_EBMS3 ''MessageId'' = [um_message_id msg]"
    "descendant_texts um NS_EBMS3 ''Action'' = [um_action msg]"
    using f(4,5) mid by simp_all
  moreover have "um_from_party_ids msg \<noteq> []" "um_to_party_ids msg \<noteq> []" using ids by simp_all
  ultimately show ?thesis
    using root named by (intro exI [of _ header] exI [of _ m] exI [of _ um] conjI)
qed

text \<open>An accepted message: one of each required part and nothing else.\<close>

definition eb :: "string \<Rightarrow> xnode list \<Rightarrow> xnode" where
  "eb name cs = Element (Some NS_EBMS3) name [] cs"

definition demo_envelope :: document where
  "demo_envelope =
     [Element (Some NS_SOAP12) ''Envelope'' []
       [Element (Some NS_SOAP12) ''Header'' []
          [Element (Some NS_EBMS3) ''Messaging'' [((Some NS_SOAP12, ''mustUnderstand''), ''true'')]
             [eb ''UserMessage''
               [eb ''MessageInfo'' [eb ''MessageId'' [TextNode ''m1@asx'']],
                eb ''PartyInfo'' [eb ''From'' [eb ''PartyId'' [TextNode ''sender'']],
                                eb ''To'' [eb ''PartyId'' [TextNode ''receiver'']]],
                eb ''CollaborationInfo'' [eb ''Action'' [TextNode ''urn:act'']]]],
           Element (Some NS_WSSE) ''Security'' [] []],
        Element (Some NS_SOAP12) ''Body'' [] []]]"

lemma demo_envelope_accepted:
  "\<exists>msg. parse_as4_user_message_from_doc True \<lparr>session_id = ''s'', partner_id = ''p''\<rparr> demo_envelope = Inr msg \<and>
     um_message_id msg = ''m1@asx'' \<and> um_from_party_ids msg = [''sender'']"
proof -
  have "(case parse_as4_user_message_from_doc True \<lparr>session_id = ''s'', partner_id = ''p''\<rparr> demo_envelope of
       Inl _ \<Rightarrow> False | Inr msg \<Rightarrow> um_message_id msg = ''m1@asx'' \<and> um_from_party_ids msg = [''sender''])"
    by code_simp
  then show ?thesis by (auto split: sum.splits)
qed

theorem accepted_user_message_witness:
  "\<exists>msg um. parse_as4_user_message_from_doc True \<lparr>session_id = ''s'', partner_id = ''p''\<rparr> demo_envelope = Inr msg \<and>
     descendant_texts um NS_EBMS3 ''MessageId'' = [''m1@asx'']"
proof -
  obtain msg where m: "parse_as4_user_message_from_doc True \<lparr>session_id = ''s'', partner_id = ''p''\<rparr> demo_envelope = Inr msg"
    "um_message_id msg = ''m1@asx''" using demo_envelope_accepted by blast
  from accepted_user_message [OF m(1)] m show ?thesis by auto
qed

section \<open>What an accepted signal has\<close>

lemma fill_slots_once:
  assumes "fill_slots session stage local slot info = Inr v"
  shows "List.map_filter element_text (filter (is_named NS_EBMS3 local) (descendants info)) =
     (case (slot, v) of (None, Some x) \<Rightarrow> [x] | _ \<Rightarrow> [])" "slot \<noteq> None \<longrightarrow> v = slot"
proof -
  let ?I = "\<lambda>ys u. List.map_filter element_text ys = (case (slot, u) of (None, Some x) \<Rightarrow> [x] | _ \<Rightarrow> []) \<and>
     (slot \<noteq> None \<longrightarrow> u = slot)"
  have "?I (filter (is_named NS_EBMS3 local) (descendants info)) v"
    using assms unfolding fill_slots_def
  proof (rule rfold_invariant)
    fix ys x zs u w
    assume "?I ys u" "fill_slot session stage local u x = Inr w"
    then show "?I (ys @ [x]) w"
      by (cases "element_text x") (auto simp: fill_slot_def List.map_filter_def split: option.splits if_splits)
  qed (simp_all add: List.map_filter_def split: option.splits)
  then show "List.map_filter element_text (filter (is_named NS_EBMS3 local) (descendants info)) =
     (case (slot, v) of (None, Some x) \<Rightarrow> [x] | _ \<Rightarrow> [])" "slot \<noteq> None \<longrightarrow> v = slot" by simp_all
qed

lemma nri_reference_bound:
  "nri_reference session stage refs r = Inr refs' \<Longrightarrow> length refs' \<le> MAX_SIGNAL_NRI_REFERENCES"
  by (auto simp: nri_reference_def Let_def split: if_splits option.splits)

lemma rfold_keeps:
  assumes "rfold f s xs = Inr t" "P s" "\<And>u x v. P u \<Longrightarrow> x \<in> set xs \<Longrightarrow> f u x = Inr v \<Longrightarrow> P v"
  shows "P t"
  using assms(1) by (rule rfold_invariant [where I = "\<lambda>_. P"]) (use assms(2,3) in auto)

lemma signal_receipt_bound:
  assumes "signal_receipt session stage out r = Inr out'" "length (sig_nri_references out) \<le> MAX_SIGNAL_NRI_REFERENCES"
  shows "length (sig_nri_references out') \<le> MAX_SIGNAL_NRI_REFERENCES"
  using assms(1) unfolding signal_receipt_def
proof (rule rfold_keeps)
  fix u x v
  assume u: "length (sig_nri_references u) \<le> MAX_SIGNAL_NRI_REFERENCES" and "receipt_nri session stage u x = Inr v"
  then obtain refs where "rfold (nri_reference session stage) (sig_nri_references u)
      (filter (is_named NS_DS ''Reference'') (descendants x)) = Inr refs" "v = u\<lparr>sig_has_non_repudiation_info := True, sig_nri_references := refs\<rparr>"
    by (auto simp: receipt_nri_def res_simps)
  moreover from this(1) have "length refs \<le> MAX_SIGNAL_NRI_REFERENCES"
    by (rule rfold_keeps) (use u nri_reference_bound in auto)
  ultimately show "length (sig_nri_references v) \<le> MAX_SIGNAL_NRI_REFERENCES" by simp
qed (use assms(2) in simp)

lemma receipts_frame:
  assumes "rfold (signal_receipt session stage) out rs = Inr out'"
  shows "sig_ref_to_message_id out' = sig_ref_to_message_id out" "sig_message_id out' = sig_message_id out"
    "sig_has_signal_message out' = sig_has_signal_message out"
proof -
  let ?same = "\<lambda>u v. sig_ref_to_message_id v = sig_ref_to_message_id u \<and> sig_message_id v = sig_message_id u \<and>
    sig_has_signal_message v = sig_has_signal_message u"
  have n: "receipt_nri session stage u x = Inr v \<Longrightarrow> ?same u v" for u v x
    by (auto simp: receipt_nri_def res_simps)
  have r: "?same u v" if "signal_receipt session stage u x = Inr v" for u v x
    using that unfolding signal_receipt_def by (rule rfold_keeps) (auto dest: n)
  from assms have "?same out out'" by (rule rfold_keeps) (auto dest: r)
  then show "sig_ref_to_message_id out' = sig_ref_to_message_id out" "sig_message_id out' = sig_message_id out"
    "sig_has_signal_message out' = sig_has_signal_message out" by simp_all
qed

text \<open>The non-empty texts of \<open>eb:local\<close> in all the MessageInfo blocks of the signal.\<close>

definition info_texts :: "string \<Rightarrow> xnode list \<Rightarrow> string list" where
  "info_texts local infos =
     concat (map (\<lambda>i. List.map_filter element_text (filter (is_named NS_EBMS3 local) (descendants i))) infos)"

lemma message_info_texts:
  assumes "rfold (message_info session stage) out infos = Inr out'" "sig_message_id out = None" "sig_ref_to_message_id out = None"
  shows "info_texts ''MessageId'' infos = (case sig_message_id out' of None \<Rightarrow> [] | Some x \<Rightarrow> [x]) \<and>
    info_texts ''RefToMessageId'' infos = (case sig_ref_to_message_id out' of None \<Rightarrow> [] | Some x \<Rightarrow> [x])"
  using assms(1)
proof (rule rfold_invariant)
  fix ys x zs u v
  assume I: "info_texts ''MessageId'' ys = (case sig_message_id u of None \<Rightarrow> [] | Some x \<Rightarrow> [x]) \<and>
    info_texts ''RefToMessageId'' ys = (case sig_ref_to_message_id u of None \<Rightarrow> [] | Some x \<Rightarrow> [x])"
    and "message_info session stage u x = Inr v"
  then obtain mid ref where m: "fill_slots session stage ''MessageId'' (sig_message_id u) x = Inr mid"
    "fill_slots session stage ''RefToMessageId'' (sig_ref_to_message_id u) x = Inr ref"
    "sig_message_id v = mid" "sig_ref_to_message_id v = ref"
    by (auto simp: message_info_def res_simps)
  show "info_texts ''MessageId'' (ys @ [x]) = (case sig_message_id v of None \<Rightarrow> [] | Some x \<Rightarrow> [x]) \<and>
    info_texts ''RefToMessageId'' (ys @ [x]) = (case sig_ref_to_message_id v of None \<Rightarrow> [] | Some x \<Rightarrow> [x])"
    using I fill_slots_once [OF m(1)] fill_slots_once [OF m(2)] m(3,4)
    by (auto simp: info_texts_def split: option.splits)
qed (use assms(2,3) in \<open>simp_all add: info_texts_def\<close>)

text \<open>
  C24. An accepted signal is unambiguous and bounded: the envelope has at most one eb:Messaging and one
  eb:SignalMessage; the message it answers is the only non-empty RefToMessageId (and its own
  id the only MessageId) anywhere in the MessageInfo of that signal, so no injected second value can
  shadow it; at most 256 evidence references and 64 errors are kept.
\<close>
theorem accepted_signal:
  assumes "parse_as4_signal_envelope doc session stage = Inr out"
  shows "length (filter (is_named NS_EBMS3 ''Messaging'') (doc_descendants doc)) \<le> 1 \<and>
    length (filter (is_named NS_EBMS3 ''SignalMessage'') (doc_descendants doc)) = (if sig_has_signal_message out then 1 else 0) \<and>
    (\<forall>signal \<in> set (doc_descendants doc). is_named NS_EBMS3 ''SignalMessage'' signal \<longrightarrow>
       info_texts ''RefToMessageId'' (filter (is_named NS_EBMS3 ''MessageInfo'') (descendants signal)) =
         (case sig_ref_to_message_id out of None \<Rightarrow> [] | Some x \<Rightarrow> [x]) \<and>
       info_texts ''MessageId'' (filter (is_named NS_EBMS3 ''MessageInfo'') (descendants signal)) =
         (case sig_message_id out of None \<Rightarrow> [] | Some x \<Rightarrow> [x])) \<and>
    length (sig_nri_references out) \<le> MAX_SIGNAL_NRI_REFERENCES \<and> length (sig_errors out) \<le> MAX_SIGNAL_ERRORS"
proof (cases "filter (is_named NS_EBMS3 ''SignalMessage'') (doc_descendants doc)")
  case Nil
  then have "\<not> is_named NS_EBMS3 ''SignalMessage'' n" if "n \<in> set (doc_descendants doc)" for n
    using that by (auto simp: filter_empty_conv)
  then show ?thesis
    using assms Nil by (auto simp: parse_as4_signal_envelope_def Let_def split: if_splits)
next
  case (Cons signal others)
  let ?infos = "filter (is_named NS_EBMS3 ''MessageInfo'') (descendants signal)"
  define out0 where "out0 = \<lparr>sig_has_signal_message = True, sig_has_receipt = False, sig_has_non_repudiation_info = False,
     sig_has_signature = list_ex (is_named NS_DS ''Signature'') (doc_descendants doc), sig_message_id = None,
     sig_ref_to_message_id = None, sig_timestamp = None, sig_nri_references = [], sig_errors = []\<rparr>"
  have o0: "sig_message_id out0 = None" "sig_ref_to_message_id out0 = None" "sig_nri_references out0 = []"
    "sig_has_signal_message out0" by (simp_all add: out0_def)
  from assms Cons obtain out1 out2 where one: "others = []"
      "length (filter (is_named NS_EBMS3 ''Messaging'') (doc_descendants doc)) \<le> 1"
    and o1: "rfold (message_info session stage) out0 ?infos = Inr out1"
    and o2: "rfold (signal_receipt session stage) out1 (filter (is_named NS_EBMS3 ''Receipt'') (descendants signal)) = Inr out2"
    and out: "out = out2\<lparr>sig_errors := map received_error
                     (take MAX_SIGNAL_ERRORS (filter (is_named NS_EBMS3 ''Error'') (descendants signal)))\<rparr>"
    by (auto simp: parse_as4_signal_envelope_def Let_def res_simps out0_def split: if_splits)
  have only: "n = signal" if "n \<in> set (doc_descendants doc)" "is_named NS_EBMS3 ''SignalMessage'' n" for n
  proof -
    have "n \<in> set (filter (is_named NS_EBMS3 ''SignalMessage'') (doc_descendants doc))" using that by simp
    then show ?thesis using Cons one(1) by simp
  qed
  have "sig_nri_references out1 = [] \<and> sig_has_signal_message out1"
    using o1 by (rule rfold_keeps) (use o0 in \<open>auto simp: message_info_def res_simps\<close>)
  then have "length (sig_nri_references out2) \<le> MAX_SIGNAL_NRI_REFERENCES" "sig_has_signal_message out2"
    using rfold_keeps [OF o2, of "\<lambda>u. length (sig_nri_references u) \<le> MAX_SIGNAL_NRI_REFERENCES"]
      signal_receipt_bound receipts_frame(3) [OF o2] by auto
  then show ?thesis
    using Cons one only message_info_texts [OF o1 o0(1,2)] receipts_frame [OF o2] by (auto simp: out)
qed

definition demo_signal :: document where
  "demo_signal =
     [eb ''Messaging'' [eb ''SignalMessage''
        [eb ''MessageInfo'' [eb ''MessageId'' [TextNode ''r1@asx''], eb ''RefToMessageId'' [TextNode ''m1@asx'']],
         eb ''Receipt'' []]]]"

theorem accepted_signal_witness:
  "\<exists>out. parse_as4_signal_envelope demo_signal \<lparr>session_id = ''s'', partner_id = ''p''\<rparr> ''as4_receipt'' = Inr out \<and>
     sig_ref_to_message_id out = Some ''m1@asx'' \<and> length (sig_nri_references out) \<le> MAX_SIGNAL_NRI_REFERENCES"
proof -
  have "(case parse_as4_signal_envelope demo_signal \<lparr>session_id = ''s'', partner_id = ''p''\<rparr> ''as4_receipt'' of
       Inl _ \<Rightarrow> False | Inr out \<Rightarrow> sig_ref_to_message_id out = Some ''m1@asx'')"
    by code_simp
  then show ?thesis using accepted_signal by (fastforce split: sum.splits)
qed

end
