(* ===== verification/Wssec_Parse.thy ===== *)
theory Wssec_Parse
  imports Canonicalize Xmlenc_Parse As4_Parser
begin

text \<open>
  Reading an XML signature (the parsing half of src/crypto/wssec/verify.rs, and the base64 helper of
  src/core/xml_util.rs): the one signature of a document, its references with their transforms, the key material and the
  certificates of a security token. No key is used here. A slice out of range panics; \<open>spawn_crypto\<close>
  (src/runtime.rs) turns the panic of its task into a transport failure, and no code in between maps
  errors, so a panic is that error. Shown: what an accepted signature has, that a path token written in DER
  is split into its certificates, and that a token with a wrong inner length panics.
\<close>

section \<open>Reference URIs\<close>

datatype ParsedReferenceUri = SameDocument string | Cid string

definition ref_err :: "string \<Rightarrow> ErrorCode \<Rightarrow> string \<Rightarrow> string \<Rightarrow> AsxError" where
  "ref_err stage c msg uri = asx_error c msg (with_message_id uri (context_new stage))"

definition PARSE_STAGE :: string where
  "PARSE_STAGE = ''wssec_parse_references''"

definition normalize_cid_uri :: "string \<Rightarrow> string" where
  "normalize_cid_uri uri =
     rev (dropWhile (\<lambda>c. c = CHR ''>'') (rev (dropWhile (\<lambda>c. c = CHR ''<'')
       (trim_prefixes ''CID:'' (trim_prefixes ''cid:'' (trim uri))))))"

definition is_cid_reference_uri :: "string \<Rightarrow> bool" where
  "is_cid_reference_uri uri \<longleftrightarrow> starts_with uri ''cid:'' \<or> starts_with uri ''CID:''"

definition validate_cid_reference_uri :: "string \<Rightarrow> string res" where
  "validate_cid_reference_uri uri =
     (let normalized = normalize_cid_uri uri in
      rbind (check (normalized \<noteq> [])
        (ref_err PARSE_STAGE InteropViolation (''empty cid reference URI is not allowed in strict mode: '' @ uri) uri)) (\<lambda>_.
      rbind (check (CHR ''%'' \<notin> set normalized)
        (ref_err PARSE_STAGE InteropViolation (''percent-encoded cid reference URIs are not supported in strict mode: '' @ uri) uri)) (\<lambda>_.
      rbind (check (\<not> any_whitespace normalized \<and> \<not> any_control normalized)
        (ref_err PARSE_STAGE InteropViolation (''invalid whitespace/control characters in cid reference URI: '' @ uri) uri)) (\<lambda>_.
        Inr normalized))))"

definition parse_reference_uri :: "string \<Rightarrow> string \<Rightarrow> ParsedReferenceUri res" where
  "parse_reference_uri uri stage =
     (if trim uri \<noteq> uri then
        Inl (ref_err stage InteropViolation (''non-canonical ds:Reference URI with surrounding whitespace: '' @ uri) uri)
      else if is_cid_reference_uri uri then rbind (validate_cid_reference_uri uri) (\<lambda>cid. Inr (Cid cid))
      else if starts_with uri ''#'' then
        rbind (map_err (\<lambda>_. ref_err stage InteropViolation (''invalid same-document reference URI in ds:Reference: '' @ uri) uri)
            (normalize_same_document_uri uri)) (\<lambda>target. Inr (SameDocument target))
      else
        Inl (ref_err stage InteropViolation
          (''unsupported ds:Reference URI scheme in strict mode: '' @ uri @ '' (supported: same-document '' @ squote ''#...'' @ '' and cid:...)'') uri))"

section \<open>The signature of a document\<close>

definition ds_node :: "string \<Rightarrow> node \<Rightarrow> bool" where
  "ds_node local n = is_ds_element local (snd n)"

definition ds_child :: "string \<Rightarrow> node \<Rightarrow> node option" where
  "ds_child local n = find (ds_node local) (child_nodes n)"

definition ds_descendants :: "string \<Rightarrow> node \<Rightarrow> node list" where
  "ds_descendants local n = filter (ds_node local) (node_subtree n)"

text \<open>The parent of a node, where it is a wsse:Security.\<close>

definition security_parent :: "document \<Rightarrow> node \<Rightarrow> node option" where
  "security_parent doc n =
     (case parent_node doc n of None \<Rightarrow> None | Some p \<Rightarrow> if is_node NS_WSSE ''Security'' p then Some p else None)"

definition find_single_signature_node :: "document \<Rightarrow> string \<Rightarrow> node option res" where
  "find_single_signature_node doc stage =
     (let all = filter (ds_node ''Signature'') (doc_nodes doc) in
      case all of
        [] \<Rightarrow> Inr None
      | [one] \<Rightarrow> Inr (Some one)
      | _ \<Rightarrow>
          (case filter (\<lambda>s. security_parent doc s \<noteq> None) all of
             [primary] \<Rightarrow> Inr (Some primary)
           | [] \<Rightarrow> Inl (asx_error InteropViolation (show_nat (length all) @
               '' ds:Signature elements found and none is a direct child of wsse:Security; refusing to resolve the ambiguity by document order'')
               (context_new stage))
           | _ \<Rightarrow> Inl (asx_error InteropViolation
               (''multiple ds:Signature elements inside wsse:Security; refusing to choose one '' @ em_dash @
                '' a document must carry exactly one WS-Security primary signature'') (context_new stage))))"

datatype SignedDocClass = UserMessageDoc | SignalDoc | SmpDoc

fun max_references :: "SignedDocClass \<Rightarrow> nat" where
  "max_references UserMessageDoc = 3 + 16"
| "max_references SignalDoc = 3"
| "max_references SmpDoc = 1"

fun class_debug :: "SignedDocClass \<Rightarrow> string" where
  "class_debug UserMessageDoc = ''UserMessage''"
| "class_debug SignalDoc = ''Signal''"
| "class_debug SmpDoc = ''Smp''"

definition MAX_TRANSFORMS :: nat where
  "MAX_TRANSFORMS = 2"

definition enforce_reference_cap :: "node \<Rightarrow> SignedDocClass \<Rightarrow> unit res" where
  "enforce_reference_cap signed_info cls =
     (let n = length (ds_descendants ''Reference'' signed_info) in
      check (n \<le> max_references cls)
        (asx_error SecurityVerificationFailed
          (show_nat n @ '' ds:Reference elements exceed the cap of '' @ show_nat (max_references cls) @ '' for a '' @
           class_debug cls @ '' document'') (context_new PARSE_STAGE)))"

definition enforce_transform_cap :: "node \<Rightarrow> string \<Rightarrow> unit res" where
  "enforce_transform_cap reference uri =
     (let n = length (filter (ds_node ''Transform'')
            (concat (map child_nodes (filter (ds_node ''Transforms'') (child_nodes reference))))) in
      check (n \<le> MAX_TRANSFORMS)
        (ref_err PARSE_STAGE SecurityVerificationFailed
          (''ds:Reference '' @ uri @ '' carries '' @ show_nat n @ '' transforms; at most '' @ show_nat MAX_TRANSFORMS @
           '' are allowed'') uri))"

section \<open>Transforms\<close>

definition default_c14n_kind :: "ParsedReferenceUri \<Rightarrow> WsSecCanonicalizationKind" where
  "default_c14n_kind u = (case u of Cid _ \<Rightarrow> Exclusive | SameDocument _ \<Rightarrow> Inclusive)"

definition NS_EXC_C14N :: string where
  "NS_EXC_C14N = ''http://www.w3.org/2001/10/xml-exc-c14n#''"

text \<open>\<open>split_ascii_whitespace\<close>.\<close>

definition ascii_tokens :: "string \<Rightarrow> string list" where
  "ascii_tokens s = filter (\<lambda>t. t \<noteq> []) (split_on (CHR '' '') (map (\<lambda>c. if is_ascii_ws c then CHR '' '' else c) s))"

text \<open>The prefixes the element children list; any other element is refused with the given error.\<close>

definition listed_prefixes :: "(string \<Rightarrow> AsxError) \<Rightarrow> node \<Rightarrow> string list res" where
  "listed_prefixes refuse n =
     rfold (\<lambda>acc c.
         if node_ns (snd c) = Some NS_EXC_C14N \<and> node_name (snd c) = ''InclusiveNamespaces'' then
           Inr (acc @ (case attribute ''PrefixList'' (snd c) of Some l \<Rightarrow> ascii_tokens l | None \<Rightarrow> []))
         else Inl (refuse (''{'' @ or_else (node_ns (snd c)) [] @ ''}'' @ node_name (snd c))))
       [] (element_children n)"

definition cid_transform :: "string \<Rightarrow> node \<Rightarrow> unit res" where
  "cid_transform uri transform =
     (let alg = or_else (attribute ''Algorithm'' (snd transform)) [] in
      if transform_from_uri alg = Inr AttachmentContent then Inr ()
      else Inl (ref_err PARSE_STAGE InteropViolation
        (''unsupported ds:Transform Algorithm '' @ dquote alg @ '' on cid: Reference '' @ uri @ '': '' @
         (if ends_with alg ''#Attachment-Complete-Signature-Transform'' then
            ''the Attachment-Complete-Signature-Transform (MIME headers included in the digest) is not supported; AS4 mandates the content-only transform''
          else ''the only supported transform for attachment references is the WSS SwA Attachment-Content-Signature-Transform'')) uri))"

definition document_transform ::
  "string \<Rightarrow> WsSecCanonicalizationKind \<times> string list \<Rightarrow> node \<Rightarrow> (WsSecCanonicalizationKind \<times> string list) res" where
  "document_transform uri st transform =
     (let alg = or_else (attribute ''Algorithm'' (snd transform)) [] in
      case transform_from_uri alg of
        Inr (TC14n Inclusive) \<Rightarrow> Inr (Inclusive, snd st)
      | Inr (TC14n Exclusive) \<Rightarrow>
          rbind (listed_prefixes (\<lambda>what. ref_err PARSE_STAGE InteropViolation
              (''unsupported child element '' @ what @ '' inside ds:Transform for Reference '' @ uri) uri) transform) (\<lambda>ps.
            Inr (Exclusive, snd st @ ps))
      | _ \<Rightarrow> Inl (ref_err PARSE_STAGE InteropViolation
          (''unsupported ds:Transform Algorithm '' @ dquote alg @ '' in Reference '' @ uri @ ''; supported algorithms: Exclusive C14N ('' @
           alg_uri (AC14n Exclusive) @ '') and Inclusive C14N ('' @ alg_uri (AC14n Inclusive) @ '')'') uri))"

definition parse_reference_transform_profile ::
  "node \<Rightarrow> string \<Rightarrow> ParsedReferenceUri \<Rightarrow> (WsSecCanonicalizationKind \<times> string list) res" where
  "parse_reference_transform_profile reference uri parsed =
     (case ds_child ''Transforms'' reference of
        None \<Rightarrow> Inr (default_c14n_kind parsed, [])
      | Some ts \<Rightarrow>
          let transforms = filter (ds_node ''Transform'') (child_nodes ts) in
          (case parsed of
             Cid _ \<Rightarrow> rbind (for_each (cid_transform uri) transforms) (\<lambda>_. Inr (Exclusive, []))
           | SameDocument _ \<Rightarrow> rfold (document_transform uri) (default_c14n_kind parsed, []) transforms))"

section \<open>References\<close>

record SigReference =
  r_uri :: string
  r_parsed :: ParsedReferenceUri
  r_digest_method :: WsSecDigestMethod
  r_digest_value :: string
  r_c14n_kind :: WsSecCanonicalizationKind
  r_prefixes :: "string list"

text \<open>One ds:Reference, after the ones before it.\<close>

definition signature_reference :: "SigReference list \<Rightarrow> node \<Rightarrow> SigReference list res" where
  "signature_reference refs n =
     rbind (ok_or (asx_error ParseFailed ''Reference is missing required URI attribute'' (context_new PARSE_STAGE))
        (attribute ''URI'' (snd n))) (\<lambda>uri.
     rbind (enforce_transform_cap n uri) (\<lambda>_.
     rbind (parse_reference_uri uri PARSE_STAGE) (\<lambda>parsed.
     rbind (check (parsed \<notin> r_parsed ` set refs)
        (ref_err PARSE_STAGE InteropViolation (''duplicate or semantically equivalent ds:Reference URI found: '' @ uri) uri)) (\<lambda>_.
     rbind (parse_reference_transform_profile n uri parsed) (\<lambda>(kind, prefixes).
     rbind (ok_or (ref_err PARSE_STAGE ParseFailed ''Reference is missing DigestMethod/Algorithm'' uri)
        (Option.bind (ds_child ''DigestMethod'' n) (\<lambda>d. attribute ''Algorithm'' (snd d)))) (\<lambda>method_uri.
     rbind (ok_or (ref_err PARSE_STAGE ParseFailed ''Reference is missing non-empty DigestValue'' uri)
        (Option.bind (ds_child ''DigestValue'' n) (\<lambda>d. trimmed_nonempty (node_text (snd d))))) (\<lambda>digest.
     rbind (digest_from_algorithm_uri method_uri) (\<lambda>method.
       Inr (refs @ [\<lparr>r_uri = uri, r_parsed = parsed, r_digest_method = method, r_digest_value = digest,
         r_c14n_kind = kind, r_prefixes = prefixes\<rparr>])))))))))"

definition parse_signature_references_from_signed_info_borrowed :: "node \<Rightarrow> SignedDocClass \<Rightarrow> SigReference list res" where
  "parse_signature_references_from_signed_info_borrowed signed_info cls =
     rbind (enforce_reference_cap signed_info cls) (\<lambda>_.
     rbind (rfold signature_reference [] (ds_descendants ''Reference'' signed_info)) (\<lambda>refs.
     rbind (check (refs \<noteq> [])
        (asx_error ParseFailed ''no ds:Reference elements found under ds:SignedInfo'' (context_new PARSE_STAGE))) (\<lambda>_.
       Inr refs)))"

section \<open>Key material\<close>

definition MATERIAL_STAGE :: string where
  "MATERIAL_STAGE = ''wssec_signature_material''"

definition mat_err :: "ErrorCode \<Rightarrow> string \<Rightarrow> AsxError" where
  "mat_err c msg = asx_error c msg (context_new MATERIAL_STAGE)"

definition decode_xml_base64 :: "base64 \<Rightarrow> string \<Rightarrow> string \<Rightarrow> string \<Rightarrow> bytes res" where
  "decode_xml_base64 b64 val label stage =
     map_err (\<lambda>e. asx_error ParseFailed (''failed to decode base64 '' @ label @ '': '' @ e) (context_new stage))
       (b64 (filter (\<lambda>c. \<not> is_ascii_ws c) val))"

definition parse_signed_info_canonicalization_method :: "node \<Rightarrow> (WsSecCanonicalizationKind \<times> string list) res" where
  "parse_signed_info_canonicalization_method signed_info =
     rbind (ok_or (mat_err ParseFailed ''ds:SignedInfo missing ds:CanonicalizationMethod'')
        (ds_child ''CanonicalizationMethod'' signed_info)) (\<lambda>method.
     rbind (ok_or (mat_err ParseFailed ''ds:CanonicalizationMethod missing Algorithm attribute'')
        (trimmed_nonempty (attribute ''Algorithm'' (snd method)))) (\<lambda>alg.
     rbind (map_err (\<lambda>_. ref_err MATERIAL_STAGE InteropViolation
            (''unsupported ds:CanonicalizationMethod Algorithm '' @ dquote alg @ '': '' @
             (if ends_with alg ''#WithComments'' then ''comment-preserving canonicalization is not supported''
              else ''only Canonical XML 1.0 (inclusive) and Exclusive XML Canonicalization 1.0 are supported'') @
             '' (expected '' @ dquote (alg_uri (AC14n Exclusive)) @ '' for AS4 WS-Security, or '' @
             dquote (alg_uri (AC14n Inclusive)) @ '' for Peppol SMP)'') alg)
        (c14n_from_uri alg)) (\<lambda>kind.
     rbind (listed_prefixes (\<lambda>what. mat_err InteropViolation
          (''unsupported child element '' @ what @ '' inside ds:CanonicalizationMethod'')) method) (\<lambda>prefixes.
     rbind (check (\<not> (kind = Inclusive \<and> prefixes \<noteq> []))
        (mat_err InteropViolation
          ''ds:CanonicalizationMethod declares inclusive Canonical XML 1.0 but carries an exc-c14n InclusiveNamespaces PrefixList, which applies only to exclusive canonicalization'')) (\<lambda>_.
       Inr (kind, prefixes))))))"

text \<open>The header of a DER element: the octets of tag and length, and the content length.\<close>

definition USIZE_OCTETS :: nat where
  "USIZE_OCTETS = 8"

definition parse_der_header :: "bytes \<Rightarrow> string \<Rightarrow> (nat \<times> nat) res" where
  "parse_der_header input stage =
     (let err = (\<lambda>msg. asx_error ParseFailed msg (context_new stage)) in
      if length input < 2 then Inl (err ''invalid DER: missing tag/length'')
      else
        let first_len = unat (input ! 1) in
        if first_len < 128 then Inr (2, first_len)
        else
          let len_octets = first_len - 128 in
          if len_octets = 0 then Inl (err ''invalid DER: indefinite length is not supported'')
          else if len_octets > USIZE_OCTETS then Inl (err ''invalid DER: length field is too large'')
          else if length input < 2 + len_octets then Inl (err ''invalid DER: truncated length field'')
          else
            let value_len = fold (\<lambda>b acc. acc * 256 + unat b) (take len_octets (drop 2 input)) 0;
                header_len = 2 + len_octets in
            if value_len > length input - header_len then Inl (err ''invalid DER: declared length exceeds available bytes'')
            else Inr (header_len, value_len))"

text \<open>The error a panic of the task becomes; the text of the join error is not modelled.\<close>

definition panicked :: AsxError where
  "panicked = asx_error TransportFailure ''blocking task failed: task panicked'' (context_new [])"

lemma parse_der_header_pos: "parse_der_header input stage = Inr (h, v) \<Longrightarrow> 2 \<le> h"
  by (auto simp: parse_der_header_def Let_def split: if_splits)

function split_certs :: "bytes \<Rightarrow> bytes list \<Rightarrow> bytes list res" where
  "split_certs rest certs =
     (if rest = [] then Inr certs
      else if hd rest \<noteq> 0x30 then Inl (mat_err ParseFailed ''X509PKIPathv1 contains a non-certificate DER element'')
      else case parse_der_header rest MATERIAL_STAGE of
          Inl e \<Rightarrow> Inl e
        | Inr (header_len, value_len) \<Rightarrow>
            let total_len = header_len + value_len in
            if total_len > length rest then Inl panicked
            else split_certs (drop total_len rest) (certs @ [take total_len rest]))"
  by pat_completeness auto

termination
  by (relation "measure (length \<circ> fst)") (auto dest: parse_der_header_pos)

declare split_certs.simps [simp del]

definition split_x509_pkipath_der_certificates :: "bytes \<Rightarrow> bytes list res" where
  "split_x509_pkipath_der_certificates pkipath_der =
     rbind (parse_der_header pkipath_der MATERIAL_STAGE) (\<lambda>(seq_header_len, seq_content_len).
     rbind (check (pkipath_der ! 0 = 0x30) (mat_err ParseFailed ''X509PKIPathv1 token is not a DER SEQUENCE'')) (\<lambda>_.
     rbind (check (seq_header_len + seq_content_len = length pkipath_der)
        (mat_err ParseFailed ''X509PKIPathv1 token has trailing bytes after DER SEQUENCE'')) (\<lambda>_.
     rbind (split_certs (drop seq_header_len pkipath_der) []) (\<lambda>certs.
     rbind (check (certs \<noteq> []) (mat_err ParseFailed ''X509PKIPathv1 token does not contain any certificates'')) (\<lambda>_.
       Inr certs)))))"

definition PKIPATH_SUFFIX :: string where
  "PKIPATH_SUFFIX = ''#X509PKIPathv1''"

definition X509V3_SUFFIX :: string where
  "X509V3_SUFFIX = ''#X509v3''"

definition token_id_of :: "xnode \<Rightarrow> string option" where
  "token_id_of n = (case attribute_ns NS_WSU ''Id'' n of Some i \<Rightarrow> Some i | None \<Rightarrow> attribute ''Id'' n)"

definition extract_x509_certificates_from_security_token_reference ::
  "base64 \<Rightarrow> document \<Rightarrow> node \<Rightarrow> bytes list option res" where
  "extract_x509_certificates_from_security_token_reference b64 doc key_info =
     (case find (is_node NS_WSSE ''SecurityTokenReference'') (node_subtree key_info) of
        None \<Rightarrow> Inr None
      | Some token_reference \<Rightarrow>
          rbind (ok_or (mat_err ParseFailed ''wsse:SecurityTokenReference is missing wsse:Reference'')
             (find (is_node NS_WSSE ''Reference'') (node_subtree token_reference))) (\<lambda>token_ptr.
          rbind (ok_or (mat_err ParseFailed ''wsse:Reference is missing required URI attribute'') (attribute ''URI'' (snd token_ptr))) (\<lambda>uri.
          let vt = or_else (attribute ''ValueType'' (snd token_ptr)) [] in
          rbind (check (vt = [] \<or> ends_with vt PKIPATH_SUFFIX \<or> ends_with vt X509V3_SUFFIX)
             (mat_err ParseFailed (''unsupported wsse:Reference ValueType '' @ dquote vt @ '' (supported: X509v3 and X509PKIPathv1)''))) (\<lambda>_.
          rbind (ok_or (mat_err ParseFailed ''wsse:Reference URI must be a same-document #token-id reference'') (strip_prefix ''#'' uri)) (\<lambda>token_id.
          rbind (check (token_id \<noteq> []) (mat_err ParseFailed ''wsse:Reference URI token-id must not be empty'')) (\<lambda>_.
          rbind (ok_or (mat_err ParseFailed ''wsse:Reference points to missing wsse:BinarySecurityToken'')
             (find (\<lambda>n. is_node NS_WSSE ''BinarySecurityToken'' n \<and> token_id_of (snd n) = Some token_id) (doc_nodes doc))) (\<lambda>token.
          let tv = or_else (attribute ''ValueType'' (snd token)) [] in
          rbind (check (ends_with tv PKIPATH_SUFFIX \<or> ends_with tv X509V3_SUFFIX)
             (mat_err ParseFailed (''unsupported wsse:BinarySecurityToken ValueType '' @ dquote tv @ '' (supported: X509v3 and X509PKIPathv1)''))) (\<lambda>_.
          rbind (ok_or (mat_err ParseFailed ''wsse:BinarySecurityToken must not be empty'') (trimmed_nonempty (node_text (snd token)))) (\<lambda>text.
          rbind (decode_xml_base64 b64 text ''wsse:BinarySecurityToken'' MATERIAL_STAGE) (\<lambda>der.
            if ends_with tv X509V3_SUFFIX then Inr (Some [der])
            else rbind (split_x509_pkipath_der_certificates der) (\<lambda>path. Inr (Some (rev path)))))))))))))"

record SignatureMaterial =
  sm_signed_info :: node
  sm_c14n_kind :: WsSecCanonicalizationKind
  sm_prefixes :: "string list"
  sm_value :: bytes
  sm_algorithm :: string
  sm_modulus :: "bytes option"
  sm_exponent :: "bytes option"
  sm_certificates :: "bytes list"

definition rsa_component :: "base64 \<Rightarrow> node option \<Rightarrow> string \<Rightarrow> string \<Rightarrow> string \<Rightarrow> bytes option res" where
  "rsa_component b64 key_value local label missing =
     (case Option.bind key_value (\<lambda>kv. Option.bind (ds_child local kv) (\<lambda>c. trimmed_nonempty (node_text (snd c)))) of
        Some v \<Rightarrow> rbind (decode_xml_base64 b64 v label MATERIAL_STAGE) (\<lambda>bs. Inr (Some bs))
      | None \<Rightarrow> if key_value \<noteq> None then Inl (mat_err ParseFailed missing) else Inr None)"

definition inline_certificate :: "base64 \<Rightarrow> node \<Rightarrow> bytes res" where
  "inline_certificate b64 n =
     rbind (ok_or (mat_err ParseFailed ''ds:X509Certificate must not be empty when present'') (trimmed_nonempty (node_text (snd n)))) (\<lambda>t.
       decode_xml_base64 b64 t ''X509Certificate'' MATERIAL_STAGE)"

definition parse_signature_material ::
  "base64 \<Rightarrow> document \<Rightarrow> node \<Rightarrow> node \<Rightarrow> SignatureMaterial res" where
  "parse_signature_material b64 doc signature signed_info =
     rbind (parse_signed_info_canonicalization_method signed_info) (\<lambda>(kind, prefixes).
     rbind (ok_or (mat_err ParseFailed ''ds:SignedInfo missing SignatureMethod/Algorithm'')
        (Option.bind (ds_child ''SignatureMethod'' signed_info) (\<lambda>m. trimmed_nonempty (attribute ''Algorithm'' (snd m))))) (\<lambda>alg.
     rbind (ok_or (mat_err ParseFailed ''ds:Signature missing non-empty SignatureValue'')
        (Option.bind (ds_child ''SignatureValue'' signature) (\<lambda>m. trimmed_nonempty (node_text (snd m))))) (\<lambda>value_b64.
     rbind (ok_or (mat_err ParseFailed ''ds:Signature missing ds:KeyInfo'') (ds_child ''KeyInfo'' signature)) (\<lambda>key_info.
     let key_value = first_of (ds_descendants ''RSAKeyValue'' key_info) in
     rbind (rmap (inline_certificate b64) (ds_descendants ''X509Certificate'' key_info)) (\<lambda>inline_certs.
     rbind (if inline_certs = [] then extract_x509_certificates_from_security_token_reference b64 doc key_info else Inr None) (\<lambda>token.
     let certs = (case token of Some cs \<Rightarrow> cs | None \<Rightarrow> inline_certs) in
     rbind (decode_xml_base64 b64 value_b64 ''SignatureValue'' MATERIAL_STAGE) (\<lambda>val.
     rbind (rsa_component b64 key_value ''Modulus'' ''RSA modulus'' ''ds:RSAKeyValue missing Modulus'') (\<lambda>modulus.
     rbind (rsa_component b64 key_value ''Exponent'' ''RSA exponent'' ''ds:RSAKeyValue missing Exponent'') (\<lambda>exponent.
       Inr \<lparr>sm_signed_info = signed_info, sm_c14n_kind = kind, sm_prefixes = prefixes, sm_value = val, sm_algorithm = alg,
         sm_modulus = modulus, sm_exponent = exponent, sm_certificates = certs\<rparr>)))))))))"

record SignatureEnvelope =
  se_references :: "SigReference list"
  se_material :: SignatureMaterial
  se_security :: "node option"

definition NS_SOAP11 :: string where
  "NS_SOAP11 = ''http://schemas.xmlsoap.org/soap/envelope/''"

definition is_soap_envelope :: "document \<Rightarrow> bool" where
  "is_soap_envelope doc =
     (let root = root_element doc in
      node_ns root \<in> {Some NS_SOAP12, Some NS_SOAP11} \<and> node_name root = ''Envelope'')"

definition parse_signature_envelope_from_doc_optional_borrowed ::
  "base64 \<Rightarrow> document \<Rightarrow> SignedDocClass \<Rightarrow> SignatureEnvelope option res" where
  "parse_signature_envelope_from_doc_optional_borrowed b64 doc cls =
     rbind (find_single_signature_node doc PARSE_STAGE) (\<lambda>found.
     case found of
       None \<Rightarrow> Inr None
     | Some signature \<Rightarrow>
         rbind (check (\<not> (is_soap_envelope doc \<and> security_parent doc signature = None))
            (asx_error SecurityVerificationFailed
              ''the ds:Signature of a SOAP envelope must be a direct child of a wsse:Security header block; a signature elsewhere is not a WS-Security signature''
              (context_new PARSE_STAGE))) (\<lambda>_.
         rbind (ok_or (asx_error ParseFailed ''ds:Signature missing ds:SignedInfo'' (context_new PARSE_STAGE))
            (ds_child ''SignedInfo'' signature)) (\<lambda>signed_info.
         rbind (parse_signature_references_from_signed_info_borrowed signed_info cls) (\<lambda>refs.
         rbind (parse_signature_material b64 doc signature signed_info) (\<lambda>material.
           Inr (Some \<lparr>se_references = refs, se_material = material, se_security = security_parent doc signature\<rparr>))))))"

section \<open>Path tokens\<close>

text \<open>A complete DER SEQUENCE: the header describes exactly the octets there are.\<close>

definition der_sequence :: "bytes \<Rightarrow> bool" where
  "der_sequence c \<longleftrightarrow> c \<noteq> [] \<and> hd c = 0x30 \<and>
     (\<exists>h v. parse_der_header c MATERIAL_STAGE = Inr (h, v) \<and> h + v = length c)"

lemma parse_der_header_append:
  assumes "parse_der_header c stage = Inr (h, v)"
  shows "parse_der_header (c @ rest) stage = Inr (h, v)"
proof -
  have l: "\<not> length c < 2" using assms by (auto simp: parse_der_header_def)
  then have first: "(c @ rest) ! 1 = c ! 1" by (simp add: nth_append)
  show ?thesis
  proof (cases "unat (c ! 1) < 128")
    case True
    then show ?thesis using assms l first by (simp add: parse_der_header_def)
  next
    case False
    let ?k = "unat (c ! 1) - 128"
    have k: "?k \<noteq> 0" "\<not> ?k > USIZE_OCTETS" "\<not> length c < 2 + ?k"
      using assms l False by (simp_all add: parse_der_header_def Let_def split: if_splits)
    then have "take ?k (drop 2 (c @ rest)) = take ?k (drop 2 c)" by simp
    then show ?thesis using assms l False first k by (simp add: parse_der_header_def Let_def split: if_splits)
  qed
qed

lemma split_certs_concat:
  "\<forall>c \<in> set cs. der_sequence c \<Longrightarrow> split_certs (concat cs) acc = Inr (acc @ cs)"
proof (induction cs arbitrary: acc)
  case Nil
  show ?case by (simp add: split_certs.simps)
next
  case (Cons c cs)
  then obtain h v where c: "c \<noteq> []" "hd c = 0x30" "parse_der_header c MATERIAL_STAGE = Inr (h, v)" "h + v = length c"
    by (auto simp: der_sequence_def)
  then have "split_certs (c @ concat cs) acc = split_certs (concat cs) (acc @ [c])"
    by (subst split_certs.simps) (simp add: parse_der_header_append Let_def)
  then show ?case using Cons by simp
qed

text \<open>A SEQUENCE whose content is the concatenation of complete SEQUENCEs is split into them.\<close>

lemma split_pkipath:
  assumes "\<forall>c \<in> set cs. der_sequence c" "cs \<noteq> []" "(header @ concat cs) ! 0 = 0x30"
    "parse_der_header (header @ concat cs) MATERIAL_STAGE = Inr (length header, length (concat cs))"
  shows "split_x509_pkipath_der_certificates (header @ concat cs) = Inr cs"
  using assms by (simp add: split_x509_pkipath_der_certificates_def split_certs_concat check_def)

text \<open>
  C30. A path token panics on an element whose short-form length reaches past the token: the length is checked
  against the octets at hand only in the long form, and the slice that takes the element is out of range.
\<close>
theorem pkipath_inner_length_panics:
  assumes "\<forall>c \<in> set cs. der_sequence c" "unat b < 128" "length rest < unat b" "header ! 0 = 0x30" "header \<noteq> []"
    "parse_der_header (header @ concat cs @ 0x30 # b # rest) MATERIAL_STAGE =
       Inr (length header, length (concat cs @ 0x30 # b # rest))"
  shows "split_x509_pkipath_der_certificates (header @ concat cs @ 0x30 # b # rest) = Inl panicked"
proof -
  have "split_certs (concat cs @ 0x30 # b # rest) acc = Inl panicked" for acc
    using assms(1)
  proof (induction cs arbitrary: acc)
    case Nil
    show ?case using assms(2,3) by (subst split_certs.simps) (simp add: parse_der_header_def Let_def)
  next
    case (Cons c cs)
    then obtain h v where c: "c \<noteq> []" "hd c = 0x30" "parse_der_header c MATERIAL_STAGE = Inr (h, v)" "h + v = length c"
      by (auto simp: der_sequence_def)
    then have "split_certs (c @ concat cs @ 0x30 # b # rest) acc = split_certs (concat cs @ 0x30 # b # rest) (acc @ [c])"
      by (subst split_certs.simps) (simp add: parse_der_header_append Let_def)
    then show ?case using Cons by simp
  qed
  moreover have "(header @ concat cs @ 0x30 # b # rest) ! 0 = 0x30" using assms(4,5) by (simp add: nth_append)
  ultimately show ?thesis using assms(6) by (simp add: split_x509_pkipath_der_certificates_def check_def)
qed

theorem pkipath_inner_length_panics_witness:
  "split_x509_pkipath_der_certificates [0x30, 3, 0x30, 0x7F, 0] = Inl panicked"
  using pkipath_inner_length_panics [of "[]" "0x7F" "[0]" "[0x30, 3]"]
  by (simp add: parse_der_header_def Let_def)

end
