(* ===== verification/Wssec_X509.thy ===== *)
theory Wssec_X509
  imports Crypto_Alg
begin

text \<open>
  The checks of a signer certificate (src/crypto/wssec/x509.rs): the end-entity rules, the offline path
  validation and the RSA key value. What the X.509 parsers and OpenSSL report is a library record. Shown: which
  certificates pass, and that the strength rule measures the modulus as a number.
\<close>

section \<open>What the libraries report\<close>

datatype ParsedPublicKey = PkRsaKey bytes bytes | PkOtherKey

record Eku =
  eku_any :: bool
  eku_email_protection :: bool
  eku_client_auth :: bool
  eku_time_stamping :: bool
  eku_ocsp_signing :: bool
  eku_server_auth :: bool

record ParsedCert =
  pc_valid_now :: bool
  pc_public_key :: "(string, ParsedPublicKey) result"
  pc_basic_constraints_ca :: "(string, bool option) result"
  pc_key_usage :: "(string, (bool \<times> bool) option) result"
  pc_eku :: "(string, Eku option) result"

text \<open>
  Parsing a certificate (twice: two libraries), the trust store of a policy, path validation, RSA keys from their
  components.
\<close>

record 'st X509Lib =
  xl_parse :: "bytes \<Rightarrow> (string, ParsedCert) result"
  xl_from_der :: "bytes \<Rightarrow> (string, X509) result"
  xl_store :: "string list \<Rightarrow> (string, 'st) result"
  xl_verify_cert :: "'st \<Rightarrow> X509 \<Rightarrow> X509 list \<Rightarrow> (string, bool \<times> X509 list) result"
  xl_rsa_key :: "bytes \<Rightarrow> bytes \<Rightarrow> (string, PKey) result"

record ChainPolicy =
  trust_anchor_pems :: "string list"
  require_chain_validation :: bool

section \<open>Path validation\<close>

definition value_err :: "ErrorCode \<Rightarrow> string \<Rightarrow> AsxError" where
  "value_err c msg = asx_error c msg (context_new ''wssec_verify_signature_value'')"

definition pkix_error :: "string \<Rightarrow> AsxError" where
  "pkix_error msg = value_err SecurityVerificationFailed msg"

definition validate_chain_offline :: "'st X509Lib \<Rightarrow> bytes list \<Rightarrow> ChainPolicy \<Rightarrow> X509 list res" where
  "validate_chain_offline lib ders policy =
     rbind (check (trust_anchor_pems policy \<noteq> []) (pkix_error ''PKIX validation requires at least one trust anchor'')) (\<lambda>_.
     rbind (ok_or (pkix_error ''PKIX validation requires an X509 certificate in KeyInfo'')
        (case ders of [] \<Rightarrow> None | d # _ \<Rightarrow> Some d)) (\<lambda>leaf_der.
     rbind (map_err (\<lambda>e. pkix_error (''failed to parse signer certificate for PKIX validation: '' @ e)) (xl_from_der lib leaf_der)) (\<lambda>signer.
     rbind (rmap (\<lambda>d. map_err (\<lambda>e. pkix_error (''failed to parse intermediate certificate for PKIX validation: '' @ e)) (xl_from_der lib d))
        (tl ders)) (\<lambda>intermediates.
     rbind (map_err pkix_error (xl_store lib (trust_anchor_pems policy))) (\<lambda>store.
     rbind (map_err (\<lambda>e. pkix_error (''PKIX certificate validation failed: '' @ e)) (xl_verify_cert lib store signer intermediates)) (\<lambda>(valid, path).
     rbind (check (valid \<and> path \<noteq> []) (pkix_error ''PKIX certificate validation did not produce a trusted chain'')) (\<lambda>_.
       Inr path)))))))"

section \<open>The end-entity rules\<close>

definition MIN_RSA_MODULUS_BITS :: nat where
  "MIN_RSA_MODULUS_BITS = 2048"

fun byte_bits :: "nat \<Rightarrow> nat" where
  "byte_bits n = (if n = 0 then 0 else Suc (byte_bits (n div 2)))"

declare byte_bits.simps [simp del]

definition unsigned_bigint_bits :: "bytes \<Rightarrow> nat" where
  "unsigned_bigint_bits bs =
     (case dropWhile (\<lambda>b. b = 0) bs of [] \<Rightarrow> 0 | high # rest \<Rightarrow> length rest * 8 + byte_bits (unat high))"

definition parse_x509_certificate :: "'st X509Lib \<Rightarrow> bytes \<Rightarrow> ParsedCert res" where
  "parse_x509_certificate lib der =
     map_err (\<lambda>e. value_err SecurityVerificationFailed (''failed to parse X509Certificate from KeyInfo: '' @ e)) (xl_parse lib der)"

definition check_strength :: "ParsedCert \<Rightarrow> unit res" where
  "check_strength cert =
     (case pc_public_key cert of
        Inr (PkRsaKey modulus exponent) \<Rightarrow>
          (let bits = unsigned_bigint_bits modulus in
           check (\<not> bits < MIN_RSA_MODULUS_BITS)
             (value_err SecurityVerificationFailed
               (''X509 signing certificate RSA key is too weak: '' @ show_nat bits @ ''-bit modulus (minimum '' @
                show_nat MIN_RSA_MODULUS_BITS @ ''-bit required)'')))
      | _ \<Rightarrow> Inr ())"

definition check_usage :: "bool \<times> bool \<Rightarrow> unit res" where
  "check_usage u =
     rbind (check (fst u) (value_err SecurityVerificationFailed ''X509 certificate KeyUsage does not permit digitalSignature'')) (\<lambda>_.
       check (\<not> snd u) (value_err SecurityVerificationFailed
         ''X509 certificate KeyUsage is CA-oriented (keyCertSign) and not valid for end-entity message signing''))"

definition check_eku :: "Eku \<Rightarrow> unit res" where
  "check_eku e =
     rbind (check (\<not> (\<not> eku_any e \<and> \<not> eku_email_protection e \<and> \<not> eku_client_auth e))
        (value_err SecurityVerificationFailed ''X509 certificate ExtendedKeyUsage does not permit signer use for WS-Security'')) (\<lambda>_.
       check (\<not> (eku_time_stamping e \<or> eku_ocsp_signing e \<or> eku_server_auth e))
        (value_err SecurityVerificationFailed ''X509 certificate ExtendedKeyUsage is incompatible with WS-Security signer use''))"

definition validate_x509_certificate :: "'st X509Lib \<Rightarrow> bytes \<Rightarrow> unit res" where
  "validate_x509_certificate lib der =
     rbind (parse_x509_certificate lib der) (\<lambda>cert.
     rbind (check (pc_valid_now cert) (value_err SecurityVerificationFailed ''X509 certificate is outside validity period'')) (\<lambda>_.
     rbind (check_strength cert) (\<lambda>_.
     rbind (map_err (\<lambda>e. value_err SecurityVerificationFailed (''failed to read certificate BasicConstraints: '' @ e))
        (pc_basic_constraints_ca cert)) (\<lambda>ca.
     rbind (check (ca \<noteq> Some True)
        (value_err SecurityVerificationFailed ''X509 certificate must be end-entity (CA=false) for WS-Security message signing'')) (\<lambda>_.
     rbind (map_err (\<lambda>e. value_err SecurityVerificationFailed (''failed to read certificate KeyUsage: '' @ e)) (pc_key_usage cert)) (\<lambda>usage.
     rbind (case usage of Some u \<Rightarrow> check_usage u | None \<Rightarrow> Inr ()) (\<lambda>_.
     rbind (map_err (\<lambda>e. value_err SecurityVerificationFailed (''failed to read certificate ExtendedKeyUsage: '' @ e)) (pc_eku cert)) (\<lambda>eku.
       case eku of Some e \<Rightarrow> check_eku e | None \<Rightarrow> Inr ()))))))))"

section \<open>The RSA key value\<close>

fun trim_leading_zeroes :: "bytes \<Rightarrow> bytes" where
  "trim_leading_zeroes (b # c # bs) = (if b = 0 then trim_leading_zeroes (c # bs) else b # c # bs)"
| "trim_leading_zeroes bs = bs"

definition equal_unsigned_bigint :: "bytes \<Rightarrow> bytes \<Rightarrow> bool" where
  "equal_unsigned_bigint a b \<longleftrightarrow> trim_leading_zeroes a = trim_leading_zeroes b"

definition extract_rsa_keyvalue_from_cert :: "'st X509Lib \<Rightarrow> bytes \<Rightarrow> (bytes \<times> bytes) res" where
  "extract_rsa_keyvalue_from_cert lib der =
     rbind (parse_x509_certificate lib der) (\<lambda>cert.
     rbind (map_err (\<lambda>e. value_err SecurityVerificationFailed (''failed to parse certificate public key: '' @ e)) (pc_public_key cert)) (\<lambda>key.
       case key of
         PkRsaKey modulus exponent \<Rightarrow> Inr (modulus, exponent)
       | PkOtherKey \<Rightarrow> Inl (value_err InteropViolation ''unsupported certificate public key type for RSA SignatureMethod'')))"

definition validate_cert_public_key_matches_rsa_keyvalue :: "'st X509Lib \<Rightarrow> bytes \<Rightarrow> bytes \<Rightarrow> bytes \<Rightarrow> unit res" where
  "validate_cert_public_key_matches_rsa_keyvalue lib der modulus exponent =
     rbind (extract_rsa_keyvalue_from_cert lib der) (\<lambda>(cert_modulus, cert_exponent).
       check (equal_unsigned_bigint cert_modulus modulus \<and> equal_unsigned_bigint cert_exponent exponent)
         (value_err SecurityVerificationFailed ''X509 certificate public key does not match ds:RSAKeyValue''))"

definition pkey_from_rsa_components :: "'st X509Lib \<Rightarrow> bytes \<Rightarrow> bytes \<Rightarrow> PKey res" where
  "pkey_from_rsa_components lib modulus exponent = map_err (value_err ParseFailed) (xl_rsa_key lib modulus exponent)"

section \<open>Lemmas\<close>

text \<open>The strength is that of the number the modulus writes.\<close>

lemma byte_bits_0 [simp]: "byte_bits 0 = 0"
  by (simp add: byte_bits.simps)

lemma byte_bits_le: "byte_bits n \<le> k \<longleftrightarrow> n < 2 ^ k"
proof (induction k arbitrary: n)
  case 0
  show ?case by (cases "n = 0") (simp_all add: byte_bits.simps)
next
  case (Suc k)
  show ?case
  proof (cases "n = 0")
    case False
    then have "byte_bits n \<le> Suc k \<longleftrightarrow> n div 2 < 2 ^ k" using Suc [of "n div 2"] by (simp add: byte_bits.simps [of n])
    then show ?thesis by (auto simp: div_less_iff_less_mult mult.commute)
  qed simp
qed

lemma os2ip_Cons: "os2ip (b # bs) = uint b * 256 ^ length bs + os2ip bs"
proof (induction bs rule: rev_induct)
  case Nil
  then show ?case by (simp add: os2ip_def)
next
  case (snoc c cs)
  show ?case using snoc os2ip_snoc [of "b # cs" c] os2ip_snoc [of cs c] by (simp add: algebra_simps)
qed

lemma os2ip_bounds: "0 \<le> os2ip bs \<and> os2ip bs < 256 ^ length bs"
proof (induction bs)
  case (Cons b bs)
  let ?p = "256 ^ length bs :: int"
  have "uint b \<le> 255" using uint_lt2p [of b] by simp
  then have "uint b * ?p \<le> 255 * ?p" by (rule mult_right_mono) simp
  then have "uint b * ?p + os2ip bs < 256 * ?p" using Cons by linarith
  then show ?case using Cons unfolding os2ip_Cons by (simp add: add_nonneg_nonneg)
qed (simp add: os2ip_def)

lemma os2ip_zeros: "os2ip (dropWhile (\<lambda>b. b = 0) bs) = os2ip bs"
  by (induction bs) (auto simp: os2ip_Cons)

lemma bigint_bits_le: "unsigned_bigint_bits bs \<le> k \<longleftrightarrow> os2ip bs < 2 ^ k"
proof (cases "dropWhile (\<lambda>b. b = 0) bs")
  case Nil
  have "os2ip bs = os2ip []" using os2ip_zeros [of bs] unfolding Nil by (rule sym)
  then have "os2ip bs = 0" by (simp add: os2ip_def)
  then show ?thesis unfolding unsigned_bigint_bits_def Nil by simp
next
  case (Cons h r)
  let ?m = "length r * 8"
  have "h \<noteq> 0" using hd_dropWhile [of "\<lambda>b. b = 0" bs] Cons by simp
  then have h: "0 < uint h" using uint_ge_0 [of h] by (simp add: order_less_le uint_0_iff)
  have p: "(256 :: int) ^ length r = 2 ^ ?m" by (simp add: mult.commute [of _ 8] power_mult)
  have v: "os2ip bs = uint h * 2 ^ ?m + os2ip r" using os2ip_zeros [of bs] unfolding Cons os2ip_Cons p by (rule sym)
  have r: "0 \<le> os2ip r" "os2ip r < 2 ^ ?m" using os2ip_bounds [of r] unfolding p by simp_all
  show ?thesis
  proof (cases "?m \<le> k")
    case True
    then obtain j where k: "k = ?m + j" using le_Suc_ex by blast
    have "unsigned_bigint_bits bs \<le> k \<longleftrightarrow> unat h < 2 ^ j"
      unfolding unsigned_bigint_bits_def Cons k by (simp add: byte_bits_le)
    also have "\<dots> \<longleftrightarrow> uint h < 2 ^ j" unfolding unat_eq_nat_uint nat_less_iff [OF uint_ge_0] by simp
    also have "\<dots> \<longleftrightarrow> os2ip bs < 2 ^ k"
    proof
      assume "uint h < 2 ^ j"
      then have "(uint h + 1) * 2 ^ ?m \<le> 2 ^ j * 2 ^ ?m" by (intro mult_right_mono) auto
      then show "os2ip bs < 2 ^ k" using r by (simp add: v k power_add algebra_simps)
    next
      assume "os2ip bs < 2 ^ k"
      then have "uint h * 2 ^ ?m + os2ip r < 2 ^ j * 2 ^ ?m" unfolding v k power_add by (simp add: mult.commute)
      then have "uint h * 2 ^ ?m < 2 ^ j * 2 ^ ?m" using r(1) by linarith
      then show "uint h < 2 ^ j" by simp
    qed
    finally show ?thesis .
  next
    case False
    have "0 < byte_bits (unat h)" using h by (cases "unat h") (simp_all add: byte_bits.simps unat_eq_zero)
    then have b: "k < unsigned_bigint_bits bs" unfolding unsigned_bigint_bits_def Cons using False by simp
    have "(2 :: int) ^ k \<le> 2 ^ ?m" using False by (intro power_increasing) auto
    also have "\<dots> \<le> uint h * 2 ^ ?m" using h by simp
    also have "\<dots> \<le> os2ip bs" unfolding v using r by simp
    finally show ?thesis using b by simp
  qed
qed

lemma check_strength_Inr:
  "check_strength cert = Inr () \<longleftrightarrow>
     (\<forall>modulus exponent. pc_public_key cert = Inr (PkRsaKey modulus exponent) \<longrightarrow> 2 ^ 2047 \<le> os2ip modulus)"
proof -
  have "\<not> unsigned_bigint_bits m < MIN_RSA_MODULUS_BITS \<longleftrightarrow> 2 ^ 2047 \<le> os2ip m" for m
    using bigint_bits_le [of m 2047] by (auto simp: MIN_RSA_MODULUS_BITS_def)
  then show ?thesis
    by (auto simp: check_strength_def Let_def check_Inr_iff split: sum.splits ParsedPublicKey.splits)
qed

lemma os2ip_trim: "os2ip (trim_leading_zeroes bs) = os2ip bs"
  by (induction bs rule: trim_leading_zeroes.induct) (auto simp: os2ip_Cons)

end
