(* ===== verification/Wssec_Verify.thy ===== *)
theory Wssec_Verify
  imports Wssec_Parse Wssec_X509
begin

text \<open>
  Verifying an XML signature (src/crypto/wssec/verify.rs): the signer, the signature value over the canonical
  SignedInfo, the digests of the references, the timestamp of the security header, in that order; and the
  whole-document signature of service metadata. Canonicalization is the serializer of Canonicalize; the hash, base64, the
  certificate library and OpenSSL's verifier are parameters. Shown: what a verified signature
  covers, and the order of its checks.
\<close>

section \<open>Parameters\<close>

text \<open>
  A verification by OpenSSL: the verifier cannot be created, the octets cannot be fed, the check fails, or it
  answers.
\<close>

datatype OsslAnswer = NoVerifier string | FeedFails string | CheckFails string | Answers bool

record 'st VerifyLib =
  vl_b64 :: base64
  vl_b64_encode :: "bytes \<Rightarrow> string"
  vl_hash :: hasher
  vl_sha256 :: "bytes \<Rightarrow> bytes"
  vl_x509 :: "'st X509Lib"
  vl_ecdsa :: EcdsaLib
  vl_ossl_verify :: "WsSecDigestMethod \<Rightarrow> PKey \<Rightarrow> string \<Rightarrow> bytes \<Rightarrow> OsslAnswer"
  vl_pkey_debug :: "PKeyId \<Rightarrow> string"
  vl_parse_tree :: "nat \<Rightarrow> string \<Rightarrow> (string, DocSource) result"

record WsSecVerifyOptions =
  vo_fingerprints :: "CertFingerprint list"
  vo_signer_check :: "(bytes \<Rightarrow> unit res) option"
  vo_chain_policy :: ChainPolicy
  vo_external_references :: "(string \<times> string) list"
  vo_now :: system_time
  vo_defer_attachments :: bool

section \<open>The signature value\<close>

definition family_of :: "PKeyId \<Rightarrow> KeyFamily option" where
  "family_of i = (case i of Id_RSA \<Rightarrow> Some FamilyRsa | Id_RSA_PSS \<Rightarrow> Some FamilyRsa | Id_EC \<Rightarrow> Some FamilyEc | Id_Other _ \<Rightarrow> None)"

definition check_key_family :: "'st VerifyLib \<Rightarrow> DsSignatureAlgorithm \<Rightarrow> X509 \<Rightarrow> unit res" where
  "check_key_family lib alg cert =
     rbind (ok_or (value_err SecurityVerificationFailed ''signer certificate does not contain a usable public key'')
        (x_public_key cert)) (\<lambda>pub.
       check (family_of (pk_id pub) = Some (key_family alg))
         (value_err SecurityVerificationFailed
           (''SignatureMethod '' @ alg_uri (ASignature alg) @ '' does not match the signer certificate, which carries '' @
            (case family_of (pk_id pub) of Some FamilyRsa \<Rightarrow> ''an RSA'' | Some FamilyEc \<Rightarrow> ''an EC''
             | None \<Rightarrow> ''a '' @ vl_pkey_debug lib (pk_id pub)) @ '' key'')))"

definition verifying_key :: "'st VerifyLib \<Rightarrow> DsSignatureAlgorithm \<Rightarrow> bytes \<Rightarrow> PKey res" where
  "verifying_key lib alg der =
     (if key_family alg = FamilyEc then
        rbind (map_err (\<lambda>e. value_err ParseFailed (''failed to parse X509 certificate for ECDSA verification: '' @ e))
          (xl_from_der (vl_x509 lib) der)) (\<lambda>cert.
          ok_or (value_err ParseFailed ''failed to extract public key from certificate for ECDSA verification'') (x_public_key cert))
      else
        rbind (extract_rsa_keyvalue_from_cert (vl_x509 lib) der) (\<lambda>(modulus, exponent).
          pkey_from_rsa_components (vl_x509 lib) modulus exponent))"

definition check_pins :: "'st VerifyLib \<Rightarrow> CertFingerprint list \<Rightarrow> bytes \<Rightarrow> unit res" where
  "check_pins lib pins der =
     check (pins = [] \<or> from_cert_der (vl_sha256 lib) der \<in> set pins)
       (value_err SecurityVerificationFailed ''signer certificate fingerprint does not match any pinned fingerprint for the claimed sender'')"

definition verify_signature_value_with_components ::
  "'st VerifyLib \<Rightarrow> DocSource \<Rightarrow> SignatureMaterial \<Rightarrow> WsSecCanonicalizationProfile \<Rightarrow> CertFingerprint list \<Rightarrow>
   (bytes \<Rightarrow> unit res) option \<Rightarrow> ChainPolicy \<Rightarrow> X509 list option res" where
  "verify_signature_value_with_components lib src mat pr pins signer_check policy =
     (let pr = pr\<lparr>cp_kind := sm_c14n_kind mat, inclusive_ns_prefixes := sm_prefixes mat\<rparr> in
     rbind (map_err (\<lambda>_. value_err InteropViolation
          (''unsupported SignatureMethod algorithm: '' @ sm_algorithm mat @ '' (supported: RSA-SHA256/384/512, ECDSA-SHA256/384/512)''))
        (signature_from_uri (sm_algorithm mat))) (\<lambda>alg.
     rbind (ok_or (value_err SecurityVerificationFailed
          (''ds:KeyInfo carries no X.509 certificate; a signature verified against an inline ds:RSAKeyValue authenticates nobody. '' @
           ''The signer must be identified by a wsse:BinarySecurityToken or ds:X509Data/ds:X509Certificate''))
        (first_of (sm_certificates mat))) (\<lambda>der.
     rbind (validate_x509_certificate (vl_x509 lib) der) (\<lambda>_.
     rbind (check_pins lib pins der) (\<lambda>_.
     rbind (case signer_check of Some f \<Rightarrow> f der | None \<Rightarrow> Inr ()) (\<lambda>_.
     rbind (case (sm_modulus mat, sm_exponent mat) of
          (Some n, Some e) \<Rightarrow>
            if key_family alg = FamilyRsa then validate_cert_public_key_matches_rsa_keyvalue (vl_x509 lib) der n e else Inr ()
        | _ \<Rightarrow> Inr ()) (\<lambda>_.
     rbind (if require_chain_validation policy
        then rbind (validate_chain_offline (vl_x509 lib) (sm_certificates mat) policy) (\<lambda>path. Inr (Some path))
        else Inr None) (\<lambda>chain.
     rbind (map_err (\<lambda>e. value_err ParseFailed (''failed to parse X509 certificate for signature verification: '' @ e))
        (xl_from_der (vl_x509 lib) der)) (\<lambda>cert.
     rbind (check_key_family lib alg cert) (\<lambda>_.
     rbind (from_wire (vl_ecdsa lib) alg (sm_value mat) cert) (\<lambda>sig_value.
     rbind (verifying_key lib alg der) (\<lambda>pkey.
       case try_serialize_node src pr Map.empty (sm_signed_info mat) of
         None \<Rightarrow>
           (case vl_ossl_verify lib (message_digest alg) pkey [] sig_value of
              NoVerifier e \<Rightarrow> Inl (value_err SecurityVerificationFailed (''failed to initialize XMLDSig verifier: '' @ e))
            | _ \<Rightarrow> Inl (value_err SecurityVerificationFailed
                ''failed to feed SignedInfo into XMLDSig verifier: failed to stream canonicalized SignedInfo into XMLDSig verifier''))
       | Some octets \<Rightarrow>
           (case vl_ossl_verify lib (message_digest alg) pkey octets sig_value of
              NoVerifier e \<Rightarrow> Inl (value_err SecurityVerificationFailed (''failed to initialize XMLDSig verifier: '' @ e))
            | FeedFails e \<Rightarrow> Inl (value_err SecurityVerificationFailed (''failed to feed SignedInfo into XMLDSig verifier: '' @ e))
            | CheckFails e \<Rightarrow> Inl (value_err SecurityVerificationFailed (''XMLDSig signature verification failed: '' @ e))
            | Answers ok \<Rightarrow>
                if ok then Inr chain
                else Inl (value_err SecurityVerificationFailed ''XMLDSig signature value did not verify''))))))))))))))"

section \<open>The references\<close>

definition VERIFY_STAGE :: string where
  "VERIFY_STAGE = ''wssec_verify_references''"

definition build_external_reference_cid_index :: "(string \<times> string) list \<Rightarrow> (string \<Rightarrow> string option) res" where
  "build_external_reference_cid_index external =
     rfold (\<lambda>index (uri, payload).
         let normalized = normalize_cid_uri uri in
         if index normalized \<noteq> None then
           Inl (ref_err VERIFY_STAGE InteropViolation
             (''duplicate or semantically equivalent external cid reference provided: '' @ uri) normalized)
         else Inr (index(normalized \<mapsto> payload)))
       Map.empty external"

definition collect_same_document_target_ids :: "SigReference list \<Rightarrow> string list" where
  "collect_same_document_target_ids refs =
     rev (fold (\<lambda>r acc. case r_parsed r of SameDocument t \<Rightarrow> if t \<in> set acc then acc else t # acc | Cid _ \<Rightarrow> acc) refs [])"

definition decode_reference_digest_value :: "base64 \<Rightarrow> (WsSecDigestMethod \<Rightarrow> string) \<Rightarrow> string \<Rightarrow> WsSecDigestMethod \<Rightarrow> string \<Rightarrow> bytes res" where
  "decode_reference_digest_value b64 method_debug uri method expected =
     rbind (map_err (err_with_message_id uri) (decode_xml_base64 b64 expected (''DigestValue for reference '' @ uri) VERIFY_STAGE)) (\<lambda>decoded.
     rbind (check (length decoded = output_len method)
        (ref_err VERIFY_STAGE ParseFailed
          (''invalid DigestValue length for reference '' @ uri @ '': expected '' @ show_nat (output_len method) @ '' bytes ('' @
           method_debug method @ ''), got '' @ show_nat (length decoded)) uri)) (\<lambda>_.
       Inr decoded))"

fun digest_debug :: "WsSecDigestMethod \<Rightarrow> string" where
  "digest_debug Sha256 = ''Sha256''"
| "digest_debug Sha384 = ''Sha384''"
| "digest_debug Sha512 = ''Sha512''"

definition verify_reference_digest_matches :: "(bytes \<Rightarrow> string) \<Rightarrow> string \<Rightarrow> bytes \<Rightarrow> string \<Rightarrow> bytes \<Rightarrow> unit res" where
  "verify_reference_digest_matches b64_encode uri expected expected_b64 computed =
     check (computed = expected)
       (ref_err VERIFY_STAGE SecurityVerificationFailed
         (''digest mismatch for reference '' @ uri @ '' (expected '' @ expected_b64 @ '', computed '' @ b64_encode computed @ '')'') uri)"

definition unresolved :: "string \<Rightarrow> AsxError \<Rightarrow> AsxError" where
  "unresolved uri e =
     (if err_code e = InvalidInput then ref_err VERIFY_STAGE SecurityVerificationFailed (err_message e) uri else e)"

definition missing_external :: "string \<Rightarrow> AsxError" where
  "missing_external uri =
     ref_err VERIFY_STAGE SecurityVerificationFailed (''missing external reference bytes required for URI '' @ uri) uri"

definition compute_reference_digest ::
  "'st VerifyLib \<Rightarrow> DocSource \<Rightarrow> SameDocumentReferenceIndex \<Rightarrow> (string \<Rightarrow> string option) option \<Rightarrow>
   WsSecCanonicalizationProfile \<Rightarrow> SigReference \<Rightarrow> bytes res" where
  "compute_reference_digest lib src index external pr r =
     (case r_parsed r of
        Cid normalized \<Rightarrow>
          rbind (ok_or (missing_external (r_uri r)) (Option.bind external (\<lambda>idx. idx normalized))) (\<lambda>payload.
            Inr (vl_hash lib (r_digest_method r) payload))
      | SameDocument target \<Rightarrow>
          map_err (unresolved (r_uri r))
            (canonicalize_reference_digest_from_doc_with_inclusive_ns_and_index (vl_hash lib) src index (r_uri r) pr
              (if r_prefixes r = [] then None else Some (r_prefixes r)) (r_digest_method r)))"

definition is_same_document :: "SigReference \<Rightarrow> bool" where
  "is_same_document r = (case r_parsed r of SameDocument _ \<Rightarrow> True | Cid _ \<Rightarrow> False)"

definition verify_reference ::
  "'st VerifyLib \<Rightarrow> DocSource \<Rightarrow> SameDocumentReferenceIndex \<Rightarrow> (string \<Rightarrow> string option) option \<Rightarrow>
   WsSecCanonicalizationProfile \<Rightarrow> SigReference \<Rightarrow> unit res" where
  "verify_reference lib src index external pr r =
     rbind (compute_reference_digest lib src index external (pr\<lparr>cp_kind := r_c14n_kind r\<rparr>) r) (\<lambda>computed.
     rbind (decode_reference_digest_value (vl_b64 lib) digest_debug (r_uri r) (r_digest_method r) (r_digest_value r)) (\<lambda>expected.
       verify_reference_digest_matches (vl_b64_encode lib) (r_uri r) expected (r_digest_value r) computed))"

text \<open>
  The document is at hand, so the index is built from it; a canonicalization other than the default profile's is
  the profile with the reference's kind.
\<close>

definition verify_signature_references_borrowed_with_profile ::
  "'st VerifyLib \<Rightarrow> DocSource \<Rightarrow> SigReference list \<Rightarrow> WsSecCanonicalizationProfile \<Rightarrow> (string \<times> string) list \<Rightarrow> unit res" where
  "verify_signature_references_borrowed_with_profile lib src refs pr external =
     rbind (if list_all is_same_document refs then Inr None
        else rbind (build_external_reference_cid_index external) (\<lambda>idx. Inr (Some idx))) (\<lambda>external_index.
     let index = build_for_targets (src_doc src) (collect_same_document_target_ids refs) in
     for_each (verify_reference lib src index external_index pr)
       (filter is_same_document refs @ filter (\<lambda>r. \<not> is_same_document r) refs))"

section \<open>The timestamp of the security header\<close>

definition WSU_TIMESTAMP_SKEW :: int where
  "WSU_TIMESTAMP_SKEW = 300"

definition timestamp_rejected :: "string \<Rightarrow> AsxError" where
  "timestamp_rejected detail =
     asx_error SecurityVerificationFailed (''wsu:Timestamp rejected: '' @ detail) (context_new ''wssec_verify_timestamp'')"

definition timestamp_value :: "node \<Rightarrow> string \<Rightarrow> int option res" where
  "timestamp_value timestamp local =
     (case filter (is_node NS_WSU local) (child_nodes timestamp) of
        [] \<Rightarrow> Inr None
      | [n] \<Rightarrow>
          (let text = trim (or_else (node_text (snd n)) []) in
           rbind (ok_or (timestamp_rejected (''wsu:'' @ local @ '' '' @ squote text @ '' is not a UTC xsd:dateTime''))
             (if ends_with text ''Z'' then parse_rfc3339_to_unix_secs text else None)) (\<lambda>secs. Inr (Some secs)))
      | _ \<Rightarrow> Inl (timestamp_rejected (''more than one wsu:'' @ local)))"

definition show_secs :: "int \<Rightarrow> string" where
  "show_secs i = (if i < 0 then ''-'' @ show_nat (nat (- i)) else show_nat (nat i))"

definition check_wsu_timestamp :: "node \<Rightarrow> system_time \<Rightarrow> unit res" where
  "check_wsu_timestamp security now =
     (case filter (is_node NS_WSU ''Timestamp'') (child_nodes security) of
        [] \<Rightarrow> Inr ()
      | [timestamp] \<Rightarrow>
          rbind (timestamp_value timestamp ''Created'') (\<lambda>created.
          rbind (timestamp_value timestamp ''Expires'') (\<lambda>expires.
          let now_secs = since_epoch now div 1000000000 in
          rbind (case (created, expires) of
              (Some c, Some e) \<Rightarrow> check (\<not> e < c) (timestamp_rejected ''wsu:Expires is earlier than wsu:Created'')
            | _ \<Rightarrow> Inr ()) (\<lambda>_.
          rbind (case expires of
              Some e \<Rightarrow> check (\<not> e < now_secs - WSU_TIMESTAMP_SKEW)
                (timestamp_rejected (''message expired '' @ show_secs (now_secs - e) @ '' s ago (skew 300 s)''))
            | None \<Rightarrow> Inr ()) (\<lambda>_.
            case created of
              Some c \<Rightarrow> check (\<not> c > now_secs + WSU_TIMESTAMP_SKEW)
                (timestamp_rejected (''wsu:Created is '' @ show_secs (c - now_secs) @ '' s in the future (skew 300 s)''))
            | None \<Rightarrow> Inr ()))))
      | _ \<Rightarrow> Inl (timestamp_rejected ''more than one wsu:Timestamp in the wsse:Security header''))"

section \<open>The pipeline\<close>

definition verify_enveloped_signature_with_parsed_signature_borrowed ::
  "'st VerifyLib \<Rightarrow> DocSource \<Rightarrow> SignatureEnvelope \<Rightarrow> WsSecVerifyOptions \<Rightarrow> X509 list option res" where
  "verify_enveloped_signature_with_parsed_signature_borrowed lib src parsed opts =
     rbind (verify_signature_value_with_components lib src (se_material parsed) c14n_default
        (vo_fingerprints opts) (vo_signer_check opts) (vo_chain_policy opts)) (\<lambda>chain.
     let refs = (if vo_defer_attachments opts then filter is_same_document (se_references parsed) else se_references parsed) in
     rbind (verify_signature_references_borrowed_with_profile lib src refs c14n_default (vo_external_references opts)) (\<lambda>_.
     rbind (case se_security parsed of Some sec \<Rightarrow> check_wsu_timestamp sec (vo_now opts) | None \<Rightarrow> Inr ()) (\<lambda>_.
       Inr chain)))"

record PendingCidReference =
  p_uri :: string
  p_cid :: string
  p_digest_method :: WsSecDigestMethod
  p_digest_value :: string

record VerifiedSignatureCoverage =
  signed_same_document_ids :: "string list"
  signed_cid_references :: "string list"
  signer_certificate_der :: "bytes option"
  cov_references :: "(string \<times> string \<times> string) list"
  cov_deferred :: "PendingCidReference list option"
  signer_path :: "X509 list"

definition pending_of :: "SigReference \<Rightarrow> PendingCidReference option" where
  "pending_of r =
     (case r_parsed r of
        Cid normalized \<Rightarrow> Some \<lparr>p_uri = r_uri r, p_cid = normalized, p_digest_method = r_digest_method r, p_digest_value = r_digest_value r\<rparr>
      | SameDocument _ \<Rightarrow> None)"

definition same_document_id :: "SigReference \<Rightarrow> string option" where
  "same_document_id r = (case r_parsed r of SameDocument t \<Rightarrow> Some t | Cid _ \<Rightarrow> None)"

definition cid_of :: "SigReference \<Rightarrow> string option" where
  "cid_of r = (case r_parsed r of Cid c \<Rightarrow> Some c | SameDocument _ \<Rightarrow> None)"

definition verify_enveloped_signature_optional_with_doc ::
  "'st VerifyLib \<Rightarrow> DocSource \<Rightarrow> SignedDocClass \<Rightarrow> WsSecVerifyOptions \<Rightarrow> VerifiedSignatureCoverage option res" where
  "verify_enveloped_signature_optional_with_doc lib src cls opts =
     rbind (parse_signature_envelope_from_doc_optional_borrowed (vl_b64 lib) (src_doc src) cls) (\<lambda>found.
     case found of
       None \<Rightarrow> Inr None
     | Some parsed \<Rightarrow>
         rbind (verify_enveloped_signature_with_parsed_signature_borrowed lib src parsed opts) (\<lambda>chain.
           Inr (Some \<lparr>signed_same_document_ids = List.map_filter same_document_id (se_references parsed),
             signed_cid_references = List.map_filter cid_of (se_references parsed),
             signer_certificate_der = first_of (sm_certificates (se_material parsed)),
             cov_references = map (\<lambda>r. (r_uri r, alg_uri (ADigest (r_digest_method r)), r_digest_value r)) (se_references parsed),
             cov_deferred = (if vo_defer_attachments opts then Some (List.map_filter pending_of (se_references parsed)) else None),
             signer_path = or_else chain []\<rparr>)))"

definition verify_cid_reference :: "'st VerifyLib \<Rightarrow> (string \<times> string) list \<Rightarrow> PendingCidReference \<Rightarrow> unit res" where
  "verify_cid_reference lib parts p =
     rbind (ok_or (missing_external (p_uri p)) (map_option snd (find (\<lambda>(cid, _). normalize_cid_uri cid = p_cid p) parts))) (\<lambda>payload.
     rbind (decode_reference_digest_value (vl_b64 lib) digest_debug (p_uri p) (p_digest_method p) (p_digest_value p)) (\<lambda>expected.
       verify_reference_digest_matches (vl_b64_encode lib) (p_uri p) expected (p_digest_value p)
         (vl_hash lib (p_digest_method p) payload)))"

definition verify_cid_references :: "'st VerifyLib \<Rightarrow> PendingCidReference list \<Rightarrow> (string \<times> string) list \<Rightarrow> unit res" where
  "verify_cid_references lib pending parts = for_each (verify_cid_reference lib parts) pending"

section \<open>Entry points on text\<close>

definition parse_wssec_document ::
  "'st VerifyLib \<Rightarrow> string \<Rightarrow> XmlLimits \<Rightarrow> string \<Rightarrow> string \<Rightarrow> DocSource res" where
  "parse_wssec_document lib xml limits ctx msg =
     map_err (\<lambda>e. asx_error ParseFailed (msg @ '': '' @ err_message e) (context_new ctx)) (xml_parse (vl_parse_tree lib) xml limits ctx)"

definition no_signature :: AsxError where
  "no_signature = asx_error ParseFailed ''no ds:Signature elements found'' (context_new PARSE_STAGE)"

definition verify_enveloped_signature :: "'st VerifyLib \<Rightarrow> string \<Rightarrow> WsSecVerifyOptions \<Rightarrow> unit res" where
  "verify_enveloped_signature lib xml opts =
     rbind (parse_wssec_document lib xml LIMITS_ENVELOPE ''wssec_verify'' ''failed to parse XML for wssec verification'') (\<lambda>src.
     rbind (parse_signature_envelope_from_doc_optional_borrowed (vl_b64 lib) (src_doc src) UserMessageDoc) (\<lambda>found.
     rbind (ok_or no_signature found) (\<lambda>parsed.
     rbind (verify_enveloped_signature_with_parsed_signature_borrowed lib src parsed opts) (\<lambda>_.
       Inr ()))))"

definition parse_signature_references_from_doc_optional_borrowed :: "document \<Rightarrow> SigReference list option res" where
  "parse_signature_references_from_doc_optional_borrowed doc =
     rbind (find_single_signature_node doc PARSE_STAGE) (\<lambda>found.
     case found of
       None \<Rightarrow> Inr None
     | Some signature \<Rightarrow>
         rbind (ok_or (asx_error ParseFailed ''ds:Signature missing ds:SignedInfo'' (context_new PARSE_STAGE))
            (ds_child ''SignedInfo'' signature)) (\<lambda>signed_info.
         rbind (ok_or (asx_error SecurityVerificationFailed ''ds:Signature missing non-empty ds:SignatureValue'' (context_new PARSE_STAGE))
            (Option.bind (ds_child ''SignatureValue'' signature) (\<lambda>n. trimmed_nonempty (node_text (snd n))))) (\<lambda>_.
         rbind (parse_signature_references_from_signed_info_borrowed signed_info UserMessageDoc) (\<lambda>refs.
           Inr (Some refs)))))"

definition parse_signature_references :: "'st VerifyLib \<Rightarrow> string \<Rightarrow> SigReference list res" where
  "parse_signature_references lib xml =
     rbind (parse_wssec_document lib xml LIMITS_ENVELOPE PARSE_STAGE ''failed to parse XML while reading signature references'') (\<lambda>src.
     rbind (parse_signature_references_from_doc_optional_borrowed (src_doc src)) (ok_or no_signature))"

section \<open>Whole-document signatures\<close>

definition ENVELOPED_STAGE :: string where
  "ENVELOPED_STAGE = ''wssec_verify_enveloped''"

definition env_err :: "ErrorCode \<Rightarrow> string \<Rightarrow> AsxError" where
  "env_err c msg = asx_error c msg (context_new ENVELOPED_STAGE)"

record EnvelopedReference =
  er_c14n_kind :: WsSecCanonicalizationKind
  er_expected_digest :: string

definition enveloped_transform :: "bool \<times> WsSecCanonicalizationKind \<Rightarrow> node \<Rightarrow> (bool \<times> WsSecCanonicalizationKind) res" where
  "enveloped_transform st transform =
     (let alg = or_else (attribute ''Algorithm'' (snd transform)) [] in
      case transform_from_uri alg of
        Inr EnvelopedSignature \<Rightarrow> Inr (True, snd st)
      | Inr (TC14n k) \<Rightarrow> Inr (fst st, k)
      | _ \<Rightarrow> Inl (env_err InteropViolation
          (''unsupported ds:Transform Algorithm '' @ dquote alg @ '' on a URI='' @ dquote [] @ '' reference'')))"

definition parse_enveloped_reference :: "node \<Rightarrow> EnvelopedReference res" where
  "parse_enveloped_reference reference =
     (let uri = or_else (attribute ''URI'' (snd reference)) [] in
      rbind (check (uri = []) (ref_err ENVELOPED_STAGE InteropViolation
        (''enveloped document signatures support only the whole-document reference URI='' @ dquote [] @ '', got '' @ dquote uri) uri)) (\<lambda>_.
      rbind (case ds_child ''Transforms'' reference of
          Some ts \<Rightarrow> rfold enveloped_transform (False, Inclusive) (filter (ds_node ''Transform'') (child_nodes ts))
        | None \<Rightarrow> Inr (False, Inclusive)) (\<lambda>(saw_enveloped, kind).
      rbind (check saw_enveloped (env_err InteropViolation
        (''a URI='' @ dquote [] @ '' reference must declare the '' @ URI_ENVELOPED_SIGNATURE @ '' transform''))) (\<lambda>_.
        Inr \<lparr>er_c14n_kind = kind,
          er_expected_digest = or_else (map_option trim (Option.bind (ds_child ''DigestValue'' reference) (\<lambda>n. node_text (snd n)))) []\<rparr>))))"

definition digest_enveloped_reference :: "'st VerifyLib \<Rightarrow> DocSource \<Rightarrow> node \<Rightarrow> EnvelopedReference \<Rightarrow> unit res" where
  "digest_enveloped_reference lib src signature reference =
     rbind (canonicalize_enveloped_document (vl_hash lib) (vl_b64_encode lib) src
        (c14n_default\<lparr>cp_kind := er_c14n_kind reference\<rparr>) signature) (\<lambda>actual.
       check (digest_value_base64 actual = er_expected_digest reference)
         (env_err SecurityVerificationFailed ''enveloped document digest mismatch: the document was modified after signing''))"

record VerifiedEnvelopedSignature =
  ves_signer_fingerprint_sha256 :: string
  ves_signer_certificate_der :: bytes
  ves_signer_path :: "X509 list"

definition verify_enveloped_document_signature_inner ::
  "'st VerifyLib \<Rightarrow> DocSource \<Rightarrow> CertFingerprint list \<Rightarrow> ChainPolicy \<Rightarrow> VerifiedEnvelopedSignature res" where
  "verify_enveloped_document_signature_inner lib src pins policy =
     rbind (find_single_signature_node (src_doc src) ENVELOPED_STAGE) (\<lambda>found.
     rbind (ok_or (env_err SecurityVerificationFailed ''document carries no ds:Signature'') found) (\<lambda>signature.
     rbind (ok_or (env_err ParseFailed ''ds:Signature missing ds:SignedInfo'') (ds_child ''SignedInfo'' signature)) (\<lambda>signed_info.
     rbind (enforce_reference_cap signed_info SmpDoc) (\<lambda>_.
     let nodes = filter (ds_node ''Reference'') (child_nodes signed_info) in
     rbind (check (nodes \<noteq> []) (env_err ParseFailed ''ds:SignedInfo contains no ds:Reference'')) (\<lambda>_.
     rbind (rmap (\<lambda>r. rbind (enforce_transform_cap r (or_else (attribute ''URI'' (snd r)) [])) (\<lambda>_. parse_enveloped_reference r)) nodes) (\<lambda>refs.
     rbind (parse_signature_material (vl_b64 lib) (src_doc src) signature signed_info) (\<lambda>material.
     rbind (ok_or (env_err SecurityVerificationFailed
         ''ds:KeyInfo must carry ds:X509Data/ds:X509Certificate so the signer can be chained to a trust anchor'')
        (first_of (sm_certificates material))) (\<lambda>der.
     rbind (verify_signature_value_with_components lib src material c14n_default pins None policy) (\<lambda>chain.
     rbind (for_each (digest_enveloped_reference lib src signature) refs) (\<lambda>_.
       Inr \<lparr>ves_signer_fingerprint_sha256 = hex (vl_sha256 lib der), ves_signer_certificate_der = der,
         ves_signer_path = or_else chain []\<rparr>))))))))))"

definition verify_enveloped_document_signature ::
  "'st VerifyLib \<Rightarrow> string \<Rightarrow> CertFingerprint list \<Rightarrow> ChainPolicy \<Rightarrow> VerifiedEnvelopedSignature res" where
  "verify_enveloped_document_signature lib xml pins policy =
     rbind (parse_wssec_document lib xml LIMITS_SMP ENVELOPED_STAGE ''failed to parse XML for enveloped signature verification'') (\<lambda>src.
       verify_enveloped_document_signature_inner lib src pins policy)"


section \<open>What a verified signature covers\<close>

text \<open>
  OpenSSL verified the signature value over the canonical SignedInfo with the key of the certificate.
\<close>

definition signed_by :: "'st VerifyLib \<Rightarrow> DocSource \<Rightarrow> SignatureMaterial \<Rightarrow> bytes \<Rightarrow> bool" where
  "signed_by lib src mat der \<longleftrightarrow>
     (\<exists>alg cert pkey sig_value octets.
        signature_from_uri (sm_algorithm mat) = Inr alg \<and> xl_from_der (vl_x509 lib) der = Inr cert \<and>
        check_key_family lib alg cert = Inr () \<and> verifying_key lib alg der = Inr pkey \<and>
        from_wire (vl_ecdsa lib) alg (sm_value mat) cert = Inr sig_value \<and>
        try_serialize_node src (c14n_default\<lparr>cp_kind := sm_c14n_kind mat, inclusive_ns_prefixes := sm_prefixes mat\<rparr>)
          Map.empty (sm_signed_info mat) = Some octets \<and>
        vl_ossl_verify lib (message_digest alg) pkey octets sig_value = Answers True)"

text \<open>The rules for the signer: the certificate rules, the pins, the sender rule, the path.\<close>

definition signer_trusted :: "'st VerifyLib \<Rightarrow> SignatureMaterial \<Rightarrow> WsSecVerifyOptions \<Rightarrow> bytes \<Rightarrow> X509 list \<Rightarrow> bool" where
  "signer_trusted lib mat opts der path \<longleftrightarrow>
     first_of (sm_certificates mat) = Some der \<and> validate_x509_certificate (vl_x509 lib) der = Inr () \<and>
     (vo_fingerprints opts = [] \<or> from_cert_der (vl_sha256 lib) der \<in> set (vo_fingerprints opts)) \<and>
     (case vo_signer_check opts of Some f \<Rightarrow> f der = Inr () | None \<Rightarrow> True) \<and>
     (if require_chain_validation (vo_chain_policy opts)
      then validate_chain_offline (vl_x509 lib) (sm_certificates mat) (vo_chain_policy opts) = Inr path else path = [])"

text \<open>The declared digest, decoded.\<close>

definition declared_digest :: "'st VerifyLib \<Rightarrow> string \<Rightarrow> (string, bytes) result" where
  "declared_digest lib val = vl_b64 lib (filter (\<lambda>c. \<not> is_ascii_ws c) val)"

text \<open>The element is the only one with the id, and its canonical form has the declared digest.\<close>

definition element_digested :: "'st VerifyLib \<Rightarrow> DocSource \<Rightarrow> SigReference \<Rightarrow> string \<Rightarrow> node \<Rightarrow> bool" where
  "element_digested lib src r target n \<longleftrightarrow>
     filter (has_id target) (doc_nodes (src_doc src)) = [n] \<and>
     (\<exists>out. try_serialize_node_with_inclusive_ns src (c14n_default\<lparr>cp_kind := r_c14n_kind r\<rparr>) Map.empty
          (if r_prefixes r = [] then None else Some (r_prefixes r)) n = Some out \<and>
        declared_digest lib (r_digest_value r) = Inr (vl_hash lib (r_digest_method r) out))"

lemma check_pins_Inr:
  "check_pins lib pins der = Inr u \<longleftrightarrow> pins = [] \<or> from_cert_der (vl_sha256 lib) der \<in> set pins"
  by (simp add: check_pins_def check_Inr_iff)

lemma verify_value_Inr:
  assumes "verify_signature_value_with_components lib src mat c14n_default (vo_fingerprints opts) (vo_signer_check opts)
      (vo_chain_policy opts) = Inr chain"
  obtains der where "signer_trusted lib mat opts der (or_else chain [])" "signed_by lib src mat der"
proof -
  from assms obtain alg der cert sig_value pkey where
    a: "signature_from_uri (sm_algorithm mat) = Inr alg" and d: "first_of (sm_certificates mat) = Some der"
    and v: "validate_x509_certificate (vl_x509 lib) der = Inr ()"
    and p: "check_pins lib (vo_fingerprints opts) der = Inr ()"
    and s: "(case vo_signer_check opts of Some f \<Rightarrow> f der | None \<Rightarrow> Inr ()) = Inr ()"
    and c: "(if require_chain_validation (vo_chain_policy opts)
        then rbind (validate_chain_offline (vl_x509 lib) (sm_certificates mat) (vo_chain_policy opts)) (\<lambda>path. Inr (Some path))
        else Inr None) = Inr chain"
    and x: "xl_from_der (vl_x509 lib) der = Inr cert" and f: "check_key_family lib alg cert = Inr ()"
    and w: "from_wire (vl_ecdsa lib) alg (sm_value mat) cert = Inr sig_value" and k: "verifying_key lib alg der = Inr pkey"
    and o: "\<exists>octets. try_serialize_node src (c14n_default\<lparr>cp_kind := sm_c14n_kind mat, inclusive_ns_prefixes := sm_prefixes mat\<rparr>)
          Map.empty (sm_signed_info mat) = Some octets \<and>
        vl_ossl_verify lib (message_digest alg) pkey octets sig_value = Answers True"
    unfolding verify_signature_value_with_components_def Let_def rbind_Inr_iff map_err_Inr_iff ok_or_Inr_iff
    by clarify (rule that, assumption, assumption, auto split: option.splits OsslAnswer.splits if_splits)
  have "signer_trusted lib mat opts der (or_else chain [])"
    using d v p s c unfolding signer_trusted_def check_pins_Inr
    by (auto simp: rbind_Inr_iff or_else_def split: if_splits option.splits)
  moreover have "signed_by lib src mat der" unfolding signed_by_def using a x f w k o by blast
  ultimately show thesis by (rule that)
qed

lemma digest_matches_Inr:
  assumes "decode_reference_digest_value (vl_b64 lib) digest_debug uri method val = Inr expected"
    and "verify_reference_digest_matches (vl_b64_encode lib) uri expected val computed = Inr u"
  shows "declared_digest lib val = Inr computed"
  using assms
  by (auto simp: decode_reference_digest_value_def verify_reference_digest_matches_def declared_digest_def decode_xml_base64_def
      res_simps)

lemma target_of_uri:
  assumes "parse_reference_uri uri stage = Inr (SameDocument target)"
  shows "normalize_same_document_uri uri = Inr target"
  using assms by (auto simp: parse_reference_uri_def res_simps split: if_splits)

text \<open>The references come from the SignedInfo, each with its own target, and no more than the document class allows.\<close>

lemma signature_reference_Inr:
  assumes "signature_reference refs n = Inr refs'"
  obtains r where "refs' = refs @ [r]" "parse_reference_uri (r_uri r) PARSE_STAGE = Inr (r_parsed r)"
    "r_parsed r \<notin> r_parsed ` set refs"
proof -
  from assms obtain r where "refs' = refs @ [r]" "parse_reference_uri (r_uri r) PARSE_STAGE = Inr (r_parsed r)"
      "check (r_parsed r \<notin> r_parsed ` set refs)
        (ref_err PARSE_STAGE InteropViolation (''duplicate or semantically equivalent ds:Reference URI found: '' @ r_uri r) (r_uri r)) = Inr ()"
    unfolding signature_reference_def case_prod_beta rbind_Inr_iff sum.inject
    by (elim exE conjE) (rule that, erule sym, simp_all)
  then show thesis using that by (simp add: check_Inr_iff)
qed

lemma references_Inr:
  assumes "parse_signature_references_from_signed_info_borrowed signed_info cls = Inr refs"
  shows "\<forall>r \<in> set refs. parse_reference_uri (r_uri r) PARSE_STAGE = Inr (r_parsed r)" "distinct (map r_parsed refs)"
    "length refs \<le> max_references cls"
proof -
  let ?nodes = "ds_descendants ''Reference'' signed_info"
  have cap: "length ?nodes \<le> max_references cls" and f: "rfold signature_reference [] ?nodes = Inr refs"
    using assms by (auto simp: parse_signature_references_from_signed_info_borrowed_def enforce_reference_cap_def Let_def res_simps)
  let ?I = "\<lambda>(ns :: node list) refs. (\<forall>r \<in> set refs. parse_reference_uri (r_uri r) PARSE_STAGE = Inr (r_parsed r)) \<and>
      distinct (map r_parsed refs) \<and> length refs = length ns"
  have "?I ?nodes refs"
  proof (rule rfold_invariant [where I = ?I, OF f])
    fix ns n rest refs refs'
    assume "?I ns refs" "signature_reference refs n = Inr refs'"
    then show "?I (ns @ [n]) refs'" by (elim signature_reference_Inr) auto
  qed simp
  then show "\<forall>r \<in> set refs. parse_reference_uri (r_uri r) PARSE_STAGE = Inr (r_parsed r)" "distinct (map r_parsed refs)"
    "length refs \<le> max_references cls" using cap by simp_all
qed

lemma envelope_Inr:
  assumes "parse_signature_envelope_from_doc_optional_borrowed b64 doc cls = Inr (Some parsed)"
  shows "parse_signature_references_from_signed_info_borrowed (sm_signed_info (se_material parsed)) cls = Inr (se_references parsed)"
proof -
  have "parse_signature_material b64 doc signature signed_info = Inr mat \<Longrightarrow> sm_signed_info mat = signed_info" for signature signed_info mat
    unfolding parse_signature_material_def Let_def case_prod_beta rbind_Inr_iff sum.inject by clarify simp
  then show ?thesis using assms
    by (auto simp: parse_signature_envelope_from_doc_optional_borrowed_def res_simps split: option.splits)
qed

lemma verify_reference_same_document:
  assumes "verify_reference lib src (build_for_targets (src_doc src) targets) external c14n_default r = Inr u"
    and "r_parsed r = SameDocument target" "parse_reference_uri (r_uri r) PARSE_STAGE = Inr (r_parsed r)"
  shows "\<exists>n. element_digested lib src r target n"
proof -
  let ?pr = "c14n_default\<lparr>cp_kind := r_c14n_kind r\<rparr>" and ?ov = "if r_prefixes r = [] then None else Some (r_prefixes r)"
  from assms obtain computed where
    c: "canonicalize_reference_digest_from_doc_with_inclusive_ns_and_index (vl_hash lib) src
        (build_for_targets (src_doc src) targets) (r_uri r) ?pr ?ov (r_digest_method r) = Inr computed"
    and d: "declared_digest lib (r_digest_value r) = Inr computed"
    unfolding verify_reference_def
    by (auto simp: compute_reference_digest_def map_err_Inr_iff rbind_Inr_iff intro: digest_matches_Inr)
  from c obtain n where n: "build_for_targets (src_doc src) targets target = Some (Unique n)"
    and t: "canonicalize_reference_digest_from_target_with_inclusive_ns (vl_hash lib) src n ?pr ?ov (r_digest_method r) = Inr computed"
    using target_of_uri [of "r_uri r" PARSE_STAGE target] assms(2,3)
    by (auto simp: canonicalize_reference_digest_from_doc_with_inclusive_ns_and_index_def
        resolve_same_document_reference_target_with_index_def rbind_Inr_iff split: option.splits SameDocumentReferenceEntry.splits)
  have "filter (has_id target) (doc_nodes (src_doc src)) = [n]"
    using n build_impl_unique by (auto simp: build_for_targets_def split: if_splits)
  moreover obtain out where "try_serialize_node_with_inclusive_ns src ?pr Map.empty ?ov n = Some out"
    "computed = vl_hash lib (r_digest_method r) out"
    using t unfolding canonicalize_reference_digest_from_target_with_inclusive_ns_def
    by (auto simp: rbind_Inr_iff ok_or_Inr_iff)
  ultimately show ?thesis using d by (auto simp: element_digested_def)
qed

lemma external_index_Inr:
  assumes "build_external_reference_cid_index external = Inr idx" "idx cid = Some body"
  shows "\<exists>uri. (uri, body) \<in> set external \<and> normalize_cid_uri uri = cid"
proof -
  let ?I = "\<lambda>xs (idx :: string \<Rightarrow> string option). \<forall>cid body. idx cid = Some body \<longrightarrow> (\<exists>uri. (uri, body) \<in> set xs \<and> normalize_cid_uri uri = cid)"
  have "?I external idx"
    using assms(1) unfolding build_external_reference_cid_index_def
  proof (rule rfold_invariant [where I = ?I])
    fix xs x rest idx idx'
    assume "?I xs idx" "(case x of (uri, payload) \<Rightarrow> let normalized = normalize_cid_uri uri in
         if idx normalized \<noteq> None then
           Inl (ref_err VERIFY_STAGE InteropViolation
             (''duplicate or semantically equivalent external cid reference provided: '' @ uri) normalized)
         else Inr (idx(normalized \<mapsto> payload))) = Inr idx'"
    then show "?I (xs @ [x]) idx'" by (cases x) (auto simp: Let_def split: if_splits, blast+)
  qed simp
  then show ?thesis using assms(2) by blast
qed

lemma verify_reference_cid:
  assumes "verify_reference lib src index (Some idx) c14n_default r = Inr u" "r_parsed r = Cid cid"
  shows "\<exists>body. idx cid = Some body \<and> declared_digest lib (r_digest_value r) = Inr (vl_hash lib (r_digest_method r) body)"
  using assms unfolding verify_reference_def
  by (auto simp: compute_reference_digest_def rbind_Inr_iff ok_or_Inr_iff intro: digest_matches_Inr)

text \<open>What a verification that succeeds has established.\<close>

lemma verified_coverage_facts:
  assumes "verify_enveloped_signature_optional_with_doc lib src cls opts = Inr (Some cov)"
  shows "\<exists>mat refs der.
    signer_certificate_der cov = Some der \<and> signer_trusted lib mat opts der (signer_path cov) \<and> signed_by lib src mat der \<and>
    parse_signature_references_from_signed_info_borrowed (sm_signed_info mat) cls = Inr refs \<and>
    length refs \<le> max_references cls \<and> distinct (map r_parsed refs) \<and>
    (\<forall>i \<in> set (signed_same_document_ids cov). \<exists>r \<in> set refs. \<exists>n. element_digested lib src r i n) \<and>
    (\<forall>c \<in> set (signed_cid_references cov). \<exists>r \<in> set refs. r_parsed r = Cid c \<and>
       (if vo_defer_attachments opts then \<exists>p \<in> set (the (cov_deferred cov)).
          p_cid p = c \<and> p_digest_method p = r_digest_method r \<and> p_digest_value p = r_digest_value r
        else \<exists>uri body. (uri, body) \<in> set (vo_external_references opts) \<and> normalize_cid_uri uri = c \<and>
          declared_digest lib (r_digest_value r) = Inr (vl_hash lib (r_digest_method r) body)))"
proof -
  from assms obtain parsed chain where parsed: "parse_signature_envelope_from_doc_optional_borrowed (vl_b64 lib) (src_doc src) cls = Inr (Some parsed)"
    and v: "verify_enveloped_signature_with_parsed_signature_borrowed lib src parsed opts = Inr chain"
    and cov: "cov = \<lparr>signed_same_document_ids = List.map_filter same_document_id (se_references parsed),
             signed_cid_references = List.map_filter cid_of (se_references parsed),
             signer_certificate_der = first_of (sm_certificates (se_material parsed)),
             cov_references = map (\<lambda>r. (r_uri r, alg_uri (ADigest (r_digest_method r)), r_digest_value r)) (se_references parsed),
             cov_deferred = (if vo_defer_attachments opts then Some (List.map_filter pending_of (se_references parsed)) else None),
             signer_path = or_else chain []\<rparr>"
    by (auto simp: verify_enveloped_signature_optional_with_doc_def res_simps split: option.splits)
  let ?mat = "se_material parsed" and ?refs = "se_references parsed" and ?defer = "vo_defer_attachments opts"
  note refs = envelope_Inr [OF parsed] references_Inr [OF envelope_Inr [OF parsed]]
  let ?checked = "if ?defer then filter is_same_document ?refs else ?refs"
  from v have val_ok: "verify_signature_value_with_components lib src ?mat c14n_default (vo_fingerprints opts) (vo_signer_check opts)
      (vo_chain_policy opts) = Inr chain"
    and r: "verify_signature_references_borrowed_with_profile lib src ?checked c14n_default (vo_external_references opts) = Inr ()"
    by (auto simp: verify_enveloped_signature_with_parsed_signature_borrowed_def Let_def rbind_Inr_iff)
  obtain der where der: "signer_trusted lib ?mat opts der (or_else chain [])" "signed_by lib src ?mat der"
    using verify_value_Inr [OF val_ok] by blast
  let ?index = "build_for_targets (src_doc src) (collect_same_document_target_ids ?checked)"
  from r obtain ext where ext: "(if list_all is_same_document ?checked then Inr None
        else rbind (build_external_reference_cid_index (vo_external_references opts)) (\<lambda>idx. Inr (Some idx))) = Inr ext"
    and each: "\<forall>r \<in> set ?checked. verify_reference lib src ?index ext c14n_default r = Inr ()"
    unfolding verify_signature_references_borrowed_with_profile_def Let_def rbind_Inr_iff for_each_Inr_iff by auto
  have ids: "\<exists>r \<in> set ?refs. \<exists>n. element_digested lib src r i n" if "i \<in> set (List.map_filter same_document_id ?refs)" for i
  proof -
    from that obtain r where r: "r \<in> set ?refs" "r_parsed r = SameDocument i"
      by (auto simp: map_filter_def same_document_id_def split: ParsedReferenceUri.splits)
    then have "verify_reference lib src ?index ext c14n_default r = Inr ()" using each by (auto simp: is_same_document_def)
    then show ?thesis using verify_reference_same_document r refs(2) by blast
  qed
  have cids: "\<exists>r \<in> set ?refs. r_parsed r = Cid c \<and>
       (if ?defer then \<exists>p \<in> set (List.map_filter pending_of ?refs).
          p_cid p = c \<and> p_digest_method p = r_digest_method r \<and> p_digest_value p = r_digest_value r
        else \<exists>uri body. (uri, body) \<in> set (vo_external_references opts) \<and> normalize_cid_uri uri = c \<and>
          declared_digest lib (r_digest_value r) = Inr (vl_hash lib (r_digest_method r) body))"
    if "c \<in> set (List.map_filter cid_of ?refs)" for c
  proof -
    from that obtain r where r: "r \<in> set ?refs" "r_parsed r = Cid c"
      by (auto simp: map_filter_def cid_of_def split: ParsedReferenceUri.splits)
    show ?thesis
    proof (cases ?defer)
      case True
      have "pending_of r = Some \<lparr>p_uri = r_uri r, p_cid = c, p_digest_method = r_digest_method r, p_digest_value = r_digest_value r\<rparr>"
        using r by (simp add: pending_of_def)
      then show ?thesis using r True by (intro bexI [of _ r]) (force simp: map_filter_def)+
    next
      case False
      then have nall: "\<not> list_all is_same_document ?checked" using r by (auto simp: list_all_iff is_same_document_def intro!: bexI [of _ r])
      then obtain idx where idx: "build_external_reference_cid_index (vo_external_references opts) = Inr idx" "ext = Some idx"
        using ext by (auto simp: rbind_Inr_iff)
      have "verify_reference lib src ?index (Some idx) c14n_default r = Inr ()" using each r False idx(2) by auto
      then obtain body where body: "idx c = Some body"
        "declared_digest lib (r_digest_value r) = Inr (vl_hash lib (r_digest_method r) body)"
        using verify_reference_cid r(2) by blast
      obtain uri where uri: "(uri, body) \<in> set (vo_external_references opts)" "normalize_cid_uri uri = c"
        using external_index_Inr [OF idx(1) body(1)] by blast
      then have "\<exists>uri body. (uri, body) \<in> set (vo_external_references opts) \<and> normalize_cid_uri uri = c \<and>
          declared_digest lib (r_digest_value r) = Inr (vl_hash lib (r_digest_method r) body)" using body(2) by blast
      then show ?thesis using r False by (intro bexI [of _ r]) simp_all
    qed
  qed
  have signer: "signer_certificate_der cov = Some der \<and> signer_trusted lib ?mat opts der (signer_path cov) \<and> signed_by lib src ?mat der"
    using der by (simp add: cov signer_trusted_def)
  show ?thesis
    by (intro exI [of _ ?mat] exI [of _ ?refs] exI [of _ der], cases ?defer)
      (use signer refs ids cids in \<open>simp_all add: cov\<close>)
qed

text \<open>
  C29. A verified signature covers what it reports and nothing else. The certificate reported passes the
  end-entity rules, the pins, the sender rule and, where required, path validation; OpenSSL verified
  the signature value with that certificate's key over the canonical SignedInfo; the references are
  those of that SignedInfo, with distinct targets, no more than the document class allows. Every id reported
  is the id of exactly one element, whose canonical form has the digest the reference declares; every
  attachment reported has the declared digest, or is left to the caller with it.
\<close>
theorem verified_coverage:
  assumes "verify_enveloped_signature_optional_with_doc lib src cls opts = Inr (Some cov)"
  shows "\<exists>mat refs der.
    signer_certificate_der cov = Some der \<and> signer_trusted lib mat opts der (signer_path cov) \<and> signed_by lib src mat der \<and>
    parse_signature_references_from_signed_info_borrowed (sm_signed_info mat) cls = Inr refs \<and>
    length refs \<le> max_references cls \<and> distinct (map r_parsed refs) \<and>
    (\<forall>i \<in> set (signed_same_document_ids cov). \<exists>r \<in> set refs. \<exists>n. element_digested lib src r i n) \<and>
    (\<forall>c \<in> set (signed_cid_references cov). \<exists>r \<in> set refs. r_parsed r = Cid c \<and>
       (if vo_defer_attachments opts then \<exists>p \<in> set (the (cov_deferred cov)).
          p_cid p = c \<and> p_digest_method p = r_digest_method r \<and> p_digest_value p = r_digest_value r
        else \<exists>uri body. (uri, body) \<in> set (vo_external_references opts) \<and> normalize_cid_uri uri = c \<and>
          declared_digest lib (r_digest_value r) = Inr (vl_hash lib (r_digest_method r) body)))"
  using assms by (rule verified_coverage_facts)

text \<open>A signed document, with a library under which its signature verifies.\<close>

definition demo_ds :: "string \<Rightarrow> ((string option \<times> string) \<times> string) list \<Rightarrow> xnode list \<Rightarrow> xnode" where
  "demo_ds name attrs cs = Element (Some NS_DS) name attrs cs"

definition demo_signed :: DocSource where
  "demo_signed =
     \<lparr>src_doc = [Element None ''Doc'' [((None, ''Id''), ''a'')]
        [TextNode ''text'',
         demo_ds ''Signature'' []
          [demo_ds ''SignedInfo'' []
            [demo_ds ''CanonicalizationMethod'' [((None, ''Algorithm''), alg_uri (AC14n Exclusive))] [],
             demo_ds ''SignatureMethod'' [((None, ''Algorithm''), alg_uri (ASignature DsRsaSha256))] [],
             demo_ds ''Reference'' [((None, ''URI''), ''#a'')]
              [demo_ds ''DigestMethod'' [((None, ''Algorithm''), alg_uri (ADigest Sha256))] [],
               demo_ds ''DigestValue'' [] [TextNode ''d'']]],
           demo_ds ''SignatureValue'' [] [TextNode ''s''],
           demo_ds ''KeyInfo'' [] [demo_ds ''X509Certificate'' [] [TextNode ''c'']]]]],
      src_after_lt = (\<lambda>_. []), src_attr_qname = (\<lambda>_ q. snd q), src_namespaces = (\<lambda>_. [])\<rparr>"

definition demo_key :: PKey where
  "demo_key = \<lparr>pk_id = Id_RSA, pk_bits = 2048, pk_ec_key = None, pk_spki = []\<rparr>"

definition demo_verify_lib :: "unit VerifyLib" where
  "demo_verify_lib =
     \<lparr>vl_b64 = (\<lambda>_. Inr (replicate 32 0)), vl_b64_encode = (\<lambda>_. []), vl_hash = (\<lambda>_ _. replicate 32 0), vl_sha256 = (\<lambda>_. []),
      vl_x509 = \<lparr>xl_parse = (\<lambda>_. Inr \<lparr>pc_valid_now = True, pc_public_key = Inr (PkRsaKey (replicate 256 255) [3]),
          pc_basic_constraints_ca = Inr None, pc_key_usage = Inr None, pc_eku = Inr None\<rparr>),
        xl_from_der = (\<lambda>_. Inr \<lparr>x_to_der = Inl [], x_public_key = Some demo_key, x_subject = [], x_not_before = 0, x_not_after = 0,
          x_subject_key_id = None, x_spk_bits = None, x_crl_sign = None, x_pem = []\<rparr>),
        xl_store = (\<lambda>_. Inr ()), xl_verify_cert = (\<lambda>_ _ _. Inl []), xl_rsa_key = (\<lambda>_ _. Inr demo_key)\<rparr>,
      vl_ecdsa = \<lparr>sig_from_der = (\<lambda>_. None), sig_to_der = (\<lambda>_. None), bn_num_bytes = (\<lambda>_. 0), bn_to_vec_padded = (\<lambda>_ _. None), bn_from_slice = (\<lambda>_. None)\<rparr>,
      vl_ossl_verify = (\<lambda>_ _ _ _. Answers True), vl_pkey_debug = (\<lambda>_. []), vl_parse_tree = (\<lambda>_ _. Inr demo_signed)\<rparr>"

definition demo_verify_options :: WsSecVerifyOptions where
  "demo_verify_options =
     \<lparr>vo_fingerprints = [], vo_signer_check = None, vo_chain_policy = \<lparr>trust_anchor_pems = [], require_chain_validation = False\<rparr>,
      vo_external_references = [], vo_now = 0, vo_defer_attachments = False\<rparr>"

lemma demo_signed_verifies:
  "(case verify_enveloped_signature_optional_with_doc demo_verify_lib demo_signed UserMessageDoc demo_verify_options of
      Inr (Some cov) \<Rightarrow> signed_same_document_ids cov = [''a''] | _ \<Rightarrow> False)"
  by code_simp

theorem verified_coverage_witness:
  "\<exists>cov mat refs der. verify_enveloped_signature_optional_with_doc demo_verify_lib demo_signed UserMessageDoc demo_verify_options = Inr (Some cov) \<and>
     signer_certificate_der cov = Some der \<and> signed_by demo_verify_lib demo_signed mat der \<and>
     parse_signature_references_from_signed_info_borrowed (sm_signed_info mat) UserMessageDoc = Inr refs \<and>
     (\<exists>r \<in> set refs. \<exists>n. element_digested demo_verify_lib demo_signed r ''a'' n)"
proof -
  obtain cov where v: "verify_enveloped_signature_optional_with_doc demo_verify_lib demo_signed UserMessageDoc demo_verify_options = Inr (Some cov)"
    and ids: "signed_same_document_ids cov = [''a'']"
    using demo_signed_verifies by (auto split: sum.splits option.splits)
  then show ?thesis using verified_coverage [OF v] by (elim exE conjE) (intro exI conjI, auto)
qed

end
