(* ===== verification/Xmlenc.thy ===== *)
theory Xmlenc
  imports Xmlenc_Parse
begin

text \<open>
  Decrypting an envelope (src/crypto/wssec/xmlenc/mod.rs, kdf.rs, keywrap.rs, gcm.rs, agreement.rs, and the
  key seam of src/keys.rs). The primitives (hash, AES key wrap, AES-GCM, elliptic-curve checks) are the fields
  of a library record; a private-key step takes and returns a state, which an external key uses to record the
  operations it is asked for. Shown: the key derivation is the single-step KDF of its standard, content
  encryption round-trips, and no error tells anything of what the private key answered.
\<close>

section \<open>The primitives\<close>

record XmlencLib =
  xl_hash :: "WsSecDigestMethod \<Rightarrow> bytes \<Rightarrow> bytes"
  xl_kw_wrap :: "KeyWrapAlg \<Rightarrow> bytes \<Rightarrow> bytes \<Rightarrow> bytes option"
  xl_kw_unwrap :: "KeyWrapAlg \<Rightarrow> bytes \<Rightarrow> bytes \<Rightarrow> bytes option"
  xl_seal :: "XmlEncPayloadAlgorithm \<Rightarrow> bytes \<Rightarrow> bytes \<Rightarrow> bytes \<Rightarrow> bytes option"
  xl_open :: "XmlEncPayloadAlgorithm \<Rightarrow> bytes \<Rightarrow> bytes \<Rightarrow> bytes \<Rightarrow> bytes option"
  xl_curve_available :: "NamedCurve \<Rightarrow> bool"
  xl_on_curve :: "NamedCurve \<Rightarrow> bytes \<Rightarrow> bool"
  xl_at_infinity :: "NamedCurve \<Rightarrow> bytes \<Rightarrow> bool"
  xl_valid_public :: "NamedCurve \<Rightarrow> bytes \<Rightarrow> bool"
  xl_check_key :: "NamedCurve \<Rightarrow> bytes \<Rightarrow> bool"
  xl_spki :: "NamedCurve \<Rightarrow> bytes \<Rightarrow> bytes option"

section \<open>Key derivation\<close>

definition be32 :: "32 word \<Rightarrow> bytes" where
  "be32 w = map (\<lambda>i. ucast (drop_bit (8 * i) w)) [3, 2, 1, 0]"

definition other_info :: "ConcatKdfParams \<Rightarrow> bytes" where
  "other_info p = concat [algorithm_id p, party_u_info p, party_v_info p, supp_pub_info p, supp_priv_info p]"

text \<open>
  The loop of \<open>concat_kdf\<close>; every pass adds a digest, so \<open>wanted\<close> passes are enough for any digest that is not empty.
\<close>

fun kdf_loop ::
  "nat \<Rightarrow> XmlencLib \<Rightarrow> WsSecDigestMethod \<Rightarrow> bytes \<Rightarrow> bytes \<Rightarrow> 32 word \<Rightarrow> nat \<Rightarrow> bytes \<Rightarrow> bytes" where
  "kdf_loop 0 lib digest z info counter wanted out = out"
| "kdf_loop (Suc fuel) lib digest z info counter wanted out =
     (if length out < wanted then
        kdf_loop fuel lib digest z info (counter + 1) wanted (out @ xl_hash lib digest (be32 counter @ z @ info))
      else out)"

definition concat_kdf :: "XmlencLib \<Rightarrow> WsSecDigestMethod \<Rightarrow> bytes \<Rightarrow> nat \<Rightarrow> ConcatKdfParams \<Rightarrow> bytes" where
  "concat_kdf lib digest z keydatalen_bits params =
     (let wanted = (keydatalen_bits + 7) div 8 in
      take wanted (kdf_loop wanted lib digest z (other_info params) 1 wanted []))"

section \<open>Key wrap and content encryption\<close>

definition kw_failure :: "string \<Rightarrow> AsxError" where
  "kw_failure detail = asx_error DecryptionFailed (''AES key wrap: '' @ detail) (context_new ''wssec_aes_kw'')"

definition kek_length :: "KeyWrapAlg \<Rightarrow> bytes \<Rightarrow> unit res" where
  "kek_length alg kek = check (length kek = kek_len alg) (kw_failure ''KEK length does not match the declared key wrap'')"

definition kw_wrap :: "XmlencLib \<Rightarrow> KeyWrapAlg \<Rightarrow> bytes \<Rightarrow> bytes \<Rightarrow> bytes res" where
  "kw_wrap lib alg kek cek =
     rbind (kek_length alg kek) (\<lambda>_.
       ok_or (kw_failure ''the key to wrap is not a multiple of 8 octets'') (xl_kw_wrap lib alg kek cek))"

definition kw_unwrap :: "XmlencLib \<Rightarrow> KeyWrapAlg \<Rightarrow> bytes \<Rightarrow> bytes \<Rightarrow> bytes res" where
  "kw_unwrap lib alg kek wrapped =
     rbind (kek_length alg kek) (\<lambda>_.
     rbind (check (\<not> length wrapped < 2 * 8) (kw_failure ''wrapped key too short'')) (\<lambda>_.
       ok_or (kw_failure ''integrity check failed'') (xl_kw_unwrap lib alg kek wrapped)))"

definition NONCE_LEN :: nat where
  "NONCE_LEN = 12"

definition TAG_LEN :: nat where
  "TAG_LEN = 16"

definition gcm_failure :: "string \<Rightarrow> AsxError" where
  "gcm_failure detail = asx_error DecryptionFailed (''AES-GCM: '' @ detail) (context_new ''wssec_aes_gcm'')"

definition gcm_encrypt :: "XmlencLib \<Rightarrow> XmlEncPayloadAlgorithm \<Rightarrow> bytes \<Rightarrow> bytes \<Rightarrow> bytes \<Rightarrow> bytes res" where
  "gcm_encrypt lib cipher cek nonce plaintext =
     (if length cek \<noteq> key_len cipher then Inl (gcm_failure ''content key length does not match the cipher'')
      else rbind (ok_or (gcm_failure ''encryption failed'') (xl_seal lib cipher cek nonce plaintext)) (\<lambda>sealed.
        Inr (nonce @ sealed)))"

definition gcm_decrypt :: "XmlencLib \<Rightarrow> XmlEncPayloadAlgorithm \<Rightarrow> bytes \<Rightarrow> bytes \<Rightarrow> bytes res" where
  "gcm_decrypt lib cipher cek blob =
     (if length cek \<noteq> key_len cipher then Inl (gcm_failure ''content key length does not match the cipher'')
      else if length blob < NONCE_LEN + TAG_LEN then Inl (gcm_failure ''ciphertext shorter than nonce and tag'')
      else ok_or (gcm_failure ''authentication tag mismatch'')
        (xl_open lib cipher cek (take NONCE_LEN blob) (drop NONCE_LEN blob)))"

section \<open>The key seam\<close>

datatype RecipientKey = RkRsa | RkEc NamedCurve

fun recipient_debug :: "RecipientKey option \<Rightarrow> string" where
  "recipient_debug None = ''None''"
| "recipient_debug (Some RkRsa) = ''Some(Rsa)''"
| "recipient_debug (Some (RkEc c)) = ''Some(Ec('' @ curve_debug c @ ''))''"

text \<open>The internal key operation; the peer is the encoded, validated originator point.\<close>

datatype XKeyOp = XRsaOaep bytes RsaOaepParams | XEcdh bytes NamedCurve

datatype OwnedKeyOp = OwnedRsaOaep bytes | OwnedEcdh bytes

fun as_public :: "OwnedKeyOp \<Rightarrow> KeyOp" where
  "as_public (OwnedRsaOaep b) = RsaOaep b"
| "as_public (OwnedEcdh b) = Ecdh b"

fun public_op :: "XmlencLib \<Rightarrow> XKeyOp \<Rightarrow> OwnedKeyOp option" where
  "public_op lib (XRsaOaep wrapped params) = (if oaep_digest params = Sha256 then Some (OwnedRsaOaep wrapped) else None)"
| "public_op lib (XEcdh peer curve) = map_option OwnedEcdh (xl_spki lib curve peer)"

definition seam_fail :: AsxError where
  "seam_fail = asx_error DecryptionFailed ''XML Encryption decryption failed'' (context_new ''wssec_xmlenc'')"

type_synonym 's key_step = "XKeyOp \<Rightarrow> 's \<Rightarrow> bytes res \<times> 's"

text \<open>The in-memory key answers at once and leaves the state alone.\<close>

definition key_pair_step :: "XmlencLib \<Rightarrow> 'k Ossl \<Rightarrow> bytes \<Rightarrow> 'k KeyPair \<Rightarrow> 's key_step" where
  "key_pair_step lib ossl random kp k_op s =
     (rbind (ok_or seam_fail (public_op lib k_op)) (\<lambda>owned.
        map_err (\<lambda>_. seam_fail) (decrypt_now ossl random kp (as_public owned) :: (unit Error, bytes) result)), s)"

definition recipient_key :: "(Nid option \<Rightarrow> string) \<Rightarrow> Certificate \<Rightarrow> RecipientKey option" where
  "recipient_key nid_debug cert =
     Option.bind (x_public_key (c_x509 cert)) (\<lambda>pub.
       case pk_id pub of
         Id_RSA \<Rightarrow> Some RkRsa
       | Id_RSA_PSS \<Rightarrow> Some RkRsa
       | Id_EC \<Rightarrow> Option.bind (pk_ec_key pub) (\<lambda>g. map_option RkEc (ok_opt (from_group nid_debug g)))
       | Id_Other _ \<Rightarrow> None)"

section \<open>The pipeline\<close>

definition point_rejected :: "NamedCurve \<Rightarrow> string \<Rightarrow> AsxError" where
  "point_rejected curve reason = asx_error InteropViolation
     (''originator public key on '' @ curve_debug curve @ '' rejected: '' @ reason) (context_new XSTAGE)"

definition validate_originator_point :: "XmlencLib \<Rightarrow> NamedCurve \<Rightarrow> bytes \<Rightarrow> bytes res" where
  "validate_originator_point lib curve encoded =
     (let expected = 1 + 2 * field_len curve in
      if encoded = [] \<or> hd encoded = 0 then Inl (point_rejected curve ''the point at infinity'')
      else if hd encoded = 2 \<or> hd encoded = 3 then
        Inl (point_rejected curve ''compressed point form (only the uncompressed 0x04 form is accepted)'')
      else if hd encoded \<noteq> 4 then Inl (point_rejected curve (''unknown point form 0x'' @ hex_byte (hd encoded)))
      else if length encoded \<noteq> expected then
        Inl (point_rejected curve (show_nat (length encoded) @ '' octets; '' @ show_nat expected @ '' required''))
      else if \<not> xl_curve_available lib curve then Inl (point_rejected curve ''curve unavailable'')
      else if \<not> xl_on_curve lib curve encoded then Inl (point_rejected curve ''not a point on the curve'')
      else if xl_at_infinity lib curve encoded then Inl (point_rejected curve ''the point at infinity'')
      else if \<not> xl_valid_public lib curve encoded then Inl (point_rejected curve ''not a valid public key'')
      else if \<not> xl_check_key lib curve encoded then Inl (point_rejected curve ''fails public-key validation'')
      else Inr encoded)"

datatype BoundKey =
    BoundRsaOaep RsaOaepParams bytes
  | BoundEcdh NamedCurve bytes WsSecDigestMethod ConcatKdfParams KeyWrapAlg bytes

definition bind_key :: "XmlencLib \<Rightarrow> EncryptedKeySpec \<Rightarrow> RecipientKey option \<Rightarrow> BoundKey res" where
  "bind_key lib spec recipient =
     (case ek_transport spec of
        TsRsaOaep params \<Rightarrow>
          (case recipient of
             Some RkRsa \<Rightarrow> Inr (BoundRsaOaep params (ek_wrapped_key spec))
           | _ \<Rightarrow> Inl (xrefused (''RSA-OAEP key transport to a recipient key that is not RSA ('' @
               recipient_debug recipient @ '')'')))
      | TsAgreement a \<Rightarrow>
          (case recipient of
             Some (RkEc curve) \<Rightarrow>
               if ag_curve a \<noteq> curve then
                 Inl (xrefused (''dsig11:NamedCurve '' @ alg_uri (ACurve (ag_curve a)) @
                   '' does not match the recipient key'' @ [CHR 0x27] @ ''s curve '' @ curve_debug curve))
               else
                 rbind (validate_originator_point lib curve (ag_point a)) (\<lambda>point.
                   case ag_kdf a of KdConcatKdf digest params \<Rightarrow>
                     Inr (BoundEcdh curve point digest params (ag_wrap a) (ek_wrapped_key spec)))
           | _ \<Rightarrow> Inl (xrefused (''ECDH-ES key agreement to a recipient key that is not EC ('' @
               recipient_debug recipient @ '')''))))"

text \<open>\<open>getrandom::fill\<close> for a number of octets; without randomness the buffer stays zero.\<close>

type_synonym randomness = "nat \<Rightarrow> bytes option"

definition random_cek :: "randomness \<Rightarrow> XmlEncPayloadAlgorithm \<Rightarrow> bytes" where
  "random_cek rnd cipher = (case rnd (key_len cipher) of Some bs \<Rightarrow> bs | None \<Rightarrow> replicate (key_len cipher) 0)"

definition unlock_cek ::
  "XmlencLib \<Rightarrow> randomness \<Rightarrow> BoundKey \<Rightarrow> XmlEncPayloadAlgorithm \<Rightarrow> 's key_step \<Rightarrow> 's \<Rightarrow> bytes \<times> 's" where
  "unlock_cek lib rnd bound cipher decrypter s =
     (let (unlocked, s') =
        (case bound of
           BoundRsaOaep params wrapped \<Rightarrow> decrypter (XRsaOaep wrapped params) s
         | BoundEcdh curve point kdf_digest kdf_params wrap wrapped \<Rightarrow>
             (let (z, s') = decrypter (XEcdh point curve) s in
              (rbind z (\<lambda>z. kw_unwrap lib wrap (concat_kdf lib kdf_digest z (kek_len wrap * 8) kdf_params) wrapped), s')))
      in (case unlocked of
            Inr cek \<Rightarrow> if length cek = key_len cipher then cek else random_cek rnd cipher
          | Inl _ \<Rightarrow> random_cek rnd cipher, s'))"

definition uniform_failure :: AsxError where
  "uniform_failure = asx_error DecryptionFailed ''XML Encryption decryption failed'' (context_new XSTAGE)"

definition decrypt_content :: "XmlencLib \<Rightarrow> XmlEncPayloadAlgorithm \<Rightarrow> bytes \<Rightarrow> bytes \<Rightarrow> bytes res" where
  "decrypt_content lib cipher cek blob = map_err (\<lambda>_. uniform_failure) (gcm_decrypt lib cipher cek blob)"

definition decrypt_attachments ::
  "XmlencLib \<Rightarrow> randomness \<Rightarrow> ResolvedEnvelope \<Rightarrow> bytes list \<Rightarrow>
   (EncryptedKeySpec \<Rightarrow> (RecipientKey \<times> 's key_step) option) \<Rightarrow> 's \<Rightarrow> bytes list res \<times> 's" where
  "decrypt_attachments lib rnd envelope bodies select s =
     (case re_data envelope of
        [] \<Rightarrow> (Inr [], s)
      | d # _ \<Rightarrow>
          let cipher = ds_cipher d in
          if list_ex (\<lambda>e. ds_cipher e \<noteq> cipher) (re_data envelope) \<or> length bodies \<noteq> length (re_data envelope) then
            (Inl (asx_error InteropViolation ''the encrypted parts declare different content ciphers'' (context_new XSTAGE)), s)
          else (case select (re_key envelope) of
              None \<Rightarrow> (Inl uniform_failure, s)
            | Some (recipient, decrypter) \<Rightarrow>
                (case bind_key lib (re_key envelope) (Some recipient) of
                   Inl e \<Rightarrow> (Inl e, s)
                 | Inr bound \<Rightarrow>
                     let (cek, s') = unlock_cek lib rnd bound cipher decrypter s in
                     (rmap (decrypt_content lib cipher cek) bodies, s'))))"

section \<open>Key derivation is the single-step KDF\<close>

definition kdf_block :: "XmlencLib \<Rightarrow> WsSecDigestMethod \<Rightarrow> bytes \<Rightarrow> bytes \<Rightarrow> nat \<Rightarrow> bytes" where
  "kdf_block lib digest z info i = xl_hash lib digest (be32 (word_of_nat (Suc i)) @ z @ info)"

lemma kdf_loop_blocks:
  assumes "\<And>x. length (xl_hash lib digest x) = n" "0 < n" "wanted \<le> k * n + fuel"
  shows "\<exists>m. kdf_loop fuel lib digest z info (word_of_nat (Suc k)) wanted (concat (map (kdf_block lib digest z info) [0..<k])) =
      concat (map (kdf_block lib digest z info) [0..<m]) \<and> wanted \<le> m * n"
  using assms(3)
proof (induction fuel arbitrary: k)
  case 0
  then show ?case by auto
next
  case (Suc fuel)
  let ?out = "\<lambda>k. concat (map (kdf_block lib digest z info) [0..<k])"
  have len: "length (?out k) = k * n" for k
    by (induction k) (simp_all add: kdf_block_def assms(1))
  show ?case
  proof (cases "k * n < wanted")
    case True
    have next_block: "?out k @ xl_hash lib digest (be32 (word_of_nat (Suc k)) @ z @ info) = ?out (Suc k)"
      by (simp add: kdf_block_def)
    have counter: "word_of_nat (Suc k) + 1 = (word_of_nat (Suc (Suc k)) :: 32 word)" by simp
    have "wanted \<le> Suc k * n + fuel" using Suc.prems assms(2) by simp
    then show ?thesis
      using Suc.IH [of "Suc k"] True len by (simp only: kdf_loop.simps next_block counter if_True)
  next
    case False
    then show ?thesis using len by (intro exI [of _ k]) simp
  qed
qed

lemma concat_blocks_prefix:
  assumes "\<And>i. length (b i) = (n :: nat)" "w \<le> m * n" "w \<le> r * n"
  shows "take w (concat (map b [0..<m])) = take w (concat (map b [0..<r]))"
proof -
  have "take w (concat (map b [0..<m])) = take w (concat (map b [0..<r]))" if "m \<le> r" "w \<le> m * n" for m r
  proof -
    have "length (concat (map b [0..<m])) = m * n"
      by (induction m) (simp_all add: assms(1))
    moreover have "[0..<r] = [0..<m] @ [m..<r]" using that(1) by (metis le0 upt_add_eq_append le_add_diff_inverse)
    ultimately show ?thesis using that(2) by simp
  qed
  then show ?thesis using assms(2,3) by (metis nat_le_linear)
qed

lemma kdf_rounds:
  assumes "0 < n"
  shows "(w :: nat) \<le> (w + n - 1) div n * n"
proof -
  have "w + n - 1 = (w + n - 1) div n * n + (w + n - 1) mod n" by simp
  moreover have "(w + n - 1) mod n \<le> n - 1" using assms by (simp add: less_Suc_eq_le [symmetric])
  ultimately show ?thesis using assms by linarith
qed

lemma concat_kdf_blocks:
  assumes "\<And>x. length (xl_hash lib digest x) = output_len digest"
  shows "concat_kdf lib digest z bits params =
     take ((bits + 7) div 8) (concat (map (kdf_block lib digest z (other_info params))
       [0..<((bits + 7) div 8 + output_len digest - 1) div output_len digest]))"
proof -
  let ?w = "(bits + 7) div 8" and ?n = "output_len digest" and ?b = "kdf_block lib digest z (other_info params)"
  have n: "0 < ?n" by (cases digest) simp_all
  obtain m where m: "kdf_loop ?w lib digest z (other_info params) (word_of_nat (Suc 0)) ?w (concat (map ?b [0..<0])) =
      concat (map ?b [0..<m])" "?w \<le> m * ?n"
    using kdf_loop_blocks [OF assms n, of ?w 0 ?w z "other_info params"] by auto
  have b: "length (?b i) = ?n" for i by (simp add: kdf_block_def assms)
  have "concat_kdf lib digest z bits params = take ?w (concat (map ?b [0..<m]))"
    using m(1) by (simp add: concat_kdf_def Let_def)
  then show ?thesis using concat_blocks_prefix [OF b m(2) kdf_rounds [OF n]] by simp
qed

lemma concat_kdf_length:
  assumes "\<And>x. length (xl_hash lib digest x) = output_len digest"
  shows "length (concat_kdf lib digest z bits params) = (bits + 7) div 8"
proof -
  let ?b = "kdf_block lib digest z (other_info params)"
  have "length (concat (map ?b [0..<j])) = j * output_len digest" for j
    by (induction j) (simp_all add: kdf_block_def assms)
  moreover have "0 < output_len digest" by (cases digest) simp_all
  ultimately show ?thesis unfolding concat_kdf_blocks [OF assms] using kdf_rounds by simp
qed

text \<open>
  C26. Key derivation is the single-step KDF of NIST SP 800-56A: for a digest of \<open>n\<close> octets the loop ends, and
  yields exactly the first octets of the concatenation of H(counter || Z || OtherInfo), for the counters from 1
  to the rounded-up number of blocks.
\<close>
theorem concat_kdf_single_step:
  assumes "\<And>x. length (xl_hash lib digest x) = output_len digest"
  shows "concat_kdf lib digest z bits params =
     take ((bits + 7) div 8) (concat (map (\<lambda>i. xl_hash lib digest (be32 (word_of_nat (Suc i)) @ z @ other_info params))
       [0..<((bits + 7) div 8 + output_len digest - 1) div output_len digest])) \<and>
     length (concat_kdf lib digest z bits params) = (bits + 7) div 8"
  using concat_kdf_blocks [OF assms] concat_kdf_length [OF assms] by (simp add: kdf_block_def [abs_def])

section \<open>Decryption\<close>

lemma decrypt_content_error: "decrypt_content lib cipher cek blob = Inl e \<Longrightarrow> e = uniform_failure"
  by (cases "gcm_decrypt lib cipher cek blob") (auto simp: decrypt_content_def)

lemma rmap_error: "rmap f xs = Inl e \<Longrightarrow> \<exists>x \<in> set xs. f x = Inl e"
  by (induction xs) (auto simp: rbind_Inl_iff)

text \<open>
  C27. No decryption oracle. Whatever two private keys answer to the one key operation (and whatever randomness
  replaces a failed answer), the error of a failed decryption is the same, so it says nothing about the key, the
  padding, the unwrapped key or the content; and that error is the uniform one unless the refusal was decided
  before the key was used, in which case it is reached without any key at all. An envelope that names no
  key of this party fails with the same uniform error.
\<close>
theorem decryption_error_uniform:
  assumes "fst (decrypt_attachments lib rnd env bodies (\<lambda>_. Some (recipient, step)) s) = Inl e"
  shows "(e = uniform_failure \<or> (\<forall>step' s'. decrypt_attachments lib rnd env bodies (\<lambda>_. Some (recipient, step')) s' = (Inl e, s'))) \<and>
    (fst (decrypt_attachments lib rnd' env bodies (\<lambda>_. Some (recipient, step')) s') = Inl e' \<longrightarrow> e' = e) \<and>
    (fst (decrypt_attachments lib rnd env bodies (\<lambda>_. None) s) \<in> {Inl e, Inl uniform_failure})"
proof (cases "re_data env")
  case Nil
  then show ?thesis using assms by (simp add: decrypt_attachments_def)
next
  case (Cons d ds)
  show ?thesis
  proof (cases "list_ex (\<lambda>x. ds_cipher x \<noteq> ds_cipher d) (re_data env) \<or> length bodies \<noteq> length (re_data env)")
    case True
    then show ?thesis using assms Cons by (auto simp: decrypt_attachments_def)
  next
    case False
    show ?thesis
    proof (cases "bind_key lib (re_key env) (Some recipient)")
      case (Inl e0)
      then show ?thesis using assms Cons False by (auto simp: decrypt_attachments_def)
    next
      case (Inr bound)
      have u: "x = uniform_failure"
        if "fst (decrypt_attachments lib r env bodies (\<lambda>_. Some (recipient, k)) t) = Inl x" for x r k t
        using that Cons False Inr decrypt_content_error
        by (auto simp: decrypt_attachments_def Let_def split: prod.splits dest!: rmap_error)
      from u [OF assms] have "e = uniform_failure" .
      moreover have "fst (decrypt_attachments lib rnd env bodies (\<lambda>_. None) s) = Inl uniform_failure"
        using Cons False by (auto simp: decrypt_attachments_def)
      ultimately show ?thesis using u by auto
    qed
  qed
qed

text \<open>
  What the primitives promise: AES-GCM opens what it sealed and appends a tag, AES key wrap unwraps what it wrapped and
  adds a block of eight octets to at least one, a digest has its length.
\<close>

definition primitives_ok :: "XmlencLib \<Rightarrow> bool" where
  "primitives_ok lib \<longleftrightarrow>
     (\<forall>c k n p x. xl_seal lib c k n p = Some x \<longrightarrow> xl_open lib c k n x = Some p \<and> TAG_LEN \<le> length x) \<and>
     (\<forall>a kek c w. xl_kw_wrap lib a kek c = Some w \<longrightarrow> xl_kw_unwrap lib a kek w = Some c \<and> 2 * 8 \<le> length w) \<and>
     (\<forall>d x. length (xl_hash lib d x) = output_len d)"

lemma primitives_seal:
  "primitives_ok lib \<Longrightarrow> xl_seal lib c k n p = Some x \<Longrightarrow> xl_open lib c k n x = Some p \<and> \<not> length x < TAG_LEN"
  unfolding primitives_ok_def not_less by blast

lemma primitives_wrap:
  "primitives_ok lib \<Longrightarrow> xl_kw_wrap lib a kek c = Some w \<Longrightarrow> xl_kw_unwrap lib a kek w = Some c \<and> \<not> length w < 2 * 8"
  unfolding primitives_ok_def not_less by blast

lemma content_round_trip:
  assumes "primitives_ok lib" "length nonce = NONCE_LEN" "gcm_encrypt lib cipher cek nonce p = Inr blob"
  shows "decrypt_content lib cipher cek blob = Inr p"
proof -
  from assms(3) obtain x where "xl_seal lib cipher cek nonce p = Some x" "blob = nonce @ x" "length cek = key_len cipher"
    by (auto simp: gcm_encrypt_def res_simps split: if_splits)
  then show ?thesis
    using primitives_seal [OF assms(1)] assms(2) by (simp add: decrypt_content_def gcm_decrypt_def)
qed

lemma key_round_trip:
  assumes "primitives_ok lib" "kw_wrap lib wrap kek cek = Inr wrapped"
  shows "kw_unwrap lib wrap kek wrapped = Inr cek"
  using assms(2) primitives_wrap [OF assms(1)] by (auto simp: kw_wrap_def kw_unwrap_def res_simps)

text \<open>
  C28. Decryption inverts encryption. Parts sealed under a content key, each with its own nonce, with the content key
  wrapped under the key derived from the agreed secret, are recovered byte for byte and in order by the party whose
  private key agrees on that secret.
\<close>
theorem agreement_round_trip:
  assumes "primitives_ok lib" "select (re_key env) = Some (recipient, step)"
    and "bind_key lib (re_key env) (Some recipient) = Inr (BoundEcdh curve point digest params wrap wrapped)"
    and "step (XEcdh point curve) s = (Inr z, s')"
    and "kw_wrap lib wrap (concat_kdf lib digest z (kek_len wrap * 8) params) cek = Inr wrapped"
    and "length cek = key_len cipher" "\<forall>d \<in> set (re_data env). ds_cipher d = cipher"
    and "list_all2 (\<lambda>p b. \<exists>nonce. length nonce = NONCE_LEN \<and> gcm_encrypt lib cipher cek nonce p = Inr b) plaintexts bodies"
    and "length bodies = length (re_data env)"
  shows "decrypt_attachments lib rnd env bodies select s = (if re_data env = [] then (Inr plaintexts, s) else (Inr plaintexts, s'))"
proof (cases "re_data env")
  case Nil
  then show ?thesis using assms(8,9) by (simp add: decrypt_attachments_def)
next
  case (Cons d ds)
  have "\<not> (list_ex (\<lambda>x. ds_cipher x \<noteq> ds_cipher d) (re_data env) \<or> length bodies \<noteq> length (re_data env))" "ds_cipher d = cipher"
    using assms(7,9) Cons by (auto simp: list_ex_iff)
  moreover have "unlock_cek lib rnd (BoundEcdh curve point digest params wrap wrapped) cipher step s = (cek, s')"
    using assms(4,6) key_round_trip [OF assms(1,5)] by (simp add: unlock_cek_def)
  moreover have "rmap (decrypt_content lib cipher cek) bodies = Inr plaintexts"
    using assms(8) content_round_trip [OF assms(1)]
    by (auto simp: rmap_Inr_iff list_all2_conv_all_nth)
  ultimately show ?thesis
    using assms(2,3) Cons by (simp add: decrypt_attachments_def)
qed

definition demo_lib :: XmlencLib where
  "demo_lib =
     \<lparr>xl_hash = (\<lambda>d x. replicate (output_len d) 7),
      xl_kw_wrap = (\<lambda>a kek c. if c = [] then None else Some (replicate 16 0 @ c)),
      xl_kw_unwrap = (\<lambda>a kek w. Some (drop 16 w)),
      xl_seal = (\<lambda>c k n p. Some (p @ replicate 16 0)),
      xl_open = (\<lambda>c k n x. Some (take (length x - 16) x)),
      xl_curve_available = (\<lambda>_. True), xl_on_curve = (\<lambda>_ _. True), xl_at_infinity = (\<lambda>_ _. False),
      xl_valid_public = (\<lambda>_ _. True), xl_check_key = (\<lambda>_ _. True), xl_spki = (\<lambda>_ p. Some p)\<rparr>"

lemma demo_lib_ok: "primitives_ok demo_lib"
  by (auto simp: primitives_ok_def demo_lib_def TAG_LEN_def split: if_splits)

definition demo_params :: ConcatKdfParams where
  "demo_params = \<lparr>algorithm_id = [], party_u_info = [], party_v_info = [], supp_pub_info = [], supp_priv_info = []\<rparr>"

definition demo_env :: "bytes \<Rightarrow> ResolvedEnvelope" where
  "demo_env wrapped =
     \<lparr>re_key = \<lparr>ek_transport = TsAgreement \<lparr>ag_kdf = KdConcatKdf Sha256 demo_params, ag_curve = BrainpoolP256r1,
         ag_point = 4 # replicate 64 1, ag_wrap = KwAes128\<rparr>, ek_wrapped_key = wrapped, ek_recipient = None\<rparr>,
      re_data = [\<lparr>ds_cid = ''p1@asx'', ds_cipher = Aes128Gcm, ds_mime_type = None\<rparr>]\<rparr>"

theorem concat_kdf_single_step_witness:
  "length (concat_kdf demo_lib Sha256 [1, 2, 3] 128 demo_params) = 16"
  using concat_kdf_single_step [of demo_lib Sha256 "[1, 2, 3]" 128 demo_params] by (simp add: demo_lib_def)

theorem decryption_error_uniform_witness:
  "\<exists>e. fst (decrypt_attachments demo_lib (\<lambda>_. None) (demo_env []) [[]] (\<lambda>_. Some (RkEc BrainpoolP256r1, \<lambda>_ s. (Inl seam_fail, s))) ()) = Inl e \<and>
     (\<forall>step e'. fst (decrypt_attachments demo_lib (\<lambda>_. None) (demo_env []) [[]] (\<lambda>_. Some (RkEc BrainpoolP256r1, step)) ()) = Inl e' \<longrightarrow> e' = e)"
proof -
  let ?run = "\<lambda>step. fst (decrypt_attachments demo_lib (\<lambda>_. None) (demo_env []) [[]] (\<lambda>_. Some (RkEc BrainpoolP256r1, step)) ())"
  have r: "?run (\<lambda>_ s. (Inl seam_fail, s)) = Inl uniform_failure"
    by (simp add: decrypt_attachments_def demo_env_def bind_key_def validate_originator_point_def unlock_cek_def random_cek_def
        decrypt_content_def gcm_decrypt_def demo_lib_def NONCE_LEN_def TAG_LEN_def)
  show ?thesis
  proof (intro exI conjI allI impI)
    show "?run (\<lambda>_ s. (Inl seam_fail, s)) = Inl uniform_failure" by (rule r)
    fix step e'
    assume "?run step = Inl e'"
    then show "e' = uniform_failure" using decryption_error_uniform [OF r, of "\<lambda>_. None" step "()" e'] by (elim conjE) (rule mp)
  qed
qed

theorem agreement_round_trip_witness:
  "\<exists>wrapped blob. decrypt_attachments demo_lib (\<lambda>_. None) (demo_env wrapped) [blob]
       (\<lambda>_. Some (RkEc BrainpoolP256r1, \<lambda>_ s. (Inr [5], s))) () = (Inr [[1, 2, 3]], ())"
proof -
  let ?cek = "replicate 16 (9 :: 8 word)"
  let ?kek = "concat_kdf demo_lib Sha256 [5] (kek_len KwAes128 * 8) demo_params"
  have l: "length ?kek = 16"
    using demo_lib_ok by (simp add: concat_kdf_length primitives_ok_def)
  let ?wrapped = "replicate 16 0 @ ?cek" and ?blob = "replicate 12 3 @ [1, 2, 3] @ replicate 16 0"
  have w: "kw_wrap demo_lib KwAes128 ?kek ?cek = Inr ?wrapped"
    using l by (simp add: kw_wrap_def kek_length_def demo_lib_def)
  have g: "gcm_encrypt demo_lib Aes128Gcm ?cek (replicate 12 3) [1, 2, 3] = Inr ?blob"
    by (simp add: gcm_encrypt_def demo_lib_def)
  have b: "bind_key demo_lib (re_key (demo_env ?wrapped)) (Some (RkEc BrainpoolP256r1)) =
      Inr (BoundEcdh BrainpoolP256r1 (4 # replicate 64 1) Sha256 demo_params KwAes128 ?wrapped)"
    by (simp add: bind_key_def demo_env_def validate_originator_point_def demo_lib_def)
  have "decrypt_attachments demo_lib (\<lambda>_. None) (demo_env ?wrapped) [?blob] (\<lambda>_. Some (RkEc BrainpoolP256r1, \<lambda>_ s. (Inr [5], s))) () =
      (if re_data (demo_env ?wrapped) = [] then (Inr [[1, 2, 3]], ()) else (Inr [[1, 2, 3]], ()))"
    by (rule agreement_round_trip [where select = "\<lambda>_. Some (RkEc BrainpoolP256r1, \<lambda>_ s. (Inr [5], s))" and
          step = "\<lambda>_ s. (Inr [5], s)" and s = "()" and z = "[5]", OF demo_lib_ok refl b refl w])
       (use g in \<open>auto simp: demo_env_def NONCE_LEN_def intro!: exI [of _ "replicate 12 3"]\<close>)
  then show ?thesis by (auto intro: exI [of _ ?wrapped] exI [of _ ?blob])
qed

end
