(* ===== verification/Mime.thy ===== *)
theory Mime
  imports Wire_Text
begin

text \<open>
  MIME packaging of AS4 messages: the writer (src/as4/mime_packaging.rs, src/as4/send_mime.rs)
  and the streaming reader of the receive path (src/as4/stream.rs). Shown: what the writer
  builds the reader splits into the same parts, byte for byte, whatever the payloads contain short of
  the delimiter itself.
\<close>

section \<open>The writer\<close>

definition MAX_FILENAME_LEN :: nat where
  "MAX_FILENAME_LEN = 255"

definition filename_byte_bad :: "char \<Rightarrow> bool" where
  "filename_byte_bad c \<longleftrightarrow> \<not> (0x20 \<le> byte c \<and> byte c \<le> 0x7E) \<or> c = CHR 0x22 \<or> c = CHR 0x5C"

definition validate_filename_bytes :: "string \<Rightarrow> (string, unit) result" where
  "validate_filename_bytes bs =
     (if bs = [] then
        Inl ''payload filename must not be empty (use None to omit the Content-Disposition filename parameter)''
      else if length bs > MAX_FILENAME_LEN then
        Inl (''payload filename exceeds maximum length ('' @ show_nat (length bs) @ '' bytes, limit is '' @
             show_nat MAX_FILENAME_LEN @ '')'')
      else (case find filename_byte_bad bs of
          Some bad \<Rightarrow> Inl (''payload filename contains character 0x'' @ hex_upper bad @
            '' not allowed in a Content-Disposition header value (must be printable ASCII, no double-quote or backslash)'')
        | None \<Rightarrow> Inr ()))"

definition MIME_BOUNDARY_PREFIX :: string where
  "MIME_BOUNDARY_PREFIX = ''----boundary-asx-''"

record MimeAttachment =
  ma_content_id :: string
  ma_content_type :: string
  ma_transfer_encoding :: string
  ma_body :: string
  ma_disposition :: "string option"

definition attachment_new :: "string \<Rightarrow> string \<Rightarrow> string \<Rightarrow> string \<Rightarrow> MimeAttachment" where
  "attachment_new content_id content_type body transfer_encoding =
     \<lparr>ma_content_id = content_id, ma_content_type = content_type, ma_transfer_encoding = transfer_encoding,
      ma_body = body, ma_disposition = None\<rparr>"

definition with_disposition :: "string \<Rightarrow> MimeAttachment \<Rightarrow> MimeAttachment" where
  "with_disposition d a = a\<lparr>ma_disposition := Some d\<rparr>"

definition content_id_byte_bad :: "char \<Rightarrow> bool" where
  "content_id_byte_bad c \<longleftrightarrow>
     \<not> (0x21 \<le> byte c \<and> byte c \<le> 0x7E) \<or> c = CHR 0x22 \<or> c = CHR 0x3C \<or> c = CHR 0x3E \<or> c = CHR 0x5C"

definition validate_content_id :: "string \<Rightarrow> string \<Rightarrow> unit res" where
  "validate_content_id v field =
     (let reject = (\<lambda>reason. Inl (asx_error InvalidInput (field @ '' '' @ reason) (context_new ''as4_send_validate''))) in
      if v = [] \<or> length v > 255 then reject (''must be 1-255 bytes, got '' @ show_nat (length v) @ '' bytes'')
      else (case find content_id_byte_bad v of
          Some bad \<Rightarrow> reject (''contains byte 0x'' @ hex_upper bad @
            ''; a Content-ID is printable ASCII without space, '' @ squote (dquote []) @ '', '' @ squote ''<'' @ '', '' @
            squote ''>'' @ '' or '' @ squote [CHR 0x5C])
        | None \<Rightarrow> Inr ()))"

text \<open>The media-type grammar: each step returns the next position.\<close>

definition is_tchar :: "char \<Rightarrow> bool" where
  "is_tchar c \<longleftrightarrow> is_ascii_digit c \<or> (65 \<le> byte c \<and> byte c \<le> 90) \<or> (97 \<le> byte c \<and> byte c \<le> 122) \<or>
     c \<in> set (''!#$%&'' @ [CHR 0x27] @ ''*+-.^_'' @ [CHR 0x60] @ ''|~'')"

definition at :: "string \<Rightarrow> nat \<Rightarrow> char option" where
  "at s i = (if i < length s then Some (s ! i) else None)"

definition mt_token :: "string \<Rightarrow> nat \<Rightarrow> nat option" where
  "mt_token s i = (let n = length (takeWhile is_tchar (drop i s)) in if n > 0 then Some (i + n) else None)"

function quoted_end :: "string \<Rightarrow> nat \<Rightarrow> nat option" where
  "quoted_end s i =
     (if i < length s then
        (if s ! i = CHR 0x22 then Some (i + 1)
         else if s ! i = CHR 0x5C then quoted_end s (i + 2)
         else quoted_end s (i + 1))
      else None)"
  by pat_completeness auto
termination by (relation "measure (\<lambda>(s, i). length s - i)") auto

declare quoted_end.simps [simp del]

definition mt_quoted_string :: "string \<Rightarrow> nat \<Rightarrow> nat option" where
  "mt_quoted_string s i = (if at s i \<noteq> Some (CHR 0x22) then None else quoted_end s (i + 1))"

definition skip_spaces :: "string \<Rightarrow> nat \<Rightarrow> nat" where
  "skip_spaces s i = i + length (takeWhile (\<lambda>c. c = CHR 0x20) (drop i s))"

lemma mt_token_gt: "mt_token s i = Some j \<Longrightarrow> i < j \<and> j \<le> length s"
  using length_takeWhile_le [of is_tchar "drop i s"]
  by (cases "i < length s") (auto simp: mt_token_def Let_def split: if_splits)

lemma quoted_end_gt: "quoted_end s i = Some j \<Longrightarrow> i < j \<and> j \<le> length s"
  by (induction s i rule: quoted_end.induct) (subst (asm) (3) quoted_end.simps, auto split: if_splits)

lemma mt_quoted_gt: "mt_quoted_string s i = Some j \<Longrightarrow> i < j \<and> j \<le> length s"
  by (auto simp: mt_quoted_string_def split: if_splits dest: quoted_end_gt)

definition mt_value :: "string \<Rightarrow> nat \<Rightarrow> nat option" where
  "mt_value s i = (case mt_token s i of Some j \<Rightarrow> Some j | None \<Rightarrow> mt_quoted_string s i)"

lemma mt_value_gt: "mt_value s i = Some j \<Longrightarrow> i < j \<and> j \<le> length s"
  by (auto simp: mt_value_def split: option.splits dest: mt_token_gt mt_quoted_gt)

function mt_params :: "string \<Rightarrow> nat \<Rightarrow> unit option" where
  "mt_params s i =
     (let j = skip_spaces s i in
      if j = length s then (if j = i then Some () else None)
      else if at s j \<noteq> Some (CHR 0x3B) then None
      else (case mt_token s (skip_spaces s (j + 1)) of
          None \<Rightarrow> None
        | Some k \<Rightarrow>
            if at s k \<noteq> Some (CHR 0x3D) then None
            else (case mt_value s (k + 1) of None \<Rightarrow> None | Some l \<Rightarrow> mt_params s l)))"
  by pat_completeness auto
termination
proof (relation "measure (\<lambda>(s, i). length s - i)")
  fix s i x k l
  assume "x = skip_spaces s i" "x \<noteq> length s" "mt_token s (skip_spaces s (x + 1)) = Some k"
    "mt_value s (k + 1) = Some l"
  moreover have "i \<le> skip_spaces s i" "x + 1 \<le> skip_spaces s (x + 1)" by (simp_all add: skip_spaces_def)
  ultimately show "((s, l), s, i) \<in> measure (\<lambda>(s, i). length s - i)"
    using mt_token_gt mt_value_gt by fastforce
qed simp

declare mt_params.simps [simp del]

definition mt_parse :: "string \<Rightarrow> unit option" where
  "mt_parse s =
     Option.bind (mt_token s 0) (\<lambda>i.
       if at s i \<noteq> Some (CHR 0x2F) then None else Option.bind (mt_token s (i + 1)) (mt_params s))"

definition validate_media_type :: "string \<Rightarrow> string \<Rightarrow> unit res" where
  "validate_media_type v field =
     (case find (\<lambda>c. \<not> (0x20 \<le> byte c \<and> byte c < 0x7F)) v of
        Some bad \<Rightarrow> Inl (asx_error InvalidInput
          (field @ '' contains byte 0x'' @ hex_upper bad @ ''; a media type is printable ASCII'')
          (context_new ''as4_send_validate''))
      | None \<Rightarrow> ok_or (asx_error InvalidInput
          (field @ '' '' @ debug_str v @ '' is not a media type (type/subtype with optional ; name=value parameters)'')
          (context_new ''as4_send_validate'')) (mt_parse v))"

record MimePackageBuilder =
  mb_boundary :: string
  mb_root_soap_content_type :: string
  mb_soap_attachment :: "MimeAttachment option"
  mb_attachments :: "MimeAttachment list"

definition CRLF :: string where
  "CRLF = [CHR 0x0D, CHR 0x0A]"

text \<open>Writing to a \<open>Vec<u8>\<close> does not fail, so the mapped write errors are not reachable.\<close>

definition write_crlf_line :: "string \<Rightarrow> string \<Rightarrow> string \<Rightarrow> string res" where
  "write_crlf_line stage line body =
     (case find (\<lambda>b. byte b < 0x20 \<or> byte b = 0x7F) line of
        Some bad \<Rightarrow> Inl (asx_error InvalidInput
          (''MIME header line contains control character 0x'' @ hex_upper bad) (context_new stage))
      | None \<Rightarrow> Inr (body @ line @ CRLF))"

text \<open>The 64 random bits plus the process counter name the boundary.\<close>

definition hex64 :: "64 word \<Rightarrow> string" where
  "hex64 w = concat (map (\<lambda>i. [hex_digit (unat (drop_bit (4 * i) w) mod 16)]) (rev [0..<16]))"

definition package_new :: "64 word \<Rightarrow> 64 word \<Rightarrow> MimePackageBuilder" where
  "package_new random counter =
     \<lparr>mb_boundary = MIME_BOUNDARY_PREFIX @ hex64 (random + counter),
      mb_root_soap_content_type = ''application/soap+xml'', mb_soap_attachment = None, mb_attachments = []\<rparr>"

definition with_root_soap_content_type :: "string \<Rightarrow> MimePackageBuilder \<Rightarrow> MimePackageBuilder" where
  "with_root_soap_content_type t b = b\<lparr>mb_root_soap_content_type := t\<rparr>"

definition with_soap_body :: "string \<Rightarrow> MimePackageBuilder \<Rightarrow> MimePackageBuilder" where
  "with_soap_body soap_xml b =
     b\<lparr>mb_soap_attachment := Some (attachment_new ''soap-body@example.com''
        (mb_root_soap_content_type b @ ''; charset=UTF-8'') soap_xml ''8bit'')\<rparr>"

definition add_attachments :: "MimeAttachment list \<Rightarrow> MimePackageBuilder \<Rightarrow> MimePackageBuilder" where
  "add_attachments atts b = b\<lparr>mb_attachments := mb_attachments b @ atts\<rparr>"

definition write_attachment :: "MimeAttachment \<Rightarrow> string \<Rightarrow> string res" where
  "write_attachment a body =
     (let line = write_crlf_line ''mime_packaging'' in
      rbind (line (''Content-Type: '' @ ma_content_type a) body) (\<lambda>body.
      rbind (line (''Content-Transfer-Encoding: '' @ ma_transfer_encoding a) body) (\<lambda>body.
      rbind (line (''Content-ID: <'' @ ma_content_id a @ ''>'') body) (\<lambda>body.
      rbind (case ma_disposition a of
          Some d \<Rightarrow> line (''Content-Disposition: '' @ d) body | None \<Rightarrow> Inr body) (\<lambda>body.
        Inr (body @ CRLF @ ma_body a @ CRLF))))))"

fun write_parts :: "string \<Rightarrow> MimeAttachment list \<Rightarrow> string \<Rightarrow> string res" where
  "write_parts boundary [] body = Inr body"
| "write_parts boundary (a # as) body =
     rbind (write_crlf_line ''mime_packaging'' (''--'' @ boundary) body) (\<lambda>body.
     rbind (write_attachment a body) (\<lambda>body. write_parts boundary as body))"

definition package_build :: "MimePackageBuilder \<Rightarrow> string res" where
  "package_build b =
     (case mb_soap_attachment b of
        None \<Rightarrow> Inl (asx_error PolicyViolation ''MIME package requires at least a SOAP body attachment''
          (context_new ''mime_packaging''))
      | Some soap \<Rightarrow>
          rbind (write_parts (mb_boundary b) (soap # mb_attachments b) []) (\<lambda>body.
            write_crlf_line ''mime_packaging'' (''--'' @ mb_boundary b @ ''--'') body))"

definition package_content_type :: "MimePackageBuilder \<Rightarrow> string" where
  "package_content_type b =
     ''multipart/related; boundary='' @ dquote (mb_boundary b) @ ''; type='' @ dquote (mb_root_soap_content_type b)"

definition package_attachments ::
  "64 word \<Rightarrow> 64 word \<Rightarrow> string \<Rightarrow> string \<Rightarrow> MimeAttachment list \<Rightarrow> (string \<times> string) res" where
  "package_attachments random counter soap_body soap_content_type atts =
     (let builder = add_attachments atts (with_soap_body soap_body
            (with_root_soap_content_type soap_content_type (package_new random counter)));
          content_type = package_content_type builder @ ''; start='' @ dquote ''<soap-body@example.com>''
      in rbind (map_err (\<lambda>e. asx_error PolicyViolation (''MIME packaging failed: '' @ display_asx_error e)
             (context_new ''send_mime_package'')) (package_build builder)) (\<lambda>mime_body.
           Inr (mime_body, content_type)))"

section \<open>The reader\<close>

definition push_err :: "string \<Rightarrow> AsxError" where
  "push_err detail = asx_error ParseFailed detail (context_new ''as4_receive_push'')"

record InboundAttachment =
  ia_content_id :: string
  ia_content_type :: "string option"
  ia_bytes :: string

record MultipartAs4Payload =
  mp_soap_xml :: string
  mp_payloads :: "InboundAttachment list"

definition splitn2 :: "char \<Rightarrow> string \<Rightarrow> string \<times> string option" where
  "splitn2 d s = (case split_once d s of Some (a, b) \<Rightarrow> (a, Some b) | None \<Rightarrow> (s, None))"

fun boundary_segments :: "string list \<Rightarrow> string option res" where
  "boundary_segments [] =
     Inl (push_err ''multipart/related Content-Type is missing required boundary parameter'')"
| "boundary_segments (segment # rest) =
     (let (k, v) = splitn2 (CHR 0x3D) (trim segment) in
      if \<not> eq_ignore_ascii_case (trim k) ''boundary'' then boundary_segments rest
      else
        let raw_value = trim (or_else v []);
            val = trim (or_else (Option.bind (strip_prefix [CHR 0x22] raw_value) (strip_suffix [CHR 0x22])) raw_value)
        in if val = [] then Inl (push_err ''multipart/related Content-Type has an empty boundary parameter'')
           else if strip_suffix ''--'' val \<noteq> None then Inl (push_err ''multipart/related boundary parameter is malformed'')
           else Inr (Some val))"

definition parse_multipart_boundary_from_content_type :: "string \<Rightarrow> string option res" where
  "parse_multipart_boundary_from_content_type content_type =
     (let segments = split_on (CHR 0x3B) content_type in
      if \<not> eq_ignore_ascii_case (trim (hd segments)) ''multipart/related'' then Inr None
      else boundary_segments (tl segments))"

definition MAX_INBOUND_PAYLOADS :: nat where
  "MAX_INBOUND_PAYLOADS = 16"

definition normalized_cid_bytes :: "string \<Rightarrow> string" where
  "normalized_cid_bytes content_id =
     (let s = trim_ascii_whitespace content_id;
          s = or_else (strip_prefix ''<'' s) s;
          s = or_else (strip_suffix ''>'' s) s
      in if length s \<ge> 4 \<and> eq_ignore_ascii_case (take 4 s) ''cid:'' then drop 4 s else s)"

fun header_value_lines :: "string \<Rightarrow> string list \<Rightarrow> string option res" where
  "header_value_lines name [] = Inr None"
| "header_value_lines name (raw_line # rest) =
     (let line = trim_ascii_whitespace (or_else (strip_suffix [CHR 0x0D] raw_line) raw_line) in
      if line = [] then header_value_lines name rest
      else (case split_once (CHR 0x3A) line of
          None \<Rightarrow> Inl (push_err (''MIME header line missing '' @ squote '':'' @ '' separator''))
        | Some (n, v) \<Rightarrow>
            if eq_ignore_ascii_case (trim_ascii_whitespace n) name then
              rbind (ok_or (push_err ''MIME header value is not valid UTF-8'')
                (from_utf8 (trim_ascii_whitespace v))) (\<lambda>x. Inr (Some x))
            else header_value_lines name rest))"

definition header_value_from_block :: "string \<Rightarrow> string \<Rightarrow> string option res" where
  "header_value_from_block headers name = header_value_lines name (split_on (CHR 0x0A) headers)"

record StreamingMimeParser =
  sp_raw_body :: string
  sp_boundary_start :: string
  sp_boundary_crlf :: string
  sp_boundary_end :: string
  sp_cursor :: nat
  sp_exhausted :: bool

definition parser_new :: "string \<Rightarrow> string \<Rightarrow> StreamingMimeParser res" where
  "parser_new raw_body boundary =
     (let boundary_start = ''--'' @ boundary;
          boundary_crlf = CRLF @ ''--'' @ boundary;
          boundary_end = ''--'' @ boundary @ ''--''
      in rbind (if starts_with raw_body boundary_start then Inr 0
                else ok_or (push_err ''multipart body has no boundary delimiter'')
                  (map_option (\<lambda>k. k + 2) (find_subslice raw_body boundary_crlf))) (\<lambda>first.
         let cursor = first + length boundary_start in
         if slice_get cursor 2 raw_body = Some CRLF then
           Inr \<lparr>sp_raw_body = raw_body, sp_boundary_start = boundary_start, sp_boundary_crlf = boundary_crlf,
                sp_boundary_end = boundary_end, sp_cursor = cursor + 2, sp_exhausted = False\<rparr>
         else Inl (push_err ''multipart boundary delimiter not followed by CRLF'')))"

text \<open>One part: the header block and the body.\<close>

definition next_part_slice ::
  "StreamingMimeParser \<Rightarrow> ((string \<times> string) option \<times> StreamingMimeParser) res" where
  "next_part_slice p =
     (if sp_exhausted p then Inr (None, p)
      else
        let raw = sp_raw_body p; headers_start = sp_cursor p in
        rbind (ok_or (push_err ''multipart part is missing header/body separator'')
            (case find_subslice (drop headers_start raw) (CRLF @ CRLF) of
               Some k \<Rightarrow> Some k
             | None \<Rightarrow> find_subslice (drop headers_start raw) [CHR 0x0A, CHR 0x0A])) (\<lambda>headers_end_rel.
        let headers_end = headers_start + headers_end_rel;
            separator_len = (if slice_get headers_end 4 raw = Some (CRLF @ CRLF) then 4 else 2);
            body_start = headers_end + separator_len in
        rbind (ok_or (push_err ''multipart part is missing following boundary delimiter'')
            (find_subslice (drop body_start raw) (sp_boundary_crlf p))) (\<lambda>next_boundary_rel.
        let body_end = body_start + next_boundary_rel;
            part = (take headers_end_rel (drop headers_start raw), take next_boundary_rel (drop body_start raw)) in
        rbind (check (slice_get body_end 2 raw = Some CRLF)
            (push_err ''multipart boundary delimiter is not CRLF-delimited'')) (\<lambda>_.
        let cursor = body_end + 2; rest = drop cursor raw in
        if starts_with rest (sp_boundary_end p) then
          Inr (Some part, p\<lparr>sp_cursor := cursor, sp_exhausted := True\<rparr>)
        else if starts_with rest (sp_boundary_start p) then
          let cursor = cursor + length (sp_boundary_start p) in
          if slice_get cursor 2 raw = Some CRLF then Inr (Some part, p\<lparr>sp_cursor := cursor + 2\<rparr>)
          else Inl (push_err ''multipart boundary delimiter not followed by CRLF'')
        else if rest = [] then Inr (Some part, p\<lparr>sp_cursor := cursor, sp_exhausted := True\<rparr>)
        else Inl (push_err ''multipart boundary delimiter is malformed'')))))"

definition content_id_from_block :: "string \<Rightarrow> string option res" where
  "content_id_from_block headers =
     rbind (header_value_from_block headers ''Content-ID'') (\<lambda>v.
       case v of
         None \<Rightarrow> Inr None
       | Some val \<Rightarrow>
           if \<not> is_ascii val then Inl (push_err ''MIME Content-ID value is not ASCII'')
           else (let bare = normalized_cid_bytes val in Inr (if bare = [] then None else Some bare)))"

fun content_type_lines :: "string list \<Rightarrow> string option" where
  "content_type_lines [] = None"
| "content_type_lines (line # rest) =
     (case split_once (CHR 0x3A) line of
        None \<Rightarrow> content_type_lines rest
      | Some (name, v) \<Rightarrow>
          if eq_ignore_ascii_case (trim name) ''content-type'' then Some (trim v) else content_type_lines rest)"

definition content_type_from_block :: "string \<Rightarrow> string option" where
  "content_type_from_block headers =
     (case from_utf8 headers of None \<Rightarrow> None | Some text \<Rightarrow> content_type_lines (str_lines text))"

function collect_parts ::
  "Session \<Rightarrow> string \<Rightarrow> StreamingMimeParser \<Rightarrow> InboundAttachment list \<Rightarrow> InboundAttachment list res" where
  "collect_parts session stage p payloads =
     (case next_part_slice p of
        Inl e \<Rightarrow> Inl e
      | Inr (None, _) \<Rightarrow> Inr payloads
      | Inr (Some (headers, body), p') \<Rightarrow>
          if length payloads \<ge> MAX_INBOUND_PAYLOADS then
            Inl (asx_error PayloadTooLarge
              (''AS4 message carries more than '' @ show_nat MAX_INBOUND_PAYLOADS @
               '' payload attachments; refusing to resolve an unbounded attachment set'') (for_session stage session))
          else
            rbind (content_id_from_block headers) (\<lambda>cid.
            rbind (ok_or (asx_error ParseFailed
                ''an AS4 MIME part carries no Content-ID; it cannot be tied to eb:PartInfo'' (for_session stage session)) cid) (\<lambda>content_id.
              collect_parts session stage p' (payloads @
                [\<lparr>ia_content_id = content_id, ia_content_type = content_type_from_block headers, ia_bytes = body\<rparr>]))))"
  by pat_completeness auto
termination by (relation "measure (\<lambda>(s, st, p, payloads). MAX_INBOUND_PAYLOADS - length payloads)") auto

declare collect_parts.simps [simp del]

definition extract_multipart ::
  "string \<Rightarrow> string \<Rightarrow> Session \<Rightarrow> string \<Rightarrow> MultipartAs4Payload option res" where
  "extract_multipart raw_body http_content_type session stage =
     rbind (parse_multipart_boundary_from_content_type http_content_type) (\<lambda>boundary.
       case boundary of
         None \<Rightarrow>
           if starts_with raw_body ''--'' then
             Inl (asx_error ParseFailed
               ''payload looks like multipart MIME but HTTP Content-Type is not multipart/related'' (for_session stage session))
           else Inr None
       | Some b \<Rightarrow>
           rbind (parser_new raw_body b) (\<lambda>p.
           rbind (next_part_slice p) (\<lambda>(part, p').
           rbind (ok_or (asx_error ParseFailed ''multipart/related AS4 body does not contain any parts''
                    (for_session stage session)) part) (\<lambda>(headers, body).
           rbind (header_value_from_block headers ''Content-Type'') (\<lambda>ct.
           rbind (ok_or (asx_error ParseFailed ''multipart/related AS4 root part is missing Content-Type''
                    (for_session stage session)) ct) (\<lambda>root_content_type.
           let media_type = trim (hd (split_on (CHR 0x3B) root_content_type)) in
           if \<not> eq_ignore_ascii_case media_type ''application/soap+xml'' \<and>
              \<not> eq_ignore_ascii_case media_type ''application/xop+xml'' then
             Inl (asx_error ParseFailed
               (''multipart/related AS4 root part must be application/soap+xml (or the MTOM variant application/xop+xml), got: '' @
                root_content_type) (for_session stage session))
           else
             rbind (collect_parts session stage p' []) (\<lambda>payloads.
               Inr (Some \<lparr>mp_soap_xml = body, mp_payloads = payloads\<rparr>))))))))"

section \<open>What the writer writes\<close>

definition clean :: "string \<Rightarrow> bool" where
  "clean l \<longleftrightarrow> list_all (\<lambda>b. \<not> (byte b < 0x20 \<or> byte b = 0x7F)) l"

definition header_lines :: "MimeAttachment \<Rightarrow> string list" where
  "header_lines a =
     [''Content-Type: '' @ ma_content_type a, ''Content-Transfer-Encoding: '' @ ma_transfer_encoding a,
      ''Content-ID: <'' @ ma_content_id a @ ''>''] @
     (case ma_disposition a of Some d \<Rightarrow> [''Content-Disposition: '' @ d] | None \<Rightarrow> [])"

definition joined :: "string list \<Rightarrow> string" where
  "joined ls = concat (map (\<lambda>l. l @ CRLF) ls)"

definition part_bytes :: "MimeAttachment \<Rightarrow> string" where
  "part_bytes a = joined (header_lines a) @ CRLF @ ma_body a @ CRLF"

text \<open>The stream from the first part on.\<close>

fun stream :: "string \<Rightarrow> MimeAttachment list \<Rightarrow> string" where
  "stream bd [] = []"
| "stream bd [a] = part_bytes a @ ''--'' @ bd @ ''--'' @ CRLF"
| "stream bd (a # b # as) = part_bytes a @ ''--'' @ bd @ CRLF @ stream bd (b # as)"

lemma clean_append [simp]: "clean (a @ b) \<longleftrightarrow> clean a \<and> clean b"
  by (simp add: clean_def)

lemma clean_no_cr: "clean l \<Longrightarrow> CHR 0x0D \<notin> set l" "clean l \<Longrightarrow> CHR 0x0A \<notin> set l"
  by (auto simp: clean_def list_all_iff byte_def)

lemma clean_find: "find (\<lambda>b. byte b < 0x20 \<or> byte b = 0x7F) l = None \<longleftrightarrow> clean l"
  by (auto simp: find_None_iff list_all_iff clean_def)

lemma clean_Nil [simp]: "clean []"
  by (simp add: clean_def)

lemma clean_Cons [simp]: "clean (c # l) \<longleftrightarrow> \<not> (byte c < 0x20 \<or> byte c = 0x7F) \<and> clean l"
  by (simp add: clean_def)

lemma write_crlf_line_Inr: "write_crlf_line st l b = Inr x \<longleftrightarrow> clean l \<and> x = b @ l @ CRLF"
  using clean_find [of l] by (auto simp: write_crlf_line_def split: option.splits)

lemma write_attachment_Inr:
  "write_attachment a b = Inr x \<longleftrightarrow> list_all clean (header_lines a) \<and> x = b @ part_bytes a"
  by (cases "ma_disposition a")
     (auto simp: write_attachment_def Let_def res_simps write_crlf_line_Inr header_lines_def part_bytes_def joined_def)

lemma write_parts_Inr:
  "write_parts bd as b = Inr x \<longleftrightarrow>
     (as = [] \<or> clean (''--'' @ bd)) \<and> list_all (\<lambda>a. list_all clean (header_lines a)) as \<and>
     x = b @ concat (map (\<lambda>a. ''--'' @ bd @ CRLF @ part_bytes a) as)"
  by (induction as arbitrary: b) (auto simp: res_simps write_crlf_line_Inr write_attachment_Inr)

lemma stream_concat:
  "as \<noteq> [] \<Longrightarrow> concat (map (\<lambda>a. ''--'' @ bd @ CRLF @ part_bytes a) as) @ ''--'' @ bd @ ''--'' @ CRLF =
     ''--'' @ bd @ CRLF @ stream bd as"
  by (induction bd as rule: stream.induct) auto

lemma package_build_Inr:
  assumes "package_build b = Inr body" "mb_soap_attachment b = Some soap"
  shows "clean (mb_boundary b) \<and> list_all (\<lambda>a. list_all clean (header_lines a)) (soap # mb_attachments b) \<and>
    body = ''--'' @ mb_boundary b @ CRLF @ stream (mb_boundary b) (soap # mb_attachments b)"
  using assms stream_concat [of "soap # mb_attachments b" "mb_boundary b"]
  by (auto simp: package_build_def res_simps write_crlf_line_Inr write_parts_Inr simp del: write_parts.simps)

section \<open>What the reader reads\<close>

lemma slice_at:
  "drop i s = t @ r \<Longrightarrow> length t = n \<Longrightarrow> 0 < n \<Longrightarrow> slice_get i n s = Some t"
  by (cases "i < length s") (auto simp: slice_get_Some dest: arg_cong [where f = length])

lemma find_headers:
  assumes "ls \<noteq> []" "list_all (\<lambda>l. clean l \<and> l \<noteq> []) ls"
  shows "find_subslice (joined ls @ CRLF @ rest) (CRLF @ CRLF) = Some (length (joined ls) - 2)"
  using assms
proof (induction ls)
  case (Cons l ls)
  have cr: "CHR 0x0D \<notin> set l" using Cons.prems clean_no_cr by simp
  have "find_subslice (joined (l # ls) @ CRLF @ rest) (CRLF @ CRLF) =
      map_option ((+) (length l)) (find_subslice (CRLF @ joined ls @ CRLF @ rest) (CRLF @ CRLF))"
    using find_subslice_skip [OF cr] by (simp add: joined_def CRLF_def)
  also have "\<dots> = Some (length (joined (l # ls)) - 2)"
  proof (cases ls)
    case Nil
    then show ?thesis by (simp add: joined_def CRLF_def)
  next
    case (Cons l' ls')
    obtain c cs where l': "l' = c # cs" using Cons.prems \<open>ls = l' # ls'\<close> by (cases l') auto
    have c: "c \<noteq> CHR 0x0D" using Cons.prems \<open>ls = l' # ls'\<close> l' clean_no_cr(1) [of l'] by auto
    have ih: "find_subslice (joined ls @ CRLF @ rest) (CRLF @ CRLF) = Some (length (joined ls) - 2)"
      using Cons.IH Cons.prems \<open>ls = l' # ls'\<close> by simp
    have "find_subslice (CRLF @ joined ls @ CRLF @ rest) (CRLF @ CRLF) =
        map_option ((+) 2) (find_subslice (joined ls @ CRLF @ rest) (CRLF @ CRLF))"
      using c \<open>ls = l' # ls'\<close> l'
      by (cases "find_subslice (joined ls @ CRLF @ rest) (CRLF @ CRLF)") (auto simp: joined_def CRLF_def)
    then show ?thesis using ih \<open>ls = l' # ls'\<close> by (simp add: joined_def CRLF_def)
  qed
  finally show ?case .
qed simp

definition header_block :: "MimeAttachment \<Rightarrow> string" where
  "header_block a = take (length (joined (header_lines a)) - 2) (joined (header_lines a))"

lemma header_lines_ok: "list_all clean (header_lines a) \<Longrightarrow> list_all (\<lambda>l. clean l \<and> l \<noteq> []) (header_lines a)"
  by (auto simp: header_lines_def split: option.splits)

lemma next_part_found:
  assumes "\<not> sp_exhausted p" "find_subslice (drop (sp_cursor p) (sp_raw_body p)) (CRLF @ CRLF) = Some h"
    and "slice_get (sp_cursor p + h) 4 (sp_raw_body p) = Some (CRLF @ CRLF)"
    and "find_subslice (drop (sp_cursor p + h + 4) (sp_raw_body p)) (sp_boundary_crlf p) = Some n"
    and "slice_get (sp_cursor p + h + 4 + n) 2 (sp_raw_body p) = Some CRLF"
    and "k = sp_cursor p + h + 4 + n + 2"
  shows "next_part_slice p =
     (let part = (take h (drop (sp_cursor p) (sp_raw_body p)), take n (drop (sp_cursor p + h + 4) (sp_raw_body p)));
          rest = drop k (sp_raw_body p); c = k + length (sp_boundary_start p)
      in if starts_with rest (sp_boundary_end p) then Inr (Some part, p\<lparr>sp_cursor := k, sp_exhausted := True\<rparr>)
         else if starts_with rest (sp_boundary_start p) then
           (if slice_get c 2 (sp_raw_body p) = Some CRLF then Inr (Some part, p\<lparr>sp_cursor := c + 2\<rparr>)
            else Inl (push_err ''multipart boundary delimiter not followed by CRLF''))
         else if rest = [] then Inr (Some part, p\<lparr>sp_cursor := k, sp_exhausted := True\<rparr>)
         else Inl (push_err ''multipart boundary delimiter is malformed''))"
  unfolding next_part_slice_def Let_def using assms(1-5) by (simp add: assms(6))

lemma next_part_stream:
  assumes "drop (sp_cursor p) (sp_raw_body p) = stream bd (a # as)" "\<not> sp_exhausted p"
    and b: "sp_boundary_start p = ''--'' @ bd" "sp_boundary_crlf p = CRLF @ ''--'' @ bd"
      "sp_boundary_end p = ''--'' @ bd @ ''--''"
    and c: "clean bd" "list_all clean (header_lines a)" "\<not> str_contains (ma_body a) (CRLF @ ''--'' @ bd)"
  shows "\<exists>k. next_part_slice p = Inr (Some (header_block a, ma_body a), p\<lparr>sp_cursor := k, sp_exhausted := (as = [])\<rparr>) \<and>
    (as \<noteq> [] \<longrightarrow> drop k (sp_raw_body p) = stream bd as)"
proof -
  let ?raw = "sp_raw_body p" and ?i = "sp_cursor p" and ?h = "length (joined (header_lines a)) - 2"
  obtain tl where tl: "stream bd (a # as) = joined (header_lines a) @ CRLF @ ma_body a @ CRLF @ ''--'' @ bd @ tl"
    and tl2: "tl = (if as = [] then ''--'' @ CRLF else CRLF @ stream bd as)"
    by (cases as) (auto simp: part_bytes_def)
  have ne: "header_lines a \<noteq> []" by (simp add: header_lines_def)
  have len: "2 \<le> length (joined (header_lines a))" by (simp add: header_lines_def joined_def CRLF_def)
  have j: "joined (header_lines a) = header_block a @ CRLF"
  proof -
    obtain ls l where "header_lines a = ls @ [l]" using ne by (cases "header_lines a" rule: rev_cases) auto
    then show ?thesis by (simp add: header_block_def joined_def CRLF_def)
  qed
  have hb: "length (header_block a) = ?h" using len by (simp add: header_block_def)
  have at: "drop ?i ?raw = header_block a @ (CRLF @ CRLF) @ ma_body a @ CRLF @ ''--'' @ bd @ tl"
    using assms(1) tl j by simp
  have f1: "find_subslice (drop ?i ?raw) (CRLF @ CRLF) = Some ?h"
    using find_headers [OF ne header_lines_ok [OF c(2)]] assms(1) tl by simp
  have at2: "drop (?i + ?h) ?raw = (CRLF @ CRLF) @ ma_body a @ CRLF @ ''--'' @ bd @ tl"
    using at hb by (metis add.commute append_eq_conv_conj drop_drop)
  have s1: "slice_get (?i + ?h) 4 ?raw = Some (CRLF @ CRLF)"
    by (rule slice_at [OF at2]) (simp_all add: CRLF_def)
  have at3: "drop (?i + ?h + 4) ?raw = ma_body a @ CRLF @ ''--'' @ bd @ tl"
  proof -
    have "drop (?i + ?h + 4) ?raw = drop 4 (drop (?i + ?h) ?raw)" by (simp add: add.commute)
    then show ?thesis unfolding at2 by (simp add: CRLF_def)
  qed
  have f2: "find_subslice (drop (?i + ?h + 4) ?raw) (CRLF @ ''--'' @ bd) = Some (length (ma_body a))"
  proof -
    have "CHR 0x0D \<notin> set (CHR 0x0A # ''--'' @ bd)" using clean_no_cr(1) [OF c(1)] by auto
    from find_delimiter [OF _ this, of "ma_body a" tl] c(3) show ?thesis
      unfolding at3 by (simp add: CRLF_def)
  qed
  have at4: "drop (?i + ?h + 4 + length (ma_body a)) ?raw = CRLF @ ''--'' @ bd @ tl"
    using at3 by (metis add.commute append_eq_conv_conj drop_drop)
  have s2: "slice_get (?i + ?h + 4 + length (ma_body a)) 2 ?raw = Some CRLF"
    by (rule slice_at [OF at4]) (simp_all add: CRLF_def)
  have at5: "drop (?i + ?h + 4 + length (ma_body a) + 2) ?raw = ''--'' @ bd @ tl"
  proof -
    have "drop (?i + ?h + 4 + length (ma_body a) + 2) ?raw = drop 2 (drop (?i + ?h + 4 + length (ma_body a)) ?raw)"
      by (simp add: add.commute)
    then show ?thesis unfolding at4 by (simp add: CRLF_def)
  qed
  have tk: "take ?h (drop ?i ?raw) = header_block a" "take (length (ma_body a)) (drop (?i + ?h + 4) ?raw) = ma_body a"
    using at hb at3 by simp_all
  define k where "k = ?i + ?h + 4 + length (ma_body a) + 2"
  note part = next_part_found [OF assms(2) f1 s1 f2 [folded b(2)] s2 k_def, unfolded tk at5 [folded k_def] b]
  show ?thesis
  proof (cases as)
    case Nil
    then have "starts_with (''--'' @ bd @ tl) (''--'' @ bd @ ''--'')" using tl2 by (simp add: starts_with_iff)
    then have "next_part_slice p = Inr (Some (header_block a, ma_body a), p\<lparr>sp_cursor := k, sp_exhausted := True\<rparr>)"
      unfolding part Let_def by (simp only: if_True)
    then show ?thesis using Nil by auto
  next
    case (Cons x xs)
    have t: "tl = CRLF @ stream bd as" using tl2 Cons by simp
    then have n: "\<not> starts_with (''--'' @ bd @ tl) (''--'' @ bd @ ''--'')"
      by (auto simp: starts_with_iff CRLF_def)
    have y: "starts_with (''--'' @ bd @ tl) (''--'' @ bd)" by (simp add: starts_with_iff)
    have at6: "drop (k + length (''--'' @ bd)) ?raw = CRLF @ stream bd as"
      using at5 t unfolding k_def [symmetric] by (metis add.commute append_assoc append_eq_conv_conj drop_drop)
    have s3: "slice_get (k + length (''--'' @ bd)) 2 ?raw = Some CRLF"
      by (rule slice_at [OF at6]) (simp_all add: CRLF_def)
    have at7: "drop (k + length (''--'' @ bd) + 2) ?raw = stream bd as"
    proof -
      have "drop (k + length (''--'' @ bd) + 2) ?raw = drop 2 (drop (k + length (''--'' @ bd)) ?raw)"
        by (simp add: add.commute)
      then show ?thesis unfolding at6 by (simp add: CRLF_def)
    qed
    have "next_part_slice p = Inr (Some (header_block a, ma_body a), p\<lparr>sp_cursor := k + length (''--'' @ bd) + 2\<rparr>)"
      unfolding part Let_def using n y s3 by (simp only: if_True if_False simp_thms)
    moreover have "p\<lparr>sp_cursor := k + length (''--'' @ bd) + 2\<rparr> =
        p\<lparr>sp_cursor := k + length (''--'' @ bd) + 2, sp_exhausted := (as = [])\<rparr>"
      using assms(2) Cons by simp
    ultimately show ?thesis using at7 by metis
  qed
qed

section \<open>Header blocks\<close>

lemma trim_ascii_prefix:
  assumes "a \<noteq> []" "is_graph (hd a)" "is_graph (last a)"
  shows "\<exists>y. trim_ascii_whitespace (a @ b) = a @ y"
proof -
  have f: "dropWhile is_ascii_ws (a @ b) = a @ b"
    using assms is_graph_not_ws by (cases a) auto
  obtain a' z where a: "a = a' @ [z]" using assms(1) by (cases a rule: rev_cases) auto
  have z: "\<not> is_ascii_ws z" using assms(3) a is_graph_not_ws by simp
  have "dropWhile is_ascii_ws (rev (a @ b)) = dropWhile is_ascii_ws (rev b) @ rev a"
  proof (cases "\<forall>x \<in> set (rev b). is_ascii_ws x")
    case True
    then have "dropWhile is_ascii_ws (rev b) = []" by (simp add: dropWhile_eq_Nil_conv)
    then show ?thesis using True z a dropWhile_append2 [of "rev b" is_ascii_ws "rev a"] by simp
  next
    case False
    then show ?thesis by (auto simp: dropWhile_append1)
  qed
  then show ?thesis using f by (auto simp: trim_ascii_whitespace_def)
qed

lemma split_on_joined:
  assumes "ls \<noteq> []" "list_all clean ls"
  shows "split_on (CHR 0x0A) (take (length (joined ls) - 2) (joined ls)) = map (\<lambda>l. l @ [CHR 0x0D]) (butlast ls) @ [last ls]"
  using assms
proof (induction ls)
  case (Cons l ls)
  have l: "CHR 0x0A \<notin> set l" using Cons.prems clean_no_cr by simp
  show ?case
  proof (cases ls)
    case Nil
    then show ?thesis using l by (simp add: joined_def CRLF_def split_on_none)
  next
    case (Cons l' ls')
    then have "2 \<le> length (joined ls)" by (simp add: joined_def CRLF_def)
    then obtain n where n: "length (joined ls) = Suc (Suc n)" by (auto simp: le_iff_add)
    have "joined (l # ls) = l @ CHR 0x0D # CHR 0x0A # joined ls" by (simp add: joined_def CRLF_def)
    then have "take (length (joined (l # ls)) - 2) (joined (l # ls)) =
        (l @ [CHR 0x0D]) @ CHR 0x0A # take (length (joined ls) - 2) (joined ls)"
      by (simp add: n)
    then show ?thesis
      using split_on_append [of "CHR 0x0A" "l @ [CHR 0x0D]"] l Cons.IH Cons.prems Cons by simp
  qed
qed simp

lemma strip_cr:
  assumes "clean l"
  shows "or_else (strip_suffix [CHR 0x0D] (l @ [CHR 0x0D])) (l @ [CHR 0x0D]) = l"
    and "or_else (strip_suffix [CHR 0x0D] l) l = l"
proof -
  show "or_else (strip_suffix [CHR 0x0D] (l @ [CHR 0x0D])) (l @ [CHR 0x0D]) = l"
    by (simp add: strip_suffix_def or_else_def)
  have "drop (length l - 1) l \<noteq> [CHR 0x0D]"
    using clean_no_cr(1) [OF assms] by (metis in_set_dropD list.set_intros(1))
  then show "or_else (strip_suffix [CHR 0x0D] l) l = l"
    by (simp add: strip_suffix_def or_else_def)
qed

text \<open>A line of a header other than the one asked for is passed over.\<close>

lemma header_line_skip:
  assumes "clean (n @ '': '' @ v)" "raw = (n @ '': '' @ v) \<or> raw = (n @ '': '' @ v) @ [CHR 0x0D]"
    and "n \<noteq> []" "list_all is_graph n" "CHR 0x3A \<notin> set n" "\<not> eq_ignore_ascii_case n name"
  shows "header_value_lines name (raw # rest) = header_value_lines name rest"
proof -
  have st: "or_else (strip_suffix [CHR 0x0D] raw) raw = n @ '': '' @ v"
    using assms(2) strip_cr [OF assms(1)] by auto
  obtain y where y: "trim_ascii_whitespace ((n @ '':'') @ '' '' @ v) = (n @ '':'') @ y"
    using trim_ascii_prefix [of "n @ '':''" "'' '' @ v"] assms(3,4)
    by (cases n) (auto simp: is_graph_def byte_def)
  have sp: "split_once (CHR 0x3A) (n @ CHR 0x3A # y) = Some (n, y)" using assms(5) by (rule split_once_here)
  have "trim_ascii_whitespace n = n"
    using assms(3,4) by (intro trim_ascii_graph) (auto simp: list_all_iff)
  then show ?thesis using st y sp assms(3,6) by (simp add: Let_def)
qed

lemma header_line_hit:
  assumes "clean (n @ '': '' @ v)" "raw = (n @ '': '' @ v) \<or> raw = (n @ '': '' @ v) @ [CHR 0x0D]"
    and "n \<noteq> []" "list_all is_graph n" "CHR 0x3A \<notin> set n" "eq_ignore_ascii_case n name"
    and "v \<noteq> []" "is_graph (hd v)" "is_graph (last v)" "is_ascii v"
  shows "header_value_lines name (raw # rest) = Inr (Some v)"
proof -
  have st: "or_else (strip_suffix [CHR 0x0D] raw) raw = n @ '': '' @ v"
    using assms(2) strip_cr [OF assms(1)] by auto
  have t: "trim_ascii_whitespace (n @ '': '' @ v) = n @ '': '' @ v"
    using assms(3,4,7,9) by (intro trim_ascii_graph) (auto simp: list_all_iff)
  have sp: "split_once (CHR 0x3A) (n @ CHR 0x3A # '' '' @ v) = Some (n, '' '' @ v)"
    using assms(5) by (rule split_once_here)
  have n: "trim_ascii_whitespace n = n"
    using assms(3,4) by (intro trim_ascii_graph) (auto simp: list_all_iff)
  have "trim_ascii_whitespace ('' '' @ v) = trim_ascii_whitespace v"
    by (simp add: trim_ascii_whitespace_def is_ascii_ws_def byte_def)
  also have "\<dots> = v" using assms(7-9) by (rule trim_ascii_graph)
  finally show ?thesis using st t sp n assms(3,6,10) by (simp add: Let_def from_utf8_ascii)
qed

lemma header_block_lines:
  assumes "list_all clean (header_lines a)"
  shows "\<exists>r1 r2 r3 rest. split_on (CHR 0x0A) (header_block a) = r1 # r2 # r3 # rest \<and>
    (r1 = (''Content-Type: '' @ ma_content_type a) @ [CHR 0x0D]) \<and>
    (r2 = (''Content-Transfer-Encoding: '' @ ma_transfer_encoding a) @ [CHR 0x0D]) \<and>
    (r3 = ''Content-ID: <'' @ ma_content_id a @ ''>'' \<or> r3 = (''Content-ID: <'' @ ma_content_id a @ ''>'') @ [CHR 0x0D])"
  unfolding header_block_def
  using split_on_joined [OF _ assms]
  by (cases "ma_disposition a") (auto simp: header_lines_def)

lemma content_id_read:
  assumes "list_all clean (header_lines a)" "validate_content_id (ma_content_id a) f = Inr ()"
    and "\<not> eq_ignore_ascii_case (take 4 (ma_content_id a)) ''cid:''"
  shows "content_id_from_block (header_block a) = Inr (Some (ma_content_id a))"
proof -
  let ?i = "ma_content_id a"
  have i: "?i \<noteq> []" "list_all (\<lambda>c. \<not> content_id_byte_bad c) ?i"
    using assms(2) by (auto simp: validate_content_id_def Let_def find_None_iff list_all_iff split: if_splits option.splits)
  obtain r1 r2 r3 rest where r: "split_on (CHR 0x0A) (header_block a) = r1 # r2 # r3 # rest"
    "r1 = (''Content-Type: '' @ ma_content_type a) @ [CHR 0x0D]"
    "r2 = (''Content-Transfer-Encoding: '' @ ma_transfer_encoding a) @ [CHR 0x0D]"
    "r3 = ''Content-ID: <'' @ ?i @ ''>'' \<or> r3 = (''Content-ID: <'' @ ?i @ ''>'') @ [CHR 0x0D]"
    using header_block_lines [OF assms(1)] by blast
  have c: "clean (''Content-Type'' @ '': '' @ ma_content_type a)"
    "clean (''Content-Transfer-Encoding'' @ '': '' @ ma_transfer_encoding a)"
    "clean (''Content-ID'' @ '': '' @ (''<'' @ ?i @ ''>''))"
    using assms(1) by (auto simp: header_lines_def)
  have ne: "\<not> eq_ignore_ascii_case ''Content-Type'' ''Content-ID''"
    "\<not> eq_ignore_ascii_case ''Content-Transfer-Encoding'' ''Content-ID''"
    "eq_ignore_ascii_case ''Content-ID'' ''Content-ID''" by code_simp+
  have g: "list_all is_graph ''Content-Type''" "list_all is_graph ''Content-Transfer-Encoding''"
    "list_all is_graph ''Content-ID''" by (simp_all add: is_graph_def byte_def)
  have asc: "is_ascii (''<'' @ ?i @ ''>'')"
  proof -
    have "list_all (\<lambda>c. byte c < 128) ?i"
      using i(2) by (fastforce simp: list_all_iff content_id_byte_bad_def)
    then show ?thesis by (simp add: is_ascii_def byte_def)
  qed
  have 1: "header_value_lines ''Content-ID'' (r1 # r2 # r3 # rest) = header_value_lines ''Content-ID'' (r2 # r3 # rest)"
    by (rule header_line_skip [OF c(1) _ _ g(1) _ ne(1)]) (simp_all add: r(2))
  have 2: "header_value_lines ''Content-ID'' (r2 # r3 # rest) = header_value_lines ''Content-ID'' (r3 # rest)"
    by (rule header_line_skip [OF c(2) _ _ g(2) _ ne(2)]) (simp_all add: r(3))
  have 3: "header_value_lines ''Content-ID'' (r3 # rest) = Inr (Some (''<'' @ ?i @ ''>''))"
    by (rule header_line_hit [OF c(3) _ _ g(3) _ ne(3)]) (use r(4) asc in \<open>simp_all add: is_graph_def byte_def\<close>)
  have h: "header_value_from_block (header_block a) ''Content-ID'' = Inr (Some (''<'' @ ?i @ ''>''))"
    unfolding header_value_from_block_def r(1) 1 2 3 ..
  have "trim_ascii_whitespace (''<'' @ ?i @ ''>'') = ''<'' @ ?i @ ''>''"
    by (rule trim_ascii_graph) (simp_all add: is_graph_def byte_def)
  then have "normalized_cid_bytes (''<'' @ ?i @ ''>'') = ?i"
    using assms(3) by (simp add: normalized_cid_bytes_def Let_def strip_prefix_def strip_suffix_def or_else_def)
  then show ?thesis using h asc i(1) by (simp add: content_id_from_block_def)
qed

section \<open>The boundary\<close>

lemma hex_digit_graph: "d < 16 \<Longrightarrow> is_graph (hex_digit d) \<and> byte (hex_digit d) \<noteq> 45 \<and> byte (hex_digit d) \<noteq> 59 \<and>
    byte (hex_digit d) \<noteq> 34 \<and> byte (hex_digit d) \<noteq> 61"
  by (auto simp: hex_digit_def is_graph_def)

lemma hex64_chars:
  "c \<in> set (hex64 w) \<Longrightarrow> is_graph c \<and> c \<noteq> CHR 0x2D \<and> c \<noteq> CHR 0x3B \<and> c \<noteq> CHR 0x22 \<and> c \<noteq> CHR 0x3D"
proof -
  assume "c \<in> set (hex64 w)"
  then obtain d where d: "c = hex_digit d" "d < 16" by (auto simp: hex64_def)
  have "byte (CHR 0x2D) = 45" "byte (CHR 0x3B) = 59" "byte (CHR 0x22) = 34" "byte (CHR 0x3D) = 61"
    by (simp_all add: byte_def)
  then show ?thesis using hex_digit_graph [OF d(2)] d(1) by metis
qed

lemma hex64_length: "length (hex64 w) = 16"
  by (simp add: hex64_def upt_rec)

lemma prefix_chars:
  "c \<in> set MIME_BOUNDARY_PREFIX \<Longrightarrow> is_graph c \<and> c \<noteq> CHR 0x3B \<and> c \<noteq> CHR 0x22 \<and> c \<noteq> CHR 0x3D"
  by (auto simp: MIME_BOUNDARY_PREFIX_def is_graph_def byte_def)

lemma boundary_read:
  assumes "bd = MIME_BOUNDARY_PREFIX @ hex64 w"
  shows "parse_multipart_boundary_from_content_type
     (''multipart/related; boundary='' @ dquote bd @ ''; '' @ rest) = Inr (Some bd)"
proof -
  have ch: "is_graph c \<and> c \<noteq> CHR 0x3B \<and> c \<noteq> CHR 0x22 \<and> c \<noteq> CHR 0x3D" if "c \<in> set bd" for c
    using that assms hex64_chars prefix_chars by auto
  have ne: "bd \<noteq> []" by (simp add: assms MIME_BOUNDARY_PREFIX_def)
  have gh: "is_graph (hd bd)" "is_graph (last bd)" using ch ne by auto
  let ?seg = "''boundary=''" and ?q = "[CHR 0x22]"
  have sp: "split_on (CHR 0x3B) (''multipart/related; boundary='' @ dquote bd @ ''; '' @ rest) =
      ''multipart/related'' # ('' '' @ ?seg @ dquote bd) # split_on (CHR 0x3B) ('' '' @ rest)"
    using split_on_append [of "CHR 0x3B" "''multipart/related''" "'' '' @ ?seg @ dquote bd @ ''; '' @ rest"]
      split_on_append [of "CHR 0x3B" "'' '' @ ?seg @ dquote bd" "'' '' @ rest"] ch
    by (auto simp: dquote_def)
  have t1: "trim ''multipart/related'' = ''multipart/related''"
    by (rule trim_graph) (simp_all add: is_graph_def byte_def)
  have t2: "trim ('' '' @ ?seg @ dquote bd) = ?seg @ dquote bd"
    using trim_space_graph [of "?seg @ dquote bd"] by (simp add: is_graph_def byte_def dquote_def)
  have t3: "splitn2 (CHR 0x3D) (?seg @ dquote bd) = (''boundary'', Some (dquote bd))"
    using split_once_here [of "CHR 0x3D" "''boundary''" "dquote bd"] by (simp add: splitn2_def)
  have t4: "trim ''boundary'' = ''boundary''"
    by (rule trim_graph) (simp_all add: is_graph_def byte_def)
  have t5: "trim (dquote bd) = dquote bd"
    by (rule trim_graph) (simp_all add: is_graph_def byte_def dquote_def)
  have t6: "Option.bind (strip_prefix ?q (dquote bd)) (strip_suffix ?q) = Some bd"
    by (simp add: strip_prefix_def strip_suffix_def dquote_def)
  have t7: "trim bd = bd" using ne gh by (rule trim_graph)
  have t8: "strip_suffix ''--'' bd = None"
  proof -
    have "last bd \<noteq> CHR 0x2D"
      using assms hex64_chars hex64_length by (metis last_append last_in_set length_0_conv zero_neq_numeral)
    then have "drop (length bd - 2) bd \<noteq> ''--''"
      using ne by (metis diff_less last_ConsL last_ConsR last_drop length_greater_0_conv list.distinct(1) zero_less_numeral)
    then show ?thesis by (auto simp: strip_suffix_def numeral_2_eq_2)
  qed
  have e: "eq_ignore_ascii_case x x" for x by (simp add: eq_ignore_ascii_case_def)
  have "boundary_segments (('' '' @ ?seg @ dquote bd) # ss) = Inr (Some bd)" for ss
    unfolding boundary_segments.simps t2 t3 by (simp add: t4 e Let_def or_else_def t5 t6 t7 t8 ne)
  then show ?thesis
    unfolding parse_multipart_boundary_from_content_type_def sp Let_def list.sel t1 by (simp only: e simp_thms if_False)
qed

section \<open>Properties\<close>

text \<open>What makes an attachment readable again: a bare Content-ID, and a body free of the delimiter.\<close>

definition readable :: "string \<Rightarrow> MimeAttachment \<Rightarrow> bool" where
  "readable bd a \<longleftrightarrow>
     validate_content_id (ma_content_id a) [] = Inr () \<and>
     \<not> eq_ignore_ascii_case (take 4 (ma_content_id a)) ''cid:'' \<and>
     \<not> str_contains (ma_body a) (CRLF @ ''--'' @ bd)"

lemma collect_stream:
  assumes "as = [] \<longleftrightarrow> sp_exhausted p"
    and "as \<noteq> [] \<longrightarrow> drop (sp_cursor p) (sp_raw_body p) = stream bd as"
    and b: "sp_boundary_start p = ''--'' @ bd" "sp_boundary_crlf p = CRLF @ ''--'' @ bd"
      "sp_boundary_end p = ''--'' @ bd @ ''--''" "clean bd"
    and "list_all (\<lambda>a. list_all clean (header_lines a)) as" "list_all (readable bd) as"
    and "length done + length as \<le> MAX_INBOUND_PAYLOADS"
  shows "\<exists>out. collect_parts session stage p done = Inr (done @ out) \<and>
    map (\<lambda>x. (ia_content_id x, ia_bytes x)) out = map (\<lambda>a. (ma_content_id a, ma_body a)) as"
  using assms
proof (induction as arbitrary: p "done")
  case Nil
  then show ?case by (simp add: collect_parts.simps next_part_slice_def)
next
  case (Cons a as)
  have c: "list_all clean (header_lines a)" "readable bd a" using Cons.prems by simp_all
  have "drop (sp_cursor p) (sp_raw_body p) = stream bd (a # as)" "\<not> sp_exhausted p"
    using Cons.prems(1,2) by auto
  from next_part_stream [OF this Cons.prems(3-5,6) c(1)] c(2)
  obtain k where k: "next_part_slice p = Inr (Some (header_block a, ma_body a), p\<lparr>sp_cursor := k, sp_exhausted := (as = [])\<rparr>)"
    "as \<noteq> [] \<longrightarrow> drop k (sp_raw_body p) = stream bd as"
    by (auto simp: readable_def)
  let ?p = "p\<lparr>sp_cursor := k, sp_exhausted := (as = [])\<rparr>"
  let ?x = "\<lparr>ia_content_id = ma_content_id a, ia_content_type = content_type_from_block (header_block a), ia_bytes = ma_body a\<rparr>"
  have cid: "content_id_from_block (header_block a) = Inr (Some (ma_content_id a))"
    using content_id_read [OF c(1)] c(2) by (auto simp: readable_def)
  obtain out where o: "collect_parts session stage ?p (done @ [?x]) = Inr ((done @ [?x]) @ out)"
    "map (\<lambda>x. (ia_content_id x, ia_bytes x)) out = map (\<lambda>a. (ma_content_id a, ma_body a)) as"
    using Cons.IH [of ?p "done @ [?x]"] Cons.prems k(2) by auto
  have "collect_parts session stage p done = Inr (done @ ?x # out)"
    using Cons.prems(9) k(1) cid o(1) by (subst collect_parts.simps) (simp add: MAX_INBOUND_PAYLOADS_def)
  then show ?case using o(2) by (intro exI [of _ "?x # out"]) simp
qed

text \<open>
  C21. Packaging round trip. Whatever \<open>package_attachments\<close> writes, the streaming reader of the
  receive path splits again into the same SOAP part and the same payload parts, in order and
  byte for byte, with the same Content-IDs: for at most sixteen attachments with valid Content-IDs that
  carry no scheme, and bodies of any bytes in which the delimiter does not occur.
\<close>
theorem package_round_trip:
  assumes "package_attachments random counter soap ''application/soap+xml'' atts = Inr (body, content_type)"
    and "bd = MIME_BOUNDARY_PREFIX @ hex64 (random + counter)"
    and "\<forall>a \<in> set atts. readable bd a" and "\<not> str_contains soap (CRLF @ ''--'' @ bd)"
    and "length atts \<le> MAX_INBOUND_PAYLOADS"
  shows "\<exists>m. extract_multipart body content_type session stage = Inr (Some m) \<and> mp_soap_xml m = soap \<and>
    map (\<lambda>p. (ia_content_id p, ia_bytes p)) (mp_payloads m) = map (\<lambda>a. (ma_content_id a, ma_body a)) atts"
proof -
  let ?root = "attachment_new ''soap-body@example.com'' ''application/soap+xml; charset=UTF-8'' soap ''8bit''"
  let ?b = "add_attachments atts (with_soap_body soap
            (with_root_soap_content_type ''application/soap+xml'' (package_new random counter)))"
  have bd: "mb_boundary ?b = bd" "mb_soap_attachment ?b = Some ?root" "mb_attachments ?b = atts"
    by (simp_all add: add_attachments_def with_soap_body_def with_root_soap_content_type_def package_new_def assms(2))
  have "package_build ?b = Inr body"
    and ct: "content_type = ''multipart/related; boundary='' @ dquote bd @ ''; '' @
      (''type='' @ dquote ''application/soap+xml'' @ ''; start='' @ dquote ''<soap-body@example.com>'')"
    using assms(1) bd(1)
    by (auto simp: package_attachments_def Let_def res_simps package_content_type_def dquote_def
        add_attachments_def with_soap_body_def with_root_soap_content_type_def package_new_def)
  from package_build_Inr [OF this(1) bd(2)]
  have w: "clean bd" "list_all (\<lambda>a. list_all clean (header_lines a)) (?root # atts)"
    "body = ''--'' @ bd @ CRLF @ stream bd (?root # atts)"
    unfolding bd by auto
  have pb: "parse_multipart_boundary_from_content_type content_type = Inr (Some bd)"
    unfolding ct using assms(2) by (rule boundary_read)
  define p where "p = \<lparr>sp_raw_body = body, sp_boundary_start = ''--'' @ bd, sp_boundary_crlf = CRLF @ ''--'' @ bd,
    sp_boundary_end = ''--'' @ bd @ ''--'', sp_cursor = length (''--'' @ bd) + 2, sp_exhausted = False\<rparr>"
  have at: "drop (length (''--'' @ bd)) body = CRLF @ stream bd (?root # atts)" using w(3) by simp
  have sl: "slice_get (length (''--'' @ bd)) 2 body = Some CRLF"
    by (rule slice_at [OF at]) (simp_all add: CRLF_def)
  have st: "starts_with body (''--'' @ bd)" using w(3) by (simp add: starts_with_iff)
  have pn: "parser_new body bd = Inr p"
    unfolding parser_new_def Let_def using st sl by (simp only: if_True rbind_simps add_0 p_def simp_thms)
  have "drop (sp_cursor p) (sp_raw_body p) = stream bd (?root # atts)"
    by (simp add: p_def w(3) CRLF_def)
  from next_part_stream [OF this] w(1,2) assms(4)
  obtain k where k: "next_part_slice p = Inr (Some (header_block ?root, soap), p\<lparr>sp_cursor := k, sp_exhausted := (atts = [])\<rparr>)"
    "atts \<noteq> [] \<longrightarrow> drop k (sp_raw_body p) = stream bd atts"
    by (auto simp: p_def attachment_new_def)
  let ?v = "''application/soap+xml; charset=UTF-8''"
  obtain r1 rest where r: "split_on (CHR 0x0A) (header_block ?root) = r1 # rest"
    "r1 = (''Content-Type'' @ '': '' @ ?v) @ [CHR 0x0D]"
    using header_block_lines [of ?root] w(2) by (auto simp: attachment_new_def)
  have "clean (''Content-Type'' @ '': '' @ ?v)" by (simp add: byte_def)
  then have hv: "header_value_from_block (header_block ?root) ''Content-Type'' = Inr (Some ?v)"
    unfolding header_value_from_block_def r(1)
    by (rule header_line_hit) (use r(2) in \<open>simp_all add: is_graph_def byte_def is_ascii_def eq_ignore_ascii_case_def\<close>)
  have "split_on (CHR 0x3B) ?v = [''application/soap+xml'', '' charset=UTF-8'']" by simp
  then have mt: "eq_ignore_ascii_case (trim (hd (split_on (CHR 0x3B) ?v))) ''application/soap+xml''"
    using trim_graph [of "''application/soap+xml''"] by (simp add: is_graph_def byte_def eq_ignore_ascii_case_def)
  obtain out where o: "collect_parts session stage (p\<lparr>sp_cursor := k, sp_exhausted := (atts = [])\<rparr>) [] = Inr out"
    "map (\<lambda>x. (ia_content_id x, ia_bytes x)) out = map (\<lambda>a. (ma_content_id a, ma_body a)) atts"
    using collect_stream [of atts "p\<lparr>sp_cursor := k, sp_exhausted := (atts = [])\<rparr>" bd "[]" session stage]
      k(2) w(1,2) assms(3,5) by (auto simp: p_def list_all_iff)
  have "extract_multipart body content_type session stage = Inr (Some \<lparr>mp_soap_xml = soap, mp_payloads = out\<rparr>)"
    unfolding extract_multipart_def using mt by (simp add: pb pn k(1) hv o(1) Let_def)
  then show ?thesis using o(2) by simp
qed

theorem package_round_trip_witness:
  "\<exists>body content_type m. package_attachments 0 0 ''<s/>'' ''application/soap+xml''
       [attachment_new ''p1@asx'' ''text/plain'' ''hello'' ''binary''] = Inr (body, content_type) \<and>
     extract_multipart body content_type \<lparr>session_id = ''s'', partner_id = ''p''\<rparr> ''as4_receive_push'' = Inr (Some m) \<and>
     map ia_bytes (mp_payloads m) = [''hello'']"
proof -
  let ?a = "attachment_new ''p1@asx'' ''text/plain'' ''hello'' ''binary''"
  have "is_ok (package_attachments 0 0 ''<s/>'' ''application/soap+xml'' [?a])" by code_simp
  then obtain body ct where w: "package_attachments 0 0 ''<s/>'' ''application/soap+xml'' [?a] = Inr (body, ct)"
    by (auto simp: is_ok_def split: sum.splits)
  have r: "readable (MIME_BOUNDARY_PREFIX @ hex64 0) ?a" by code_simp
  have "\<not> str_contains ''<s/>'' (CRLF @ ''--'' @ MIME_BOUNDARY_PREFIX @ hex64 0)" by code_simp
  with package_round_trip [OF w refl, of "\<lparr>session_id = ''s'', partner_id = ''p''\<rparr>" "''as4_receive_push''"] r w
  obtain m where "extract_multipart body ct \<lparr>session_id = ''s'', partner_id = ''p''\<rparr> ''as4_receive_push'' = Inr (Some m)"
    "map (\<lambda>p. (ia_content_id p, ia_bytes p)) (mp_payloads m) = [(''p1@asx'', ''hello'')]"
    by (auto simp: MAX_INBOUND_PAYLOADS_def attachment_new_def)
  then show ?thesis using w by (intro exI conjI) (auto simp: map_eq_Cons_conv)
qed

end
