(* ===== verification/Compression.thy ===== *)
theory Compression
  imports Crypto_Alg Wire_Text
begin

unbundle bit_operations_syntax

text \<open>
  Payload compression (src/crypto/compression.rs): gzip for AS4, and for AS2 the CMS CompressedData of RFC 5402 around a
  ZLIB stream. The stream codecs are parameters: a decoder yields the octets it produces before it ends, and the
  error it ends with, if any; an encoder yields its output. Shown: what an AS2 payload is wrapped
  in is unwrapped again, and no output exceeds the limit.
\<close>

section \<open>Streams\<close>

record Codec =
  cd_gzip :: "nat option \<Rightarrow> bytes \<Rightarrow> (string \<times> bool, bytes) result"
  cd_gunzip :: "bytes \<Rightarrow> bytes \<times> string option"
  cd_deflate :: "nat option \<Rightarrow> bytes \<Rightarrow> (string \<times> bool, bytes) result"
  cd_inflate :: "bytes \<Rightarrow> bytes \<times> string option"

text \<open>
  \<open>MAX_DECOMPRESSED_BYTES\<close>, and the read that stops one octet past it: an error the decoder would meet after
  that octet is not seen.
\<close>

definition MAX_DECOMPRESSED_BYTES :: nat where
  "MAX_DECOMPRESSED_BYTES = 128 * 1024 * 1024"

definition read_bounded :: "bytes \<times> string option \<Rightarrow> string \<Rightarrow> string \<Rightarrow> bytes res" where
  "read_bounded reader stage msg =
     (if length (fst reader) > MAX_DECOMPRESSED_BYTES then
        Inl (asx_error PolicyViolation
          (msg @ '': decompressed output exceeds '' @ show_nat MAX_DECOMPRESSED_BYTES @ '' byte limit (possible decompression bomb)'')
          (context_new stage))
      else case snd reader of
          Some e \<Rightarrow> Inl (asx_error ParseFailed (msg @ '': '' @ e) (context_new stage))
        | None \<Rightarrow> Inr (fst reader))"

definition codec_level :: "nat \<Rightarrow> nat option" where
  "codec_level level = (if 1 \<le> level \<and> level \<le> 9 then Some level else None)"

text \<open>An encoder fails while it is written to, or when it is finished.\<close>

definition encoded :: "(string \<times> bool, bytes) result \<Rightarrow> string \<Rightarrow> string \<Rightarrow> string \<Rightarrow> bytes res" where
  "encoded out writing finishing stage =
     map_err (\<lambda>(e, finished). if finished
        then asx_error InvalidInput (finishing @ '': '' @ e) (context_new (stage @ ''_finalize''))
        else asx_error InvalidInput (writing @ '': '' @ e) (context_new stage)) out"

section \<open>AS4: gzip\<close>

definition AS4_COMPRESSION_TYPE :: string where
  "AS4_COMPRESSION_TYPE = ''application/gzip''"

definition compress_gzip :: "Codec \<Rightarrow> bytes \<Rightarrow> nat \<Rightarrow> bytes res" where
  "compress_gzip cd payload level =
     encoded (cd_gzip cd (codec_level level) payload) ''failed to compress payload''
       ''failed to finalize gzip compression'' ''compression_gzip''"

definition decompress_gzip :: "Codec \<Rightarrow> bytes \<Rightarrow> bytes res" where
  "decompress_gzip cd compressed =
     read_bounded (cd_gunzip cd compressed) ''decompression_gzip'' ''failed to decompress gzip payload''"

section \<open>DER\<close>

definition OID_CT_COMPRESSED_DATA :: bytes where
  "OID_CT_COMPRESSED_DATA = [0x2a, 0x86, 0x48, 0x86, 0xf7, 0x0d, 0x01, 0x09, 0x10, 0x01, 0x09]"

definition OID_ALG_ZLIB_COMPRESS :: bytes where
  "OID_ALG_ZLIB_COMPRESS = [0x2a, 0x86, 0x48, 0x86, 0xf7, 0x0d, 0x01, 0x09, 0x10, 0x03, 0x08]"

definition OID_DATA :: bytes where
  "OID_DATA = [0x2a, 0x86, 0x48, 0x86, 0xf7, 0x0d, 0x01, 0x07, 0x01]"

definition TAG_OID :: "8 word" where "TAG_OID = 0x06"
definition TAG_OCTET_STRING :: "8 word" where "TAG_OCTET_STRING = 0x04"
definition TAG_SEQUENCE :: "8 word" where "TAG_SEQUENCE = 0x30"
definition TAG_CONTEXT_0 :: "8 word" where "TAG_CONTEXT_0 = 0xa0"

text \<open>The big-endian octets of a number: \<open>usize::to_be_bytes\<close> with eight of them.\<close>

fun be_octets :: "nat \<Rightarrow> nat \<Rightarrow> bytes" where
  "be_octets 0 n = []"
| "be_octets (Suc k) n = be_octets k (n div 256) @ [word_of_nat (n mod 256)]"

definition significant_octets :: "nat \<Rightarrow> bytes" where
  "significant_octets len =
     (let bs = be_octets 8 len; s = dropWhile (\<lambda>b. b = 0) bs in if s = [] then [last bs] else s)"

definition der_tlv :: "8 word \<Rightarrow> bytes \<Rightarrow> bytes" where
  "der_tlv tag contents =
     (let len = length contents in
      tag # (if len < 0x80 then [word_of_nat len]
        else let s = significant_octets len in (0x80 OR word_of_nat (length s)) # s) @ contents)"

definition der_fail :: "string \<Rightarrow> string \<Rightarrow> AsxError" where
  "der_fail stage msg = asx_error ParseFailed msg (context_new stage)"

definition be_value :: "bytes \<Rightarrow> nat" where
  "be_value bs = foldl (\<lambda>len b. len * 256 + unat b) 0 bs"

definition der_take :: "bytes \<Rightarrow> 8 word \<Rightarrow> string \<Rightarrow> (bytes \<times> bytes) res" where
  "der_take input tag stage =
     (case input of
        [] \<Rightarrow> Inl (der_fail stage ''truncated DER: missing tag'')
      | actual_tag # rest \<Rightarrow>
          if actual_tag \<noteq> tag then
            Inl (der_fail stage (''unexpected DER tag 0x'' @ hex_byte actual_tag @ '' (expected 0x'' @ hex_byte tag @ '')''))
          else (case rest of
              [] \<Rightarrow> Inl (der_fail stage ''truncated DER: missing length'')
            | first_len # rest \<Rightarrow>
                rbind (if first_len < 0x80 then Inr (unat first_len, rest)
                   else
                     let count = unat (first_len AND 0x7f) in
                     if count = 0 then Inl (der_fail stage ''indefinite-length DER is not accepted in strict CMS parsing'')
                     else if count > 8 \<or> length rest < count then Inl (der_fail stage ''DER length field is out of range'')
                     else Inr (be_value (take count rest), drop count rest)) (\<lambda>(len, rest).
                rbind (check (\<not> length rest < len)
                   (der_fail stage (''truncated DER: declared length '' @ show_nat len @ '' exceeds '' @
                     show_nat (length rest) @ '' remaining bytes''))) (\<lambda>_.
                  Inr (take len rest, drop len rest)))))"

definition der_expect :: "bytes \<Rightarrow> 8 word \<Rightarrow> string \<Rightarrow> bytes res" where
  "der_expect input tag stage =
     rbind (der_take input tag stage) (\<lambda>(val, rest).
     rbind (check (rest = []) (der_fail stage (''trailing bytes after DER element ('' @ show_nat (length rest) @ '' bytes)''))) (\<lambda>_.
       Inr val))"

section \<open>AS2: CMS CompressedData\<close>

definition compress_cms_zlib :: "Codec \<Rightarrow> bytes \<Rightarrow> nat \<Rightarrow> bytes res" where
  "compress_cms_zlib cd payload level =
     rbind (encoded (cd_deflate cd (codec_level level) payload) ''failed to compress AS2 payload''
        ''failed to finalize AS2 compression'' ''compression_cms_zlib'') (\<lambda>deflated.
     let encap = der_tlv TAG_SEQUENCE
           (der_tlv TAG_OID OID_DATA @ der_tlv TAG_CONTEXT_0 (der_tlv TAG_OCTET_STRING deflated));
         compressed_data = der_tlv TAG_SEQUENCE
           ([0x02, 0x01, 0x00] @ der_tlv TAG_SEQUENCE (der_tlv TAG_OID OID_ALG_ZLIB_COMPRESS) @ encap)
     in Inr (der_tlv TAG_SEQUENCE (der_tlv TAG_OID OID_CT_COMPRESSED_DATA @ der_tlv TAG_CONTEXT_0 compressed_data)))"

definition ZLIB_STAGE :: string where
  "ZLIB_STAGE = ''decompression_cms_zlib''"

definition decompress_cms_zlib :: "Codec \<Rightarrow> bytes \<Rightarrow> bytes res" where
  "decompress_cms_zlib cd der =
     rbind (der_expect der TAG_SEQUENCE ZLIB_STAGE) (\<lambda>content_info.
     rbind (der_take content_info TAG_OID ZLIB_STAGE) (\<lambda>(content_type, rest).
     rbind (check (content_type = OID_CT_COMPRESSED_DATA)
        (der_fail ZLIB_STAGE ''AS2 compressed entity is not a CMS CompressedData structure (RFC 3274)'')) (\<lambda>_.
     rbind (der_take rest TAG_CONTEXT_0 ZLIB_STAGE) (\<lambda>(compressed_data, _).
     rbind (der_expect compressed_data TAG_SEQUENCE ZLIB_STAGE) (\<lambda>compressed_data.
     rbind (der_take compressed_data 0x02 ZLIB_STAGE) (\<lambda>(_, rest).
     rbind (der_take rest TAG_SEQUENCE ZLIB_STAGE) (\<lambda>(alg, rest).
     rbind (der_take alg TAG_OID ZLIB_STAGE) (\<lambda>(alg_oid, _).
     rbind (check (alg_oid = OID_ALG_ZLIB_COMPRESS)
        (der_fail ZLIB_STAGE ''unsupported CMS compression algorithm; RFC 5402 requires id-alg-zlibCompress'')) (\<lambda>_.
     rbind (der_take rest TAG_SEQUENCE ZLIB_STAGE) (\<lambda>(encap, _).
     rbind (der_take encap TAG_OID ZLIB_STAGE) (\<lambda>(_, rest).
     rbind (der_take rest TAG_CONTEXT_0 ZLIB_STAGE) (\<lambda>(econtent, _).
     rbind (der_take econtent TAG_OCTET_STRING ZLIB_STAGE) (\<lambda>(deflated, _).
       read_bounded (cd_inflate cd deflated) ZLIB_STAGE
         ''failed to decompress AS2 CMS CompressedData payload'')))))))))))))"

definition is_as2_compressed_content_type :: "string \<Rightarrow> bool" where
  "is_as2_compressed_content_type content_type =
     (let lower = to_ascii_lowercase content_type in
      (find_subslice lower ''application/pkcs7-mime'' \<noteq> None \<or> find_subslice lower ''application/x-pkcs7-mime'' \<noteq> None) \<and>
      find_subslice lower ''compressed-data'' \<noteq> None)"

section \<open>Round trip\<close>

lemma be_value_snoc: "be_value (bs @ [b]) = be_value bs * 256 + unat b"
  by (simp add: be_value_def)

lemma be_value_octets: "be_value (be_octets k n) = n mod 256 ^ k"
proof (induction k arbitrary: n)
  case (Suc k)
  have "unat (word_of_nat (n mod 256) :: 8 word) = n mod 256" by (simp add: unat_of_nat)
  moreover have "n mod 256 ^ Suc k = (n div 256) mod 256 ^ k * 256 + n mod 256"
    by (simp add: mod_mult2_eq mult.commute)
  ultimately show ?case using Suc by (simp add: be_value_snoc)
qed (simp add: be_value_def)

lemma be_value_zeros: "be_value (dropWhile (\<lambda>b. b = 0) bs) = be_value bs"
proof -
  have "foldl (\<lambda>len b. len * 256 + unat b) 0 (dropWhile (\<lambda>b :: 8 word. b = 0) bs) =
      foldl (\<lambda>len b. len * 256 + unat b) 0 bs"
    by (induction bs) auto
  then show ?thesis by (simp add: be_value_def)
qed

lemma length_be_octets [simp]: "length (be_octets k n) = k"
  by (induction k arbitrary: n) simp_all

lemma significant_octets:
  assumes "0 < len" "len < 2 ^ 64"
  shows "be_value (significant_octets len) = len" "0 < length (significant_octets len)" "length (significant_octets len) \<le> 8"
proof -
  let ?s = "dropWhile (\<lambda>b. b = 0) (be_octets 8 len)"
  have "be_value ?s = len" using assms by (simp add: be_value_zeros be_value_octets)
  moreover have "?s \<noteq> []"
  proof
    assume "?s = []"
    then have "be_value ?s = 0" by (simp only: be_value_def foldl.simps)
    then show False using \<open>be_value ?s = len\<close> assms(1) by simp
  qed
  moreover have "length ?s \<le> 8" using length_dropWhile_le [of "\<lambda>b. b = 0" "be_octets 8 len"] by simp
  ultimately show "be_value (significant_octets len) = len" "0 < length (significant_octets len)" "length (significant_octets len) \<le> 8"
    by (auto simp: significant_octets_def Let_def)
qed

lemma long_form_octet:
  assumes "0 < k" "k \<le> (8 :: nat)"
  shows "\<not> (0x80 OR word_of_nat k :: 8 word) < 0x80" "unat ((0x80 OR word_of_nat k) AND 0x7f :: 8 word) = k"
proof -
  have "k \<in> {1, 2, 3, 4, 5, 6, 7, 8}" using assms by auto
  then show "\<not> (0x80 OR word_of_nat k :: 8 word) < 0x80" "unat ((0x80 OR word_of_nat k) AND 0x7f :: 8 word) = k" by auto
qed

lemma der_take_tlv:
  assumes "length contents < 2 ^ 64"
  shows "der_take (der_tlv tag contents @ rest) tag stage = Inr (contents, rest)"
proof (cases "length contents < 0x80")
  case True
  then have "unat (word_of_nat (length contents) :: 8 word) = length contents" by (simp add: unat_of_nat)
  moreover from this True have "(word_of_nat (length contents) :: 8 word) < 0x80" by (simp add: word_less_nat_alt)
  ultimately show ?thesis using True by (simp add: der_take_def der_tlv_def Let_def check_def)
next
  case False
  then have "0 < length contents" by linarith
  then have s: "be_value (significant_octets (length contents)) = length contents"
    "0 < length (significant_octets (length contents))" "length (significant_octets (length contents)) \<le> 8"
    using significant_octets [of "length contents"] assms by simp_all
  show ?thesis using False s(1) long_form_octet [OF s(2,3)] s(2,3)
    by (simp add: der_take_def der_tlv_def Let_def check_def)
qed

lemmas der_expect_tlv = der_take_tlv [where rest = "[]", simplified]

lemma read_bounded_Inr:
  "read_bounded r stage msg = Inr out \<longleftrightarrow> length (fst r) \<le> MAX_DECOMPRESSED_BYTES \<and> snd r = None \<and> out = fst r"
  by (auto simp: read_bounded_def not_less split: option.splits)

lemma length_der_tlv: "length (der_tlv tag contents) \<le> length contents + 10"
proof -
  have "length (significant_octets n) \<le> 8" for n
    using length_dropWhile_le [of "\<lambda>b. b = 0" "be_octets 8 n"] by (simp add: significant_octets_def Let_def)
  then show ?thesis by (simp add: der_tlv_def Let_def)
qed

text \<open>
  An AS2 payload wrapped in CMS CompressedData is unwrapped to the octets it was made from, for a codec that
  inflates what it deflated and a payload within the decompression limit, whatever the level.
\<close>
theorem cms_zlib_round_trip:
  assumes "cd_deflate cd (codec_level level) payload = Inr deflated" "cd_inflate cd deflated = (payload, None)"
    "length payload \<le> MAX_DECOMPRESSED_BYTES" "length deflated < 2 ^ 63"
  shows "\<exists>der. compress_cms_zlib cd payload level = Inr der \<and> decompress_cms_zlib cd der = Inr payload"
proof -
  define octets where "octets = der_tlv TAG_OCTET_STRING deflated"
  define econtent where "econtent = der_tlv TAG_CONTEXT_0 octets"
  define fields where "fields = der_tlv TAG_OID OID_DATA @ econtent"
  define encap where "encap = der_tlv TAG_SEQUENCE fields"
  define alg where "alg = der_tlv TAG_SEQUENCE (der_tlv TAG_OID OID_ALG_ZLIB_COMPRESS)"
  define version where "version = der_tlv 0x02 [0x00]"
  define body where "body = version @ alg @ encap"
  define inner where "inner = der_tlv TAG_CONTEXT_0 (der_tlv TAG_SEQUENCE body)"
  define info where "info = der_tlv TAG_OID OID_CT_COMPRESSED_DATA @ inner"
  note parts = octets_def econtent_def fields_def encap_def alg_def version_def body_def inner_def info_def
  have oid: "length OID_DATA = 9" "length OID_ALG_ZLIB_COMPRESS = 11" "length OID_CT_COMPRESSED_DATA = 11"
    by (simp_all add: OID_DATA_def OID_ALG_ZLIB_COMPRESS_def OID_CT_COMPRESSED_DATA_def)
  have len: "length octets \<le> 2 ^ 63 + 10" "length econtent \<le> 2 ^ 63 + 20" "length fields \<le> 2 ^ 63 + 60" "length encap \<le> 2 ^ 63 + 70"
    "length alg \<le> 50" "length version \<le> 11" "length body \<le> 2 ^ 63 + 200" "length inner \<le> 2 ^ 63 + 300" "length info \<le> 2 ^ 63 + 400"
    using assms(4) length_der_tlv [of TAG_OCTET_STRING deflated] length_der_tlv [of TAG_CONTEXT_0 octets]
      length_der_tlv [of TAG_OID OID_DATA] length_der_tlv [of TAG_SEQUENCE fields]
      length_der_tlv [of TAG_SEQUENCE "der_tlv TAG_OID OID_ALG_ZLIB_COMPRESS"] length_der_tlv [of TAG_OID OID_ALG_ZLIB_COMPRESS]
      length_der_tlv [of "0x02" "[0x00]"] length_der_tlv [of TAG_SEQUENCE body]
      length_der_tlv [of TAG_CONTEXT_0 "der_tlv TAG_SEQUENCE body"] length_der_tlv [of TAG_OID OID_CT_COMPRESSED_DATA] oid
    unfolding parts by simp_all
  have outer: "length (der_tlv TAG_SEQUENCE body) \<le> 2 ^ 63 + 210" "length (der_tlv TAG_OID OID_ALG_ZLIB_COMPRESS) \<le> 21"
    using length_der_tlv [of TAG_SEQUENCE body] length_der_tlv [of TAG_OID OID_ALG_ZLIB_COMPRESS] len(7) oid by simp_all
  have version: "version = [0x02, 0x01, 0x00]" by (simp add: version_def der_tlv_def)
  have "compress_cms_zlib cd payload level = Inr (der_tlv TAG_SEQUENCE info)"
    using assms(1) version by (simp add: compress_cms_zlib_def encoded_def Let_def parts)
  moreover have takes:
    "der_take (der_tlv TAG_SEQUENCE info) TAG_SEQUENCE ZLIB_STAGE = Inr (info, [])"
    "der_take info TAG_OID ZLIB_STAGE = Inr (OID_CT_COMPRESSED_DATA, inner)"
    "der_take inner TAG_CONTEXT_0 ZLIB_STAGE = Inr (der_tlv TAG_SEQUENCE body, [])"
    "der_take (der_tlv TAG_SEQUENCE body) TAG_SEQUENCE ZLIB_STAGE = Inr (body, [])"
    "der_take body 0x02 ZLIB_STAGE = Inr ([0x00], alg @ encap)"
    "der_take (alg @ encap) TAG_SEQUENCE ZLIB_STAGE = Inr (der_tlv TAG_OID OID_ALG_ZLIB_COMPRESS, encap)"
    "der_take (der_tlv TAG_OID OID_ALG_ZLIB_COMPRESS) TAG_OID ZLIB_STAGE = Inr (OID_ALG_ZLIB_COMPRESS, [])"
    "der_take encap TAG_SEQUENCE ZLIB_STAGE = Inr (fields, [])"
    "der_take fields TAG_OID ZLIB_STAGE = Inr (OID_DATA, econtent)"
    "der_take econtent TAG_CONTEXT_0 ZLIB_STAGE = Inr (octets, [])"
    "der_take octets TAG_OCTET_STRING ZLIB_STAGE = Inr (deflated, [])"
    unfolding info_def inner_def body_def version_def alg_def encap_def fields_def econtent_def octets_def
    by (rule der_take_tlv der_expect_tlv; use len outer oid assms(4) in \<open>simp add: parts\<close>)+
  moreover have "decompress_cms_zlib cd (der_tlv TAG_SEQUENCE info) = Inr payload"
    unfolding decompress_cms_zlib_def der_expect_def using takes assms(2,3) by (simp add: check_def read_bounded_Inr)
  ultimately show ?thesis by blast
qed

definition demo_codec :: Codec where
  "demo_codec = \<lparr>cd_gzip = (\<lambda>_ bs. Inr bs), cd_gunzip = (\<lambda>bs. (bs, None)), cd_deflate = (\<lambda>_ bs. Inr (0 # bs)),
     cd_inflate = (\<lambda>bs. (tl bs, None))\<rparr>"

theorem cms_zlib_round_trip_witness:
  "\<exists>der. compress_cms_zlib demo_codec [1, 2] 6 = Inr der \<and> decompress_cms_zlib demo_codec der = Inr [1, 2]"
  using cms_zlib_round_trip [of demo_codec 6 "[1, 2]" "[0, 1, 2]"] by (simp add: demo_codec_def MAX_DECOMPRESSED_BYTES_def)

end
