(* ===== verification/As4_Receive.thy ===== *)
theory As4_Receive
  imports Wssec_Verify Xmlenc Mime Compression Dedup As4_Types
begin

text \<open>
  Verification of an inbound AS4 message (src/as4/receive/payload.rs, verifier.rs, metadata.rs, processing.rs and
  src/as4/services.rs): the signed header, the payload set it declares, the coverage of the signature, then decryption,
  the digests of the decrypted parts and decompression. The part before any key is used is a function of the
  request; the private key step carries a state, for decrypters that answer later. What a message that
  is delivered satisfies is shown in Receive_Safety.
\<close>

section \<open>Sessions and libraries\<close>

text \<open>What the pipeline reads of its \<open>SessionContext\<close>, with the time its clock shows.\<close>

record ReceiveSession =
  rs_session :: Session
  rs_profile_built :: bool
  rs_signer_pins :: "CertFingerprint list"
  rs_fingerprint :: string
  rs_anchor_pems :: "string list"
  rs_now :: system_time

record 'st ReceiveLib =
  rl_verify :: "'st VerifyLib"
  rl_xmlenc :: XmlencLib
  rl_codec :: Codec
  rl_utf8_error :: "string \<Rightarrow> string"
  rl_stack :: "string \<Rightarrow> (string, X509 list) result"
  rl_build_store :: "X509 list \<Rightarrow> (string, unit) result"

definition PUSH_STAGE :: string where
  "PUSH_STAGE = ''as4_receive_push''"

definition recv_err :: "ReceiveSession \<Rightarrow> string \<Rightarrow> ErrorCode \<Rightarrow> string \<Rightarrow> AsxError" where
  "recv_err rs mid c msg = asx_error c msg (for_session_with_message PUSH_STAGE (rs_session rs) mid)"

text \<open>Octets as the text type of the readers.\<close>

definition text_of :: "bytes \<Rightarrow> string" where
  "text_of bs = map (\<lambda>b. char_of (unat b)) bs"

section \<open>Session helpers\<close>

definition session_signer_pins :: "ReceiveSession \<Rightarrow> CertFingerprint list res" where
  "session_signer_pins rs =
     (if rs_profile_built rs then Inr (rs_signer_pins rs)
      else
        let fp = trim (rs_fingerprint rs) in
        if fp = [] then Inr []
        else map_err (\<lambda>e. asx_error InvalidInput
            (''session cert_handle.fingerprint_sha256 is a malformed signer pin: '' @ err_message e)
            (for_session ''as4_signer_pins'' (rs_session rs)))
          (rbind (fingerprint_parse fp) (\<lambda>f. Inr [f])))"

text \<open>
  The anchors are parsed and the store is built; the validation reads the same anchors, so the policy names them.
\<close>

definition wssec_chain_policy_from_session :: "'st ReceiveLib \<Rightarrow> ReceiveSession \<Rightarrow> ChainPolicy res" where
  "wssec_chain_policy_from_session lib rs =
     rbind (rmap (\<lambda>pem. map_err (\<lambda>e. asx_error InvalidInput (''invalid trust-anchor PEM in CertHandle: '' @ e)
          (context_new ''session_parse_trust_anchors'')) (rl_stack lib pem)) (rs_anchor_pems rs)) (\<lambda>anchors.
     rbind (map_err (\<lambda>e. asx_error InvalidInput e (context_new ''session_build_x509_store'')) (rl_build_store lib (concat anchors))) (\<lambda>_.
       Inr \<lparr>trust_anchor_pems = rs_anchor_pems rs, require_chain_validation = True\<rparr>))"

text \<open>The send path's own refusal of an unsigned policy; \<open>sign\<close> is the field of that name.\<close>

definition enforce_strict_as4_send_runtime_policy_consistency :: "Session \<Rightarrow> string \<Rightarrow> bool \<Rightarrow> unit res" where
  "enforce_strict_as4_send_runtime_policy_consistency session stage sign =
     check sign (asx_error PolicyViolation ''strict AS4 send policy forbids sign=false'' (for_session stage session))"

section \<open>The declared parts\<close>

definition is_eb :: "string \<Rightarrow> node \<Rightarrow> bool" where
  "is_eb local n = is_node NS_EBMS3 local n"

definition messaging :: "ReceiveSession \<Rightarrow> document \<Rightarrow> string \<Rightarrow> node res" where
  "messaging rs doc mid =
     (case filter (is_eb ''Messaging'') (doc_nodes doc) of
        [one] \<Rightarrow> Inr one
      | _ \<Rightarrow> Inl (recv_err rs mid InteropViolation ''AS4 envelope must contain exactly one eb:Messaging header block''))"

definition parent_is :: "document \<Rightarrow> string \<Rightarrow> node \<Rightarrow> bool" where
  "parent_is doc local n = (case parent_node doc n of Some p \<Rightarrow> is_eb local p | None \<Rightarrow> False)"

definition declared_part :: "ReceiveSession \<Rightarrow> string \<Rightarrow> string list \<Rightarrow> node \<Rightarrow> string list res" where
  "declared_part rs mid declared part_info =
     (let href = or_else (attribute ''href'' (snd part_info)) []; cid = normalize_cid href in
      rbind (check (is_cid (trim href)) (recv_err rs mid InteropViolation
        (''eb:PartInfo href '' @ debug_str href @
         '' does not name a MIME attachment: inline SOAP body payloads are not supported (PEPPOL/CEF/BDEW require SwA attachment packaging)''))) (\<lambda>_.
      rbind (check (cid \<noteq> [] \<and> cid \<notin> set declared) (recv_err rs mid InteropViolation
        (''eb:PartInfo href '' @ debug_str href @ '' is empty or declared twice''))) (\<lambda>_.
        Inr (declared @ [cid]))))"

definition declared_parts :: "ReceiveSession \<Rightarrow> document \<Rightarrow> string \<Rightarrow> string list res" where
  "declared_parts rs doc mid =
     rbind (messaging rs doc mid) (\<lambda>m.
     rbind (rfold (declared_part rs mid) []
        (filter (parent_is doc ''PayloadInfo'') (filter (is_eb ''PartInfo'') (node_subtree m)))) (\<lambda>declared.
     rbind (check (length declared \<le> MAX_INBOUND_PAYLOADS)
        (recv_err rs mid PayloadTooLarge (''AS4 message declares more than '' @ show_nat MAX_INBOUND_PAYLOADS @ '' payload parts''))) (\<lambda>_.
       Inr declared)))"

definition xenc_element :: "node \<Rightarrow> bool" where
  "xenc_element n \<longleftrightarrow> is_element (snd n) \<and> node_ns (snd n) \<in> {Some NS_XENC, Some NS_XENC11}"

definition blank_node :: "xnode \<Rightarrow> bool" where
  "blank_node c \<longleftrightarrow> is_comment c \<or> is_text c \<and> trim (or_else (node_text c) []) = []"

definition body_is_empty :: "document \<Rightarrow> bool" where
  "body_is_empty doc =
     (case find (is_named NS_SOAP12 ''Body'') (children (root_element doc)) of
        Some body \<Rightarrow> list_all blank_node (children body)
      | None \<Rightarrow> False)"

definition section_sign :: string where
  "section_sign = [CHR 0xC2, CHR 0xA7]"

definition undeclared :: "ReceiveSession \<Rightarrow> string \<Rightarrow> InboundAttachment \<Rightarrow> AsxError" where
  "undeclared rs mid part =
     recv_err rs mid InteropViolation (''MIME part cid:'' @ ia_content_id part @ '' is not declared by eb:PartInfo'')"

definition check_payload_less :: "ReceiveSession \<Rightarrow> string \<Rightarrow> document \<Rightarrow> MultipartAs4Payload option \<Rightarrow> unit res" where
  "check_payload_less rs mid doc multipart =
     rbind (case find xenc_element (doc_nodes doc) of
         Some n \<Rightarrow> Inl (recv_err rs mid PolicyViolation
           (''a payload-less path-switch message carries xenc:'' @ node_name (snd n) @
            ''; it has nothing to encrypt (AS4 Profile 1.0 '' @ section_sign @ ''5.1.6, BDEW AS4-Profil 1.2 '' @ section_sign @ ''2.3.7)''))
       | None \<Rightarrow> Inr ()) (\<lambda>_.
     rbind (case Option.bind multipart (\<lambda>m. first_of (mp_payloads m)) of
         Some part \<Rightarrow> Inl (undeclared rs mid part)
       | None \<Rightarrow> Inr ()) (\<lambda>_.
       check (body_is_empty doc) (recv_err rs mid InteropViolation ''a message without eb:PartInfo must have an empty SOAP Body'')))"

text \<open>The loop over the MIME parts: each is declared and no earlier one has its identifier.\<close>

fun check_parts :: "ReceiveSession \<Rightarrow> string \<Rightarrow> string list \<Rightarrow> string list \<Rightarrow> InboundAttachment list \<Rightarrow> unit res" where
  "check_parts rs mid declared seen [] = Inr ()"
| "check_parts rs mid declared seen (part # parts) =
     rbind (check (ia_content_id part \<in> set declared) (undeclared rs mid part)) (\<lambda>_.
     rbind (check (ia_content_id part \<notin> set seen)
        (recv_err rs mid InteropViolation (''two MIME parts carry Content-ID cid:'' @ ia_content_id part))) (\<lambda>_.
       check_parts rs mid declared (ia_content_id part # seen) parts))"

definition match_parts ::
  "ReceiveSession \<Rightarrow> string \<Rightarrow> string list \<Rightarrow> MultipartAs4Payload option \<Rightarrow> InboundAttachment list res" where
  "match_parts rs mid declared multipart =
     (case multipart of
        None \<Rightarrow> Inl (recv_err rs mid PolicyViolation
          ''AS4 inbound payload must be multipart/related with a detached payload attachment'')
      | Some m \<Rightarrow>
          rbind (check (declared \<noteq> []) (recv_err rs mid InteropViolation
            (''AS4 message declares no payload part: inline SOAP body payloads are not supported. '' @
             ''PEPPOL/CEF require MIME multipart/related attachment packaging. If the sending partner uses inline body mode, '' @
             ''reconfigure their AS4 gateway to use SwA MIME attachment packaging.''))) (\<lambda>_.
          rbind (check_parts rs mid declared [] (mp_payloads m)) (\<lambda>_.
            rmap (\<lambda>cid. ok_or (recv_err rs mid InteropViolation
                (''eb:PartInfo declares cid:'' @ cid @ '' but no MIME part carries it''))
              (find (\<lambda>p. ia_content_id p = cid) (mp_payloads m))) declared)))"

section \<open>Part properties\<close>

record PartProperties =
  pp_compression :: "string \<Rightarrow> string option"
  pp_mime_types :: "string \<Rightarrow> string option"

text \<open>
  One eb:Property of a part. A slot holds the value read for it, which is itself absent for a property
  without one.
\<close>

definition part_property ::
  "ReceiveSession \<Rightarrow> document \<Rightarrow> string \<Rightarrow> string \<Rightarrow> string option option \<times> string option option \<Rightarrow> node \<Rightarrow>
   (string option option \<times> string option option) res" where
  "part_property rs doc mid cid slots property =
     rbind (check (parent_is doc ''PartProperties'' property)
        (recv_err rs mid InteropViolation ''eb:PartInfo carries an eb:Property outside eb:PartProperties (ebMS3 header schema)'')) (\<lambda>_.
     let name = attribute ''name'' (snd property); (compression, mime_type) = slots;
         twice = recv_err rs mid InteropViolation
           (''eb:PartInfo cid:'' @ cid @ '' declares the '' @ or_else name [] @ '' property more than once'') in
     if name = Some ''CompressionType'' then
       rbind (property_value_from_node (snd property) (rs_session rs) PUSH_STAGE) (\<lambda>val.
       rbind (check (compression = None) twice) (\<lambda>_. Inr (Some val, mime_type)))
     else if name = Some ''MimeType'' then
       rbind (property_value_from_node (snd property) (rs_session rs) PUSH_STAGE) (\<lambda>val.
       rbind (check (mime_type = None) twice) (\<lambda>_. Inr (compression, Some val)))
     else Inr slots)"

definition record_property :: "string \<Rightarrow> string option option \<Rightarrow> (string \<Rightarrow> string option) \<Rightarrow> (string \<Rightarrow> string option)" where
  "record_property cid slot m = (case slot of Some (Some v) \<Rightarrow> m(cid \<mapsto> v) | _ \<Rightarrow> m)"

definition part_info_properties ::
  "ReceiveSession \<Rightarrow> document \<Rightarrow> string \<Rightarrow> PartProperties \<Rightarrow> node \<Rightarrow> PartProperties res" where
  "part_info_properties rs doc mid props part_info =
     (case attribute ''href'' (snd part_info) of
        None \<Rightarrow> Inr props
      | Some href \<Rightarrow>
          let cid = normalize_cid href in
          rbind (rfold (part_property rs doc mid cid) (None, None) (filter (is_eb ''Property'') (node_subtree part_info))) (\<lambda>(compression, mime_type).
            Inr \<lparr>pp_compression = record_property cid compression (pp_compression props),
              pp_mime_types = record_property cid mime_type (pp_mime_types props)\<rparr>))"

definition part_properties :: "ReceiveSession \<Rightarrow> document \<Rightarrow> string \<Rightarrow> PartProperties res" where
  "part_properties rs doc mid =
     rbind (messaging rs doc mid) (\<lambda>m.
       rfold (part_info_properties rs doc mid) \<lparr>pp_compression = Map.empty, pp_mime_types = Map.empty\<rparr>
         (filter (is_eb ''PartInfo'') (node_subtree m)))"

definition restored_type :: "ReceiveSession \<Rightarrow> string \<Rightarrow> string \<Rightarrow> string option \<Rightarrow> bool \<Rightarrow> string option res" where
  "restored_type rs mid cid mime_type compressed =
     (case mime_type of
        Some declared \<Rightarrow>
          rbind (check (eq_ignore_ascii_case (trim (hd (split_on (CHR '';'') declared))) AS4_COMPRESSION_TYPE = compressed)
            (recv_err rs mid InteropViolation
              (''xenc:EncryptedData for cid:'' @ cid @ '' declares MimeType '' @ debug_str declared @ '' but eb:PartInfo '' @
               (if compressed then ''declares'' else ''declares no'') @ '' a CompressionType''))) (\<lambda>_. Inr (Some declared))
      | None \<Rightarrow> Inr (if compressed then Some AS4_COMPRESSION_TYPE else None))"

definition DECOMPRESS_STAGE :: string where
  "DECOMPRESS_STAGE = ''as4_receive_decompress''"

definition decompress_payload_if_declared ::
  "Codec \<Rightarrow> ReceiveSession \<Rightarrow> string \<Rightarrow> (string \<Rightarrow> string option) \<Rightarrow> bytes \<Rightarrow> bytes res" where
  "decompress_payload_if_declared cd rs cid types payload =
     (case types (normalize_cid cid) of
        None \<Rightarrow> Inr payload
      | Some t \<Rightarrow>
          rbind (check (eq_ignore_ascii_case t AS4_COMPRESSION_TYPE) (asx_error InteropViolation
            (''AS4 payload declares unsupported CompressionType '' @ dquote t @ ''; the AS4 profile defines only '' @ dquote AS4_COMPRESSION_TYPE)
            (for_session DECOMPRESS_STAGE (rs_session rs)))) (\<lambda>_.
          map_err (\<lambda>e. asx_error (err_code e) (''failed to decompress AS4 payload attachment: '' @ err_message e)
              (for_session DECOMPRESS_STAGE (rs_session rs)))
            (decompress_gzip cd payload)))"

section \<open>Coverage of the signature\<close>

text \<open>The verifier's own copy of \<open>normalize_cid\<close>.\<close>

definition coverage_cid :: "string \<Rightarrow> string" where
  "coverage_cid v =
     (let v = trim v;
          v = or_else (strip_prefix ''<'' v) v;
          v = or_else (strip_suffix ''>'' v) v
      in if length v \<ge> 4 \<and> eq_ignore_ascii_case (take 4 v) ''cid:'' then drop 4 v else v)"

definition attachment_covered :: "ReceiveSession \<Rightarrow> string \<Rightarrow> VerifiedSignatureCoverage \<Rightarrow> string \<Rightarrow> unit res" where
  "attachment_covered rs mid cov cid =
     (let cid = coverage_cid cid in
      check (\<exists>signed \<in> set (signed_cid_references cov). coverage_cid signed = cid)
        (recv_err rs mid SecurityVerificationFailed
          (''AS4 payload attachment cid:'' @ cid @ '' is not covered by the WS-Security signature; the signature must include a ds:Reference URI='' @
           dquote (''cid:'' @ cid) @ '' so the payload is integrity-protected alongside the eb:Messaging header'')))"

definition enforce_attachment_signature_coverage ::
  "ReceiveSession \<Rightarrow> string \<Rightarrow> string list \<Rightarrow> VerifiedSignatureCoverage \<Rightarrow> unit res" where
  "enforce_attachment_signature_coverage rs mid cids cov = for_each (attachment_covered rs mid cov) cids"

definition messaging_id :: "xnode \<Rightarrow> string option" where
  "messaging_id n = (case attribute_ns NS_WSU ''Id'' n of Some i \<Rightarrow> Some i | None \<Rightarrow> attribute ''Id'' n)"

definition enforce_messaging_signature_coverage ::
  "ReceiveSession \<Rightarrow> document \<Rightarrow> string \<Rightarrow> VerifiedSignatureCoverage \<Rightarrow> unit res" where
  "enforce_messaging_signature_coverage rs doc mid cov =
     (let nodes = filter (is_eb ''Messaging'') (doc_nodes doc) in
      rbind (check (length nodes = 1) (recv_err rs mid SecurityVerificationFailed
        (''AS4 envelope must contain exactly one eb:Messaging header block (found '' @ show_nat (length nodes) @ '')''))) (\<lambda>_.
      check (case messaging_id (snd (hd nodes)) of Some i \<Rightarrow> i \<in> set (signed_same_document_ids cov) | None \<Rightarrow> False)
        (recv_err rs mid SecurityVerificationFailed
          ''AS4 eb:Messaging header block is not covered by the verified WS-Security signature (possible XML signature wrapping)'')))"

definition NOT_SIGNED :: string where
  "NOT_SIGNED = ''AS4 push message signature is required but not present''"

text \<open>
  \<open>As4WsSecVerifier::verify_security\<close>; the result is what it leaves in the evidence cell.
\<close>

definition verify_security ::
  "'st ReceiveLib \<Rightarrow> ReceiveSession \<Rightarrow> As4PushPolicy \<Rightarrow> DocSource \<Rightarrow> string \<Rightarrow> string list \<Rightarrow> string \<Rightarrow>
   CertFingerprint list \<Rightarrow> (bytes \<Rightarrow> unit res) option \<Rightarrow> VerifiedSignatureCoverage option res" where
  "verify_security lib rs policy src mid externals from_party pins signer_check =
     rbind (wssec_chain_policy_from_session lib rs) (\<lambda>chain_policy.
     rbind (verify_enveloped_signature_optional_with_doc (rl_verify lib) src UserMessageDoc
        \<lparr>vo_fingerprints = pins, vo_signer_check = signer_check, vo_chain_policy = chain_policy, vo_external_references = [],
         vo_now = rs_now rs, vo_defer_attachments = True\<rparr>) (\<lambda>coverage.
     rbind (check (\<not> (require_signed_push policy \<and> coverage = None)) (recv_err rs mid SecurityVerificationFailed NOT_SIGNED)) (\<lambda>_.
     rbind (check (\<not> (coverage \<noteq> None \<and> pins = [] \<and> signer_check = None))
        (asx_error PolicyViolation
          (''no signing certificate is pinned for the claimed sender '' @ squote from_party @
           '', so a valid signature could not be attributed to it; pin the partner'' @ [CHR 0x27] @
           ''s signing certificate (Partner::signing_cert)'') (for_session PUSH_STAGE (rs_session rs)))) (\<lambda>_.
     rbind (case coverage of
         None \<Rightarrow> Inr ()
       | Some cov \<Rightarrow>
           rbind (enforce_messaging_signature_coverage rs (src_doc src) mid cov) (\<lambda>_.
             enforce_attachment_signature_coverage rs mid externals cov)) (\<lambda>_.
       Inr coverage)))))"

section \<open>The signed header\<close>

record SenderAuthorization =
  sa_pins :: "CertFingerprint list"
  sa_check :: "(bytes \<Rightarrow> unit res) option"

type_synonym authorizer = "ParsedAs4UserMessage \<Rightarrow> SenderAuthorization res"

record VerifiedHeader =
  vh_soap_xml :: string
  vh_parsed :: ParsedAs4UserMessage
  vh_declared :: "string list"
  vh_part_properties :: PartProperties
  vh_signature :: "VerifiedSignatureCoverage option"

text \<open>The envelope of a request: its MIME parts, if it has any, and the text and tree of the SOAP part.\<close>

definition parse_envelope ::
  "'st ReceiveLib \<Rightarrow> ReceiveSession \<Rightarrow> string \<Rightarrow> string \<Rightarrow> (MultipartAs4Payload option \<times> string \<times> DocSource) res" where
  "parse_envelope lib rs body content_type =
     rbind (extract_multipart body content_type (rs_session rs) PUSH_STAGE) (\<lambda>multipart.
     let soap = (case multipart of Some m \<Rightarrow> mp_soap_xml m | None \<Rightarrow> body) in
     rbind (bytes_to_utf8_str soap PUSH_STAGE (rs_session rs)) (\<lambda>xml.
     rbind (parse_as4_user_message_document (vl_parse_tree (rl_verify lib)) xml (rs_session rs)) (\<lambda>src.
       Inr (multipart, xml, src))))"

definition parse_and_verify_receive_push_metadata ::
  "'st ReceiveLib \<Rightarrow> ReceiveSession \<Rightarrow> string \<Rightarrow> string \<Rightarrow> As4PushPolicy \<Rightarrow> authorizer option \<Rightarrow> VerifiedHeader res" where
  "parse_and_verify_receive_push_metadata lib rs body content_type policy authorize =
     rbind (parse_envelope lib rs body content_type) (\<lambda>(_, xml, src).
     rbind (parse_as4_user_message_from_doc (rs_profile_built rs) (rs_session rs) (src_doc src)) (\<lambda>parsed.
     let mid = um_message_id parsed in
     rbind (case authorize of Some a \<Rightarrow> rbind (a parsed) (\<lambda>auth. Inr (Some auth)) | None \<Rightarrow> Inr None) (\<lambda>authorization.
     rbind (case authorization of Some auth \<Rightarrow> Inr (sa_pins auth) | None \<Rightarrow> session_signer_pins rs) (\<lambda>pins.
     rbind (verify_security lib rs policy src mid [] (sender_party_id parsed) pins (Option.bind authorization sa_check)) (\<lambda>signature.
     rbind (declared_parts rs (src_doc src) mid) (\<lambda>declared.
     rbind (case signature of Some cov \<Rightarrow> enforce_attachment_signature_coverage rs mid declared cov | None \<Rightarrow> Inr ()) (\<lambda>_.
     rbind (part_properties rs (src_doc src) mid) (\<lambda>props.
       Inr \<lparr>vh_soap_xml = xml, vh_parsed = parsed, vh_declared = declared, vh_part_properties = props, vh_signature = signature\<rparr>))))))))"

section \<open>Authentication\<close>

definition enforce_non_fragment_timestamp_freshness :: "ReceiveSession \<Rightarrow> As4PushPolicy \<Rightarrow> ParsedAs4UserMessage \<Rightarrow> unit res" where
  "enforce_non_fragment_timestamp_freshness rs policy parsed =
     (case timestamp_window policy of
        Some window \<Rightarrow> check_timestamp_freshness parsed window (rs_now rs)
      | None \<Rightarrow> Inr ())"

record VerifiedInbound =
  vi_parsed :: ParsedAs4UserMessage
  vi_payloads :: "(string \<times> bytes \<times> string) list"
  vi_signer_der :: bytes
  vi_references :: "(string \<times> string \<times> string) list"
  vi_nri :: "As4NriReference list"

definition TO_PARTY_STAGE :: string where
  "TO_PARTY_STAGE = ''as4_inbound_to_party''"

record AuthenticatedInbound =
  ai_parsed :: ParsedAs4UserMessage
  ai_declared :: "string list"
  ai_part_properties :: PartProperties
  ai_deferred :: "PendingCidReference list"
  ai_signer_der :: bytes
  ai_references :: "(string \<times> string \<times> string) list"
  ai_nri :: "As4NriReference list"
  ai_signer_path :: "X509 list"

definition nri_from_reference :: "SigReference \<Rightarrow> As4NriReference" where
  "nri_from_reference r =
     \<lparr>nri_uri = r_uri r, nri_digest_method_uri = alg_uri (ADigest (r_digest_method r)), nri_digest_value_b64 = r_digest_value r\<rparr>"

definition to_this_party :: "ParsedAs4UserMessage \<Rightarrow> string \<Rightarrow> string option \<Rightarrow> bool" where
  "to_this_party parsed local_id local_type \<longleftrightarrow>
     to_party_id parsed = local_id \<and>
     \<not> (case (um_to_party_type parsed, local_type) of (Some theirs, Some ours) \<Rightarrow> theirs \<noteq> ours | _ \<Rightarrow> False)"

definition authenticate_inbound ::
  "'st ReceiveLib \<Rightarrow> ReceiveSession \<Rightarrow> As4PushPolicy \<Rightarrow> string \<Rightarrow> string \<Rightarrow> authorizer \<Rightarrow> string \<Rightarrow> string option \<Rightarrow>
   AuthenticatedInbound res" where
  "authenticate_inbound lib rs policy body content_type authorize local_id local_type =
     rbind (parse_and_verify_receive_push_metadata lib rs body content_type policy (Some authorize)) (\<lambda>h.
     let parsed = vh_parsed h; refused = recv_err rs (um_message_id parsed) in
     rbind (ok_or (refused SecurityVerificationFailed NOT_SIGNED) (vh_signature h)) (\<lambda>signature.
     rbind (check (to_this_party parsed local_id local_type)
        (asx_error InteropViolation
          (''eb:To/eb:PartyId '' @ debug_str (to_party_id parsed) @ '' is not this party ('' @ debug_str local_id @ '')'')
          (for_session_with_message TO_PARTY_STAGE (rs_session rs) (um_message_id parsed)))) (\<lambda>_.
     rbind (ok_or (refused SecurityVerificationFailed ''the attachment references were not deferred'') (cov_deferred signature)) (\<lambda>deferred.
     rbind (parse_signature_references (rl_verify lib) (vh_soap_xml h)) (\<lambda>refs.
     rbind (ok_or (refused SecurityVerificationFailed ''the verified signature names no signer certificate'')
        (signer_certificate_der signature)) (\<lambda>der.
       Inr \<lparr>ai_parsed = parsed, ai_declared = vh_declared h, ai_part_properties = vh_part_properties h, ai_deferred = deferred,
         ai_signer_der = der, ai_references = cov_references signature, ai_nri = map nri_from_reference refs,
         ai_signer_path = signer_path signature\<rparr>))))))"

section \<open>Opening the parts\<close>

text \<open>
  What stands before a key is used: the message is answered without its parts, or its envelope is resolved,
  with the ciphertexts and the restored types in the order of the envelope.
\<close>

datatype Opening = Answered VerifiedInbound
  | Sealed ResolvedEnvelope "bytes list" "string option list"

definition inbound_without_payloads :: "AuthenticatedInbound \<Rightarrow> VerifiedInbound" where
  "inbound_without_payloads a =
     \<lparr>vi_parsed = ai_parsed a, vi_payloads = [], vi_signer_der = ai_signer_der a, vi_references = ai_references a, vi_nri = ai_nri a\<rparr>"

definition is_test_service :: "ParsedAs4UserMessage \<Rightarrow> bool" where
  "is_test_service parsed \<longleftrightarrow> um_service parsed = Some TEST_SERVICE \<and> um_action parsed = TEST_ACTION"

definition not_encrypted :: "ReceiveSession \<Rightarrow> string \<Rightarrow> string \<Rightarrow> AsxError" where
  "not_encrypted rs mid cid =
     recv_err rs mid PolicyViolation
       (''inbound AS4 payload cid:'' @ cid @ '' is not encrypted; the profile requires every payload part to be encrypted'')"

definition signature_security :: "document \<Rightarrow> node option" where
  "signature_security doc = Option.bind (find (ds_node ''Signature'') (doc_nodes doc)) (parent_node doc)"

definition resolve_parts ::
  "'st ReceiveLib \<Rightarrow> ReceiveSession \<Rightarrow> As4PushPolicy \<Rightarrow> AuthenticatedInbound \<Rightarrow> Suite \<Rightarrow> MultipartAs4Payload option \<Rightarrow> document \<Rightarrow> Opening res" where
  "resolve_parts lib rs policy a suite multipart doc =
     (let mid = um_message_id (ai_parsed a); declared = ai_declared a in
      rbind (match_parts rs mid declared multipart) (\<lambda>parts.
      rbind (ok_or (recv_err rs mid SecurityVerificationFailed ''the verified signature has no wsse:Security header'')
        (signature_security doc)) (\<lambda>security.
      rbind (map_err (err_with_message_id mid)
        (resolve_envelope (vl_b64 (rl_verify lib)) doc security declared (Some suite) MAX_INBOUND_PAYLOADS)) (\<lambda>found.
      rbind (ok_or (not_encrypted rs mid (or_else (first_of declared) []))
        (if require_encrypted_inbound policy then found else None)) (\<lambda>envelope.
      rbind (case find (\<lambda>cid. cid \<notin> ds_cid ` set (re_data envelope)) declared of
          Some plain \<Rightarrow> Inl (not_encrypted rs mid plain)
        | None \<Rightarrow> Inr ()) (\<lambda>_.
      rbind (rmap (\<lambda>d. restored_type rs mid (ds_cid d) (ds_mime_type d)
          (pp_compression (ai_part_properties a) (ds_cid d) \<noteq> None)) (re_data envelope)) (\<lambda>restored.
        Inr (Sealed envelope
          (map (\<lambda>d. bytes_of (or_else (map_option ia_bytes (find (\<lambda>p. ia_content_id p = ds_cid d) parts)) [])) (re_data envelope))
          restored))))))))"

definition open_prepare ::
  "'st ReceiveLib \<Rightarrow> ReceiveSession \<Rightarrow> As4PushPolicy \<Rightarrow> string \<Rightarrow> string \<Rightarrow> AuthenticatedInbound \<Rightarrow> Suite \<Rightarrow> Opening res" where
  "open_prepare lib rs policy body content_type a suite =
     (let parsed = ai_parsed a; mid = um_message_id parsed in
      rbind (enforce_non_fragment_timestamp_freshness rs policy parsed) (\<lambda>_.
      rbind (parse_envelope lib rs body content_type) (\<lambda>(multipart, _, src).
      if is_test_service parsed then Inr (Answered (inbound_without_payloads a))
      else if ai_declared a = [] \<and> accept_path_switch policy \<and>
          classify_path_switch (or_else (um_service parsed) []) (um_action parsed) \<noteq> None then
        rbind (check_payload_less rs mid (src_doc src) multipart) (\<lambda>_. Inr (Answered (inbound_without_payloads a)))
      else resolve_parts lib rs policy a suite multipart (src_doc src))))"

text \<open>\<open>Vec::swap_remove\<close>.\<close>

definition swap_remove :: "nat \<Rightarrow> 'a list \<Rightarrow> 'a \<times> 'a list" where
  "swap_remove i xs = (xs ! i, butlast (xs[i := last xs]))"

fun position :: "('a \<Rightarrow> bool) \<Rightarrow> 'a list \<Rightarrow> nat option" where
  "position P [] = None"
| "position P (x # xs) = (if P x then Some 0 else map_option Suc (position P xs))"

fun restore_payloads ::
  "Codec \<Rightarrow> ReceiveSession \<Rightarrow> PartProperties \<Rightarrow> string list \<Rightarrow> (string \<times> bytes) list \<Rightarrow> (string \<times> bytes \<times> string) list res" where
  "restore_payloads cd rs props [] by_cid = Inr []"
| "restore_payloads cd rs props (cid # declared) by_cid =
     (case position (\<lambda>(c, _). c = cid) by_cid of
        None \<Rightarrow> Inl panicked
      | Some i \<Rightarrow>
          let ((cid, bs), by_cid) = swap_remove i by_cid in
          rbind (decompress_payload_if_declared cd rs cid (pp_compression props) bs) (\<lambda>bs.
          rbind (restore_payloads cd rs props declared by_cid) (\<lambda>rest.
            Inr ((cid, bs, or_else (pp_mime_types props cid) ''application/octet-stream'') # rest))))"

definition open_finish ::
  "'st ReceiveLib \<Rightarrow> ReceiveSession \<Rightarrow> AuthenticatedInbound \<Rightarrow> ResolvedEnvelope \<Rightarrow> string option list \<Rightarrow> bytes list \<Rightarrow> VerifiedInbound res" where
  "open_finish lib rs a envelope restored plaintexts =
     (let mid = um_message_id (ai_parsed a); cids = map ds_cid (re_data envelope) in
      rbind (rmap (\<lambda>(bs, kind). swa_attachment_digest_input (vl_parse_tree (rl_verify lib)) (rl_utf8_error lib) kind (text_of bs))
        (zip plaintexts restored)) (\<lambda>inputs.
      rbind (map_err (err_with_message_id mid) (verify_cid_references (rl_verify lib) (ai_deferred a) (zip cids inputs))) (\<lambda>_.
      rbind (restore_payloads (rl_codec lib) rs (ai_part_properties a) (ai_declared a) (zip cids plaintexts)) (\<lambda>payloads.
        Inr ((inbound_without_payloads a)\<lparr>vi_payloads := payloads\<rparr>)))))"

definition open_inbound ::
  "'st ReceiveLib \<Rightarrow> randomness \<Rightarrow> ReceiveSession \<Rightarrow> As4PushPolicy \<Rightarrow> string \<Rightarrow> string \<Rightarrow> AuthenticatedInbound \<Rightarrow>
   (EncryptedKeySpec \<Rightarrow> (RecipientKey \<times> 's key_step) option) \<Rightarrow> Suite \<Rightarrow> 's \<Rightarrow> VerifiedInbound res \<times> 's" where
  "open_inbound lib rnd rs policy body content_type a select suite s =
     (case open_prepare lib rs policy body content_type a suite of
        Inl e \<Rightarrow> (Inl e, s)
      | Inr (Answered v) \<Rightarrow> (Inr v, s)
      | Inr (Sealed envelope bodies restored) \<Rightarrow>
          let (plaintexts, s') = decrypt_attachments (rl_xmlenc lib) rnd envelope bodies select s in
          (rbind (map_err (err_with_message_id (um_message_id (ai_parsed a))) plaintexts)
             (open_finish lib rs a envelope restored), s'))"

section \<open>Signals\<close>

definition enforce_signal_signature_coverage ::
  "Session \<Rightarrow> document \<Rightarrow> string \<Rightarrow> string \<Rightarrow> VerifiedSignatureCoverage \<Rightarrow> unit res" where
  "enforce_signal_signature_coverage session doc stage mid cov =
     (let nodes = filter (is_eb ''SignalMessage'') (doc_nodes doc);
          err = (\<lambda>msg. asx_error SecurityVerificationFailed msg (for_session_with_message stage session mid)) in
      rbind (check (length nodes = 1)
        (err (''AS4 signal must contain exactly one eb:SignalMessage (found '' @ show_nat (length nodes) @ '')''))) (\<lambda>_.
      check (\<exists>n \<in> set (ancestors doc (hd nodes)). case messaging_id (snd n) of
          Some i \<Rightarrow> i \<in> set (signed_same_document_ids cov) | None \<Rightarrow> False)
        (err (''AS4 eb:SignalMessage is not covered by the verified WS-Security signature (possible XML signature wrapping); '' @
          ''the acknowledgement asserts content the counterparty did not sign''))))"

end
