(* ===== verification/Receive_Safety.thy ===== *)
theory Receive_Safety
  imports As4_Receive
begin

text \<open>
  What the receive pipeline guarantees (proofs about the definitions of As4_Receive): the content identifiers of an accepted
  message are fixed points of every normalization the code has, so the part the signature
  covers is the part that is digested, decrypted and delivered.
\<close>

section \<open>Content identifiers\<close>

lemma trim_start_length: "length (trim_start s) \<le> length s \<and> (length (trim_start s) = length s \<longrightarrow> trim_start s = s)"
proof (induction s rule: trim_start.induct)
  case (1 s)
  show ?case
  proof (cases "s = [] \<or> str_ws s = 0")
    case True
    then show ?thesis by (simp add: trim_start.simps [of s])
  next
    case False
    then have "length (trim_start (drop (str_ws s) s)) \<le> length s - str_ws s" "trim_start s = trim_start (drop (str_ws s) s)"
      using 1 by (simp_all add: trim_start.simps [of s])
    moreover have "0 < length s" "0 < str_ws s" using False by auto
    ultimately have "length (trim_start s) < length s" by (metis diff_less le_less_trans)
    then show ?thesis by simp
  qed
qed

lemma trim_end_length: "length (trim_end s) \<le> length s \<and> (length (trim_end s) = length s \<longrightarrow> trim_end s = s)"
proof (induction s rule: trim_end.induct)
  case (1 s)
  show ?case
  proof (cases "s = [] \<or> str_ws_end s = 0")
    case True
    then show ?thesis by (simp add: trim_end.simps [of s])
  next
    case False
    then have "length (trim_end (take (length s - str_ws_end s) s)) \<le> length s - str_ws_end s"
      "trim_end s = trim_end (take (length s - str_ws_end s) s)"
      using 1 by (auto simp add: trim_end.simps [of s])
    moreover have "0 < length s" "0 < str_ws_end s" using False by auto
    ultimately have "length (trim_end s) < length s" by (metis diff_less le_less_trans)
    then show ?thesis by simp
  qed
qed

lemma trim_length: "length (trim s) \<le> length s" "length (trim s) = length s \<Longrightarrow> trim s = s"
proof -
  note a = trim_end_length [of "trim_start s"] and b = trim_start_length [of s]
  show "length (trim s) \<le> length s" using a b by (simp add: trim_def)
  assume "length (trim s) = length s"
  then show "trim s = s" using a b by (simp add: trim_def)
qed

text \<open>The steps of the normalization, each of which keeps its input or shortens it.\<close>

lemma normalize_cid_steps:
  fixes s
  defines "v1 \<equiv> trim s"
  defines "v2 \<equiv> or_else (strip_prefix ''<'' v1) v1"
  defines "v3 \<equiv> or_else (strip_suffix ''>'' v2) v2"
  shows "normalize_cid s = (if is_cid v3 then drop 4 v3 else v3)"
    and "length v1 \<le> length s" "length v2 \<le> length v1" "length v3 \<le> length v2" "length (normalize_cid s) \<le> length v3"
proof -
  show e: "normalize_cid s = (if is_cid v3 then drop 4 v3 else v3)"
    by (simp add: normalize_cid_def Let_def v1_def v2_def v3_def)
  show "length v1 \<le> length s" by (simp add: v1_def trim_length)
  show "length v2 \<le> length v1" by (simp add: v2_def strip_prefix_def or_else_def)
  show "length v3 \<le> length v2" by (simp add: v3_def strip_suffix_def or_else_def Let_def)
  show "length (normalize_cid s) \<le> length v3" using e by simp
qed

lemma normalize_cid_le: "length (normalize_cid s) \<le> length s"
  using normalize_cid_steps [of s] by linarith

lemma normalize_cid_same_length:
  assumes "length (normalize_cid s) = length s"
  shows "normalize_cid s = s" "trim s = s" "\<not> starts_with s ''<''" "strip_suffix ''>'' s = None" "\<not> is_cid s"
proof -
  let ?v1 = "trim s"
  let ?v2 = "or_else (strip_prefix ''<'' ?v1) ?v1"
  let ?v3 = "or_else (strip_suffix ''>'' ?v2) ?v2"
  note st = normalize_cid_steps [of s]
  have len: "length ?v1 = length s" "length ?v2 = length s" "length ?v3 = length s" using assms st(2-5) by linarith+
  show t: "trim s = s" using len(1) by (rule trim_length)
  show p: "\<not> starts_with s ''<''"
  proof
    assume "starts_with s ''<''"
    moreover from this have "0 < length s" by (auto simp: starts_with_iff)
    ultimately show False using len(2) t by (simp add: strip_prefix_def or_else_def, linarith)
  qed
  then have v2: "?v2 = s" using t by (simp add: strip_prefix_def or_else_def)
  show q: "strip_suffix ''>'' s = None"
  proof (rule ccontr)
    assume "strip_suffix ''>'' s \<noteq> None"
    then have "length ?v3 < length s" unfolding v2 by (auto simp: strip_suffix_def or_else_def split: if_splits)
    then show False using len(3) by simp
  qed
  then have v3: "?v3 = s" using v2 by (simp add: or_else_def)
  have n: "normalize_cid s = (if is_cid s then drop 4 s else s)" using st(1) unfolding v3 .
  show "\<not> is_cid s"
  proof
    assume "is_cid s"
    then show False using assms n by (auto simp: is_cid_def)
  qed
  then show "normalize_cid s = s" using n by simp
qed

lemma normalize_cid_fixed_uri:
  assumes "normalize_cid s = s"
  shows "normalize_cid_uri s = s"
proof -
  have l: "length (normalize_cid s) = length s" using assms by simp
  note f = normalize_cid_same_length [OF l]
  have scheme: "eq_ignore_ascii_case ''cid:'' ''cid:''" "eq_ignore_ascii_case ''CID:'' ''cid:''" by code_simp+
  have c: "\<not> starts_with s ''cid:'' \<and> \<not> starts_with s ''CID:''"
    using f(5) scheme by (auto simp: is_cid_def starts_with_iff)
  have h: "dropWhile (\<lambda>c. c = CHR ''<'') s = s" using f(3) by (cases s) (auto simp: starts_with_iff)
  have e: "dropWhile (\<lambda>c. c = CHR ''>'') (rev s) = rev s"
    using f(4) by (cases s rule: rev_cases) (auto simp: strip_suffix_def)
  show ?thesis unfolding normalize_cid_uri_def f(2) using c h e by (simp add: trim_prefixes.simps)
qed

lemma coverage_cid_normalize: "coverage_cid s = normalize_cid s"
  by (simp add: coverage_cid_def normalize_cid_def is_cid_def Let_def)

lemma shortening_permutation_fixes:
  assumes "finite D" "D \<subseteq> f ` D" "\<And>x. length (f x :: 'a list) \<le> length x"
    and "\<And>x. length (f x) = length x \<Longrightarrow> f x = x"
  shows "\<forall>d \<in> D. f d = d"
proof (rule ccontr)
  assume "\<not> (\<forall>d \<in> D. f d = d)"
  then obtain d where d: "d \<in> D" "length (f d) < length d" using assms(3,4) le_neq_implies_less by blast
  have inj: "inj_on f D" using finite_surj_inj [OF assms(1,2)] .
  have "card (f ` D) \<le> card D" using assms(1) by (rule card_image_le)
  then have im: "f ` D = D" using assms(1,2) by (metis card_subset_eq card_mono finite_imageI le_antisym)
  have "(\<Sum>x \<in> D. length (f x)) < (\<Sum>x \<in> D. length x)"
    using assms(1,3) d by (intro sum_strict_mono_ex1) auto
  moreover have "(\<Sum>x \<in> D. length (f x)) = (\<Sum>x \<in> f ` D. length x)" using inj by (simp add: sum.reindex)
  ultimately show False using im by simp
qed

text \<open>
  Every declared part is an encrypted part, and every encrypted part is the normal form of a declared one: so
  the declared identifiers are normal forms.
\<close>

lemma declared_are_normal:
  assumes "set declared \<subseteq> ds_cid ` set data" "ds_cid ` set data \<subseteq> normalize_cid ` set declared"
  shows "\<forall>d \<in> set declared. normalize_cid d = d" "ds_cid ` set data = set declared"
proof -
  show n: "\<forall>d \<in> set declared. normalize_cid d = d"
    by (rule shortening_permutation_fixes) (use assms normalize_cid_le normalize_cid_same_length(1) in auto)
  have "normalize_cid ` set declared = set declared" using n by force
  then show "ds_cid ` set data = set declared" using assms by auto
qed

section \<open>The parts are restored in declared order\<close>

lemma position_map_of:
  assumes "distinct (map fst xs)" "map_of xs c = Some v"
  shows "\<exists>i < length xs. position (\<lambda>(d, _). d = c) xs = Some i \<and> xs ! i = (c, v)"
  using assms
proof (induction xs)
  case (Cons x xs)
  show ?case
  proof (cases "fst x = c")
    case True
    then show ?thesis using Cons by (cases x) auto
  next
    case False
    then obtain i where "i < length xs" "position (\<lambda>(d, _). d = c) xs = Some i" "xs ! i = (c, v)"
      using Cons by (cases x) auto
    then show ?thesis using False by (cases x) (auto intro!: exI [of _ "Suc i"])
  qed
qed simp

lemma set_swap_remove:
  assumes "distinct xs" "i < length xs"
  shows "set (snd (swap_remove i xs)) = set xs - {xs ! i} \<and> distinct (snd (swap_remove i xs))"
proof -
  define ys where "ys = take i xs"
  have i: "i = length ys" and xs: "xs = ys @ xs ! i # drop (Suc i) xs" using assms(2) id_take_nth_drop by (auto simp: ys_def)
  show ?thesis
  proof (cases "drop (Suc i) xs" rule: rev_cases)
    case Nil
    then obtain x where x: "xs = ys @ [x]" using xs by auto
    then have "swap_remove i xs = (x, ys)" by (simp add: swap_remove_def i)
    then show ?thesis using assms(1) x by (auto simp: i)
  next
    case (snoc zs l)
    then obtain x where x: "xs = ys @ x # zs @ [l]" using xs by auto
    then have "swap_remove i xs = (x, ys @ l # zs)" by (simp add: swap_remove_def i butlast_append)
    then show ?thesis using assms(1) x by (auto simp: i)
  qed
qed

lemma rmap_cong: "(\<And>x. x \<in> set xs \<Longrightarrow> f x = g x) \<Longrightarrow> rmap f xs = rmap g xs"
  by (induction xs) auto

lemma rbind_assoc: "rbind (rbind r f) g = rbind r (\<lambda>x. rbind (f x) g)"
  by (cases r) (simp_all add: rbind_def)

lemma swap_remove_keys:
  assumes "distinct (map fst xs)" "i < length xs" "xs ! i = (c, v)"
  shows "distinct (map fst (snd (swap_remove i xs)))" "fst ` set (snd (swap_remove i xs)) = fst ` set xs - {c}"
    "d \<noteq> c \<Longrightarrow> map_of (snd (swap_remove i xs)) d = map_of xs d"
proof -
  have d: "distinct xs" using assms(1) by (simp add: distinct_map)
  note r = set_swap_remove [OF d assms(2), unfolded assms(3)]
  show dk: "distinct (map fst (snd (swap_remove i xs)))" using assms(1) r by (auto simp: distinct_map intro: inj_on_subset)
  have "(c, v) \<in> set xs" using assms(2,3) by (metis nth_mem)
  then show "fst ` set (snd (swap_remove i xs)) = fst ` set xs - {c}"
    using r assms(1) by (auto simp: distinct_map inj_on_def) (metis fst_conv image_eqI snd_conv Pair_inject)
  show "map_of (snd (swap_remove i xs)) d = map_of xs d" if "d \<noteq> c"
  proof (cases "map_of xs d")
    case None
    then have "d \<notin> fst ` set (snd (swap_remove i xs))" using r by (force simp: map_of_eq_None_iff)
    then have "map_of (snd (swap_remove i xs)) d = None" by (simp only: map_of_eq_None_iff not_False_eq_True)
    then show ?thesis using None by simp
  next
    case (Some w)
    then have "(d, w) \<in> set (snd (swap_remove i xs))" using r that by (auto dest: map_of_SomeD)
    then show ?thesis using Some dk by simp
  qed
qed

text \<open>
  The loop takes each declared part once: it is a lookup, and the panic of its \<open>expect\<close> is not reached.
\<close>

lemma restore_payloads_lookup:
  assumes "distinct declared" "distinct (map fst by_cid)" "set declared \<subseteq> fst ` set by_cid"
  shows "restore_payloads cd rs props declared by_cid =
    rmap (\<lambda>cid. rbind (decompress_payload_if_declared cd rs cid (pp_compression props) (the (map_of by_cid cid)))
      (\<lambda>bs. Inr (cid, bs, or_else (pp_mime_types props cid) ''application/octet-stream''))) declared"
  using assms
proof (induction declared arbitrary: by_cid)
  case (Cons c declared)
  obtain v where v: "map_of by_cid c = Some v" using Cons.prems(3) by (metis domIff dom_map_of_conv_image_fst insert_subset list.simps(15) option.exhaust)
  obtain i where i: "i < length by_cid" "position (\<lambda>(d, _). d = c) by_cid = Some i" "by_cid ! i = (c, v)"
    using position_map_of [OF Cons.prems(2) v] by blast
  obtain rest where sr: "swap_remove i by_cid = ((c, v), rest)" using i(3) by (simp add: swap_remove_def)
  note keys = swap_remove_keys [OF Cons.prems(2) i(1,3), unfolded sr snd_conv]
  have look: "map_of rest d = map_of by_cid d" if "d \<in> set declared" for d
    by (rule keys(3)) (use Cons.prems(1) that in auto)
  have "restore_payloads cd rs props declared rest =
      rmap (\<lambda>cid. rbind (decompress_payload_if_declared cd rs cid (pp_compression props) (the (map_of rest cid)))
        (\<lambda>bs. Inr (cid, bs, or_else (pp_mime_types props cid) ''application/octet-stream''))) declared"
    using Cons.prems keys by (intro Cons.IH) auto
  also have "\<dots> = rmap (\<lambda>cid. rbind (decompress_payload_if_declared cd rs cid (pp_compression props) (the (map_of by_cid cid)))
        (\<lambda>bs. Inr (cid, bs, or_else (pp_mime_types props cid) ''application/octet-stream''))) declared"
    using look by (intro rmap_cong) auto
  finally show ?case using i(2) sr v
    by (simp add: rbind_assoc split: sum.splits)
qed simp

section \<open>What authentication establishes\<close>

text \<open>The verification options of the receive path, for the sender rule of the claimed sender.\<close>

definition push_options :: "ReceiveSession \<Rightarrow> SenderAuthorization \<Rightarrow> WsSecVerifyOptions" where
  "push_options rs auth =
     \<lparr>vo_fingerprints = sa_pins auth, vo_signer_check = sa_check auth,
      vo_chain_policy = \<lparr>trust_anchor_pems = rs_anchor_pems rs, require_chain_validation = True\<rparr>,
      vo_external_references = [], vo_now = rs_now rs, vo_defer_attachments = True\<rparr>"

lemma chain_policy_Inr:
  "wssec_chain_policy_from_session lib rs = Inr p \<Longrightarrow> p = \<lparr>trust_anchor_pems = rs_anchor_pems rs, require_chain_validation = True\<rparr>"
  unfolding wssec_chain_policy_from_session_def rbind_Inr_iff sum.inject by blast

lemma verify_security_Some:
  assumes "verify_security lib rs policy src mid [] from_party (sa_pins auth) (sa_check auth) = Inr (Some cov)"
  shows "verify_enveloped_signature_optional_with_doc (rl_verify lib) src UserMessageDoc (push_options rs auth) = Inr (Some cov)"
    "enforce_messaging_signature_coverage rs (src_doc src) mid cov = Inr ()"
    "sa_pins auth \<noteq> [] \<or> sa_check auth \<noteq> None"
  using assms unfolding verify_security_def push_options_def
  by (auto simp: rbind_Inr_iff check_Inr_iff dest!: chain_policy_Inr)

lemma authenticate_Inr:
  assumes "authenticate_inbound lib rs policy body content_type authorize local_id local_type = Inr a"
  obtains multipart xml src auth cov where
    "parse_envelope lib rs body content_type = Inr (multipart, xml, src)"
    "parse_as4_user_message_from_doc (rs_profile_built rs) (rs_session rs) (src_doc src) = Inr (ai_parsed a)"
    "authorize (ai_parsed a) = Inr auth"
    "verify_security lib rs policy src (um_message_id (ai_parsed a)) [] (sender_party_id (ai_parsed a)) (sa_pins auth) (sa_check auth)
       = Inr (Some cov)"
    "declared_parts rs (src_doc src) (um_message_id (ai_parsed a)) = Inr (ai_declared a)"
    "enforce_attachment_signature_coverage rs (um_message_id (ai_parsed a)) (ai_declared a) cov = Inr ()"
    "to_this_party (ai_parsed a) local_id local_type" "cov_deferred cov = Some (ai_deferred a)"
    "signer_certificate_der cov = Some (ai_signer_der a)" "ai_signer_path a = signer_path cov"
proof -
  from assms obtain h cov where h: "parse_and_verify_receive_push_metadata lib rs body content_type policy (Some authorize) = Inr h"
    and sig: "vh_signature h = Some cov" and tp: "to_this_party (vh_parsed h) local_id local_type"
    and d: "cov_deferred cov = Some (ai_deferred a)" and der: "signer_certificate_der cov = Some (ai_signer_der a)"
    and a: "ai_parsed a = vh_parsed h" "ai_declared a = vh_declared h" "ai_signer_path a = signer_path cov"
    unfolding authenticate_inbound_def Let_def rbind_Inr_iff ok_or_Inr_iff check_Inr_iff sum.inject
    by clarify (rule that, (assumption | simp)+)
  from h obtain x parsed auth declared where
    e: "parse_envelope lib rs body content_type = Inr x"
    and p: "parse_as4_user_message_from_doc (rs_profile_built rs) (rs_session rs) (src_doc (snd (snd x))) = Inr parsed"
    and auth: "authorize parsed = Inr auth"
    and v: "verify_security lib rs policy (snd (snd x)) (um_message_id parsed) [] (sender_party_id parsed) (sa_pins auth) (sa_check auth)
        = Inr (vh_signature h)"
    and dp: "declared_parts rs (src_doc (snd (snd x))) (um_message_id parsed) = Inr declared"
    and en: "(case vh_signature h of Some cov \<Rightarrow> enforce_attachment_signature_coverage rs (um_message_id parsed) declared cov | None \<Rightarrow> Inr ()) = Inr ()"
    and vh: "vh_parsed h = parsed" "vh_declared h = declared"
    unfolding parse_and_verify_receive_push_metadata_def Let_def case_prod_beta rbind_Inr_iff sum.inject option.case
    by clarify (simp only: option.case Option.bind_lunit sum.inject, rule that, (assumption | simp)+)
  obtain multipart xml src where x: "x = (multipart, xml, src)" by (cases x) auto
  show ?thesis
    using that [of multipart xml src auth cov] e p auth v dp en tp d der a vh sig x by simp
qed

lemma find_member: "find P xs = Some x \<Longrightarrow> x \<in> set xs \<and> P x"
  by (induction xs) (auto split: if_splits)

lemma filter_singleton:
  assumes "filter P xs = [x]"
  shows "x \<in> set xs \<and> P x" "y \<in> set xs \<Longrightarrow> P y \<Longrightarrow> y = x"
proof -
  have "set (filter P xs) = {x}" using assms by simp
  then show "x \<in> set xs \<and> P x" "y \<in> set xs \<Longrightarrow> P y \<Longrightarrow> y = x" by auto
qed

lemma length_one: "length xs = 1 \<Longrightarrow> \<exists>x. xs = [x]"
  by (cases xs) auto

lemma messaging_covered:
  assumes "enforce_messaging_signature_coverage rs doc mid cov = Inr ()"
  obtains m i where "filter (is_eb ''Messaging'') (doc_nodes doc) = [m]" "messaging_id (snd m) = Some i"
    "i \<in> set (signed_same_document_ids cov)"
proof -
  have "length (filter (is_eb ''Messaging'') (doc_nodes doc)) = 1" using assms
    by (simp add: enforce_messaging_signature_coverage_def Let_def rbind_Inr_iff check_Inr_iff)
  then obtain m where "filter (is_eb ''Messaging'') (doc_nodes doc) = [m]" using length_one by blast
  moreover from this obtain i where "messaging_id (snd m) = Some i" "i \<in> set (signed_same_document_ids cov)" using assms
    by (simp add: enforce_messaging_signature_coverage_def Let_def rbind_Inr_iff check_Inr_iff split: option.splits)
  ultimately show ?thesis by (rule that)
qed

text \<open>No element carries an attribute named Id in a namespace that is no reference id.\<close>

definition plain_ids :: "document \<Rightarrow> bool" where
  "plain_ids doc \<longleftrightarrow> (\<forall>n \<in> set (doc_nodes doc). \<forall>a \<in> set (attributes_of (snd n)).
     snd (fst a) = ''Id'' \<longrightarrow> fst (fst a) \<in> {None, Some NS_WSU})"

lemma messaging_id_is_reference_id:
  assumes "plain_ids doc" "n \<in> set (doc_nodes doc)" "is_element (snd n)" "messaging_id (snd n) = Some i"
  shows "has_id i n"
proof -
  have "\<exists>a \<in> set (attributes_of (snd n)). snd (fst a) = ''Id'' \<and> snd a = i"
  proof (cases "attribute_ns NS_WSU ''Id'' (snd n)")
    case None
    then obtain a where "find (\<lambda>((_, local), _). local = ''Id'') (attributes_of (snd n)) = Some a" "snd a = i"
      using assms(4) by (auto simp: messaging_id_def attribute_def)
    then show ?thesis using find_member [of "\<lambda>((_, local), _). local = ''Id''" "attributes_of (snd n)" a] by (auto simp: case_prod_beta)
  next
    case (Some j)
    then have "((Some NS_WSU, ''Id''), i) \<in> set (attributes_of (snd n))"
      using assms(4) by (simp add: messaging_id_def attribute_ns_def map_of_SomeD)
    then show ?thesis by force
  qed
  then obtain a where a: "a \<in> set (attributes_of (snd n))" "snd (fst a) = ''Id''" "snd a = i" by blast
  then have "fst (fst a) \<in> {None, Some NS_WSU}" using assms(1,2) unfolding plain_ids_def by blast
  then have "is_reference_id_attr (fst (fst a)) (snd (fst a))" using a(2) by (auto simp: is_reference_id_attr_def)
  then show ?thesis using a(1,3) assms(3) unfolding has_id_def by blast
qed

section \<open>What opening establishes\<close>

lemma verify_cid_reference_Inr:
  assumes "verify_cid_reference lib parts p = Inr u"
  obtains cid payload where "(cid, payload) \<in> set parts" "normalize_cid_uri cid = p_cid p"
    "declared_digest lib (p_digest_value p) = Inr (vl_hash lib (p_digest_method p) payload)"
proof -
  from assms obtain payload expected where f: "map_option snd (find (\<lambda>(cid, _). normalize_cid_uri cid = p_cid p) parts) = Some payload"
    and m: "decode_reference_digest_value (vl_b64 lib) digest_debug (p_uri p) (p_digest_method p) (p_digest_value p) = Inr expected"
      "verify_reference_digest_matches (vl_b64_encode lib) (p_uri p) expected (p_digest_value p) (vl_hash lib (p_digest_method p) payload) = Inr ()"
    unfolding verify_cid_reference_def by (auto simp: rbind_Inr_iff ok_or_Inr_iff)
  from f obtain cid where "find (\<lambda>(cid, _). normalize_cid_uri cid = p_cid p) parts = Some (cid, payload)" by auto
  then have "(cid, payload) \<in> set parts" "normalize_cid_uri cid = p_cid p" using find_member by fastforce+
  then show ?thesis using that digest_matches_Inr [OF m] by blast
qed

lemma declared_distinct:
  assumes "declared_parts rs doc mid = Inr declared"
  shows "distinct declared" "length declared \<le> MAX_INBOUND_PAYLOADS"
proof -
  obtain ns where f: "rfold (declared_part rs mid) [] ns = Inr declared" and l: "length declared \<le> MAX_INBOUND_PAYLOADS"
    using assms by (auto simp: declared_parts_def rbind_Inr_iff check_Inr_iff)
  show "distinct declared"
    by (rule rfold_invariant [where I = "\<lambda>_ ds. distinct ds", OF f])
      (auto simp: declared_part_def Let_def rbind_Inr_iff check_Inr_iff)
  show "length declared \<le> MAX_INBOUND_PAYLOADS" by (rule l)
qed

text \<open>
  An opened part is the part the signature covers: a reference of the signature names it, and the digest it declares is that
  of the decrypted octets, which are decompressed to the octets delivered.
\<close>

definition payload_signed ::
  "'st ReceiveLib \<Rightarrow> ReceiveSession \<Rightarrow> AuthenticatedInbound \<Rightarrow> string \<times> bytes \<times> string \<Rightarrow> bool" where
  "payload_signed lib rs a part \<longleftrightarrow>
     (case part of (cid, bs, ty) \<Rightarrow>
       \<exists>p \<in> set (ai_deferred a). \<exists>plaintext type_of_part input.
         p_cid p = cid \<and>
         swa_attachment_digest_input (vl_parse_tree (rl_verify lib)) (rl_utf8_error lib) type_of_part (text_of plaintext) = Inr input \<and>
         declared_digest (rl_verify lib) (p_digest_value p) = Inr (vl_hash (rl_verify lib) (p_digest_method p) input) \<and>
         decompress_payload_if_declared (rl_codec lib) rs cid (pp_compression (ai_part_properties a)) plaintext = Inr bs)"

text \<open>The identifiers of a resolved envelope are those the header declares, in normal form.\<close>

lemma resolve_parts_Inr:
  assumes "resolve_parts lib rs policy a suite multipart doc = Inr opening" "distinct (ai_declared a)"
  obtains envelope bodies restored where "opening = Sealed envelope bodies restored"
    "distinct (map ds_cid (re_data envelope))" "ds_cid ` set (re_data envelope) = set (ai_declared a)"
    "\<forall>d \<in> set (ai_declared a). normalize_cid d = d" "length bodies = length (re_data envelope)"
    "length restored = length (re_data envelope)" "ai_declared a \<noteq> []"
proof -
  let ?mid = "um_message_id (ai_parsed a)"
  from assms(1) obtain parts security found envelope restored where
    r: "resolve_envelope (vl_b64 (rl_verify lib)) doc security (ai_declared a) (Some suite) MAX_INBOUND_PAYLOADS = Inr found"
    and f: "(if require_encrypted_inbound policy then found else None) = Some envelope"
    and m: "match_parts rs ?mid (ai_declared a) multipart = Inr parts"
    and c: "(case find (\<lambda>cid. cid \<notin> ds_cid ` set (re_data envelope)) (ai_declared a) of
          Some plain \<Rightarrow> Inl (not_encrypted rs ?mid plain) | None \<Rightarrow> Inr ()) = Inr ()"
    and t: "rmap (\<lambda>d. restored_type rs ?mid (ds_cid d) (ds_mime_type d)
          (pp_compression (ai_part_properties a) (ds_cid d) \<noteq> None)) (re_data envelope) = Inr restored"
    and o: "opening = Sealed envelope
          (map (\<lambda>d. bytes_of (or_else (map_option ia_bytes (find (\<lambda>p. ia_content_id p = ds_cid d) parts)) [])) (re_data envelope)) restored"
    unfolding resolve_parts_def Let_def rbind_Inr_iff ok_or_Inr_iff map_err_Inr_iff sum.inject
    by clarify (rule that, (assumption | simp)+)
  have sub: "set (ai_declared a) \<subseteq> ds_cid ` set (re_data envelope)" using c by (auto simp: find_None_iff split: option.splits)
  have env: "found = Some envelope" using f by (simp split: if_splits)
  obtain key key_id spec data recipient where d: "rfold (collect_data key_id (ai_declared a)) []
      (filter (is_node NS_XENC ''EncryptedData'') (child_nodes security)) = Inr data"
    and e: "envelope = \<lparr>re_key = spec\<lparr>ek_recipient := recipient\<rparr>, re_data = data\<rparr>"
    using resolve_envelope_Some [OF r [unfolded env]] by metis
  note all2 = collect_data_all [OF d]
  have "ds_cid ` set data \<subseteq> normalize_cid ` set (ai_declared a)"
    using all2 resolve_data_Inr(2) unfolding list_all2_conv_all_nth by (metis (no_types, lifting) image_subsetI in_set_conv_nth)
  then have n: "\<forall>d \<in> set (ai_declared a). normalize_cid d = d" "ds_cid ` set data = set (ai_declared a)"
    using declared_are_normal [of "ai_declared a" data] sub e by simp_all
  moreover have "ai_declared a \<noteq> []" using m by (auto simp: match_parts_def rbind_Inr_iff check_Inr_iff split: option.splits)
  moreover have "length restored = length data" using t e by (auto simp: rmap_Inr_iff dest: list_all2_lengthD)
  ultimately show ?thesis using that [OF o] all2 e by simp
qed

lemma signed_deferred:
  assumes "c \<in> set (signed_cid_references cov)" "cov_deferred cov = Some deferred"
    and "verify_enveloped_signature_optional_with_doc lib src cls opts = Inr (Some cov)"
  shows "\<exists>p \<in> set deferred. p_cid p = c"
proof -
  from assms(3) obtain refs where "signed_cid_references cov = List.map_filter cid_of refs"
    "cov_deferred cov = (if vo_defer_attachments opts then Some (List.map_filter pending_of refs) else None)"
    by (auto simp: verify_enveloped_signature_optional_with_doc_def res_simps split: option.splits)
  then have "c \<in> set (List.map_filter cid_of refs)" "deferred = List.map_filter pending_of refs"
    using assms(1,2) by (auto split: if_splits)
  then obtain r where "r \<in> set refs" "cid_of r = Some c" by (auto simp: map_filter_def)
  then have "\<exists>p. pending_of r = Some p \<and> p_cid p = c" by (auto simp: cid_of_def pending_of_def split: ParsedReferenceUri.splits)
  then show ?thesis using \<open>r \<in> set refs\<close> \<open>deferred = _\<close> by (force simp: map_filter_def)
qed

lemma decrypt_attachments_length:
  assumes "decrypt_attachments lib rnd envelope bodies select s = (Inr plaintexts, s')"
  shows "length plaintexts = length (re_data envelope)"
  using assms unfolding decrypt_attachments_def
  by (auto simp: Let_def rmap_Inr_iff split: list.splits if_splits option.splits sum.splits prod.splits dest: list_all2_lengthD)

lemma open_finish_signed:
  assumes fin: "open_finish lib rs a envelope restored plaintexts = Inr v"
    and dc: "distinct (ai_declared a)" and env: "distinct (map ds_cid (re_data envelope))"
      "ds_cid ` set (re_data envelope) = set (ai_declared a)" "\<forall>d \<in> set (ai_declared a). normalize_cid d = d"
    and len: "length plaintexts = length (re_data envelope)" "length restored = length (re_data envelope)"
    and cover: "\<forall>d \<in> set (ai_declared a). \<exists>p \<in> set (ai_deferred a). coverage_cid (p_cid p) = coverage_cid d"
  shows "map fst (vi_payloads v) = ai_declared a \<and> (\<forall>part \<in> set (vi_payloads v). payload_signed lib rs a part)"
proof -
  let ?cids = "map ds_cid (re_data envelope)" and ?props = "ai_part_properties a" and ?vl = "rl_verify lib"
  from fin obtain inputs payloads where
    inp: "list_all2 (\<lambda>x input. swa_attachment_digest_input (vl_parse_tree ?vl) (rl_utf8_error lib) (snd x) (text_of (fst x)) = Inr input)
        (zip plaintexts restored) inputs"
    and ver: "\<forall>p \<in> set (ai_deferred a). verify_cid_reference ?vl (zip ?cids inputs) p = Inr ()"
    and res: "restore_payloads (rl_codec lib) rs ?props (ai_declared a) (zip ?cids plaintexts) = Inr payloads"
    and v: "vi_payloads v = payloads"
    by (auto simp: open_finish_def Let_def rbind_Inr_iff map_err_Inr_iff rmap_Inr_iff verify_cid_references_def for_each_Inr_iff case_prod_beta)
  have li: "length inputs = length (re_data envelope)" using list_all2_lengthD [OF inp] len by simp
  have keys: "map fst (zip ?cids plaintexts) = ?cids" using len by simp
  have l2: "list_all2 (\<lambda>cid part. fst part = cid \<and>
        decompress_payload_if_declared (rl_codec lib) rs cid (pp_compression ?props) (the (map_of (zip ?cids plaintexts) cid)) = Inr (fst (snd part)))
      (ai_declared a) payloads"
  proof -
    have sub: "set (ai_declared a) \<subseteq> fst ` set (zip ?cids plaintexts)" using env(2) keys by (metis image_set order_refl set_map)
    have dk: "distinct (map fst (zip ?cids plaintexts))" using env(1) keys by simp
    show ?thesis using res unfolding restore_payloads_lookup [OF dc dk sub] rmap_Inr_iff
      by (rule list_all2_mono) (auto simp: rbind_Inr_iff)
  qed
  have "payload_signed lib rs a part" if part: "part \<in> set payloads" for part
  proof -
    from part obtain k where k: "k < length payloads" "payloads ! k = part" by (metis in_set_conv_nth)
    let ?c = "ai_declared a ! k"
    have c: "?c \<in> set (ai_declared a)" "fst part = ?c"
      and dec: "decompress_payload_if_declared (rl_codec lib) rs ?c (pp_compression ?props) (the (map_of (zip ?cids plaintexts) ?c)) = Inr (fst (snd part))"
      using l2 k by (auto simp: list_all2_conv_all_nth)
    from cover c(1) obtain p where p: "p \<in> set (ai_deferred a)" "coverage_cid (p_cid p) = coverage_cid ?c" by blast
    obtain cid input where ci: "(cid, input) \<in> set (zip ?cids inputs)" "normalize_cid_uri cid = p_cid p"
      and dg: "declared_digest ?vl (p_digest_value p) = Inr (vl_hash ?vl (p_digest_method p) input)"
      using verify_cid_reference_Inr ver p(1) by metis
    have "cid \<in> set (ai_declared a)" using ci(1) env(2) by (auto dest: set_zip_leftD)
    then have "normalize_cid cid = cid" "cid = p_cid p" using env(3) ci(2) normalize_cid_fixed_uri by auto
    then have "p_cid p = ?c" "cid = ?c" using p(2) env(3) c(1) by (auto simp: coverage_cid_normalize)
    obtain i where i: "i < length ?cids" "?cids ! i = cid" "inputs ! i = input"
      using ci(1) by (auto simp: set_zip)
    have "map_of (zip ?cids plaintexts) ?c = Some (plaintexts ! i)"
      using i env(1) len \<open>cid = ?c\<close> by (metis keys map_of_zip_nth length_map)
    moreover have "swa_attachment_digest_input (vl_parse_tree ?vl) (rl_utf8_error lib) (restored ! i) (text_of (plaintexts ! i)) = Inr input"
      using inp i li len by (auto simp: list_all2_conv_all_nth)
    ultimately show ?thesis using p(1) \<open>p_cid p = ?c\<close> dg dec c(2) unfolding payload_signed_def by (cases part) auto
  qed
  moreover have "map fst payloads = ai_declared a" using l2 by (auto simp: list_all2_conv_all_nth intro: nth_equalityI)
  ultimately show ?thesis using v by simp
qed

section \<open>What is delivered\<close>

lemma parse_envelope_now [simp]: "parse_envelope lib (rs\<lparr>rs_now := t\<rparr>) body content_type = parse_envelope lib rs body content_type"
  by (simp add: parse_envelope_def)

lemma payload_signed_now [simp]: "payload_signed lib (rs\<lparr>rs_now := t\<rparr>) a = payload_signed lib rs a"
proof -
  have "decompress_payload_if_declared cd (rs\<lparr>rs_now := t\<rparr>) cid types bs = decompress_payload_if_declared cd rs cid types bs" for cd cid types bs
    by (simp add: decompress_payload_if_declared_def split: option.split)
  then show ?thesis by (simp add: payload_signed_def fun_eq_iff)
qed

text \<open>A message is delivered without parts only to the test service or as a BDEW path switch.\<close>

definition without_parts :: "As4PushPolicy \<Rightarrow> AuthenticatedInbound \<Rightarrow> bool" where
  "without_parts policy a \<longleftrightarrow> is_test_service (ai_parsed a) \<or>
     (ai_declared a = [] \<and> accept_path_switch policy \<and>
      classify_path_switch (or_else (um_service (ai_parsed a)) []) (um_action (ai_parsed a)) \<noteq> None)"

lemma open_inbound_Inr:
  assumes "open_inbound lib rnd rs policy body content_type a select suite s = (Inr v, s')" "distinct (ai_declared a)"
    and "\<forall>d \<in> set (ai_declared a). \<exists>p \<in> set (ai_deferred a). coverage_cid (p_cid p) = coverage_cid d"
  shows "vi_parsed v = ai_parsed a" "vi_signer_der v = ai_signer_der a"
    "enforce_non_fragment_timestamp_freshness rs policy (ai_parsed a) = Inr ()"
    "(without_parts policy a \<and> vi_payloads v = []) \<or>
     (map fst (vi_payloads v) = ai_declared a \<and> ai_declared a \<noteq> [] \<and> (\<forall>part \<in> set (vi_payloads v). payload_signed lib rs a part))"
proof -
  from assms(1) obtain op where o: "open_prepare lib rs policy body content_type a suite = Inr op"
    by (auto simp: open_inbound_def split: sum.splits)
  then show "enforce_non_fragment_timestamp_freshness rs policy (ai_parsed a) = Inr ()"
    by (auto simp: open_prepare_def Let_def rbind_Inr_iff)
  have "vi_parsed v = ai_parsed a \<and> vi_signer_der v = ai_signer_der a \<and> ((without_parts policy a \<and> vi_payloads v = []) \<or>
     (map fst (vi_payloads v) = ai_declared a \<and> ai_declared a \<noteq> [] \<and> (\<forall>part \<in> set (vi_payloads v). payload_signed lib rs a part)))"
  proof (cases "without_parts policy a")
    case True
    then have "op = Answered (inbound_without_payloads a)"
      using o by (auto simp: open_prepare_def Let_def rbind_Inr_iff without_parts_def case_prod_beta split: if_splits)
    then show ?thesis using assms(1) o True by (auto simp: open_inbound_def inbound_without_payloads_def)
  next
    case False
    then obtain multipart doc where r: "resolve_parts lib rs policy a suite multipart doc = Inr op"
      using o by (auto simp: open_prepare_def Let_def rbind_Inr_iff without_parts_def case_prod_beta split: if_splits)
    obtain envelope bodies restored where e: "op = Sealed envelope bodies restored"
      and f: "distinct (map ds_cid (re_data envelope))" "ds_cid ` set (re_data envelope) = set (ai_declared a)"
      "\<forall>d \<in> set (ai_declared a). normalize_cid d = d" "length bodies = length (re_data envelope)"
      "length restored = length (re_data envelope)" "ai_declared a \<noteq> []"
      by (rule resolve_parts_Inr [OF r assms(2)])
    obtain plaintexts s1 where d: "decrypt_attachments (rl_xmlenc lib) rnd envelope bodies select s = (Inr plaintexts, s1)"
      and fin: "open_finish lib rs a envelope restored plaintexts = Inr v"
      using assms(1) o e by (auto simp: open_inbound_def Let_def rbind_Inr_iff map_err_Inr_iff split: prod.splits)
    have "vi_parsed v = ai_parsed a \<and> vi_signer_der v = ai_signer_der a"
      using fin by (auto simp: open_finish_def Let_def rbind_Inr_iff inbound_without_payloads_def)
    then show ?thesis
      using open_finish_signed [OF fin assms(2) f(1-3) decrypt_attachments_length [OF d] f(5) assms(3)] f(6) by simp
  qed
  then show "vi_parsed v = ai_parsed a" "vi_signer_der v = ai_signer_der a"
    "(without_parts policy a \<and> vi_payloads v = []) \<or>
     (map fst (vi_payloads v) = ai_declared a \<and> ai_declared a \<noteq> [] \<and> (\<forall>part \<in> set (vi_payloads v). payload_signed lib rs a part))"
    by simp_all
qed


section \<open>Accepted messages\<close>

text \<open>A signed test message; a library that parses every text to it and verifies every signature; the message is accepted.\<close>

definition demo_signed_header :: "string \<Rightarrow> xnode list" where
  "demo_signed_header target =
     [demo_ds ''Signature'' []
          [demo_ds ''SignedInfo'' []
            [demo_ds ''CanonicalizationMethod'' [((None, ''Algorithm''), alg_uri (AC14n Exclusive))] [],
             demo_ds ''SignatureMethod'' [((None, ''Algorithm''), alg_uri (ASignature DsRsaSha256))] [],
             demo_ds ''Reference'' [((None, ''URI''), target)]
              [demo_ds ''DigestMethod'' [((None, ''Algorithm''), alg_uri (ADigest Sha256))] [],
               demo_ds ''DigestValue'' [] [TextNode ''d'']]],
           demo_ds ''SignatureValue'' [] [TextNode ''s''],
           demo_ds ''KeyInfo'' [] [demo_ds ''X509Certificate'' [] [TextNode ''c'']]]]"

definition demo_push :: "xnode list \<Rightarrow> string \<Rightarrow> ((string option \<times> string) \<times> string) list \<Rightarrow> DocSource" where
  "demo_push message_id target ids =
     \<lparr>src_doc = [Element (Some NS_SOAP12) ''Envelope'' []
       [Element (Some NS_SOAP12) ''Header'' []
          [Element (Some NS_EBMS3) ''Messaging'' ([((Some NS_SOAP12, ''mustUnderstand''), ''true'')] @ ids)
             [eb ''UserMessage''
               [eb ''MessageInfo'' [eb ''MessageId'' message_id],
                eb ''PartyInfo'' [eb ''From'' [eb ''PartyId'' [TextNode ''sender'']],
                                eb ''To'' [eb ''PartyId'' [TextNode ''receiver'']]],
                eb ''CollaborationInfo'' [eb ''Service'' [TextNode TEST_SERVICE], eb ''Action'' [TextNode TEST_ACTION]]]],
           Element (Some NS_WSSE) ''Security'' [] (demo_signed_header target)],
        Element (Some NS_SOAP12) ''Body'' [((Some NS_WSU, ''Id''), ''b'')] []]],
      src_after_lt = (\<lambda>_. []), src_attr_qname = (\<lambda>_ q. snd q), src_namespaces = (\<lambda>_. [])\<rparr>"

definition demo_cert :: X509 where
  "demo_cert = \<lparr>x_to_der = Inl [], x_public_key = Some demo_key, x_subject = [], x_not_before = 0, x_not_after = 0,
     x_subject_key_id = None, x_spk_bits = None, x_crl_sign = None, x_pem = []\<rparr>"

definition demo_receive_lib :: "DocSource \<Rightarrow> unit ReceiveLib" where
  "demo_receive_lib src =
     \<lparr>rl_verify = demo_verify_lib\<lparr>vl_parse_tree := (\<lambda>_ _. Inr src),
        vl_x509 := (vl_x509 demo_verify_lib)\<lparr>xl_verify_cert := (\<lambda>_ _ _. Inr (True, [demo_cert]))\<rparr>\<rparr>,
      rl_xmlenc = demo_lib, rl_codec = demo_codec, rl_utf8_error = (\<lambda>_. []), rl_stack = (\<lambda>_. Inr []), rl_build_store = (\<lambda>_. Inr ())\<rparr>"

definition demo_session :: ReceiveSession where
  "demo_session = \<lparr>rs_session = \<lparr>session_id = ''s'', partner_id = ''p''\<rparr>, rs_profile_built = True, rs_signer_pins = [],
     rs_fingerprint = [], rs_anchor_pems = [''anchor''], rs_now = 0\<rparr>"

definition demo_rule :: authorizer where
  "demo_rule _ = Inr \<lparr>sa_pins = [], sa_check = Some (\<lambda>_. Inr ())\<rparr>"

lemma demo_parse_envelope:
  "parse_envelope (demo_receive_lib src) demo_session ''x'' ''application/soap+xml'' = Inr (None, ''x'', src)"
proof -
  have ct: "parse_multipart_boundary_from_content_type ''application/soap+xml'' = Inr None" by code_simp
  have utf: "bytes_to_utf8_str ''x'' PUSH_STAGE (rs_session demo_session) = Inr ''x''" by code_simp
  have x: "xml_parse (vl_parse_tree (rl_verify (demo_receive_lib src))) ''x'' LIMITS_ENVELOPE user_stage = Inr src"
    by (simp add: xml_parse_def LIMITS_ENVELOPE_def prescan.simps demo_receive_lib_def)
  show ?thesis
    unfolding parse_envelope_def extract_multipart_def ct
    by (simp add: utf parse_as4_user_message_document_def x starts_with_iff)
qed

definition demo_auth :: SenderAuthorization where
  "demo_auth = \<lparr>sa_pins = [], sa_check = Some (\<lambda>_. Inr ())\<rparr>"

definition demo_checks :: "string \<Rightarrow> DocSource \<Rightarrow> bool" where
  "demo_checks mid src \<longleftrightarrow>
     (case parse_as4_user_message_from_doc True (rs_session demo_session) (src_doc src) of Inl _ \<Rightarrow> False
      | Inr msg \<Rightarrow> um_message_id msg = mid \<and> um_to_party_ids msg = [''receiver''] \<and> is_test_service msg \<and> um_timestamp msg = None) \<and>
     (case verify_enveloped_signature_optional_with_doc (rl_verify (demo_receive_lib src)) src UserMessageDoc (push_options demo_session demo_auth) of
        Inr (Some cov) \<Rightarrow> enforce_messaging_signature_coverage demo_session (src_doc src) mid cov = Inr () \<and>
          cov_deferred cov = Some [] \<and> signer_certificate_der cov \<noteq> None
      | _ \<Rightarrow> False) \<and>
     declared_parts demo_session (src_doc src) mid = Inr [] \<and>
     (case part_properties demo_session (src_doc src) mid of Inr _ \<Rightarrow> True | Inl _ \<Rightarrow> False) \<and>
     (case parse_signature_references_from_doc_optional_borrowed (src_doc src) of Inr (Some _) \<Rightarrow> True | _ \<Rightarrow> False)"

lemma demo_authenticates:
  assumes "demo_checks mid src"
  shows "\<exists>a. authenticate_inbound (demo_receive_lib src) demo_session (receive_view (preset Bdew12)) ''x'' ''application/soap+xml''
         (\<lambda>_. Inr demo_auth) ''receiver'' None = Inr a \<and> um_message_id (ai_parsed a) = mid \<and>
      (\<exists>v. open_inbound (demo_receive_lib src) (\<lambda>_. None) (demo_session\<lparr>rs_now := 0\<rparr>) (receive_view (preset Bdew12)) ''x'' ''application/soap+xml'' a
        (\<lambda>_. None) (encryption_suite (preset Bdew12)) () = (Inr v, ()))"
proof -
  obtain msg where msg: "parse_as4_user_message_from_doc True (rs_session demo_session) (src_doc src) = Inr msg"
    "um_message_id msg = mid" "um_to_party_ids msg = [''receiver'']" "is_test_service msg" "um_timestamp msg = None"
    using assms by (auto simp: demo_checks_def split: sum.splits)
  obtain cov where cov: "verify_enveloped_signature_optional_with_doc (rl_verify (demo_receive_lib src)) src UserMessageDoc (push_options demo_session demo_auth)
      = Inr (Some cov)" "enforce_messaging_signature_coverage demo_session (src_doc src) mid cov = Inr ()"
    "cov_deferred cov = Some []" "signer_certificate_der cov \<noteq> None"
    using assms by (auto simp: demo_checks_def split: sum.splits option.splits)
  obtain props refs where other: "declared_parts demo_session (src_doc src) mid = Inr []"
    "part_properties demo_session (src_doc src) mid = Inr props"
    "parse_signature_references_from_doc_optional_borrowed (src_doc src) = Inr (Some refs)"
    using assms by (auto simp: demo_checks_def split: sum.splits option.splits)
  have rs: "rs_profile_built demo_session" "rs_anchor_pems demo_session = [''anchor'']" by (simp_all add: demo_session_def)
  have chain: "wssec_chain_policy_from_session (demo_receive_lib src) demo_session =
      Inr \<lparr>trust_anchor_pems = rs_anchor_pems demo_session, require_chain_validation = True\<rparr>"
    by (simp add: wssec_chain_policy_from_session_def rs demo_receive_lib_def)
  have sec: "verify_security (demo_receive_lib src) demo_session (receive_view (preset Bdew12)) src mid [] (sender_party_id msg)
      (sa_pins demo_auth) (sa_check demo_auth) = Inr (Some cov)"
    using cov(1,2) unfolding verify_security_def chain push_options_def
    by (simp add: check_def enforce_attachment_signature_coverage_def demo_auth_def)
  have x: "xml_parse (vl_parse_tree (rl_verify (demo_receive_lib src))) ''x'' LIMITS_ENVELOPE st = Inr src" for st
    by (simp add: xml_parse_def LIMITS_ENVELOPE_def prescan.simps demo_receive_lib_def)
  obtain der where der: "signer_certificate_der cov = Some der" using cov(4) by blast
  have meta: "parse_and_verify_receive_push_metadata (demo_receive_lib src) demo_session ''x'' ''application/soap+xml'' (receive_view (preset Bdew12))
     (Some (\<lambda>_. Inr demo_auth)) = Inr \<lparr>vh_soap_xml = ''x'', vh_parsed = msg, vh_declared = [], vh_part_properties = props, vh_signature = Some cov\<rparr>"
    using msg sec other rs
    by (simp add: parse_and_verify_receive_push_metadata_def demo_parse_envelope enforce_attachment_signature_coverage_def)
  have tp: "to_this_party msg ''receiver'' None" using msg(3) by (simp add: to_this_party_def to_party_id_def split: option.splits)
  obtain a where a: "authenticate_inbound (demo_receive_lib src) demo_session (receive_view (preset Bdew12)) ''x'' ''application/soap+xml''
         (\<lambda>_. Inr demo_auth) ''receiver'' None = Inr a" "ai_parsed a = msg"
    using msg cov(3) der other(3)
    by (simp add: authenticate_inbound_def meta Let_def tp check_def parse_signature_references_def
        parse_wssec_document_def x)
  have "open_inbound (demo_receive_lib src) (\<lambda>_. None) (demo_session\<lparr>rs_now := 0\<rparr>) (receive_view (preset Bdew12)) ''x'' ''application/soap+xml'' a
        (\<lambda>_. None) (encryption_suite (preset Bdew12)) () = (Inr (inbound_without_payloads a), ())"
    using a(2) msg(4,5) demo_parse_envelope [of src]
    by (simp add: open_inbound_def open_prepare_def Let_def enforce_non_fragment_timestamp_freshness_def check_timestamp_freshness_def
        receive_view_def)
  then show ?thesis using a msg by blast
qed


definition demo_header :: "DocSource \<Rightarrow> node" where
  "demo_header src = hd (filter (is_eb ''Messaging'') (doc_nodes (src_doc src)))"

definition demo_message :: DocSource where
  "demo_message = demo_push [TextNode ''m1@asx''] ''#m'' [((Some NS_WSU, ''Id''), ''m'')]"

lemma demo_message_checks: "demo_checks ''m1@asx'' demo_message"
  by code_simp



definition demo_commented :: DocSource where
  "demo_commented = demo_push [TextNode ''m1'', CommentNode [], TextNode ''@asx''] ''#m'' [((Some NS_WSU, ''Id''), ''m'')]"

text \<open>
  C32. A comment inside a signed identifier changes what is read without changing what is signed. Canonicalization without comments drops
  comment nodes, and the parser reads the text before the first of them: two accepted messages have the same canonical
  eb:Messaging, under either canonicalization, and different message identifiers, so a recorded message can be replayed under an
  identifier deduplication has not seen.
\<close>
theorem comment_changes_signed_message_id:
  "\<exists>(lib :: unit ReceiveLib) (lib' :: unit ReceiveLib) rs policy body content_type authorize local_id a a' src src' multipart xml.
     parse_envelope lib rs body content_type = Inr (multipart, xml, src) \<and> parse_envelope lib' rs body content_type = Inr (multipart, xml, src') \<and>
     (\<forall>k. try_serialize_node_with_inclusive_ns src (c14n_default\<lparr>cp_kind := k\<rparr>) Map.empty None (demo_header src) =
        try_serialize_node_with_inclusive_ns src' (c14n_default\<lparr>cp_kind := k\<rparr>) Map.empty None (demo_header src')) \<and>
     authenticate_inbound lib rs policy body content_type authorize local_id None = Inr a \<and>
     authenticate_inbound lib' rs policy body content_type authorize local_id None = Inr a' \<and>
     um_message_id (ai_parsed a) = ''m1@asx'' \<and> um_message_id (ai_parsed a') = ''m1''"
proof -
  have checks: "demo_checks ''m1'' demo_commented" by code_simp
  have incl: "try_serialize_node_with_inclusive_ns demo_message (c14n_default\<lparr>cp_kind := Inclusive\<rparr>) Map.empty None (demo_header demo_message) =
      try_serialize_node_with_inclusive_ns demo_commented (c14n_default\<lparr>cp_kind := Inclusive\<rparr>) Map.empty None (demo_header demo_commented)"
    by code_simp
  have excl: "try_serialize_node_with_inclusive_ns demo_message (c14n_default\<lparr>cp_kind := Exclusive\<rparr>) Map.empty None (demo_header demo_message) =
      try_serialize_node_with_inclusive_ns demo_commented (c14n_default\<lparr>cp_kind := Exclusive\<rparr>) Map.empty None (demo_header demo_commented)"
    by code_simp
  have same: "try_serialize_node_with_inclusive_ns demo_message (c14n_default\<lparr>cp_kind := k\<rparr>) Map.empty None (demo_header demo_message) =
      try_serialize_node_with_inclusive_ns demo_commented (c14n_default\<lparr>cp_kind := k\<rparr>) Map.empty None (demo_header demo_commented)" for k
    using incl excl by (cases k) (simp_all only:)
  obtain a where a: "authenticate_inbound (demo_receive_lib demo_message) demo_session (receive_view (preset Bdew12)) ''x'' ''application/soap+xml''
      (\<lambda>_. Inr demo_auth) ''receiver'' None = Inr a" "um_message_id (ai_parsed a) = ''m1@asx''"
    using demo_authenticates [OF demo_message_checks] by (elim exE conjE) (rule that)
  obtain a' where a': "authenticate_inbound (demo_receive_lib demo_commented) demo_session (receive_view (preset Bdew12)) ''x'' ''application/soap+xml''
      (\<lambda>_. Inr demo_auth) ''receiver'' None = Inr a'" "um_message_id (ai_parsed a') = ''m1''"
    using demo_authenticates [OF checks] by (elim exE conjE) (rule that)
  have "parse_envelope (demo_receive_lib demo_message) demo_session ''x'' ''application/soap+xml'' = Inr (None, ''x'', demo_message) \<and>
     parse_envelope (demo_receive_lib demo_commented) demo_session ''x'' ''application/soap+xml'' = Inr (None, ''x'', demo_commented) \<and>
     (\<forall>k. try_serialize_node_with_inclusive_ns demo_message (c14n_default\<lparr>cp_kind := k\<rparr>) Map.empty None (demo_header demo_message) =
        try_serialize_node_with_inclusive_ns demo_commented (c14n_default\<lparr>cp_kind := k\<rparr>) Map.empty None (demo_header demo_commented)) \<and>
     authenticate_inbound (demo_receive_lib demo_message) demo_session (receive_view (preset Bdew12)) ''x'' ''application/soap+xml'' (\<lambda>_. Inr demo_auth) ''receiver'' None = Inr a \<and>
     authenticate_inbound (demo_receive_lib demo_commented) demo_session (receive_view (preset Bdew12)) ''x'' ''application/soap+xml'' (\<lambda>_. Inr demo_auth) ''receiver'' None = Inr a' \<and>
     um_message_id (ai_parsed a) = ''m1@asx'' \<and> um_message_id (ai_parsed a') = ''m1''"
    by (intro conjI allI demo_parse_envelope same a a')
  then show ?thesis by (intro exI)
qed

end
