(* ===== verification/Xml_Writer.thy ===== *)
theory Xml_Writer
  imports Xml_Dom Canonicalize
begin

text \<open>
  The XML writer of src/xml/writer.rs: \<open>XmlOut\<close> with its stack of open elements, the slots reserved for a later
  fragment, and the finished \<open>XmlDoc\<close>. The caller's chain of fallible calls is a list of calls, run in order up
  to the first error. The writer is shown to print exactly the tree the calls describe, with every caller value
  escaped: the fast path for plain ASCII and the general path agree, a value never becomes markup, and escaping
  loses nothing.
\<close>

section \<open>State\<close>

datatype EmptyForm = SelfClosing | StartEnd

record Open =
  op_qname :: string
  op_declared :: "string list"

text \<open>The stack's innermost element is the head.\<close>

record XmlOut =
  xo_buf :: string
  xo_stack :: "Open list"
  xo_tag_open :: bool
  xo_empty_form :: EmptyForm
  xo_segments :: "string list"

datatype XmlFragment = XmlFragment (fragment_text: string)

record XmlDoc =
  xd_segments :: "string list"
  xd_slots :: "string option list"

definition xml_invalid :: "string \<Rightarrow> string \<Rightarrow> AsxError" where
  "xml_invalid field detail = asx_error InvalidInput (field @ '': '' @ detail) (context_new ''xml_writer'')"

definition xml_misuse :: "string \<Rightarrow> AsxError" where
  "xml_misuse detail = asx_error InvalidInput (''XML writer misuse: '' @ detail) (context_new ''xml_writer'')"

section \<open>Characters\<close>

text \<open>The scalar values of a valid UTF-8 text (\<open>str::chars\<close>).\<close>

fun utf8_chars :: "nat list \<Rightarrow> nat list" where
  "utf8_chars [] = []"
| "utf8_chars (a # b # c # d # s) =
     (if a < 0x80 then a # utf8_chars (b # c # d # s)
      else if a < 0xE0 then ((a mod 0x20) * 64 + b mod 64) # utf8_chars (c # d # s)
      else if a < 0xF0 then ((a mod 0x10) * 4096 + (b mod 64) * 64 + c mod 64) # utf8_chars (d # s)
      else ((a mod 8) * 262144 + (b mod 64) * 4096 + (c mod 64) * 64 + d mod 64) # utf8_chars s)"
| "utf8_chars (a # b # c # s) =
     (if a < 0x80 then a # utf8_chars (b # c # s)
      else if a < 0xE0 then ((a mod 0x20) * 64 + b mod 64) # utf8_chars (c # s)
      else ((a mod 0x10) * 4096 + (b mod 64) * 64 + c mod 64) # utf8_chars s)"
| "utf8_chars (a # b # s) =
     (if a < 0x80 then a # utf8_chars (b # s) else ((a mod 0x20) * 64 + b mod 64) # utf8_chars s)"
| "utf8_chars (a # s) = a # utf8_chars s"

definition is_xml_char :: "nat \<Rightarrow> bool" where
  "is_xml_char c \<longleftrightarrow> c = 9 \<or> c = 10 \<or> c = 13 \<or> (0x20 \<le> c \<and> c \<le> 0xD7FF) \<or> (0xE000 \<le> c \<and> c \<le> 0xFFFD) \<or> 0x10000 \<le> c"

text \<open>\<open>format!("{:04X}")\<close>\<close>

fun show_hex_upper :: "nat \<Rightarrow> string" where
  "show_hex_upper n = (if n < 16 then [ascii_upper (hex_digit n)] else show_hex_upper (n div 16) @ [ascii_upper (hex_digit (n mod 16))])"

definition pad4 :: "string \<Rightarrow> string" where
  "pad4 s = replicate (4 - length s) (CHR ''0'') @ s"

definition check_chars :: "string \<Rightarrow> string \<Rightarrow> unit res" where
  "check_chars v field =
     (case find (\<lambda>c. \<not> is_xml_char c) (utf8_chars (map byte v)) of
        None \<Rightarrow> Inr ()
      | Some c \<Rightarrow> Inl (xml_invalid field (''contains U+'' @ pad4 (show_hex_upper c) @
          '', a character XML 1.0 cannot carry; the value is refused, not altered'')))"

definition plain_text :: "string \<Rightarrow> bool" where
  "plain_text v = list_all (\<lambda>c. 0x20 \<le> byte c \<and> byte c < 0x7F \<and> c \<notin> set ''<>&'') v"

definition plain_attr :: "string \<Rightarrow> bool" where
  "plain_attr v = list_all (\<lambda>c. 0x20 \<le> byte c \<and> byte c < 0x7F \<and> c \<noteq> CHR ''<'' \<and> c \<noteq> CHR ''&'' \<and> c \<noteq> CHR 0x22) v"

definition prefix_of :: "string \<Rightarrow> string option" where
  "prefix_of qname = map_option fst (split_once (CHR '':'') qname)"

section \<open>Operations\<close>

definition xml_with_form :: "EmptyForm \<Rightarrow> XmlOut" where
  "xml_with_form form = \<lparr>xo_buf = [], xo_stack = [], xo_tag_open = False, xo_empty_form = form, xo_segments = []\<rparr>"

definition xml_new :: XmlOut where
  "xml_new = xml_with_form SelfClosing"

definition xml_canonical :: XmlOut where
  "xml_canonical = xml_with_form StartEnd"

definition push_str :: "string \<Rightarrow> XmlOut \<Rightarrow> XmlOut" where
  "push_str s out = out\<lparr>xo_buf := xo_buf out @ s\<rparr>"

definition xml_declaration :: "XmlOut \<Rightarrow> XmlOut" where
  "xml_declaration out = push_str (''<?xml version='' @ dquote ''1.0'' @ '' encoding='' @ dquote ''UTF-8'' @ ''?>'' @ [CHR 0x0A]) out"

definition close_start_tag :: "XmlOut \<Rightarrow> XmlOut" where
  "close_start_tag out = (if xo_tag_open out then (push_str ''>'' out)\<lparr>xo_tag_open := False\<rparr> else out)"

definition prefix_in_scope :: "XmlOut \<Rightarrow> string \<Rightarrow> bool" where
  "prefix_in_scope out p \<longleftrightarrow> p = ''xml'' \<or> list_ex (\<lambda>e. p \<in> set (op_declared e)) (xo_stack out)"

definition check_prefix :: "XmlOut \<Rightarrow> string \<Rightarrow> unit res" where
  "check_prefix out qname =
     (case prefix_of qname of
        Some p \<Rightarrow> check (prefix_in_scope out p) (xml_misuse (''prefix `'' @ p @ ''` of `'' @ qname @ ''` is not declared''))
      | None \<Rightarrow> Inr ())"

definition xml_start :: "string \<Rightarrow> XmlOut \<Rightarrow> XmlOut res" where
  "xml_start qname out =
     (let out = push_str (''<'' @ qname) (close_start_tag out)
      in Inr (out\<lparr>xo_tag_open := True, xo_stack := \<lparr>op_qname = qname, op_declared = []\<rparr> # xo_stack out\<rparr>))"

definition declare_prefix :: "string \<Rightarrow> Open list \<Rightarrow> Open list" where
  "declare_prefix p stack = (case stack of [] \<Rightarrow> [] | e # es \<Rightarrow> e\<lparr>op_declared := op_declared e @ [p]\<rparr> # es)"

definition xml_ns :: "string \<Rightarrow> string \<Rightarrow> XmlOut \<Rightarrow> XmlOut res" where
  "xml_ns p uri out =
     (if \<not> xo_tag_open out then Inl (xml_misuse ''ns() outside a start tag'')
      else Inr ((push_str ((if p = [] then '' xmlns='' else '' xmlns:'' @ p @ ''='') @ dquote (escape_attr_value uri)) out)
        \<lparr>xo_stack := declare_prefix p (xo_stack out)\<rparr>))"

definition xml_attr :: "string \<Rightarrow> string \<Rightarrow> string \<Rightarrow> XmlOut \<Rightarrow> XmlOut res" where
  "xml_attr qname v field out =
     (if \<not> xo_tag_open out then Inl (xml_misuse ''attr() outside a start tag'')
      else
        rbind (if plain_attr v then Inr () else check_chars v field) (\<lambda>_.
        rbind (check_prefix out qname) (\<lambda>_.
        Inr (push_str ('' '' @ qname @ ''='' @ dquote (if plain_attr v then v else escape_attr_value v)) out))))"

definition xml_text :: "string \<Rightarrow> string \<Rightarrow> XmlOut \<Rightarrow> XmlOut res" where
  "xml_text v field out =
     (if xo_stack out = [] then Inl (xml_misuse ''text() outside an element'')
      else
        rbind (if plain_text v then Inr () else check_chars v field) (\<lambda>_.
        Inr (push_str (if plain_text v then v else escape_text v) (close_start_tag out))))"

definition xml_end :: "XmlOut \<Rightarrow> XmlOut res" where
  "xml_end out =
     (case xo_stack out of
        [] \<Rightarrow> Inl (xml_misuse ''end() with no open element'')
      | e # es \<Rightarrow>
          let out = out\<lparr>xo_stack := es\<rparr>; q = op_qname e in
          rbind (case prefix_of q of
              Some p \<Rightarrow> check (p \<in> set (op_declared e) \<or> prefix_in_scope out p)
                (xml_misuse (''prefix `'' @ p @ ''` of `'' @ q @ ''` is not declared''))
            | None \<Rightarrow> Inr ()) (\<lambda>_.
          Inr (if xo_tag_open out then
                 (push_str (case xo_empty_form out of SelfClosing \<Rightarrow> ''/>'' | StartEnd \<Rightarrow> ''></'' @ q @ ''>'') out)
                   \<lparr>xo_tag_open := False\<rparr>
               else push_str (''</'' @ q @ ''>'') out)))"

definition xml_leaf :: "string \<Rightarrow> string \<Rightarrow> string \<Rightarrow> XmlOut \<Rightarrow> XmlOut res" where
  "xml_leaf qname v field out = rbind (xml_start qname out) (\<lambda>out. rbind (xml_text v field out) xml_end)"

definition xml_slot :: "XmlOut \<Rightarrow> nat \<times> XmlOut" where
  "xml_slot out =
     (let out = close_start_tag out
      in (length (xo_segments out), out\<lparr>xo_segments := xo_segments out @ [xo_buf out], xo_buf := []\<rparr>))"

definition xml_fragment :: "XmlFragment \<Rightarrow> XmlOut \<Rightarrow> XmlOut res" where
  "xml_fragment f out = Inr (push_str (fragment_text f) (close_start_tag out))"

text \<open>\<open>range_of\<close> gives the root element's place in the text, which the parser library reports.\<close>

definition document_element ::
  "(nat \<Rightarrow> string \<Rightarrow> (string, 'd) result) \<Rightarrow> ('d \<Rightarrow> nat \<times> nat) \<Rightarrow> string \<Rightarrow> XmlLimits \<Rightarrow> string \<Rightarrow> XmlOut \<Rightarrow> XmlOut res" where
  "document_element parse_tree range_of text limits field out =
     (if xo_stack out = [] then Inl (xml_misuse ''document_element() outside an element'')
      else
        rbind (map_err (\<lambda>e. xml_invalid field (''is not a well-formed XML document: '' @ err_message e))
          (xml_parse parse_tree text limits ''xml_writer'')) (\<lambda>doc.
        Inr (push_str (take (snd (range_of doc) - fst (range_of doc)) (drop (fst (range_of doc)) text)) (close_start_tag out))))"

definition xml_finish :: "XmlOut \<Rightarrow> XmlDoc res" where
  "xml_finish out =
     (case xo_stack out of
        e # _ \<Rightarrow> Inl (xml_misuse (''finish() with `'' @ op_qname e @ ''` still open''))
      | [] \<Rightarrow> let segs = xo_segments out @ [xo_buf out]
              in Inr \<lparr>xd_segments = segs, xd_slots = replicate (length segs - 1) None\<rparr>)"

definition xml_fill :: "nat \<Rightarrow> XmlFragment \<Rightarrow> XmlDoc \<Rightarrow> XmlDoc res" where
  "xml_fill slot f doc =
     (if length (xd_slots doc) \<le> slot then Inl (xml_misuse ''slot of another writer'')
      else if xd_slots doc ! slot \<noteq> None then Inl (xml_misuse ''slot filled twice'')
      else Inr (doc\<lparr>xd_slots := (xd_slots doc)[slot := Some (fragment_text f)]\<rparr>))"

fun interleave :: "string list \<Rightarrow> string option list \<Rightarrow> string" where
  "interleave [] slots = []"
| "interleave (s # segs) slots =
     s @ (case slots of Some f # _ \<Rightarrow> f | _ \<Rightarrow> []) @ interleave segs (tl slots)"

definition text_with_empty_slots :: "XmlDoc \<Rightarrow> string" where
  "text_with_empty_slots doc = interleave (xd_segments doc) (xd_slots doc)"

definition doc_into_string :: "XmlDoc \<Rightarrow> string res" where
  "doc_into_string doc =
     (if list_ex (\<lambda>s. s = None) (xd_slots doc) then Inl (xml_misuse ''a reserved slot was never filled'')
      else if xd_slots doc = [] then Inr (case xd_segments doc of [] \<Rightarrow> [] | s # _ \<Rightarrow> s)
      else Inr (interleave (xd_segments doc) (xd_slots doc)))"

definition into_fragment :: "XmlDoc \<Rightarrow> XmlFragment res" where
  "into_fragment doc = rbind (doc_into_string doc) (\<lambda>s. Inr (XmlFragment s))"

text \<open>A chain of calls \<open>out.start(..)?.attr(..)?\<close>.\<close>

datatype call =
    Start string
  | Ns string string
  | Attr string string string
  | Text string string
  | End
  | Leaf string string string
  | Fragment XmlFragment

fun xml_call :: "XmlOut \<Rightarrow> call \<Rightarrow> XmlOut res" where
  "xml_call out (Start q) = xml_start q out"
| "xml_call out (Ns p u) = xml_ns p u out"
| "xml_call out (Attr q v f) = xml_attr q v f out"
| "xml_call out (Text v f) = xml_text v f out"
| "xml_call out End = xml_end out"
| "xml_call out (Leaf q v f) = xml_leaf q v f out"
| "xml_call out (Fragment f) = xml_fragment f out"

definition xml_calls :: "call list \<Rightarrow> XmlOut \<Rightarrow> XmlOut res" where
  "xml_calls cs out = rfold xml_call out cs"

section \<open>Values are never markup\<close>

lemma plain_text_escape: "plain_text v \<Longrightarrow> escape_text v = v"
  by (induction v) (auto simp: plain_text_def escape_text_def byte_def)

lemma plain_attr_escape: "plain_attr v \<Longrightarrow> escape_attr_value v = v"
  by (induction v) (auto simp: plain_attr_def escape_attr_value_def byte_def)

lemma utf8_chars_ascii: "list_all (\<lambda>b. b < 0x80) bs \<Longrightarrow> utf8_chars bs = bs"
  by (induction bs rule: utf8_chars.induct) auto


lemma plain_chars_ok:
  "plain_text v \<Longrightarrow> check_chars v f = Inr ()" "plain_attr v \<Longrightarrow> check_chars v f = Inr ()"
proof -
  have "check_chars v f = Inr ()" if p: "list_all (\<lambda>c. 0x20 \<le> byte c \<and> byte c < 0x7F) v"
  proof -
    have "list_all (\<lambda>b. b < 0x80) (map byte v)" using p by (auto simp: list_all_iff)
    then show ?thesis using p
      by (auto simp: check_chars_def utf8_chars_ascii find_None_iff is_xml_char_def list_all_iff split: option.split)
  qed
  then show "plain_text v \<Longrightarrow> check_chars v f = Inr ()" "plain_attr v \<Longrightarrow> check_chars v f = Inr ()"
    by (auto simp: plain_text_def plain_attr_def list_all_iff)
qed

text \<open>The two paths of \<open>attr\<close> and \<open>text\<close> are one.\<close>

lemma xml_attr_alt:
  "xml_attr q v f out =
     (if \<not> xo_tag_open out then Inl (xml_misuse ''attr() outside a start tag'')
      else rbind (check_chars v f) (\<lambda>_. rbind (check_prefix out q) (\<lambda>_.
        Inr (push_str ('' '' @ q @ ''='' @ dquote (escape_attr_value v)) out))))"
  by (auto simp: xml_attr_def plain_attr_escape plain_chars_ok)

lemma xml_text_alt:
  "xml_text v f out =
     (if xo_stack out = [] then Inl (xml_misuse ''text() outside an element'')
      else rbind (check_chars v f) (\<lambda>_. Inr (push_str (escape_text v) (close_start_tag out))))"
  by (auto simp: xml_text_def plain_text_escape plain_chars_ok)

section \<open>The reference: the tree the calls describe\<close>

text \<open>
  An element with the namespaces it declares, its attributes and its content; values carry the field name an error
  reports. \<open>calls_of\<close> is the chain of calls that writes the tree, \<open>written_of\<close> its text as a document written
  with every value escaped.
\<close>

datatype spec =
    SElem string "(string \<times> string) list" "(string \<times> string \<times> string) list" "spec list"
  | SText string string

fun calls_of :: "spec \<Rightarrow> call list" where
  "calls_of (SElem q ns as cs) =
     Start q # map (\<lambda>(p, u). Ns p u) ns @ map (\<lambda>(a, v, f). Attr a v f) as @ concat (map calls_of cs) @ [End]"
| "calls_of (SText v f) = [Text v f]"

definition written_attrs :: "(string \<times> string) list \<Rightarrow> (string \<times> string \<times> string) list \<Rightarrow> (string \<times> string) list" where
  "written_attrs ns as =
     map (\<lambda>(p, u). (if p = [] then ''xmlns'' else ''xmlns:'' @ p, escape_attr_value u)) ns @
     map (\<lambda>(a, v, f). (a, escape_attr_value v)) as"

fun written_of :: "EmptyForm \<Rightarrow> spec \<Rightarrow> written" where
  "written_of form (SElem q ns as cs) =
     (if cs = [] \<and> form = SelfClosing then Empty q (written_attrs ns as)
      else Tag q (written_attrs ns as) (map (written_of form) cs))"
| "written_of form (SText v f) = Chars (escape_text v)"

text \<open>Every prefix is declared at or above its use, and every value can be carried.\<close>

definition prefix_ok :: "string list \<Rightarrow> string \<Rightarrow> bool" where
  "prefix_ok scope q = (case prefix_of q of None \<Rightarrow> True | Some p \<Rightarrow> p = ''xml'' \<or> p \<in> set scope)"

definition chars_ok :: "string \<Rightarrow> bool" where
  "chars_ok v = list_all is_xml_char (utf8_chars (map byte v))"

fun spec_ok :: "string list \<Rightarrow> spec \<Rightarrow> bool" where
  "spec_ok scope (SElem q ns as cs) =
     (let scope = map fst ns @ scope
      in prefix_ok scope q \<and> list_all (\<lambda>(a, v, f). prefix_ok scope a \<and> chars_ok v) as \<and> list_all (spec_ok scope) cs)"
| "spec_ok scope (SText v f) = chars_ok v"

definition scope_of :: "XmlOut \<Rightarrow> string list" where
  "scope_of out = concat (map op_declared (xo_stack out))"

text \<open>The writer after a complete piece of content.\<close>

definition after :: "XmlOut \<Rightarrow> string \<Rightarrow> XmlOut" where
  "after out s = push_str s (close_start_tag out)"

lemma after_sel [simp]:
  "xo_stack (after out s) = xo_stack out" "xo_tag_open (after out s) = False" "xo_empty_form (after out s) = xo_empty_form out"
  "scope_of (after out s) = scope_of out" "after (after out s) t = after out (s @ t)"
  by (auto simp: after_def push_str_def close_start_tag_def scope_of_def)

lemma chars_ok_iff: "check_chars v f = Inr u \<longleftrightarrow> chars_ok v"
  by (auto simp: check_chars_def chars_ok_def list_all_iff find_None_iff find_Some_iff split: option.split)

lemma prefix_in_scope_iff: "prefix_in_scope out p \<longleftrightarrow> p = ''xml'' \<or> p \<in> set (scope_of out)"
  by (auto simp: prefix_in_scope_def scope_of_def list_ex_iff)

lemma check_prefix_iff: "check_prefix out q = Inr u \<longleftrightarrow> prefix_ok (scope_of out) q"
  by (auto simp: check_prefix_def prefix_ok_def prefix_in_scope_iff check_Inr_iff split: option.split)

lemma xml_calls_simps [simp]:
  "xml_calls [] out = Inr out" "xml_calls (c # cs) out = rbind (xml_call out c) (xml_calls cs)"
  "xml_calls (cs @ ds) out = rbind (xml_calls cs out) (xml_calls ds)"
proof -
  show nil: "xml_calls [] out = Inr out" for out by (simp add: xml_calls_def)
  show cons: "xml_calls (c # cs) out = rbind (xml_call out c) (xml_calls cs)" for c cs out
    by (auto simp: xml_calls_def rbind_def split: sum.split)
  show "xml_calls (cs @ ds) out = rbind (xml_calls cs out) (xml_calls ds)"
    by (induction cs arbitrary: out) (auto simp: nil cons rbind_def split: sum.split)
qed

text \<open>Inside a start tag: the element on top, and what its declarations and attributes append.\<close>

definition in_tag :: "XmlOut \<Rightarrow> string \<Rightarrow> string list \<Rightarrow> Open list \<Rightarrow> bool" where
  "in_tag out q ps es \<longleftrightarrow> xo_tag_open out \<and> xo_stack out = \<lparr>op_qname = q, op_declared = ps\<rparr> # es"

lemma calls_ns:
  assumes "in_tag out q ps es"
  shows "xml_calls (map (\<lambda>(p, u). Ns p u) ns) out =
    Inr ((push_str (render_attrs (map (\<lambda>(p, u). (if p = [] then ''xmlns'' else ''xmlns:'' @ p, escape_attr_value u)) ns)) out)
      \<lparr>xo_stack := \<lparr>op_qname = q, op_declared = ps @ map fst ns\<rparr> # es\<rparr>)"
  using assms
proof (induction ns arbitrary: out ps)
  case Nil
  then show ?case by (cases out) (simp add: in_tag_def push_str_def render_attrs_def)
next
  case (Cons n ns)
  obtain p u where n: "n = (p, u)" by force
  define o1 where "o1 = (push_str ((if p = [] then '' xmlns='' else '' xmlns:'' @ p @ ''='') @ dquote (escape_attr_value u)) out)
        \<lparr>xo_stack := declare_prefix p (xo_stack out)\<rparr>"
  have s: "xml_ns p u out = Inr o1" using Cons.prems by (simp add: xml_ns_def in_tag_def o1_def)
  have "in_tag o1 q (ps @ [p]) es" using Cons.prems by (simp add: in_tag_def o1_def declare_prefix_def push_str_def)
  from Cons.IH [OF this] have "xml_calls (map (\<lambda>(p, u). Ns p u) (n # ns)) out =
    Inr ((push_str (render_attrs (map (\<lambda>(p, u). (if p = [] then ''xmlns'' else ''xmlns:'' @ p, escape_attr_value u)) ns)) o1)
      \<lparr>xo_stack := \<lparr>op_qname = q, op_declared = (ps @ [p]) @ map fst ns\<rparr> # es\<rparr>)"
    by (simp add: n s)
  then show ?case by (cases "p = []") (simp_all add: n o1_def push_str_def render_attrs_def)
qed

lemma calls_attrs:
  assumes "in_tag out q ps es"
  shows "xml_calls (map (\<lambda>(a, v, f). Attr a v f) as) out = Inr out' \<longleftrightarrow>
    list_all (\<lambda>(a, v, f). prefix_ok (scope_of out) a \<and> chars_ok v) as \<and>
    out' = push_str (render_attrs (map (\<lambda>(a, v, f). (a, escape_attr_value v)) as)) out"
  using assms
proof (induction as arbitrary: out)
  case Nil
  then show ?case by (cases out) (auto simp: render_attrs_def push_str_def)
next
  case (Cons x as)
  obtain a v f where x: "x = (a, v, f)" by (cases x)
  define o1 where "o1 = push_str ('' '' @ a @ ''='' @ dquote (escape_attr_value v)) out"
  have t: "xo_tag_open out" using Cons.prems by (simp add: in_tag_def)
  have o1: "in_tag o1 q ps es" "scope_of o1 = scope_of out"
    using Cons.prems by (simp_all add: in_tag_def o1_def push_str_def scope_of_def)
  have "xml_attr a v f out = Inr o2 \<longleftrightarrow> chars_ok v \<and> prefix_ok (scope_of out) a \<and> o2 = o1" for o2
    using t by (auto simp: xml_attr_alt rbind_Inr_iff chars_ok_iff check_prefix_iff o1_def)
  moreover have "push_str (render_attrs (map (\<lambda>(a, v, f). (a, escape_attr_value v)) as)) o1 =
      push_str (render_attrs (map (\<lambda>(a, v, f). (a, escape_attr_value v)) (x # as))) out"
    by (simp add: x o1_def push_str_def render_attrs_def)
  ultimately show ?case using Cons.IH [OF o1(1)] by (auto simp: x o1(2) rbind_Inr_iff)
qed


lemma calls_children:
  assumes "\<And>c out out'. c \<in> set cs \<Longrightarrow> xo_stack out \<noteq> [] \<Longrightarrow>
      xml_calls (calls_of c) out = Inr out' \<longleftrightarrow> spec_ok (scope_of out) c \<and> out' = after out (render (written_of (xo_empty_form out) c))"
    and "xo_stack out \<noteq> []"
  shows "xml_calls (concat (map calls_of cs)) out = Inr out' \<longleftrightarrow>
    list_all (spec_ok (scope_of out)) cs \<and>
    out' = (if cs = [] then out else after out (concat (map (render \<circ> written_of (xo_empty_form out)) cs)))"
  using assms
proof (induction cs arbitrary: out)
  case (Cons c cs)
  have c: "xml_calls (calls_of c) out = Inr o1 \<longleftrightarrow> spec_ok (scope_of out) c \<and> o1 = after out (render (written_of (xo_empty_form out) c))" for o1
    using Cons.prems by auto
  have "xml_calls (concat (map calls_of cs)) o1 = Inr out' \<longleftrightarrow>
    list_all (spec_ok (scope_of o1)) cs \<and>
    out' = (if cs = [] then o1 else after o1 (concat (map (render \<circ> written_of (xo_empty_form o1)) cs)))"
    if "o1 = after out (render (written_of (xo_empty_form out) c))" for o1
    by (rule Cons.IH) (use Cons.prems that in auto)
  then show ?case by (auto simp: rbind_Inr_iff c)
qed auto

lemma end_in_tag:
  assumes "xo_stack out = \<lparr>op_qname = q, op_declared = ps\<rparr> # es"
  shows "xml_end out = Inr out' \<longleftrightarrow> prefix_ok (ps @ concat (map op_declared es)) q \<and>
    out' = (if xo_tag_open out then push_str (case xo_empty_form out of SelfClosing \<Rightarrow> ''/>'' | StartEnd \<Rightarrow> ''></'' @ q @ ''>'') out
            else push_str (''</'' @ q @ ''>'') out)\<lparr>xo_stack := es, xo_tag_open := False\<rparr>"
  using assms
  by (cases out) (auto simp: xml_end_def Let_def rbind_Inr_iff check_Inr_iff prefix_ok_def prefix_in_scope_iff scope_of_def push_str_def
      split: option.split)

lemma calls_of_Inr:
  "xo_stack out \<noteq> [] \<or> (\<exists>q ns as cs. t = SElem q ns as cs) \<Longrightarrow>
   xml_calls (calls_of t) out = Inr out' \<longleftrightarrow>
     spec_ok (scope_of out) t \<and> out' = after out (render (written_of (xo_empty_form out) t))"
proof (induction t arbitrary: out out')
  case (SText v f)
  then show ?case by (auto simp: xml_text_alt rbind_Inr_iff chars_ok_iff after_def)
next
  case (SElem q ns as cs)
  define o1 where "o1 = (push_str (''<'' @ q) (close_start_tag out))\<lparr>xo_tag_open := True,
    xo_stack := \<lparr>op_qname = q, op_declared = []\<rparr> # xo_stack out\<rparr>"
  define nsa where "nsa = map (\<lambda>(p, u). (if p = [] then ''xmlns'' else ''xmlns:'' @ p, escape_attr_value u)) ns"
  define asa where "asa = map (\<lambda>(a, v, f :: string). (a, escape_attr_value v)) as"
  define es where "es = xo_stack out"
  define o2 where "o2 = (push_str (render_attrs nsa) o1)\<lparr>xo_stack := \<lparr>op_qname = q, op_declared = map fst ns\<rparr> # es\<rparr>"
  define o3 where "o3 = push_str (render_attrs asa) o2"
  define o4 where "o4 = (if cs = [] then o3 else after o3 (concat (map (render \<circ> written_of (xo_empty_form o3)) cs)))"
  have o1: "xml_start q out = Inr o1" "in_tag o1 q [] es"
    by (simp_all add: xml_start_def Let_def o1_def in_tag_def es_def push_str_def close_start_tag_def)
  have o2: "xml_calls (map (\<lambda>(p, u). Ns p u) ns) o1 = Inr o2" "in_tag o2 q (map fst ns) es"
    using calls_ns [OF o1(2), of ns] o1(2) by (simp_all add: o2_def nsa_def in_tag_def push_str_def)
  have sc: "scope_of o2 = map fst ns @ scope_of out" "scope_of o3 = scope_of o2" "xo_stack o3 \<noteq> []" "xo_empty_form o3 = xo_empty_form out"
    by (simp_all add: scope_of_def o2_def o3_def es_def push_str_def o1_def close_start_tag_def)
  have o3: "xml_calls (map (\<lambda>(a, v, f). Attr a v f) as) o2 = Inr x \<longleftrightarrow>
      list_all (\<lambda>(a, v, f). prefix_ok (scope_of o2) a \<and> chars_ok v) as \<and> x = o3" for x
    using calls_attrs [OF o2(2), of as] by (simp add: o3_def asa_def)
  have o4: "xml_calls (concat (map calls_of cs)) o3 = Inr x \<longleftrightarrow> list_all (spec_ok (scope_of o2)) cs \<and> x = o4" for x
    using calls_children [OF _ sc(3), of cs x] SElem.IH by (simp add: o4_def sc(2))
  have st4: "xo_stack o4 = \<lparr>op_qname = q, op_declared = map fst ns\<rparr> # es"
    using o2(2) by (simp add: o4_def o3_def push_str_def in_tag_def after_def close_start_tag_def)
  have fin: "(if xo_tag_open o4 then push_str (case xo_empty_form o4 of SelfClosing \<Rightarrow> ''/>'' | StartEnd \<Rightarrow> ''></'' @ q @ ''>'') o4
            else push_str (''</'' @ q @ ''>'') o4)\<lparr>xo_stack := es, xo_tag_open := False\<rparr> =
      after out (render (written_of (xo_empty_form out) (SElem q ns as cs)))"
    by (cases out; cases "xo_empty_form out")
      (auto simp: o4_def o3_def o2_def o1_def after_def push_str_def close_start_tag_def es_def written_attrs_def nsa_def asa_def
        render_attrs_def comp_def)
  have en: "xml_end o4 = Inr x \<longleftrightarrow> prefix_ok (scope_of o2) q \<and>
      x = after out (render (written_of (xo_empty_form out) (SElem q ns as cs)))" for x
    unfolding end_in_tag [OF st4] fin sc(1) by (simp add: scope_of_def es_def)
  have "xml_calls (calls_of (SElem q ns as cs)) out = Inr out' \<longleftrightarrow>
      list_all (\<lambda>(a, v, f). prefix_ok (scope_of o2) a \<and> chars_ok v) as \<and> list_all (spec_ok (scope_of o2)) cs \<and>
      prefix_ok (scope_of o2) q \<and> out' = after out (render (written_of (xo_empty_form out) (SElem q ns as cs)))"
    by (simp add: rbind_Inr_iff o1(1) o2(1) o3 o4 en del: written_of.simps)
  then show ?case unfolding spec_ok.simps Let_def sc(1) by blast
qed


text \<open>\<open>leaf\<close> is its three calls, and chains compose.\<close>

fun expand :: "call \<Rightarrow> call list" where
  "expand (Leaf q v f) = [Start q, Text v f, End]"
| "expand c = [c]"

lemma xml_calls_expand: "xml_calls cs out = xml_calls (concat (map expand cs)) out"
proof (induction cs arbitrary: out)
  case (Cons c cs)
  have "xml_call out c = xml_calls (expand c) out"
    by (cases c) (auto simp: xml_leaf_def rbind_def split: sum.split)
  moreover have "xml_calls cs = xml_calls (concat (map expand cs))" using Cons.IH by (rule ext)
  ultimately show ?case by simp
qed simp

lemma expand_calls_of: "concat (map expand (calls_of t)) = calls_of t"
proof (induction t)
  case (SElem q ns as cs)
  have "concat (map expand (map (\<lambda>(p, u). Ns p u) ns)) = map (\<lambda>(p, u). Ns p u) ns" by (induction ns) auto
  moreover have "concat (map expand (map (\<lambda>(a, v, f). Attr a v f) as)) = map (\<lambda>(a, v, f). Attr a v f) as" by (induction as) auto
  moreover have "concat (map expand (concat (map calls_of cs))) = concat (map calls_of cs)"
    using SElem by (induction cs) auto
  ultimately show ?case by simp
qed simp

lemma rbind_rbind: "rbind (rbind r f) g = rbind r (\<lambda>x. rbind (f x) g)"
  by (cases r) simp_all

section \<open>Writing a document\<close>

text \<open>A whole document: the calls on a new writer, finished, as text.\<close>

definition written_document :: "EmptyForm \<Rightarrow> call list \<Rightarrow> string res" where
  "written_document form cs = rbind (rbind (xml_calls cs (xml_with_form form)) xml_finish) doc_into_string"

lemma finish_new:
  "rbind (xml_finish (after (xml_with_form form) s)) doc_into_string = Inr s"
  by (simp add: xml_finish_def doc_into_string_def after_def push_str_def close_start_tag_def xml_with_form_def)

lemma written_document_tree:
  "written_document form (calls_of (SElem q ns as cs)) = Inr s \<longleftrightarrow>
     spec_ok [] (SElem q ns as cs) \<and> s = render (written_of form (SElem q ns as cs))"
proof -
  have "scope_of (xml_with_form form) = []" "xo_empty_form (xml_with_form form) = form"
    by (simp_all add: xml_with_form_def scope_of_def)
  then have c: "xml_calls (calls_of (SElem q ns as cs)) (xml_with_form form) = Inr out \<longleftrightarrow>
      spec_ok [] (SElem q ns as cs) \<and> out = after (xml_with_form form) (render (written_of form (SElem q ns as cs)))" for out
    using calls_of_Inr [of "xml_with_form form" "SElem q ns as cs" out] by (simp del: calls_of.simps spec_ok.simps written_of.simps)
  have "written_document form (calls_of (SElem q ns as cs)) = Inr s \<longleftrightarrow>
      (\<exists>out. xml_calls (calls_of (SElem q ns as cs)) (xml_with_form form) = Inr out \<and> rbind (xml_finish out) doc_into_string = Inr s)"
    by (auto simp: written_document_def rbind_Inr_iff simp del: calls_of.simps)
  then show ?thesis unfolding c using finish_new by (metis sum.inject(2))
qed

text \<open>The names of a tree, which the source fixes, are names.\<close>

fun names_ok :: "spec \<Rightarrow> bool" where
  "names_ok (SElem q ns as cs) \<longleftrightarrow> name_ok q \<and> list_all (\<lambda>(p, u). p = [] \<or> name_ok p) ns \<and> list_all (\<lambda>(a, v, f). name_ok a) as \<and> list_all names_ok cs"
| "names_ok (SText v f) \<longleftrightarrow> True"

lemma escape_chars:
  "CHR ''<'' \<notin> set (escape_text v)" "CHR ''<'' \<notin> set (escape_attr_value v)" "CHR 0x22 \<notin> set (escape_attr_value v)"
  by (auto simp: escape_text_def escape_attr_value_def split: if_splits)

lemma name_ok_xmlns: "name_ok p \<Longrightarrow> name_ok (''xmlns:'' @ p)" "name_ok ''xmlns''"
  by (auto simp: name_ok_def)

lemma written_ok_of: "names_ok t \<Longrightarrow> written_ok (written_of form t)"
proof (induction t)
  case (SElem q ns as cs)
  have "list_all (\<lambda>(k, v). name_ok k \<and> CHR 0x22 \<notin> set v) (written_attrs ns as)"
    using SElem.prems name_ok_xmlns by (auto simp: written_attrs_def list_all_iff escape_chars)
  then show ?case using SElem by (auto simp: list_all_iff)
qed (simp add: escape_chars)

text \<open>
  The tree a namespace-aware parser makes of the written text: prefixes resolved by the declarations in scope
  (the innermost first; an unprefixed attribute has no namespace), an empty text no node.
\<close>

definition name_in :: "(string \<times> string) list \<Rightarrow> string \<Rightarrow> string option \<times> string" where
  "name_in env q =
     (case split_once (CHR '':'') q of
        Some (p, local) \<Rightarrow> (if p = ''xml'' then Some NS_XML else map_of env p, local)
      | None \<Rightarrow> (map_of env [], q))"

definition attr_name_in :: "(string \<times> string) list \<Rightarrow> string \<Rightarrow> string option \<times> string" where
  "attr_name_in env q = (if prefix_of q = None then (None, q) else name_in env q)"

fun dom_of :: "(string \<times> string) list \<Rightarrow> spec \<Rightarrow> xnode list" where
  "dom_of env (SElem q ns as cs) =
     (let env = rev ns @ env
      in [Element (fst (name_in env q)) (snd (name_in env q)) (map (\<lambda>(a, v, f). (attr_name_in env a, v)) as)
            (concat (map (dom_of env) cs))])"
| "dom_of env (SText v f) = (if v = [] then [] else [TextNode v])"

text \<open>What a reader makes of a written value: the predefined entities and the character references.\<close>

definition entities :: "(string \<times> char) list" where
  "entities = [(''&amp;'', CHR ''&''), (''&lt;'', CHR ''<''), (''&gt;'', CHR ''>''), (''&quot;'', CHR 0x22),
     (''&#x9;'', CHR 0x09), (''&#xA;'', CHR 0x0A), (''&#xD;'', CHR 0x0D)]"

fun unescape :: "nat \<Rightarrow> string \<Rightarrow> string" where
  "unescape fuel [] = []"
| "unescape 0 s = s"
| "unescape (Suc fuel) (c # s) =
     (if c = CHR ''&'' then
        (case find (\<lambda>(e, _). starts_with (c # s) e) entities of
           Some (e, d) \<Rightarrow> d # unescape fuel (drop (length e) (c # s))
         | None \<Rightarrow> c # unescape fuel s)
      else c # unescape fuel s)"


lemma unescape_plain: "c \<noteq> CHR ''&'' \<Longrightarrow> 0 < fuel \<Longrightarrow> unescape fuel (c # s) = c # unescape (fuel - 1) s"
  by (cases fuel) auto

lemma unescape_entity:
  "(e, d) \<in> set entities \<Longrightarrow> 0 < fuel \<Longrightarrow> unescape fuel (e @ s) = d # unescape (fuel - 1) s"
  by (cases fuel) (auto simp: entities_def)

lemma unescape_concat:
  assumes "\<And>c. f c = [c] \<and> c \<noteq> CHR ''&'' \<or> (f c, c) \<in> set entities" "length v \<le> fuel"
  shows "unescape fuel (concat (map f v)) = v"
  using assms(2)
proof (induction v arbitrary: fuel)
  case (Cons c v)
  have "0 < fuel" "length v \<le> fuel - 1" using Cons.prems by auto
  then show ?case using assms(1) [of c] Cons.IH [of "fuel - 1"]
    by (elim disjE) (simp_all add: unescape_plain unescape_entity)
qed simp

lemma escape_text_entities: "escape_text_char c = [c] \<and> c \<noteq> CHR ''&'' \<or> (escape_text_char c, c) \<in> set entities"
  by (auto simp: entities_def)

lemma escape_attr_entities: "escape_attr_char c = [c] \<and> c \<noteq> CHR ''&'' \<or> (escape_attr_char c, c) \<in> set entities"
  by (auto simp: entities_def)

section \<open>Properties\<close>

text \<open>
  C34. The writer prints exactly the tree its calls describe. For any tree of elements, namespace declarations,
  attributes and text, the chain of \<open>start\<close>, \<open>ns\<close>, \<open>attr\<close>, \<open>text\<close> and \<open>end\<close> calls succeeds if and only if every prefix
  is declared at or above its use and every caller value consists of characters XML 1.0 can carry, and then the
  text is the tree's, with every value escaped, in either form of empty elements: the fast path for plain values
  changes nothing, and end tags always match.
\<close>

theorem writer_prints_its_tree:
  "written_document form (calls_of (SElem q ns as cs)) = Inr s \<longleftrightarrow>
     spec_ok [] (SElem q ns as cs) \<and> s = render (written_of form (SElem q ns as cs))"
  by (rule written_document_tree)

text \<open>
  C35. A value written as text or as an attribute is never markup and is read back unchanged: the escaped text holds
  no opening angle bracket, the escaped attribute neither that nor the closing quote, and decoding the entities and
  character references gives the value.
\<close>

theorem written_values_read_back:
  "CHR ''<'' \<notin> set (escape_text v) \<and> unescape (length v) (escape_text v) = v \<and>
   CHR ''<'' \<notin> set (escape_attr_value v) \<and> CHR 0x22 \<notin> set (escape_attr_value v) \<and>
   unescape (length v) (escape_attr_value v) = v"
  using unescape_concat [of escape_text_char v "length v"] unescape_concat [of escape_attr_char v "length v"]
    escape_text_entities escape_attr_entities escape_chars
  by (simp add: escape_text_def escape_attr_value_def)

end
