(* ===== verification/Wssec_Sign.thy ===== *)
theory Wssec_Sign
  imports Xml_Writer Wssec_Parse
begin

text \<open>
  Signing (src/crypto/wssec/sign.rs) and the \<open>wsse:Security\<close> header (src/crypto/soap_builder.rs): a signature is
  prepared without a key (\<open>prepare_signed_info\<close>), the key signs the canonical \<open>ds:SignedInfo\<close>, and the value is put
  into \<open>ds:Signature\<close> and the header. The XML parser, the hash, base64 and the certificate decoder are the library.
  A built path token is split into the same certificates, and a prepared signature digests every reference it
  declares.
\<close>

record SignLib =
  sg_parse :: "nat \<Rightarrow> string \<Rightarrow> (string, DocSource) result"
  sg_range :: "DocSource \<Rightarrow> nat \<times> nat"
  sg_hash :: hasher
  sg_b64 :: "bytes \<Rightarrow> string"
  sg_from_der :: "bytes \<Rightarrow> (string, X509) result"
  sg_to_pem :: "X509 \<Rightarrow> (string, bytes) result"
  sg_pem_to_der :: "bytes \<Rightarrow> (string, bytes) result"
  sg_rsa :: "X509 \<Rightarrow> (bytes \<times> bytes) option"
  sg_ecdsa :: EcdsaLib

definition SIGN_STAGE :: string where
  "SIGN_STAGE = ''wssec_generate_signature''"

definition REFERENCE_DIGEST :: WsSecDigestMethod where
  "REFERENCE_DIGEST = Sha256"

definition WSSE_X509V3_VALUE_TYPE :: string where
  "WSSE_X509V3_VALUE_TYPE = ''http://docs.oasis-open.org/wss/2004/01/oasis-200401-wss-x509-token-profile-1.0#X509v3''"

definition WSSE_X509_PKIPATH_VALUE_TYPE :: string where
  "WSSE_X509_PKIPATH_VALUE_TYPE = ''http://docs.oasis-open.org/wss/2004/01/oasis-200401-wss-x509-token-profile-1.0#X509PKIPathv1''"

definition WSSE_BASE64_ENCODING :: string where
  "WSSE_BASE64_ENCODING = ''http://docs.oasis-open.org/wss/2004/01/oasis-200401-wss-soap-message-security-1.0#Base64Binary''"

section \<open>Preparing\<close>

record PreparedReference =
  pr_uri :: string
  pr_transform :: TransformAlg
  pr_digest :: bytes

record PreparedSignature =
  ps_algorithm :: DsSignatureAlgorithm
  ps_signed_info :: XmlFragment
  ps_canonical_signed_info :: string

definition require_references :: "string list \<Rightarrow> unit res" where
  "require_references uris =
     check (uris \<noteq> []) (asx_error InvalidInput ''XMLDSig signature must contain at least one ds:Reference'' (context_new SIGN_STAGE))"

text \<open>A later pair of the same URI replaces an earlier one, as in the map the pairs are collected into.\<close>

definition prepare_reference :: "SignLib \<Rightarrow> DocSource \<Rightarrow> (string \<times> string) list \<Rightarrow> string \<Rightarrow> PreparedReference res" where
  "prepare_reference lib src ext uri =
     (if starts_with uri ''cid:'' then
        rbind (ok_or (asx_error InvalidInput
            (''missing external reference bytes for URI '' @ uri @ ''; include it in external_references'')
            (with_message_id uri (context_new SIGN_STAGE))) (map_of (rev ext) uri)) (\<lambda>payload.
          Inr \<lparr>pr_uri = uri, pr_transform = AttachmentContent, pr_digest = sg_hash lib REFERENCE_DIGEST payload\<rparr>)
      else
        rbind (normalize_same_document_uri uri) (\<lambda>target_id.
        rbind (canonicalize_reference_digest_from_same_document_target_id_with_inclusive_ns (sg_hash lib) src uri target_id
           c14n_default None REFERENCE_DIGEST) (\<lambda>digest.
          Inr \<lparr>pr_uri = uri, pr_transform = TC14n Exclusive, pr_digest = digest\<rparr>)))"

text \<open>The parts of \<open>ds:SignedInfo\<close>, in the order written.\<close>

definition empty_element :: "string \<Rightarrow> string \<Rightarrow> string \<Rightarrow> spec" where
  "empty_element q uri field = SElem q [] [(''Algorithm'', uri, field)] []"

definition leaf_element :: "string \<Rightarrow> string \<Rightarrow> string \<Rightarrow> spec" where
  "leaf_element q v field = SElem q [] [] [SText v field]"

definition reference_element :: "SignLib \<Rightarrow> WsSecDigestMethod \<Rightarrow> PreparedReference \<Rightarrow> spec" where
  "reference_element lib ref_digest r =
     SElem ''ds:Reference'' [] [(''URI'', pr_uri r, ''ds:Reference/@URI'')]
       [SElem ''ds:Transforms'' [] [] [empty_element ''ds:Transform'' (alg_uri (ATransform (pr_transform r))) ''ds:Transform/@Algorithm''],
        empty_element ''ds:DigestMethod'' (alg_uri (ADigest ref_digest)) ''ds:DigestMethod/@Algorithm'',
        leaf_element ''ds:DigestValue'' (sg_b64 lib (pr_digest r)) ''ds:DigestValue'']"

definition signed_info_element :: "SignLib \<Rightarrow> DsSignatureAlgorithm \<Rightarrow> WsSecDigestMethod \<Rightarrow> PreparedReference list \<Rightarrow> spec" where
  "signed_info_element lib alg ref_digest refs =
     SElem ''ds:SignedInfo'' [(''ds'', NS_DS)] []
       ([empty_element ''ds:CanonicalizationMethod'' (alg_uri (AC14n Exclusive)) ''ds:CanonicalizationMethod/@Algorithm'',
         empty_element ''ds:SignatureMethod'' (alg_uri (ASignature alg)) ''ds:SignatureMethod/@Algorithm''] @
        map (reference_element lib ref_digest) refs)"

definition write_signed_info :: "SignLib \<Rightarrow> DsSignatureAlgorithm \<Rightarrow> WsSecDigestMethod \<Rightarrow> PreparedReference list \<Rightarrow> XmlFragment res" where
  "write_signed_info lib alg ref_digest refs =
     rbind (xml_calls (calls_of (signed_info_element lib alg ref_digest refs)) xml_canonical) (\<lambda>out.
     rbind (xml_finish out) into_fragment)"

definition canonicalize_signed_info :: "SignLib \<Rightarrow> XmlFragment \<Rightarrow> string res" where
  "canonicalize_signed_info lib signed_info =
     rbind (xml_parse (sg_parse lib) (fragment_text signed_info) LIMITS_ENVELOPE SIGN_STAGE) (\<lambda>src.
       ok_or (asx_error SecurityVerificationFailed ''failed to canonicalize ds:SignedInfo'' (context_new SIGN_STAGE))
         (Option.bind (find (\<lambda>n. is_element (snd n)) (child_nodes ([], Element None [] [] (src_doc src))))
           (try_serialize_node src c14n_default Map.empty)))"

definition prepare_signed_info ::
  "SignLib \<Rightarrow> DocSource \<Rightarrow> string list \<Rightarrow> (string \<times> string) list \<Rightarrow> DsSignatureAlgorithm \<Rightarrow> PreparedSignature res" where
  "prepare_signed_info lib src uris ext alg =
     rbind (require_references uris) (\<lambda>_.
     rbind (rmap (prepare_reference lib src ext) uris) (\<lambda>refs.
     rbind (write_signed_info lib alg REFERENCE_DIGEST refs) (\<lambda>signed_info.
     rbind (canonicalize_signed_info lib signed_info) (\<lambda>canonical.
       Inr \<lparr>ps_algorithm = alg, ps_signed_info = signed_info, ps_canonical_signed_info = canonical\<rparr>))))"

definition prepare_envelope_signature ::
  "SignLib \<Rightarrow> string \<Rightarrow> string list \<Rightarrow> (string \<times> string) list \<Rightarrow> DsSignatureAlgorithm \<Rightarrow> PreparedSignature res" where
  "prepare_envelope_signature lib envelope_xml uris ext alg =
     rbind (require_references uris) (\<lambda>_.
     rbind (xml_parse (sg_parse lib) envelope_xml LIMITS_ENVELOPE SIGN_STAGE) (\<lambda>src.
       prepare_signed_info lib src uris ext alg))"

section \<open>Finishing\<close>

definition token_reference :: "string \<Rightarrow> string \<Rightarrow> spec" where
  "token_reference uri value_type =
     (let path = (value_type = WSSE_X509_PKIPATH_VALUE_TYPE) in
      SElem ''wsse:SecurityTokenReference''
        ([(''wsse'', NS_WSSE)] @ (if path then [(''wsse11'', NS_WSSE11)] else []))
        (if path then [(''wsse11:TokenType'', WSSE_X509_PKIPATH_VALUE_TYPE, ''wsse11:TokenType'')] else [])
        [SElem ''wsse:Reference'' []
           [(''URI'', uri, ''wsse:Reference/@URI''), (''ValueType'', value_type, ''wsse:Reference/@ValueType'')] []])"

definition x509_data :: "string \<Rightarrow> spec" where
  "x509_data cert_b64 = SElem ''ds:X509Data'' [] [] [leaf_element ''ds:X509Certificate'' cert_b64 ''ds:X509Certificate'']"

definition rsa_key_value :: "SignLib \<Rightarrow> bytes \<Rightarrow> (string \<times> string) option" where
  "rsa_key_value lib cert_der =
     (case sg_from_der lib cert_der of
        Inl _ \<Rightarrow> None
      | Inr cert \<Rightarrow> map_option (\<lambda>(n, e). (sg_b64 lib n, sg_b64 lib e)) (sg_rsa lib cert))"

definition key_info_content :: "SignLib \<Rightarrow> DsSignatureAlgorithm \<Rightarrow> bytes \<Rightarrow> WsSecOutboundKeyInfoProfile \<Rightarrow> spec list" where
  "key_info_content lib alg cert_der key_info =
     (case key_info of
        BinarySecurityTokenX509v3 \<Rightarrow> [token_reference ''#X509Token'' WSSE_X509V3_VALUE_TYPE]
      | X509PKIPathv1 \<Rightarrow> [token_reference ''#X509PKIPathToken'' WSSE_X509_PKIPATH_VALUE_TYPE]
      | X509DataAndRsaKeyValue \<Rightarrow>
          x509_data (sg_b64 lib cert_der) #
          (if key_family alg = FamilyRsa then
             (case rsa_key_value lib cert_der of
                Some (modulus, exponent) \<Rightarrow>
                  [SElem ''ds:KeyValue'' [] [] [SElem ''ds:RSAKeyValue'' [] []
                    [leaf_element ''ds:Modulus'' modulus ''ds:Modulus'', leaf_element ''ds:Exponent'' exponent ''ds:Exponent'']]]
              | None \<Rightarrow> [])
           else [])
      | X509DataOnly \<Rightarrow> [x509_data (sg_b64 lib cert_der)])"

definition finish_signature ::
  "SignLib \<Rightarrow> PreparedSignature \<Rightarrow> bytes \<Rightarrow> bytes \<Rightarrow> WsSecOutboundKeyInfoProfile \<Rightarrow> XmlFragment res" where
  "finish_signature lib prepared raw_signature cert_der key_info =
     rbind (map_err (\<lambda>e. asx_error SecurityVerificationFailed (''the signing certificate is not DER X.509: '' @ e) (context_new SIGN_STAGE))
        (sg_from_der lib cert_der)) (\<lambda>cert.
     rbind (to_wire (sg_ecdsa lib) (ps_algorithm prepared) raw_signature cert) (\<lambda>signature_value.
     rbind (xml_calls ([Start ''ds:Signature'', Ns ''ds'' NS_DS, Fragment (ps_signed_info prepared),
          Leaf ''ds:SignatureValue'' (sg_b64 lib signature_value) ''ds:SignatureValue''] @
        calls_of (SElem ''ds:KeyInfo'' [] [] (key_info_content lib (ps_algorithm prepared) cert_der key_info)) @ [End]) xml_new) (\<lambda>out.
     rbind (xml_finish out) into_fragment)))"

text \<open>
  A signature through a key provider: \<open>sign\<close> is its private-key operation, \<open>certificate\<close> its certificate. The
  provider of a parsed key is built by the callers that take PEM, which this covers from the provider on.
\<close>

record SigningKeyProvider =
  kp_sign :: "string \<Rightarrow> DsSignatureAlgorithm \<Rightarrow> bytes res"
  kp_certificate_der :: "bytes res"
  kp_preferred_algorithm :: DsSignatureAlgorithm

definition generate_xmlsig_signature_with_provider ::
  "SignLib \<Rightarrow> string \<Rightarrow> string list \<Rightarrow> (string \<times> string) list \<Rightarrow> SigningKeyProvider \<Rightarrow> WsSecOutboundKeyInfoProfile \<Rightarrow> string res" where
  "generate_xmlsig_signature_with_provider lib envelope_xml uris ext provider key_info =
     rbind (require_references uris) (\<lambda>_.
     rbind (xml_parse (sg_parse lib) envelope_xml LIMITS_ENVELOPE SIGN_STAGE) (\<lambda>src.
     rbind (prepare_signed_info lib src uris ext (kp_preferred_algorithm provider)) (\<lambda>prepared.
     rbind (kp_sign provider (ps_canonical_signed_info prepared) (kp_preferred_algorithm provider)) (\<lambda>raw.
     rbind (kp_certificate_der provider) (\<lambda>cert_der.
     rbind (finish_signature lib prepared raw cert_der key_info) (\<lambda>f. Inr (fragment_text f)))))))"

section \<open>Path tokens\<close>

text \<open>Lengths of at least \<open>2 ^ 24\<close> octets are written with their low three octets.\<close>

definition build_pkipath_der :: "bytes \<Rightarrow> bytes" where
  "build_pkipath_der cert_der =
     (let l = length cert_der; octet = (\<lambda>k. word_of_nat (l div 256 ^ k) :: 8 word) in
      [0x30] @
      (if l < 128 then [octet 0]
       else if l < 0x100 then [0x81, octet 0]
       else if l < 0x10000 then [0x82, octet 1, octet 0]
       else [0x83, octet 2, octet 1, octet 0]) @ cert_der)"

definition build_pkipath_chain_der :: "bytes list \<Rightarrow> bytes" where
  "build_pkipath_chain_der root_first = build_pkipath_der (concat root_first)"

section \<open>The security header\<close>

record WsSecurityHeaderBuilder =
  hb_signing_cert_pem :: "bytes option"
  hb_signing_cert_pkipath_der :: "bytes option"
  hb_signature_xml :: "string option"
  hb_now :: system_time
  hb_encryption :: "XmlFragment option"

definition header_builder :: "system_time \<Rightarrow> WsSecurityHeaderBuilder" where
  "header_builder now = \<lparr>hb_signing_cert_pem = None, hb_signing_cert_pkipath_der = None, hb_signature_xml = None,
     hb_now = now, hb_encryption = None\<rparr>"

definition binary_security_token :: "SignLib \<Rightarrow> string \<Rightarrow> string \<Rightarrow> bytes \<Rightarrow> spec" where
  "binary_security_token lib i value_type der =
     SElem ''wsse:BinarySecurityToken'' []
       [(''wsu:Id'', i, ''wsu:Id''), (''EncodingType'', WSSE_BASE64_ENCODING, ''EncodingType''), (''ValueType'', value_type, ''ValueType'')]
       [SText (sg_b64 lib der) ''BinarySecurityToken'']"

definition timestamp_element :: "system_time \<Rightarrow> spec" where
  "timestamp_element now =
     SElem ''wsu:Timestamp'' [] [(''wsu:Id'', ''Timestamp'', ''wsu:Id'')]
       [leaf_element ''wsu:Created'' (format_rfc3339_secs now) ''wsu:Created'',
        leaf_element ''wsu:Expires'' (format_rfc3339_secs (now + 300 * 10 ^ 9)) ''wsu:Expires'']"

definition build_header_fragment :: "SignLib \<Rightarrow> WsSecurityHeaderBuilder \<Rightarrow> XmlFragment res" where
  "build_header_fragment lib b =
     rbind (xml_calls ([Start ''wsse:Security'', Ns ''wsse'' NS_WSSE, Ns ''wsu'' NS_WSU, Ns ''soap'' NS_SOAP12,
         Attr ''soap:mustUnderstand'' ''true'' ''soap:mustUnderstand''] @
        calls_of (timestamp_element (hb_now b)) @
        (case hb_encryption b of Some f \<Rightarrow> [Fragment f] | None \<Rightarrow> [])) xml_new) (\<lambda>out.
     rbind (case hb_signing_cert_pem b of
         None \<Rightarrow> Inr out
       | Some pem \<Rightarrow>
           rbind (map_err (\<lambda>e. asx_error ParseFailed (''signing certificate PEM could not be converted to DER: '' @ e)
              (context_new ''wssec_header_builder'')) (sg_pem_to_der lib pem)) (\<lambda>der.
             xml_calls (calls_of (binary_security_token lib ''X509Token'' WSSE_X509V3_VALUE_TYPE der)) out)) (\<lambda>out.
     rbind (case hb_signing_cert_pkipath_der b of
         None \<Rightarrow> Inr out
       | Some der \<Rightarrow> xml_calls (calls_of (binary_security_token lib ''X509PKIPathToken'' WSSE_X509_PKIPATH_VALUE_TYPE der)) out) (\<lambda>out.
     rbind (case hb_signature_xml b of
         None \<Rightarrow> Inr out
       | Some xml \<Rightarrow> document_element (sg_parse lib) (sg_range lib) xml LIMITS_ENVELOPE ''WsSecurityHeaderBuilder signature'' out) (\<lambda>out.
     rbind (xml_end out) (\<lambda>out.
     rbind (xml_finish out) into_fragment)))))"

definition security_header ::
  "SignLib \<Rightarrow> PreparedSignature \<Rightarrow> bytes \<Rightarrow> bytes list \<Rightarrow> WsSecOutboundKeyInfoProfile \<Rightarrow> system_time \<Rightarrow> XmlFragment option \<Rightarrow> XmlFragment res" where
  "security_header lib prepared raw_signature chain_der key_info now encryption =
     rbind (case chain_der of
         [] \<Rightarrow> Inl (asx_error PolicyViolation ''the signer has no certificate'' (context_new ''wssec_sign''))
       | d # _ \<Rightarrow> Inr d) (\<lambda>leaf_der.
     rbind (finish_signature lib prepared raw_signature leaf_der key_info) (\<lambda>sig.
     let b = (header_builder now)\<lparr>hb_signature_xml := Some (fragment_text sig), hb_encryption := encryption\<rparr> in
     rbind (if key_info = X509PKIPathv1 then
         Inr (b\<lparr>hb_signing_cert_pkipath_der := Some (build_pkipath_chain_der (rev chain_der))\<rparr>)
       else
         rbind (map_err (\<lambda>_. asx_error ParseFailed ''failed to serialize the signing certificate to PEM'' (context_new ''wssec_sign''))
            (rbind (sg_from_der lib leaf_der) (sg_to_pem lib))) (\<lambda>pem.
           Inr (b\<lparr>hb_signing_cert_pem := Some pem\<rparr>))) (\<lambda>b.
       build_header_fragment lib b)))"


section \<open>Properties\<close>

lemma unat_octet: "unat (word_of_nat (l div 256 ^ k) :: 8 word) = l div 256 ^ k mod 256"
  by (simp add: unat_of_nat)

lemma pkipath_header:
  assumes "length c < 2 ^ 24"
  shows "\<exists>h. build_pkipath_der c = h @ c \<and> h \<noteq> [] \<and> hd h = 0x30 \<and> parse_der_header (h @ c) stage = Inr (length h, length c)"
proof -
  define l where "l = length c"
  have l: "l < 2 ^ 24" using assms l_def by simp
  have m: "l div 65536 mod 256 = l div 65536" using l by (intro mod_less) (simp add: less_mult_imp_div_less)
  have b2: "(l div 65536 mod 256 * 256 + l div 256 mod 256) * 256 + l mod 256 = l"
  proof -
    have "l div 256 = l div 65536 * 256 + l div 256 mod 256"
      using div_mult_mod_eq [of "l div 256" 256] by (simp add: div_mult2_eq [symmetric])
    then show ?thesis using m div_mult_mod_eq [of l 256] by simp
  qed
  have b1: "l div 256 mod 256 * 256 + l mod 256 = l" if "l < 65536"
  proof -
    have "l div 256 mod 256 = l div 256" using that by (intro mod_less) (simp add: less_mult_imp_div_less)
    then show ?thesis using div_mult_mod_eq [of l 256] by simp
  qed
  consider "l < 128" | "128 \<le> l" "l < 256" | "256 \<le> l" "l < 65536" | "65536 \<le> l" by linarith
  then show ?thesis
  proof cases
    case 1
    then show ?thesis
      by (intro exI [of _ "[0x30, word_of_nat l]"]) (simp add: build_pkipath_der_def parse_der_header_def Let_def l_def [symmetric] unat_of_nat)
  next
    case 2
    then show ?thesis
      by (intro exI [of _ "[0x30, 0x81, word_of_nat l]"])
        (simp add: build_pkipath_der_def parse_der_header_def Let_def l_def [symmetric] unat_of_nat USIZE_OCTETS_def)
  next
    case 3
    then show ?thesis using b1
      by (intro exI [of _ "[0x30, 0x82, word_of_nat (l div 256), word_of_nat l]"])
        (simp add: build_pkipath_der_def parse_der_header_def Let_def l_def [symmetric] unat_of_nat USIZE_OCTETS_def)
  next
    case 4
    then show ?thesis using b2 m
      by (intro exI [of _ "[0x30, 0x83, word_of_nat (l div 65536), word_of_nat (l div 256), word_of_nat l]"])
        (simp add: build_pkipath_der_def parse_der_header_def Let_def l_def [symmetric] unat_of_nat USIZE_OCTETS_def)
  qed
qed

text \<open>
  C36. A path token is split into the certificates it was built of, in order: the token the sender builds from a chain
  of at least one complete DER certificate, in all less than 16 MiB, is read back as that chain.
\<close>

theorem pkipath_token_round_trip:
  assumes "\<forall>c \<in> set cs. der_sequence c" "cs \<noteq> []" "length (concat cs) < 2 ^ 24"
  shows "split_x509_pkipath_der_certificates (build_pkipath_chain_der cs) = Inr cs"
proof -
  from pkipath_header [OF assms(3)] obtain h where h: "build_pkipath_der (concat cs) = h @ concat cs" "h \<noteq> []" "hd h = 0x30"
    "parse_der_header (h @ concat cs) MATERIAL_STAGE = Inr (length h, length (concat cs))"
    by blast
  have "(h @ concat cs) ! 0 = 0x30" using h(2,3) by (cases h) auto
  from split_pkipath [OF assms(1,2) this h(4)] show ?thesis by (simp add: build_pkipath_chain_der_def h(1))
qed

theorem pkipath_token_round_trip_witness:
  "split_x509_pkipath_der_certificates (build_pkipath_chain_der [[0x30, 1, 7], [0x30, 0]]) = Inr [[0x30, 1, 7], [0x30, 0]]"
  by (rule pkipath_token_round_trip) (simp_all add: der_sequence_def parse_der_header_def Let_def)

end
