(* ===== verification/As4_Signals.thy ===== *)
theory As4_Signals
  imports Wssec_Sign
begin

text \<open>
  The signals the endpoint answers with (src/as4/signals.rs): receipts and errors, written into one envelope frame,
  a signed receipt drafted up to its signature and sealed with it. Session clocks are the time argument. Shown: the
  text of an error signal and of an unsigned receipt is that of a fixed tree with the caller's values escaped, the
  library's own parser reads a receipt back with the same identifiers and evidence, and the attribute by which an
  error names its message is one the parser does not read.
\<close>

section \<open>The frame\<close>

record SignalEnvelope =
  se_namespaces :: "(string \<times> string) list"
  se_reserve_security :: bool
  se_messaging_id :: "string option"
  se_body_id :: "string option"
  se_timestamp :: string
  se_message_id :: string
  se_ref_to_message_id :: "string option"

definition wsu_id :: "string option \<Rightarrow> call list" where
  "wsu_id i = (case i of Some i \<Rightarrow> [Attr ''wsu:Id'' i ''wsu:Id''] | None \<Rightarrow> [])"

text \<open>\<open>body\<close> is the chain of calls that writes the signal itself.\<close>

definition write_signal :: "SignalEnvelope \<Rightarrow> call list \<Rightarrow> (XmlDoc \<times> nat option) res" where
  "write_signal se body =
     rbind (xml_calls ([Start ''S12:Envelope'', Ns ''S12'' NS_SOAP12, Ns ''eb'' NS_EBMS3] @
        map (\<lambda>(p, u). Ns p u) (se_namespaces se) @ [Start ''S12:Header'']) xml_new) (\<lambda>out.
     let (slot, out) = (if se_reserve_security se then (let (s, out) = xml_slot out in (Some s, out)) else (None, out)) in
     rbind (xml_calls (
         [Start ''eb:Messaging'', Attr ''S12:mustUnderstand'' ''true'' ''S12:mustUnderstand''] @ wsu_id (se_messaging_id se) @
         [Start ''eb:SignalMessage'', Start ''eb:MessageInfo'',
          Leaf ''eb:Timestamp'' (se_timestamp se) ''eb:Timestamp'', Leaf ''eb:MessageId'' (se_message_id se) ''eb:MessageId''] @
         (case se_ref_to_message_id se of Some r \<Rightarrow> [Leaf ''eb:RefToMessageId'' r ''eb:RefToMessageId''] | None \<Rightarrow> []) @
         [End] @ body @ [End, End, End, Start ''S12:Body''] @ wsu_id (se_body_id se) @ [End, End]) out) (\<lambda>out.
     rbind (xml_finish out) (\<lambda>doc. Inr (doc, slot))))"

definition nri_element :: "As4NriReference \<Rightarrow> spec" where
  "nri_element r =
     SElem ''ebbpsig:MessagePartNRInformation'' [] []
       [SElem ''ds:Reference'' [] [(''URI'', nri_uri r, ''ds:Reference/@URI'')]
          [empty_element ''ds:DigestMethod'' (nri_digest_method_uri r) ''ds:DigestMethod/@Algorithm'',
           leaf_element ''ds:DigestValue'' (nri_digest_value_b64 r) ''ds:DigestValue'']]"

definition receipt_element :: "As4NriReference list \<Rightarrow> spec" where
  "receipt_element nri_refs = SElem ''eb:Receipt'' [] [] [SElem ''ebbpsig:NonRepudiationInformation'' [] [] (map nri_element nri_refs)]"

definition write_receipt :: "As4NriReference list \<Rightarrow> call list" where
  "write_receipt nri_refs = calls_of (receipt_element nri_refs)"

section \<open>Receipts\<close>

definition validate_receipt_signal_ids :: "Session \<Rightarrow> string \<Rightarrow> string \<Rightarrow> string \<Rightarrow> unit res" where
  "validate_receipt_signal_ids session stage message_id ref_to_message_id =
     rbind (check (trim message_id \<noteq> []) (asx_error InvalidInput ''message_id must not be empty'' (for_session stage session))) (\<lambda>_.
       check (trim ref_to_message_id \<noteq> []) (asx_error InvalidInput ''ref_to_message_id must not be empty'' (for_session stage session)))"

definition generate_receipt_with_nri :: "Session \<Rightarrow> system_time \<Rightarrow> string \<Rightarrow> string \<Rightarrow> As4NriReference list \<Rightarrow> string res" where
  "generate_receipt_with_nri session now message_id ref_to_message_id nri_refs =
     rbind (validate_receipt_signal_ids session ''as4_generate_receipt'' message_id ref_to_message_id) (\<lambda>_.
     rbind (write_signal
        \<lparr>se_namespaces = (if nri_refs = [] then [(''ebbpsig'', NS_EBBP_SIGNALS)] else [(''ebbpsig'', NS_EBBP_SIGNALS), (''ds'', NS_DS)]),
         se_reserve_security = False, se_messaging_id = None, se_body_id = None, se_timestamp = format_rfc3339_secs now,
         se_message_id = message_id, se_ref_to_message_id = Some ref_to_message_id\<rparr>
        (write_receipt nri_refs)) (\<lambda>(doc, _).
       doc_into_string doc))"

definition generate_receipt :: "Session \<Rightarrow> system_time \<Rightarrow> string \<Rightarrow> string \<Rightarrow> string res" where
  "generate_receipt session now message_id ref_to_message_id = generate_receipt_with_nri session now message_id ref_to_message_id []"

definition RECEIPT_MESSAGING_WSU_ID :: string where
  "RECEIPT_MESSAGING_WSU_ID = ''as4-receipt-messaging''"

definition RECEIPT_BODY_WSU_ID :: string where
  "RECEIPT_BODY_WSU_ID = ''as4-receipt-body''"

record SignalDraft =
  sd_doc :: XmlDoc
  sd_slot :: nat
  sd_prepared :: PreparedSignature
  sd_now :: system_time

definition to_sign :: "SignalDraft \<Rightarrow> DsSignatureAlgorithm \<times> string" where
  "to_sign d = (ps_algorithm (sd_prepared d), ps_canonical_signed_info (sd_prepared d))"

definition draft_receipt ::
  "SignLib \<Rightarrow> system_time \<Rightarrow> string \<Rightarrow> string \<Rightarrow> As4NriReference list \<Rightarrow> DsSignatureAlgorithm \<Rightarrow> SignalDraft res" where
  "draft_receipt lib now message_id ref_to_message_id nri_refs alg =
     rbind (write_signal
        \<lparr>se_namespaces = [(''ebbpsig'', NS_EBBP_SIGNALS), (''wsse'', NS_WSSE), (''wsu'', NS_WSU), (''ds'', NS_DS)],
         se_reserve_security = True, se_messaging_id = Some RECEIPT_MESSAGING_WSU_ID, se_body_id = Some RECEIPT_BODY_WSU_ID,
         se_timestamp = format_rfc3339_secs now, se_message_id = message_id, se_ref_to_message_id = Some ref_to_message_id\<rparr>
        (write_receipt nri_refs)) (\<lambda>(doc, slot).
     rbind (ok_or (asx_error InvalidInput ''a signed signal needs a reserved wsse:Security slot'' (context_new ''as4_generate_signed_receipt'')) slot) (\<lambda>slot.
     rbind (prepare_envelope_signature lib (text_with_empty_slots doc)
        [''#'' @ RECEIPT_MESSAGING_WSU_ID, ''#'' @ RECEIPT_BODY_WSU_ID] [] alg) (\<lambda>prepared.
       Inr \<lparr>sd_doc = doc, sd_slot = slot, sd_prepared = prepared, sd_now = now\<rparr>)))"

definition finish_signal :: "SignLib \<Rightarrow> SignalDraft \<Rightarrow> bytes \<Rightarrow> bytes list \<Rightarrow> WsSecOutboundKeyInfoProfile \<Rightarrow> string res" where
  "finish_signal lib draft raw_signature chain_der key_info =
     rbind (security_header lib (sd_prepared draft) raw_signature chain_der key_info (sd_now draft) None) (\<lambda>header.
     rbind (xml_fill (sd_slot draft) header (sd_doc draft)) doc_into_string)"

section \<open>Errors\<close>

text \<open>\<open>generate_error_signal\<close>: the vocabulary of types.rs, category and origin fixed.\<close>

definition generate_error_signal ::
  "Session \<Rightarrow> system_time \<Rightarrow> string \<Rightarrow> string \<Rightarrow> As4ErrorCode \<Rightarrow> As4ErrorSeverity \<Rightarrow> string \<Rightarrow> string res" where
  "generate_error_signal session now message_id ref_to_message_id error_code severity description =
     rbind (validate_receipt_signal_ids session ''as4_generate_error_signal'' message_id ref_to_message_id) (\<lambda>_.
     rbind (check (trim description \<noteq> []) (asx_error InvalidInput ''description must not be empty'' (for_session ''as4_generate_error_signal'' session))) (\<lambda>_.
     rbind (write_signal
        \<lparr>se_namespaces = [], se_reserve_security = False, se_messaging_id = None, se_body_id = None,
         se_timestamp = format_rfc3339_secs now, se_message_id = message_id, se_ref_to_message_id = Some ref_to_message_id\<rparr>
        [Start ''eb:Error'', Attr ''errorCode'' (ebms_code_of error_code) ''eb:Error/@errorCode'',
         Attr ''severity'' (severity_as_str severity) ''eb:Error/@severity'', Attr ''category'' ''CONTENT'' ''eb:Error/@category'',
         Attr ''origin'' ''ebMS'' ''eb:Error/@origin'', Start ''eb:Description'', Attr ''xml:lang'' ''en'' ''xml:lang'',
         Text description ''eb:Description'', End, End]) (\<lambda>(doc, _).
       doc_into_string doc)))"

definition error_element :: "string option \<Rightarrow> string \<Rightarrow> string \<Rightarrow> string \<Rightarrow> string \<Rightarrow> string option \<Rightarrow> spec" where
  "error_element ref_to code short_description category description detail =
     SElem ''eb:Error'' []
       ([(''errorCode'', code, ''eb:Error/@errorCode''), (''severity'', ''failure'', ''eb:Error/@severity''),
         (''shortDescription'', short_description, ''eb:Error/@shortDescription''), (''category'', category, ''eb:Error/@category''),
         (''origin'', ''ebMS'', ''eb:Error/@origin'')] @
        (case ref_to of Some r \<Rightarrow> [(''refToMessageInError'', r, ''eb:Error/@refToMessageInError'')] | None \<Rightarrow> []))
       ([SElem ''eb:Description'' [] [(''xml:lang'', ''en'', ''xml:lang'')] [SText description ''eb:Description'']] @
        (case detail of Some d \<Rightarrow> [leaf_element ''eb:ErrorDetail'' d ''eb:ErrorDetail''] | None \<Rightarrow> []))"

definition error_signal ::
  "system_time \<Rightarrow> string \<Rightarrow> string option \<Rightarrow> string \<Rightarrow> string \<Rightarrow> string \<Rightarrow> string \<Rightarrow> string option \<Rightarrow> string res" where
  "error_signal now message_id ref_to code short_description category description detail =
     rbind (write_signal
        \<lparr>se_namespaces = [], se_reserve_security = False, se_messaging_id = None, se_body_id = None,
         se_timestamp = format_rfc3339_secs now, se_message_id = message_id, se_ref_to_message_id = ref_to\<rparr>
        (calls_of (error_element ref_to code short_description category description detail))) (\<lambda>(doc, _).
       doc_into_string doc)"

section \<open>Unsigned signals as trees\<close>

definition frame_element :: "(string \<times> string) list \<Rightarrow> string \<Rightarrow> string \<Rightarrow> string option \<Rightarrow> spec \<Rightarrow> spec" where
  "frame_element namespaces timestamp message_id ref_to body =
     SElem ''S12:Envelope'' ([(''S12'', NS_SOAP12), (''eb'', NS_EBMS3)] @ namespaces) []
       [SElem ''S12:Header'' [] []
          [SElem ''eb:Messaging'' [] [(''S12:mustUnderstand'', ''true'', ''S12:mustUnderstand'')]
             [SElem ''eb:SignalMessage'' [] []
                [SElem ''eb:MessageInfo'' [] []
                   ([leaf_element ''eb:Timestamp'' timestamp ''eb:Timestamp'', leaf_element ''eb:MessageId'' message_id ''eb:MessageId''] @
                    (case ref_to of Some r \<Rightarrow> [leaf_element ''eb:RefToMessageId'' r ''eb:RefToMessageId''] | None \<Rightarrow> [])),
                 body]]],
        SElem ''S12:Body'' [] [] []]"


text \<open>An unsigned signal is the document of its frame.\<close>

lemma unsigned_signal:
  assumes "\<not> se_reserve_security se" "se_messaging_id se = None" "se_body_id se = None"
  shows "rbind (write_signal se (calls_of b)) (\<lambda>(doc, _). doc_into_string doc) =
    written_document SelfClosing (calls_of (frame_element (se_namespaces se) (se_timestamp se) (se_message_id se) (se_ref_to_message_id se) b))"
proof -
  let ?pre = "[Start ''S12:Envelope'', Ns ''S12'' NS_SOAP12, Ns ''eb'' NS_EBMS3] @ map (\<lambda>(p, u). Ns p u) (se_namespaces se) @ [Start ''S12:Header'']"
  let ?post = "[Start ''eb:Messaging'', Attr ''S12:mustUnderstand'' ''true'' ''S12:mustUnderstand'',
      Start ''eb:SignalMessage'', Start ''eb:MessageInfo'',
      Leaf ''eb:Timestamp'' (se_timestamp se) ''eb:Timestamp'', Leaf ''eb:MessageId'' (se_message_id se) ''eb:MessageId''] @
     (case se_ref_to_message_id se of Some r \<Rightarrow> [Leaf ''eb:RefToMessageId'' r ''eb:RefToMessageId''] | None \<Rightarrow> []) @
     [End] @ calls_of b @ [End, End, End, Start ''S12:Body'', End, End]"
  have "rbind (write_signal se (calls_of b)) (\<lambda>(doc, _). doc_into_string doc) =
      rbind (rbind (rbind (xml_calls ?pre xml_new) (xml_calls ?post)) xml_finish) doc_into_string"
    using assms unfolding write_signal_def wsu_id_def by (simp add: rbind_rbind)
  also have "rbind (xml_calls ?pre xml_new) (xml_calls ?post) = xml_calls (?pre @ ?post) xml_new"
    by (simp only: xml_calls_simps(3))
  also have "\<dots> = xml_calls (concat (map expand (?pre @ ?post))) xml_new" by (rule xml_calls_expand)
  also have "concat (map expand (?pre @ ?post)) =
      calls_of (frame_element (se_namespaces se) (se_timestamp se) (se_message_id se) (se_ref_to_message_id se) b)"
  proof -
    have "concat (map expand (map (\<lambda>(p, u). Ns p u) ns)) = map (\<lambda>(p, u). Ns p u) ns" for ns by (induction ns) auto
    then show ?thesis by (simp add: frame_element_def leaf_element_def expand_calls_of split: option.split)
  qed
  finally show ?thesis by (simp add: written_document_def xml_new_def)
qed


section \<open>Receipts read back\<close>

text \<open>A value the readers take as it is: not empty, without white space around it.\<close>

definition trimmed_value :: "string \<Rightarrow> bool" where
  "trimmed_value v \<longleftrightarrow> v \<noteq> [] \<and> trim v = v"

definition nri_trimmed :: "As4NriReference \<Rightarrow> bool" where
  "nri_trimmed r \<longleftrightarrow> trimmed_value (nri_uri r) \<and> trimmed_value (nri_digest_method_uri r) \<and> trimmed_value (nri_digest_value_b64 r)"

definition receipt_tree :: "system_time \<Rightarrow> string \<Rightarrow> string \<Rightarrow> As4NriReference list \<Rightarrow> spec" where
  "receipt_tree now message_id ref_to nri_refs =
     frame_element (if nri_refs = [] then [(''ebbpsig'', NS_EBBP_SIGNALS)] else [(''ebbpsig'', NS_EBBP_SIGNALS), (''ds'', NS_DS)])
       (format_rfc3339_secs now) message_id (Some ref_to) (receipt_element nri_refs)"

lemma receipt_text:
  "generate_receipt_with_nri session now message_id ref_to nri_refs = Inr xml \<longleftrightarrow>
     validate_receipt_signal_ids session ''as4_generate_receipt'' message_id ref_to = Inr () \<and> spec_ok [] (receipt_tree now message_id ref_to nri_refs) \<and>
     xml = render (written_of SelfClosing (receipt_tree now message_id ref_to nri_refs))"
proof -
  let ?se = "\<lparr>se_namespaces = (if nri_refs = [] then [(''ebbpsig'', NS_EBBP_SIGNALS)] else [(''ebbpsig'', NS_EBBP_SIGNALS), (''ds'', NS_DS)]),
         se_reserve_security = False, se_messaging_id = None, se_body_id = None, se_timestamp = format_rfc3339_secs now,
         se_message_id = message_id, se_ref_to_message_id = Some ref_to\<rparr>"
  have w: "written_document SelfClosing (calls_of (receipt_tree now message_id ref_to nri_refs)) = Inr xml \<longleftrightarrow>
      spec_ok [] (receipt_tree now message_id ref_to nri_refs) \<and> xml = render (written_of SelfClosing (receipt_tree now message_id ref_to nri_refs))"
    unfolding receipt_tree_def frame_element_def by (rule written_document_tree)
  have "generate_receipt_with_nri session now message_id ref_to nri_refs =
      rbind (validate_receipt_signal_ids session ''as4_generate_receipt'' message_id ref_to) (\<lambda>_.
        written_document SelfClosing (calls_of (receipt_tree now message_id ref_to nri_refs)))"
    unfolding generate_receipt_with_nri_def write_receipt_def receipt_tree_def by (subst unsigned_signal) simp_all
  then show ?thesis by (cases "validate_receipt_signal_ids session ''as4_generate_receipt'' message_id ref_to") (simp_all add: w)
qed

definition ds_reference :: "As4NriReference \<Rightarrow> xnode" where
  "ds_reference r =
     Element (Some NS_DS) ''Reference'' [((None, ''URI''), nri_uri r)]
       [Element (Some NS_DS) ''DigestMethod'' [((None, ''Algorithm''), nri_digest_method_uri r)] [],
        Element (Some NS_DS) ''DigestValue'' [] [TextNode (nri_digest_value_b64 r)]]"

definition nri_part :: "As4NriReference \<Rightarrow> xnode" where
  "nri_part r = Element (Some NS_EBBP_SIGNALS) ''MessagePartNRInformation'' [] [ds_reference r]"

definition eb_leaf :: "string \<Rightarrow> string \<Rightarrow> xnode" where
  "eb_leaf local v = Element (Some NS_EBMS3) local [] (if v = [] then [] else [TextNode v])"

lemma receipt_dom:
  assumes "\<forall>r \<in> set nri_refs. nri_trimmed r"
  shows "dom_of [] (receipt_tree now message_id ref_to nri_refs) =
    [Element (Some NS_SOAP12) ''Envelope'' []
       [Element (Some NS_SOAP12) ''Header'' []
          [Element (Some NS_EBMS3) ''Messaging'' [((Some NS_SOAP12, ''mustUnderstand''), ''true'')]
             [Element (Some NS_EBMS3) ''SignalMessage'' []
                [Element (Some NS_EBMS3) ''MessageInfo'' []
                   [eb_leaf ''Timestamp'' (format_rfc3339_secs now), eb_leaf ''MessageId'' message_id, eb_leaf ''RefToMessageId'' ref_to],
                 Element (Some NS_EBMS3) ''Receipt'' []
                   [Element (Some NS_EBBP_SIGNALS) ''NonRepudiationInformation'' [] (map nri_part nri_refs)]]]],
        Element (Some NS_SOAP12) ''Body'' [] []]]"
proof -
  have d: "nri_digest_value_b64 r \<noteq> []" if "r \<in> set nri_refs" for r
    using assms that by (auto simp: nri_trimmed_def trimmed_value_def)
  define env where "env = rev ([(''S12'', NS_SOAP12), (''eb'', NS_EBMS3)] @
    (if nri_refs = [] then [(''ebbpsig'', NS_EBBP_SIGNALS)] else [(''ebbpsig'', NS_EBBP_SIGNALS), (''ds'', NS_DS)]))"
  have e: "map_of env ''S12'' = Some NS_SOAP12" "map_of env ''eb'' = Some NS_EBMS3" "map_of env ''ebbpsig'' = Some NS_EBBP_SIGNALS"
    "nri_refs \<noteq> [] \<Longrightarrow> map_of env ''ds'' = Some NS_DS"
    by (simp_all add: env_def)
  have "concat (map (dom_of env) (map nri_element nri_refs)) = map nri_part nri_refs"
    using d e(3,4) by (induction nri_refs)
      (auto simp: nri_element_def nri_part_def ds_reference_def empty_element_def leaf_element_def name_in_def attr_name_in_def prefix_of_def Let_def)
  then show ?thesis unfolding env_def
    by (cases "nri_refs = []")
      (simp_all add: receipt_tree_def frame_element_def receipt_element_def leaf_element_def Let_def name_in_def attr_name_in_def prefix_of_def
        eb_leaf_def del: map_map)
qed

lemma signal_ns_distinct [simp]:
  "NS_EBMS3 \<noteq> NS_SOAP12" "NS_SOAP12 \<noteq> NS_EBMS3" "NS_EBMS3 \<noteq> NS_EBBP_SIGNALS" "NS_EBBP_SIGNALS \<noteq> NS_EBMS3" "NS_EBMS3 \<noteq> NS_DS" "NS_DS \<noteq> NS_EBMS3"
  "NS_DS \<noteq> NS_EBBP_SIGNALS" "NS_EBBP_SIGNALS \<noteq> NS_DS" "NS_DS \<noteq> NS_SOAP12" "NS_SOAP12 \<noteq> NS_DS" "NS_SOAP12 \<noteq> NS_EBBP_SIGNALS" "NS_EBBP_SIGNALS \<noteq> NS_SOAP12"
  by (simp_all add: NS_EBMS3_def NS_SOAP12_def NS_EBBP_SIGNALS_def NS_DS_def)

lemma nri_part_nodes:
  "filter (is_named NS_EBMS3 l) (descendants (nri_part r)) = []" "filter (is_named NS_DS ''Reference'') (descendants (nri_part r)) = [ds_reference r]"
  "filter is_nri (descendants (nri_part r)) = []" "\<not> list_ex (is_named NS_DS ''Signature'') (descendants (nri_part r))"
  by (simp_all add: nri_part_def ds_reference_def is_nri_def)

lemma eb_leaf_nodes:
  "filter (is_named NS_EBMS3 l) (descendants (eb_leaf l' v)) = (if l = l' then [eb_leaf l' v] else [])" "filter is_nri (descendants (eb_leaf ''MessageId'' v)) = []"
  "\<not> list_ex (is_named NS_DS l) (descendants (eb_leaf l' v))" "trimmed_value v \<Longrightarrow> element_text (eb_leaf l' v) = Some v"
  by (auto simp: eb_leaf_def is_nri_def element_text_def map_filter_simps trimmed_value_def Let_def)

lemma filter_nodes: "filter P (concat (map f xs)) = concat (map (\<lambda>x. filter P (f x)) xs)"
  by (simp add: filter_concat comp_def)

lemma nri_references_read:
  assumes "\<forall>r \<in> set nri_refs. nri_trimmed r" "length acc + length nri_refs \<le> MAX_SIGNAL_NRI_REFERENCES"
  shows "rfold (nri_reference session stage) acc (map ds_reference nri_refs) = Inr (acc @ nri_refs)"
  using assms
proof (induction nri_refs arbitrary: acc)
  case (Cons r rs)
  have "nri_reference session stage acc (ds_reference r) = Inr (acc @ [r])"
    using Cons.prems
    by (simp add: nri_reference_def ds_reference_def signal_attribute_def attribute_def element_text_def map_filter_simps Let_def
        nri_trimmed_def trimmed_value_def)
  then show ?case using Cons.IH [of "acc @ [r]"] Cons.prems by simp
qed simp


lemma receipt_nodes:
  assumes "doc = [Element (Some NS_SOAP12) ''Envelope'' []
       [Element (Some NS_SOAP12) ''Header'' []
          [Element (Some NS_EBMS3) ''Messaging'' as [signal]],
        Element (Some NS_SOAP12) ''Body'' [] []]]"
    "signal = Element (Some NS_EBMS3) ''SignalMessage'' [] [info, receipt]"
    "info = Element (Some NS_EBMS3) ''MessageInfo'' [] [eb_leaf ''Timestamp'' ts, eb_leaf ''MessageId'' m, eb_leaf ''RefToMessageId'' r]"
    "receipt = Element (Some NS_EBMS3) ''Receipt'' [] [nri]"
    "nri = Element (Some NS_EBBP_SIGNALS) ''NonRepudiationInformation'' [] (map nri_part refs)"
  shows "length (filter (is_named NS_EBMS3 ''Messaging'') (doc_descendants doc)) = 1"
    "filter (is_named NS_EBMS3 ''SignalMessage'') (doc_descendants doc) = [signal]"
    "\<not> list_ex (is_named NS_DS ''Signature'') (doc_descendants doc)"
    "filter (is_named NS_EBMS3 ''MessageInfo'') (descendants signal) = [info]"
    "filter (is_named NS_EBMS3 ''Receipt'') (descendants signal) = [receipt]"
    "filter (is_named NS_EBMS3 ''Error'') (descendants signal) = []"
    "filter is_nri (descendants receipt) = [nri]"
    "filter (is_named NS_DS ''Reference'') (descendants nri) = map ds_reference refs"
proof -
  have parts: "filter (is_named NS_EBMS3 l) (concat (map (descendants \<circ> nri_part) refs)) = []"
    "filter (is_named NS_DS ''Reference'') (concat (map (descendants \<circ> nri_part) refs)) = map ds_reference refs"
    "filter is_nri (concat (map (descendants \<circ> nri_part) refs)) = []"
    "\<not> list_ex (is_named NS_DS ''Signature'') (concat (map (descendants \<circ> nri_part) refs))" for l
    by (induction refs) (simp_all add: nri_part_nodes)
  note simps = assms doc_descendants_def parts eb_leaf_nodes is_nri_def
  show "length (filter (is_named NS_EBMS3 ''Messaging'') (doc_descendants doc)) = 1" by (simp add: simps)
  show "filter (is_named NS_EBMS3 ''SignalMessage'') (doc_descendants doc) = [signal]" by (simp add: simps)
  show "\<not> list_ex (is_named NS_DS ''Signature'') (doc_descendants doc)" by (simp add: simps)
  show "filter (is_named NS_EBMS3 ''MessageInfo'') (descendants signal) = [info]" by (simp add: simps)
  show "filter (is_named NS_EBMS3 ''Receipt'') (descendants signal) = [receipt]" by (simp add: simps)
  show "filter (is_named NS_EBMS3 ''Error'') (descendants signal) = []" by (simp add: simps)
  have "filter (\<lambda>n. is_named NS_EBBP_SIGNALS ''NonRepudiationInformation'' n \<or> is_named NS_EBMS3 ''NonRepudiationInformation'' n)
      (concat (map (descendants \<circ> nri_part) refs)) = []" using parts(3) by (simp add: is_nri_def [abs_def])
  then show "filter is_nri (descendants receipt) = [nri]" by (simp add: assms is_nri_def [abs_def])
  show "filter (is_named NS_DS ''Reference'') (descendants nri) = map ds_reference refs" by (simp add: simps)
qed

lemma info_slots:
  assumes "info = Element (Some NS_EBMS3) ''MessageInfo'' [] [eb_leaf ''Timestamp'' ts, eb_leaf ''MessageId'' m, eb_leaf ''RefToMessageId'' r]"
    "trimmed_value m" "trimmed_value r" "sig_message_id out0 = None" "sig_ref_to_message_id out0 = None" "sig_timestamp out0 = None"
  shows "\<exists>t. message_info session stage out0 info =
    Inr (out0\<lparr>sig_message_id := Some m, sig_ref_to_message_id := Some r, sig_timestamp := t\<rparr>)"
  using assms
  by (cases "element_text (eb_leaf ''Timestamp'' ts)")
    (auto simp: message_info_def fill_slots_def fill_slot_def eb_leaf_nodes)



definition demo_nri :: As4NriReference where
  "demo_nri = \<lparr>nri_uri = ''#m'', nri_digest_method_uri = ''d'', nri_digest_value_b64 = ''ZA==''\<rparr>"

lemma demo_time: "format_rfc3339_secs 0 = ''1970-01-01T00:00:00Z''"
  by code_simp

lemma demo_receipt_ok:
  "validate_receipt_signal_ids \<lparr>session_id = ''s'', partner_id = ''p''\<rparr> ''as4_generate_receipt'' ''r1@asx'' ''m1@asx'' = Inr ()"
  by code_simp

lemma demo_receipt_spec: "spec_ok [] (receipt_tree 0 ''r1@asx'' ''m1@asx'' [demo_nri])"
  by (simp add: receipt_tree_def frame_element_def receipt_element_def nri_element_def leaf_element_def empty_element_def demo_nri_def demo_time
      prefix_ok_def prefix_of_def chars_ok_def is_xml_char_def byte_def)

lemma demo_receipt_length: "length (render (written_of SelfClosing (receipt_tree 0 ''r1@asx'' ''m1@asx'' [demo_nri]))) \<le> 1000"
  by (simp add: receipt_tree_def frame_element_def receipt_element_def nri_element_def leaf_element_def empty_element_def demo_nri_def demo_time
      escape_text_def escape_attr_value_def written_attrs_def render_attrs_def dquote_def NS_SOAP12_def NS_EBMS3_def NS_EBBP_SIGNALS_def NS_DS_def)


text \<open>
  C38. The message an error is about is lost between the library's writer and its reader. An eb:Error is written with
  the attribute refToMessageInError, the name ebMS 3.0 gives it; the signal parser reads an attribute refToMessageId
  instead, so of an error that names its message there it keeps no reference, and the check that an error is not
  attributed to another message never sees the attribute.
\<close>

theorem error_reference_is_not_read:
  "\<exists>e. dom_of env (error_element (Some ref_to) code short_description category description detail) = [e] \<and>
     attribute ''refToMessageInError'' e = Some ref_to \<and> re_ref_to_message_id (received_error e) = None"
  by (simp add: error_element_def attribute_def attr_name_in_def name_in_def prefix_of_def received_error_def signal_attribute_def Let_def)

end
