(* ===== verification/Audit_Trail.thy ===== *)
theory Audit_Trail
  imports Wire_Text Dedup Time_Utils
begin

unbundle bit_operations_syntax

text \<open>
  The evidence of an exchange leg (src/audit.rs): the record, its builder with the invariants \<open>finish\<close> enforces, the
  time-ordered record identifier, and the write to a sink by the durability the sink declares. SHA-256, base64 and
  the sink's answer are parameters; the clock reading and the random octets are arguments of \<open>finish\<close>. Shown: a
  finished record satisfies the invariants whatever was put into the builder, identifiers are UUIDv7 and sort by
  time, and a write is reported lost exactly when a durable sink failed.
\<close>

section \<open>Records\<close>

datatype AuditDurability = Durable | BestEffort

fun durability_as_str :: "AuditDurability \<Rightarrow> string" where
  "durability_as_str Durable = ''durable''"
| "durability_as_str BestEffort = ''best_effort''"

datatype AuditOutcome = AoSent | AoDelivered | AoPartnerError | AoIndeterminate | AoAccepted | AoDuplicate | AoRejected

fun requires_error_kind :: "AuditOutcome \<Rightarrow> bool" where
  "requires_error_kind AoPartnerError = True"
| "requires_error_kind AoIndeterminate = True"
| "requires_error_kind AoRejected = True"
| "requires_error_kind _ = False"

text \<open>The derived debug form.\<close>

fun outcome_debug :: "AuditOutcome \<Rightarrow> string" where
  "outcome_debug AoSent = ''Sent''"
| "outcome_debug AoDelivered = ''Delivered''"
| "outcome_debug AoPartnerError = ''PartnerError''"
| "outcome_debug AoIndeterminate = ''Indeterminate''"
| "outcome_debug AoAccepted = ''Accepted''"
| "outcome_debug AoDuplicate = ''Duplicate''"
| "outcome_debug AoRejected = ''Rejected''"

datatype AuditProtocol = AuditAs2 | AuditAs4

datatype Direction = Outbound | Inbound

record SignerEvidence =
  certificate_der :: bytes
  fingerprint_sha256 :: string

record ReferenceDigest =
  rd_uri :: string
  rd_digest_algorithm :: string
  rd_digest :: bytes

record Mic =
  mic_algorithm :: string
  mic_value :: bytes

record SignalEvidence =
  sv_bytes :: bytes
  sv_sha256 :: string
  sv_message_id :: "string option"
  sv_ref_to_message_id :: "string option"
  sv_timestamp :: "string option"
  sv_signed :: bool
  sv_nrr :: "ReferenceDigest list"

record AuditRecord =
  ar_record_id :: string
  ar_recorded_at :: system_time
  ar_protocol :: AuditProtocol
  ar_direction :: Direction
  ar_outcome :: AuditOutcome
  ar_message_id :: string
  ar_ref_to_message_id :: "string option"
  ar_conversation_id :: "string option"
  ar_local_party :: string
  ar_partner :: string
  ar_profile :: "string option"
  ar_service :: "string option"
  ar_action :: "string option"
  ar_message_timestamp :: "string option"
  ar_signer :: "SignerEvidence option"
  ar_references :: "ReferenceDigest list"
  ar_mic :: "Mic option"
  ar_signal :: "SignalEvidence option"
  ar_disposition :: "string option"
  ar_error_kind :: "string option"
  ar_ebms_code :: "string option"
  ar_quirks :: "string list"

definition stamp_profile :: "string \<Rightarrow> string list \<Rightarrow> AuditRecord \<Rightarrow> AuditRecord" where
  "stamp_profile profile quirks r = r\<lparr>ar_profile := Some profile, ar_quirks := quirks\<rparr>"

definition signal_sha256 :: "AuditRecord \<Rightarrow> string option" where
  "signal_sha256 r = map_option sv_sha256 (ar_signal r)"

section \<open>Building\<close>

record AuditLib =
  al_sha256 :: "bytes \<Rightarrow> bytes"
  al_b64_decode :: "string \<Rightarrow> bytes option"

definition record_builder :: "AuditProtocol \<Rightarrow> Direction \<Rightarrow> string \<Rightarrow> string \<Rightarrow> string \<Rightarrow> AuditRecord" where
  "record_builder protocol direction message_id local_party partner =
     \<lparr>ar_record_id = [], ar_recorded_at = 0, ar_protocol = protocol, ar_direction = direction, ar_outcome = AoAccepted,
      ar_message_id = message_id, ar_ref_to_message_id = None, ar_conversation_id = None, ar_local_party = local_party,
      ar_partner = partner, ar_profile = None, ar_service = None, ar_action = None, ar_message_timestamp = None,
      ar_signer = None, ar_references = [], ar_mic = None, ar_signal = None, ar_disposition = None, ar_error_kind = None,
      ar_ebms_code = None, ar_quirks = []\<rparr>"

definition sha256_hex :: "AuditLib \<Rightarrow> bytes \<Rightarrow> string" where
  "sha256_hex lib bs = hex (al_sha256 lib bs)"

text \<open>A digest that is not base64 is kept as its text.\<close>

definition reference_digests :: "AuditLib \<Rightarrow> (string \<times> string \<times> string) list \<Rightarrow> ReferenceDigest list" where
  "reference_digests lib refs =
     map (\<lambda>(uri, alg, digest_b64). \<lparr>rd_uri = uri, rd_digest_algorithm = alg,
        rd_digest = or_else (al_b64_decode lib (trim digest_b64)) (bytes_of digest_b64)\<rparr>) refs"

definition with_service_action :: "string option \<Rightarrow> string option \<Rightarrow> AuditRecord \<Rightarrow> AuditRecord" where
  "with_service_action service action r = r\<lparr>ar_service := service, ar_action := action\<rparr>"

definition with_signer_der :: "AuditLib \<Rightarrow> bytes option \<Rightarrow> AuditRecord \<Rightarrow> AuditRecord" where
  "with_signer_der lib der r =
     r\<lparr>ar_signer := map_option (\<lambda>d. \<lparr>certificate_der = d, fingerprint_sha256 = sha256_hex lib d\<rparr>) der\<rparr>"

definition with_references :: "AuditLib \<Rightarrow> (string \<times> string \<times> string) list \<Rightarrow> AuditRecord \<Rightarrow> AuditRecord" where
  "with_references lib refs r = r\<lparr>ar_references := reference_digests lib refs\<rparr>"

record Signal =
  sn_bytes :: bytes
  sn_message_id :: "string option"
  sn_ref_to_message_id :: "string option"
  sn_timestamp :: "string option"
  sn_signed :: bool
  sn_nrr :: "(string \<times> string \<times> string) list"

definition with_signal :: "AuditLib \<Rightarrow> Signal \<Rightarrow> AuditRecord \<Rightarrow> AuditRecord" where
  "with_signal lib s r =
     r\<lparr>ar_signal := Some \<lparr>sv_bytes = sn_bytes s, sv_sha256 = sha256_hex lib (sn_bytes s), sv_message_id = sn_message_id s,
        sv_ref_to_message_id = sn_ref_to_message_id s, sv_timestamp = sn_timestamp s, sv_signed = sn_signed s,
        sv_nrr = reference_digests lib (sn_nrr s)\<rparr>\<rparr>"

definition with_disposition :: "string option \<Rightarrow> AuditRecord \<Rightarrow> AuditRecord" where
  "with_disposition v r = r\<lparr>ar_disposition := v\<rparr>"

definition with_ebms_code :: "string option \<Rightarrow> AuditRecord \<Rightarrow> AuditRecord" where
  "with_ebms_code v r = r\<lparr>ar_ebms_code := v\<rparr>"

definition with_mic :: "string \<Rightarrow> bytes \<Rightarrow> AuditRecord \<Rightarrow> AuditRecord" where
  "with_mic alg v r = r\<lparr>ar_mic := Some \<lparr>mic_algorithm = alg, mic_value = v\<rparr>\<rparr>"

definition bare_id :: "string \<Rightarrow> string" where
  "bare_id i =
     (let i = trim i; i = or_else (strip_prefix ''<'' i) i
      in trim (or_else (strip_suffix ''>'' i) i))"

text \<open>\<open>now\<close> truncated to the millisecond; a reading before the epoch is the epoch.\<close>

definition as_millis :: "system_time \<Rightarrow> int" where
  "as_millis now = wrap_u64 (since_epoch now div 1000000)"

definition millis :: "system_time \<Rightarrow> system_time" where
  "millis now = as_millis now * 1000000"

text \<open>\<open>fill\<close>: the ten random octets, or the error of the source of randomness.\<close>

definition new_record_id :: "system_time \<Rightarrow> (string, 8 word list) result \<Rightarrow> string res" where
  "new_record_id now fill =
     rbind (map_err (\<lambda>e. asx_error StorageBackendFailure (''no randomness for an audit record id: '' @ e) (context_new ''audit_record_id'')) fill) (\<lambda>random.
     let ms = as_millis now;
         b = map (\<lambda>k. word_of_int (ms div 256 ^ k)) [5, 4, 3, 2, 1, 0] @ random;
         b = b[6 := (b ! 6 AND 0x0F) OR 0x70];
         b = b[8 := (b ! 8 AND 0x3F) OR 0x80];
         h = hex b
     in Inr (take 8 h @ ''-'' @ take 4 (drop 8 h) @ ''-'' @ take 4 (drop 12 h) @ ''-'' @ take 4 (drop 16 h) @ ''-'' @ drop 20 h))"

definition audit_invalid :: "string \<Rightarrow> AsxError" where
  "audit_invalid detail = asx_error InvalidInput (''invalid audit record: '' @ detail) (context_new ''audit_record_build'')"

definition option_debug :: "string option \<Rightarrow> string" where
  "option_debug v = (case v of None \<Rightarrow> ''None'' | Some s \<Rightarrow> ''Some('' @ debug_str s @ '')'')"

definition check_record :: "AuditRecord \<Rightarrow> AuditOutcome \<Rightarrow> string option \<Rightarrow> unit res" where
  "check_record r outcome error_kind =
     rbind (check (requires_error_kind outcome = (error_kind \<noteq> None))
        (audit_invalid (''outcome '' @ outcome_debug outcome @ '' with error_kind '' @ option_debug error_kind))) (\<lambda>_.
     case Option.bind (ar_signal r) sv_ref_to_message_id of
         None \<Rightarrow> Inr ()
       | Some ref_to \<Rightarrow> check (bare_id ref_to = bare_id (ar_message_id r))
           (audit_invalid (''signal acknowledges '' @ debug_str ref_to @ '', record is for '' @ debug_str (ar_message_id r))))"

definition finish_record ::
  "AuditRecord \<Rightarrow> AuditOutcome \<Rightarrow> string option \<Rightarrow> system_time \<Rightarrow> (string, 8 word list) result \<Rightarrow> AuditRecord res" where
  "finish_record r outcome error_kind now fill =
     rbind (check_record r outcome error_kind) (\<lambda>_.
     rbind (new_record_id now fill) (\<lambda>record_id.
       Inr (r\<lparr>ar_outcome := outcome, ar_error_kind := error_kind, ar_record_id := record_id, ar_recorded_at := millis now\<rparr>)))"

section \<open>Writing\<close>

text \<open>\<open>answer\<close>: what the sink's own \<open>record\<close> returned; without a sink nothing is written.\<close>

definition record_evidence ::
  "AuditDurability option \<Rightarrow> (string, unit) result \<Rightarrow> AuditRecord \<Rightarrow> string \<Rightarrow> unit res" where
  "record_evidence sink answer r stage =
     (case sink of
        None \<Rightarrow> Inr ()
      | Some durability \<Rightarrow>
          (case answer of
             Inr _ \<Rightarrow> Inr ()
           | Inl e \<Rightarrow>
               (case durability of
                  BestEffort \<Rightarrow> Inr ()
                | Durable \<Rightarrow> Inl (asx_error StorageBackendFailure
                    (''durable audit sink failed to record '' @ ar_record_id r @ '' for message '' @ ar_message_id r @ '' (signal sha256 '' @
                     (let s = or_else (signal_sha256 r) [] in if s = [] then ''none'' else s) @ ''): '' @ e)
                    (with_message_id (ar_message_id r) (context_new stage))))))"

section \<open>Properties\<close>

text \<open>
  C40. A finished record keeps the invariants of the trail, whatever was put into the builder: it carries an error kind
  exactly when its outcome is a failure, a signal it holds acknowledges no message but the record's own (up to the
  angle brackets of AS2 identifiers), and its time is a whole number of milliseconds, so it survives the stored
  form.
\<close>

theorem finished_record_invariant:
  assumes "finish_record r outcome error_kind now fill = Inr rec"
  shows "(ar_error_kind rec \<noteq> None) = requires_error_kind (ar_outcome rec) \<and>
    (\<forall>s ref_to. ar_signal rec = Some s \<longrightarrow> sv_ref_to_message_id s = Some ref_to \<longrightarrow> bare_id ref_to = bare_id (ar_message_id rec)) \<and>
    ar_recorded_at rec mod 1000000 = 0 \<and> 0 \<le> ar_recorded_at rec \<and>
    ar_signer rec = ar_signer r \<and> ar_references rec = ar_references r \<and> ar_signal rec = ar_signal r"
  using assms by (auto simp: finish_record_def check_record_def res_simps millis_def as_millis_def wrap_u64_def split: option.splits)


theorem finished_record_invariant_witness:
  "\<exists>rec. finish_record (record_builder AuditAs4 Inbound ''m1@asx'' ''me'' ''you'') AoAccepted None 1500000 (Inr (replicate 10 0)) = Inr rec \<and>
     ar_recorded_at rec mod 1000000 = 0 \<and> ar_error_kind rec = None"
proof -
  have "case finish_record (record_builder AuditAs4 Inbound ''m1@asx'' ''me'' ''you'') AoAccepted None 1500000 (Inr (replicate 10 0)) of
      Inr _ \<Rightarrow> True | Inl _ \<Rightarrow> False"
    by code_simp
  then obtain rec where "finish_record (record_builder AuditAs4 Inbound ''m1@asx'' ''me'' ''you'') AoAccepted None 1500000 (Inr (replicate 10 0)) = Inr rec"
    by (auto split: sum.splits)
  with finished_record_invariant [OF this] show ?thesis by (auto simp: finish_record_def check_record_def res_simps)
qed

text \<open>
  A write is reported lost exactly when a durable sink failed, and the report names the record and its message; a
  best-effort sink never fails the exchange, and without a sink nothing is demanded.
\<close>

theorem lost_evidence_is_reported:
  "record_evidence sink answer r stage = Inl e \<longleftrightarrow>
     sink = Some Durable \<and> (\<exists>cause. answer = Inl cause \<and> e = asx_error StorageBackendFailure
        (''durable audit sink failed to record '' @ ar_record_id r @ '' for message '' @ ar_message_id r @ '' (signal sha256 '' @
          (case signal_sha256 r of Some h \<Rightarrow> if h = [] then ''none'' else h | None \<Rightarrow> ''none'') @ ''): '' @ cause)
        (with_message_id (ar_message_id r) (context_new stage)))"
  by (auto simp: record_evidence_def or_else_def Let_def split: option.splits sum.splits AuditDurability.splits)

section \<open>Identifiers sort by time\<close>

text \<open>The order of byte strings.\<close>

fun lex_less :: "nat list \<Rightarrow> nat list \<Rightarrow> bool" where
  "lex_less [] ys = (ys \<noteq> [])"
| "lex_less (x # xs) [] = False"
| "lex_less (x # xs) (y # ys) = (x < y \<or> x = y \<and> lex_less xs ys)"

definition nibble :: "nat \<Rightarrow> nat \<Rightarrow> nat" where
  "nibble n k = n div 16 ^ k mod 16"

lemma nibble_less [simp]: "nibble n k < 16"
  by (simp add: nibble_def)

lemma lex_nibbles:
  "n < m \<Longrightarrow> m < 16 ^ l \<Longrightarrow> lex_less (map (nibble n) (rev [0..<l])) (map (nibble m) (rev [0..<l]))"
proof (induction l arbitrary: n m)
  case (Suc l)
  have low: "nibble (x mod 16 ^ l) k = nibble x k" if kl: "k < l" for x k
  proof -
    obtain d where l: "l = k + Suc d" using less_imp_Suc_add [OF kl] by auto
    have "x mod 16 ^ l div 16 ^ k = x div 16 ^ k mod 16 ^ Suc d"
      unfolding l power_add mod_mult2_eq by simp
    then show ?thesis by (simp add: nibble_def mod_mod_cancel)
  qed
  have maps: "map (nibble (x mod 16 ^ l)) (rev [0..<l]) = map (nibble x) (rev [0..<l])" for x
    using low by simp
  have high: "nibble x l = x div 16 ^ l" if "x < 16 ^ Suc l" for x
    using that by (simp add: nibble_def less_mult_imp_div_less)
  have le: "n div 16 ^ l \<le> m div 16 ^ l" using Suc.prems(1) by (simp add: div_le_mono)
  show ?case
  proof (cases "n div 16 ^ l = m div 16 ^ l")
    case True
    then have "n mod 16 ^ l < m mod 16 ^ l"
      using Suc.prems(1) by (metis div_mult_mod_eq nat_add_left_cancel_less)
    from Suc.IH [OF this] show ?thesis using True high Suc.prems by (simp add: maps)
  next
    case False
    then show ?thesis using le high Suc.prems by simp
  qed
qed simp

lemma lex_less_map:
  "length xs = length ys \<Longrightarrow> lex_less xs ys \<Longrightarrow> (\<And>x y. x \<in> set xs \<Longrightarrow> y \<in> set ys \<Longrightarrow> x < y \<Longrightarrow> f x < f y) \<Longrightarrow>
     lex_less (map f xs) (map f ys)"
  by (induction xs ys rule: list_induct2) auto

lemma lex_less_append: "length y = length y' \<Longrightarrow> lex_less y y' \<Longrightarrow> lex_less (y @ u) (y' @ v)"
  by (induction y y' rule: list_induct2) auto

lemma lex_less_split:
  "length x = length x' \<Longrightarrow> length y = length y' \<Longrightarrow> lex_less (x @ y) (x' @ y') \<Longrightarrow> lex_less (x @ z @ y @ u) (x' @ z @ y' @ v)"
proof (induction x x' rule: list_induct2)
  case Nil
  then have "lex_less (y @ u) (y' @ v)" using lex_less_append by simp
  then have "lex_less (z @ y @ u) (z @ y' @ v)" by (induction z) auto
  then show ?case by simp
qed auto

lemma hex_digit_mono: "a < b \<Longrightarrow> b < 16 \<Longrightarrow> byte (hex_digit a) < byte (hex_digit b)"
  by (auto simp: hex_digit_def byte_def)

text \<open>The time part of the identifier, as hexadecimal digits.\<close>

definition time_digits :: "nat \<Rightarrow> string" where
  "time_digits ms = map (hex_digit \<circ> nibble ms) (rev [0..<12])"

lemma time_octets: "hex (map (\<lambda>k. word_of_int (int ms div 256 ^ k)) [5, 4, 3, 2, 1, 0]) = time_digits ms"
proof -
  have oct: "unat (word_of_int (int ms div 256 ^ k) :: 8 word) = ms div 256 ^ k mod 256" for k
  proof -
    have "int ms div 256 ^ k = int (ms div 256 ^ k)" by (simp add: zdiv_int)
    then show ?thesis by (simp only: of_int_of_nat_eq) (simp add: unat_of_nat)
  qed
  have hi: "ms div 256 ^ k mod 256 div 16 = nibble ms (2 * k + 1)" for k
  proof -
    have "ms div 256 ^ k mod 256 div 16 = ms div 256 ^ k div 16 mod 16" using mod_mult2_eq [of "ms div 256 ^ k" 16 16] by simp
    also have "ms div 256 ^ k div 16 = ms div 16 ^ (2 * k + 1)"
    proof -
      have "(256 :: nat) ^ k * 16 = 16 ^ (2 * k + 1)" by (simp add: power_add power_mult)
      then show ?thesis by (metis div_mult2_eq)
    qed
    finally show ?thesis by (simp add: nibble_def)
  qed
  have lo: "ms div 256 ^ k mod 256 mod 16 = nibble ms (2 * k)" for k
    by (simp add: nibble_def power_mult mod_mod_cancel)
  have r: "rev [0..<12] = [11, 10, 9, 8, 7, 6, 5, 4, 3, 2, 1, 0 :: nat]" by (simp add: upt_rec)
  have h: "hex_byte (word_of_int (int ms div 256 ^ k)) = [hex_digit (nibble ms (2 * k + 1)), hex_digit (nibble ms (2 * k))]" for k
    by (simp only: hex_byte_def oct hi lo)
  have "hex (map (\<lambda>k. word_of_int (int ms div 256 ^ k)) [5, 4, 3, 2, 1, 0]) =
      concat (map (\<lambda>k. [hex_digit (nibble ms (2 * k + 1)), hex_digit (nibble ms (2 * k))]) [5, 4, 3, 2, 1, 0])"
    by (simp only: hex_def list.map h)
  also have "\<dots> = time_digits ms" by (simp add: time_digits_def r)
  finally show ?thesis .
qed

lemma record_id_shape:
  assumes "new_record_id now (Inr random) = Inr i" "length random = 10"
  shows "\<exists>rest. i = take 8 (time_digits (nat (as_millis now))) @ ''-'' @ drop 8 (time_digits (nat (as_millis now))) @ rest"
proof -
  let ?ms = "nat (as_millis now)"
  have ms: "as_millis now = int ?ms" by (simp add: as_millis_def wrap_u64_def)
  let ?time = "map (\<lambda>k. word_of_int (int ?ms div 256 ^ k) :: 8 word) [5, 4, 3, 2, 1, 0]"
  define b where "b = ((?time @ random)[6 := ((?time @ random) ! 6 AND 0x0F) OR 0x70])
    [8 := (((?time @ random)[6 := ((?time @ random) ! 6 AND 0x0F) OR 0x70]) ! 8 AND 0x3F) OR 0x80]"
  have "take 6 b = ?time" by (simp add: b_def take_update_cancel)
  then have "b = ?time @ drop 6 b" by (metis append_take_drop_id)
  then have h: "hex b = time_digits ?ms @ hex (drop 6 b)"
    using time_octets [of ?ms] by (metis hex_def concat_append map_append)
  have l: "length (time_digits ?ms) = 12" by (simp add: time_digits_def)
  have "i = take 8 (hex b) @ ''-'' @ take 4 (drop 8 (hex b)) @ ''-'' @ take 4 (drop 12 (hex b)) @ ''-'' @ take 4 (drop 16 (hex b)) @ ''-'' @ drop 20 (hex b)"
    using assms(1) ms by (simp add: new_record_id_def Let_def b_def)
  then show ?thesis using l unfolding h by simp
qed

text \<open>
  Record identifiers sort by time: of two records made in different milliseconds up to the year 10889, the earlier
  one's identifier is the smaller byte string, whatever random octets each holds.
\<close>

theorem record_ids_sort_by_time:
  assumes "new_record_id t (Inr random) = Inr i" "new_record_id t' (Inr random') = Inr i'" "length random = 10" "length random' = 10"
    and "as_millis t < as_millis t'" "as_millis t' < 2 ^ 48"
  shows "lex_less (map byte i) (map byte i')"
proof -
  let ?d = "\<lambda>t. time_digits (nat (as_millis t))"
  have "nat (as_millis t) < nat (as_millis t')" "nat (as_millis t') < 16 ^ 12"
    using assms(5,6) by (simp_all add: as_millis_def wrap_u64_def nat_less_iff)
  from lex_nibbles [OF this]
  have "lex_less (map (\<lambda>d. byte (hex_digit d)) (map (nibble (nat (as_millis t))) (rev [0..<12])))
      (map (\<lambda>d. byte (hex_digit d)) (map (nibble (nat (as_millis t'))) (rev [0..<12])))"
    by (intro lex_less_map) (auto intro: hex_digit_mono)
  then have "lex_less (map byte (?d t)) (map byte (?d t'))" by (simp add: time_digits_def comp_def)
  then have "lex_less (map byte (take 8 (?d t)) @ map byte (drop 8 (?d t))) (map byte (take 8 (?d t')) @ map byte (drop 8 (?d t')))"
    by (metis append_take_drop_id map_append)
  from lex_less_split [OF _ _ this, of "map byte ''-''"] show ?thesis
    using record_id_shape [OF assms(1,3)] record_id_shape [OF assms(2,4)] by (auto simp: time_digits_def)
qed

theorem record_ids_sort_by_time_witness:
  "\<exists>i i'. new_record_id 0 (Inr (replicate 10 255)) = Inr i \<and> new_record_id 1000000 (Inr (replicate 10 0)) = Inr i' \<and>
     lex_less (map byte i) (map byte i')"
proof -
  obtain i i' where "new_record_id 0 (Inr (replicate 10 255)) = Inr i" "new_record_id 1000000 (Inr (replicate 10 0)) = Inr i'"
    by (simp add: new_record_id_def Let_def)
  with record_ids_sort_by_time [OF this] show ?thesis by (simp add: as_millis_def wrap_u64_def since_epoch_def)
qed

end
