(* ===== verification/Interaction.thy ===== *)
theory Interaction
  imports Wssec_X509 Audit_Trail
begin

text \<open>
  Asynchronous code as a tree of interactions: a program is done, or it makes one request to its environment (the
  clock, the source of randomness, the blocking pool, the signing key, the revocation check, an external decrypter, the
  dedup store, the application's handler, the audit sink) and goes on with the answer, whatever it is. \<open>steps\<close> are its
  partial executions, with the trace of the interactions; an execution cut short (a dropped connection, a crash) is
  a partial one. \<open>demands\<close> is the weakest precondition with respect to an automaton that watches the trace: a
  program that satisfies it never leaves the automaton, and what it returns satisfies the postcondition.
\<close>

section \<open>Programs\<close>

text \<open>The blocking task ended, or died before or after it had asked its keys.\<close>

datatype joined = Joined | Died string bool

text \<open>The handler's task returned, or panicked; \<open>'f\<close> is a refusal.\<close>

datatype 'f handled = Returned "('f, unit) result" | Panicked

datatype ('m, 'f, 'v, 'a) prog =
    Done 'a
  | Now "system_time \<Rightarrow> ('m, 'f, 'v, 'a) prog"
  | Random nat "(string, 8 word list) result \<Rightarrow> ('m, 'f, 'v, 'a) prog"
  | Spawn "joined \<Rightarrow> ('m, 'f, 'v, 'a) prog"
  | Sign SignatureAlgorithm string "(string, bytes) result \<Rightarrow> ('m, 'f, 'v, 'a) prog"
  | Revocation "X509 list" "'v \<Rightarrow> ('m, 'f, 'v, 'a) prog"
  | Decrypt nat KeyOp "(string, bytes) result \<Rightarrow> ('m, 'f, 'v, 'a) prog"
  | ClaimKey string "(string, Claim) result \<Rightarrow> ('m, 'f, 'v, 'a) prog"
  | AcceptKey string ClaimToken "(string, unit) result \<Rightarrow> ('m, 'f, 'v, 'a) prog"
  | AbandonKey string ClaimToken "(string, unit) result \<Rightarrow> ('m, 'f, 'v, 'a) prog"
  | Handler 'm "'f handled \<Rightarrow> ('m, 'f, 'v, 'a) prog"
  | Sink AuditRecord "(string, unit) result \<Rightarrow> ('m, 'f, 'v, 'a) prog"

primrec seq :: "('m, 'f, 'v, 'a) prog \<Rightarrow> ('a \<Rightarrow> ('m, 'f, 'v, 'b) prog) \<Rightarrow> ('m, 'f, 'v, 'b) prog" where
  "seq (Done a) f = f a"
| "seq (Now k) f = Now (\<lambda>x. seq (k x) f)"
| "seq (Random n k) f = Random n (\<lambda>x. seq (k x) f)"
| "seq (Spawn k) f = Spawn (\<lambda>x. seq (k x) f)"
| "seq (Sign alg d k) f = Sign alg d (\<lambda>x. seq (k x) f)"
| "seq (Revocation p k) f = Revocation p (\<lambda>x. seq (k x) f)"
| "seq (Decrypt i d k) f = Decrypt i d (\<lambda>x. seq (k x) f)"
| "seq (ClaimKey c k) f = ClaimKey c (\<lambda>x. seq (k x) f)"
| "seq (AcceptKey c t k) f = AcceptKey c t (\<lambda>x. seq (k x) f)"
| "seq (AbandonKey c t k) f = AbandonKey c t (\<lambda>x. seq (k x) f)"
| "seq (Handler m k) f = Handler m (\<lambda>x. seq (k x) f)"
| "seq (Sink r k) f = Sink r (\<lambda>x. seq (k x) f)"

section \<open>Executions\<close>

datatype ('m, 'f) event =
    Quiet
  | EClaim string "(string, Claim) result"
  | EAccept string ClaimToken "(string, unit) result"
  | EAbandon string ClaimToken "(string, unit) result"
  | EHandler 'm "'f handled"
  | ESink AuditRecord "(string, unit) result"

inductive step :: "('m, 'f, 'v, 'a) prog \<Rightarrow> ('m, 'f) event \<Rightarrow> ('m, 'f, 'v, 'a) prog \<Rightarrow> bool" where
  "step (Now k) Quiet (k x)"
| "step (Random n k) Quiet (k x)"
| "step (Spawn k) Quiet (k x)"
| "step (Sign alg d k) Quiet (k x)"
| "step (Revocation p k) Quiet (k x)"
| "step (Decrypt i d k) Quiet (k x)"
| "step (ClaimKey c k) (EClaim c x) (k x)"
| "step (AcceptKey c t k) (EAccept c t x) (k x)"
| "step (AbandonKey c t k) (EAbandon c t x) (k x)"
| "step (Handler m k) (EHandler m x) (k x)"
| "step (Sink r k) (ESink r x) (k x)"

inductive_cases step_Done [elim!]: "step (Done a) e q"

inductive_simps step_simps [simp]:
  "step (Done a) e q" "step (Now k) e q" "step (Random n k) e q" "step (Spawn k) e q" "step (Sign alg d k) e q"
  "step (Revocation p k) e q" "step (Decrypt i d k) e q" "step (ClaimKey c k) e q" "step (AcceptKey c t k) e q"
  "step (AbandonKey c t k) e q" "step (Handler m k) e q" "step (Sink r k) e q"

inductive steps :: "('m, 'f, 'v, 'a) prog \<Rightarrow> ('m, 'f) event list \<Rightarrow> ('m, 'f, 'v, 'a) prog \<Rightarrow> bool" where
  steps_refl: "steps p [] p"
| steps_step: "step p e q \<Longrightarrow> steps q tr r \<Longrightarrow> steps p (e # tr) r"

text \<open>No program is stuck: whatever has happened, some execution goes on to a result.\<close>

lemma step_exists: "(\<exists>a. p = Done a) \<or> (\<exists>e q. step p e q)"
  by (cases p) auto

lemma steps_finish: "\<exists>tr a. steps p tr (Done a)"
proof (induction p)
  case (Done a)
  then show ?case by (blast intro: steps_refl)
next
  case (Now k)
  then have "\<exists>tr a. steps (k undefined) tr (Done a)" by simp
  then show ?case by (meson step.intros steps_step)
next
  case (Random n k)
  then have "\<exists>tr a. steps (k undefined) tr (Done a)" by simp
  then show ?case by (meson step.intros steps_step)
next
  case (Spawn k)
  then have "\<exists>tr a. steps (k undefined) tr (Done a)" by simp
  then show ?case by (meson step.intros steps_step)
next
  case (Sign alg d k)
  then have "\<exists>tr a. steps (k undefined) tr (Done a)" by simp
  then show ?case by (meson step.intros steps_step)
next
  case (Revocation p k)
  then have "\<exists>tr a. steps (k undefined) tr (Done a)" by simp
  then show ?case by (meson step.intros steps_step)
next
  case (Decrypt i d k)
  then have "\<exists>tr a. steps (k undefined) tr (Done a)" by simp
  then show ?case by (meson step.intros steps_step)
next
  case (ClaimKey c k)
  then have "\<exists>tr a. steps (k undefined) tr (Done a)" by simp
  then show ?case by (meson step.intros steps_step)
next
  case (AcceptKey c t k)
  then have "\<exists>tr a. steps (k undefined) tr (Done a)" by simp
  then show ?case by (meson step.intros steps_step)
next
  case (AbandonKey c t k)
  then have "\<exists>tr a. steps (k undefined) tr (Done a)" by simp
  then show ?case by (meson step.intros steps_step)
next
  case (Handler m k)
  then have "\<exists>tr a. steps (k undefined) tr (Done a)" by simp
  then show ?case by (meson step.intros steps_step)
next
  case (Sink r k)
  then have "\<exists>tr a. steps (k undefined) tr (Done a)" by simp
  then show ?case by (meson step.intros steps_step)
qed

section \<open>Watching automata\<close>

text \<open>An automaton moves by events and refuses with \<open>None\<close>.\<close>

fun watch :: "('m \<Rightarrow> 's \<Rightarrow> 's option) \<Rightarrow> 'm list \<Rightarrow> 's \<Rightarrow> 's option" where
  "watch d [] s = Some s"
| "watch d (e # tr) s = (case d e s of None \<Rightarrow> None | Some s' \<Rightarrow> watch d tr s')"

definition allowed :: "('m \<Rightarrow> 's \<Rightarrow> 's option) \<Rightarrow> 'm \<Rightarrow> 's \<Rightarrow> ('s \<Rightarrow> bool) \<Rightarrow> bool" where
  "allowed d e s P \<longleftrightarrow> (case d e s of None \<Rightarrow> False | Some s' \<Rightarrow> P s')"

primrec demands ::
  "(('m, 'f) event \<Rightarrow> 's \<Rightarrow> 's option) \<Rightarrow> ('m, 'f, 'v, 'a) prog \<Rightarrow> ('a \<Rightarrow> 's \<Rightarrow> bool) \<Rightarrow> 's \<Rightarrow> bool" where
  "demands d (Done a) Q s = Q a s"
| "demands d (Now k) Q s = (\<forall>x. allowed d Quiet s (demands d (k x) Q))"
| "demands d (Random n k) Q s = (\<forall>x. allowed d Quiet s (demands d (k x) Q))"
| "demands d (Spawn k) Q s = (\<forall>x. allowed d Quiet s (demands d (k x) Q))"
| "demands d (Sign alg b k) Q s = (\<forall>x. allowed d Quiet s (demands d (k x) Q))"
| "demands d (Revocation p k) Q s = (\<forall>x. allowed d Quiet s (demands d (k x) Q))"
| "demands d (Decrypt i b k) Q s = (\<forall>x. allowed d Quiet s (demands d (k x) Q))"
| "demands d (ClaimKey c k) Q s = (\<forall>x. allowed d (EClaim c x) s (demands d (k x) Q))"
| "demands d (AcceptKey c t k) Q s = (\<forall>x. allowed d (EAccept c t x) s (demands d (k x) Q))"
| "demands d (AbandonKey c t k) Q s = (\<forall>x. allowed d (EAbandon c t x) s (demands d (k x) Q))"
| "demands d (Handler m k) Q s = (\<forall>x. allowed d (EHandler m x) s (demands d (k x) Q))"
| "demands d (Sink r k) Q s = (\<forall>x. allowed d (ESink r x) s (demands d (k x) Q))"

lemma allowed_mono: "allowed d e s P \<Longrightarrow> (\<And>s. P s \<Longrightarrow> P' s) \<Longrightarrow> allowed d e s P'"
  by (auto simp: allowed_def split: option.splits)

lemma demands_seq: "demands d (seq p f) Q s = demands d p (\<lambda>a. demands d (f a) Q) s"
  by (induction p arbitrary: s) (simp_all add: allowed_def split: option.splits)

lemma demands_mono: "demands d p Q s \<Longrightarrow> (\<And>a s. Q a s \<Longrightarrow> Q' a s) \<Longrightarrow> demands d p Q' s"
  by (induction p arbitrary: s) (auto simp: allowed_def split: option.splits)

lemma demands_step:
  assumes "step p e q" "demands d p Q s"
  shows "\<exists>s'. d e s = Some s' \<and> demands d q Q s'"
  using assms by cases (auto simp: allowed_def split: option.splits)

theorem demands_steps:
  assumes "steps p tr q" "demands d p Q s"
  shows "\<exists>s'. watch d tr s = Some s' \<and> demands d q Q s'"
  using assms
proof (induction arbitrary: s rule: steps.induct)
  case (steps_step p e q tr r)
  from demands_step [OF steps_step.hyps(1) steps_step.prems] obtain s1 where "d e s = Some s1" "demands d q Q s1" by blast
  with steps_step.IH [of s1] show ?case by simp
qed simp

text \<open>A counter that runs out.\<close>

definition countdown :: "('m, 'f) event \<Rightarrow> nat \<Rightarrow> nat option" where
  "countdown e n = (case n of 0 \<Rightarrow> None | Suc m \<Rightarrow> Some m)"

lemma watch_countdown: "watch countdown tr n = Some m \<Longrightarrow> length tr + m = n"
  by (induction tr arbitrary: n) (auto simp: countdown_def split: option.splits nat.splits)

lemma allowed_countdown [simp]: "allowed countdown e n P \<longleftrightarrow> 0 < n \<and> P (n - 1)"
  by (cases n) (simp_all add: allowed_def countdown_def)

end
