(* ===== verification/Revocation_Check.thy ===== *)
theory Revocation_Check
  imports Wssec_X509 Time_Utils
begin

text \<open>
  The revocation check of a signer's path (src/revocation/mod.rs, crl.rs, ocsp.rs and cache.rs): the rules of the
  profiles, what a CRL is verified for and covers, when its status is current, what a missing answer means, and the
  walk over the path. What the network, the cache and the ASN.1 parsers gave is an argument of the definitions; the two
  bounded maps forget entries, so every statement is about any content they may have. Shown: a path that the market
  profile accepts has, for every certificate but the anchor, a verified, covering, unexpired CRL that does not list it and
  that was obtained now or within three days.
\<close>

section \<open>Rules and outcomes\<close>

datatype Sources = CrlOnly | CrlThenOcsp

datatype MissingSource = MsRefuse | AcceptRecorded

text \<open>Durations are in nanoseconds, as the times are.\<close>

record RevocationRule =
  rr_sources :: Sources
  next_update_required :: bool
  refresh_after :: int
  distrust_after :: "int option"
  missing_source :: MissingSource
  unobtainable_accepted :: bool

definition DAY :: int where
  "DAY = 86400 * 1000000000"

definition bdew_rule :: RevocationRule where
  "bdew_rule = \<lparr>rr_sources = CrlOnly, next_update_required = True, refresh_after = DAY, distrust_after = Some (3 * DAY),
     missing_source = MsRefuse, unobtainable_accepted = False\<rparr>"

definition crl_then_ocsp :: "MissingSource \<Rightarrow> RevocationRule" where
  "crl_then_ocsp missing = \<lparr>rr_sources = CrlThenOcsp, next_update_required = False, refresh_after = DAY,
     distrust_after = None, missing_source = missing, unobtainable_accepted = False\<rparr>"

definition smp_rule :: RevocationRule where
  "smp_rule = (crl_then_ocsp AcceptRecorded)\<lparr>unobtainable_accepted := True\<rparr>"

datatype Method = MCrl | MOcsp

datatype RevSource = Cache | Network

datatype DistrustReason = DrNotObtainable | DrNotRenewed

datatype RevOutcome =
    RevGood
  | RevRevoked string Method
  | RevNotObtainable string bool
  | RevDistrusted string DistrustReason system_time
  | RevNoSource string bool bool

fun refused :: "RevOutcome \<Rightarrow> bool" where
  "refused RevGood = False"
| "refused (RevRevoked _ _) = True"
| "refused (RevDistrusted _ _ _) = True"
| "refused (RevNotObtainable _ accepted) = (\<not> accepted)"
| "refused (RevNoSource _ accepted _) = (\<not> accepted)"

fun is_revoked :: "RevOutcome \<Rightarrow> bool" where
  "is_revoked (RevRevoked _ _) = True"
| "is_revoked _ = False"

fun describe :: "RevOutcome \<Rightarrow> string" where
  "describe RevGood = ''revocation status good''"
| "describe (RevRevoked subject m) =
     ''certificate '' @ subject @ '' is revoked (from its '' @ (case m of MCrl \<Rightarrow> ''CRL'' | MOcsp \<Rightarrow> ''OCSP responder'') @ '')''"
| "describe (RevNotObtainable subject _) = ''the revocation status of '' @ subject @ '' is not obtainable''"
| "describe (RevDistrusted ca DrNotObtainable since) =
     ''issuing CA distrusted: CRL not obtainable for more than 3 days (CA '' @ ca @ '', last obtained '' @ format_rfc3339_secs since @ '')''"
| "describe (RevDistrusted ca DrNotRenewed since) =
     ''issuing CA distrusted: CRL not renewed within its validity period (CA '' @ ca @ '', nextUpdate '' @ format_rfc3339_secs since @ '')''"
| "describe (RevNoSource subject _ ocsp) =
     (if ocsp then ''certificate '' @ subject @ '' publishes neither a CRL distribution point nor an OCSP responder''
      else ''certificate '' @ subject @ '' has no CRL distribution point (BSI TR-03109-4 Anhang A item 10)'')"

datatype RevStatus =
    StGood RevSource
  | StRevoked RevSource
  | StDistrusted DistrustReason system_time RevSource
  | StNotObtainable RevSource
  | StAbsent

section \<open>CRLs\<close>

datatype GeneralName = GnUri string | GnDirectory bytes | GnOther

text \<open>What the ASN.1 parser reports of a certificate and of a CRL.\<close>

record RawPoint =
  rp_full_name :: "GeneralName list option"
  rp_crl_issuer :: "GeneralName list option"

record RevCert =
  rv_subject :: bytes
  rv_issuer :: bytes
  rv_raw_serial :: bytes
  rv_ca :: bool
  rv_crl_sign :: "bool option"
  rv_ski :: "bytes option"
  rv_points :: "RawPoint list option"

datatype IdpName = IdpFull "GeneralName list" | IdpRelative

record RawIdp =
  ri_name :: "IdpName option"
  ri_only_user :: bool
  ri_only_ca :: bool
  ri_some_reasons :: bool
  ri_only_attribute :: bool
  ri_indirect :: bool

datatype CrlExtValue = AkiExt "bytes option" | IdpExt RawIdp | ExtParseError | ExtOther

record CrlExt =
  ce_oid :: string
  ce_critical :: bool
  ce_value :: CrlExtValue

record EntryExt =
  ee_oid :: string
  ee_critical :: bool
  ee_value :: bytes

record RawCrl =
  rc_issuer :: bytes
  rc_exts :: "CrlExt list"
  rc_last_update :: int
  rc_next_update :: "int option"
  rc_entries :: "(bytes \<times> EntryExt list) list"

record CrlLib =
  cl_crl :: "bytes \<Rightarrow> (string, unit) result"
  cl_key :: "X509 \<Rightarrow> (string, PKey) result"
  cl_verify :: "bytes \<Rightarrow> PKey \<Rightarrow> bool"
  cl_parse :: "bytes \<Rightarrow> (string, bytes \<times> RawCrl) result"
  cl_cert :: "bytes \<Rightarrow> (string, RevCert) result"
  cl_general_name :: "bytes \<Rightarrow> (bytes \<times> GeneralName) option"

record DistributionPoint =
  dp_uris :: "string list"
  dp_all_uris :: "string list"
  dp_crl_issuer :: "bytes option"

definition is_http :: "string \<Rightarrow> bool" where
  "is_http uri \<longleftrightarrow> (let lower = to_ascii_lowercase uri in starts_with lower ''http://'' \<or> starts_with lower ''https://'')"

fun uri_of :: "GeneralName \<Rightarrow> string option" where
  "uri_of (GnUri u) = Some u"
| "uri_of _ = None"

fun directory_of :: "GeneralName \<Rightarrow> bytes option" where
  "directory_of (GnDirectory d) = Some d"
| "directory_of _ = None"

definition filter_some :: "('a \<Rightarrow> 'b option) \<Rightarrow> 'a list \<Rightarrow> 'b list" where
  "filter_some f xs = concat (map (\<lambda>x. case f x of Some y \<Rightarrow> [y] | None \<Rightarrow> []) xs)"

definition find_some :: "('a \<Rightarrow> 'b option) \<Rightarrow> 'a list \<Rightarrow> 'b option" where
  "find_some f xs = (case filter_some f xs of y # _ \<Rightarrow> Some y | [] \<Rightarrow> None)"

definition distribution_point :: "RawPoint \<Rightarrow> DistributionPoint" where
  "distribution_point p =
     (let all = (case rp_full_name p of Some names \<Rightarrow> filter_some uri_of names | None \<Rightarrow> []) in
      \<lparr>dp_uris = filter is_http all, dp_all_uris = all, dp_crl_issuer = Option.bind (rp_crl_issuer p) (find_some directory_of)\<rparr>)"

definition parsed_cert :: "CrlLib \<Rightarrow> X509 \<Rightarrow> (string, RevCert) result" where
  "parsed_cert lib cert =
     rbind (x_to_der cert) (\<lambda>der. map_err (\<lambda>e. ''unparseable certificate: '' @ e) (cl_cert lib der))"

definition distribution_points :: "CrlLib \<Rightarrow> X509 \<Rightarrow> (string, DistributionPoint list option) result" where
  "distribution_points lib cert =
     rbind (parsed_cert lib cert) (\<lambda>c. Inr (map_option (map distribution_point) (rv_points c)))"

definition trim_serial :: "bytes \<Rightarrow> bytes" where
  "trim_serial bs = (if list_all (\<lambda>b. b = 0) bs then drop (length bs - 1) bs else dropWhile (\<lambda>b. b = 0) bs)"

record RevSubject =
  sb_serial :: bytes
  sb_issuer :: bytes
  sb_is_ca :: bool

definition subject_of :: "CrlLib \<Rightarrow> X509 \<Rightarrow> (string, RevSubject) result" where
  "subject_of lib cert =
     rbind (parsed_cert lib cert) (\<lambda>c. Inr \<lparr>sb_serial = trim_serial (rv_raw_serial c), sb_issuer = rv_issuer c, sb_is_ca = rv_ca c\<rparr>)"

record Idp =
  idp_uris :: "string list option"
  idp_relative_name :: bool
  idp_only_user :: bool
  idp_only_ca :: bool
  idp_only_some_reasons :: bool
  idp_only_attribute :: bool
  idp_indirect :: bool

record ParsedCrl =
  this_update :: system_time
  next_update :: "system_time option"
  crl_idp :: "Idp option"
  revoked :: "(bytes \<times> bytes) set"

definition KNOWN_CRL_EXTENSIONS :: "string list" where
  "KNOWN_CRL_EXTENSIONS = [''2.5.29.35'', ''2.5.29.18'', ''2.5.29.20'', ''2.5.29.28'', ''2.5.29.46'']"

definition DELTA_CRL_INDICATOR :: string where
  "DELTA_CRL_INDICATOR = ''2.5.29.27''"

definition KNOWN_ENTRY_EXTENSIONS :: "string list" where
  "KNOWN_ENTRY_EXTENSIONS = [''2.5.29.21'', ''2.5.29.23'', ''2.5.29.24'', ''2.5.29.29'']"

definition CERTIFICATE_ISSUER :: string where
  "CERTIFICATE_ISSUER = ''2.5.29.29''"

definition crl_time :: "int \<Rightarrow> system_time" where
  "crl_time secs = secs * 1000000000"

definition idp_of :: "RawIdp \<Rightarrow> Idp" where
  "idp_of p =
     \<lparr>idp_uris = (case ri_name p of Some (IdpFull names) \<Rightarrow> Some (filter_some uri_of names) | _ \<Rightarrow> None),
      idp_relative_name = (ri_name p = Some IdpRelative), idp_only_user = ri_only_user p, idp_only_ca = ri_only_ca p,
      idp_only_some_reasons = ri_some_reasons p, idp_only_attribute = ri_only_attribute p, idp_indirect = ri_indirect p\<rparr>"

definition crl_extension :: "bytes option \<Rightarrow> Idp option \<Rightarrow> CrlExt \<Rightarrow> (string, Idp option) result" where
  "crl_extension signer_ski idp ext =
     (let unknown = (if ce_critical ext \<and> ce_oid ext \<notin> set KNOWN_CRL_EXTENSIONS
          then Inl (''unknown critical CRL extension '' @ ce_oid ext) else Inr idp) in
      if ce_oid ext = DELTA_CRL_INDICATOR then Inl ''a delta CRL is not a complete CRL''
      else case ce_value ext of
        AkiExt i \<Rightarrow>
          (case (i, signer_ski) of
             (Some i, Some ski) \<Rightarrow> if i \<noteq> ski then Inl (''the CRL'' @ [CHR 0x27] @ ''s authority key identifier names another key'') else Inr idp
           | _ \<Rightarrow> Inr idp)
      | IdpExt point \<Rightarrow> Inr (Some (idp_of point))
      | ExtParseError \<Rightarrow> if ce_critical ext then Inl (''unparseable critical CRL extension '' @ ce_oid ext) else unknown
      | ExtOther \<Rightarrow> unknown)"

definition der_content :: "bytes \<Rightarrow> (nat \<times> bytes) option" where
  "der_content bs =
     (case bs of
        tag # first # rest \<Rightarrow>
          Option.bind
            (if unat first < 128 then Some (unat first, rest)
             else
               let n = unat first mod 128 in
               if n = 0 \<or> n > 4 \<or> length rest < n then None
               else Some (foldl (\<lambda>acc b. acc * 256 + unat b) 0 (take n rest), drop n rest))
            (\<lambda>(len, rest). if length rest = len then Some (unat tag, rest) else None)
      | _ \<Rightarrow> None)"

text \<open>The loop over the names; the parser of one name consumes octets.\<close>

function first_directory :: "CrlLib \<Rightarrow> bytes \<Rightarrow> bytes option" where
  "first_directory lib rest =
     (if rest = [] then None
      else case cl_general_name lib rest of
        None \<Rightarrow> None
      | Some (_, GnDirectory name) \<Rightarrow> Some name
      | Some (next, _) \<Rightarrow> if length next < length rest then first_directory lib next else None)"
  by pat_completeness auto
termination by (relation "measure (\<lambda>(_, rest). length rest)") auto

definition certificate_issuer :: "CrlLib \<Rightarrow> bytes \<Rightarrow> bytes option" where
  "certificate_issuer lib val =
     (case der_content val of Some (tag, rest) \<Rightarrow> if tag \<noteq> 0x30 then None else first_directory lib rest | None \<Rightarrow> None)"

definition entry_extension :: "CrlLib \<Rightarrow> Idp option \<Rightarrow> bytes \<Rightarrow> EntryExt \<Rightarrow> (string, bytes) result" where
  "entry_extension lib idp entry_issuer ext =
     (if ee_oid ext = CERTIFICATE_ISSUER then
        rbind (check (case idp of Some i \<Rightarrow> idp_indirect i | None \<Rightarrow> False)
          ''a CertificateIssuer entry extension in a CRL without IssuingDistributionPoint.indirectCRL'') (\<lambda>_.
          ok_or ''an unreadable CertificateIssuer entry extension'' (certificate_issuer lib (ee_value ext)))
      else if ee_critical ext \<and> ee_oid ext \<notin> set KNOWN_ENTRY_EXTENSIONS then
        Inl (''unknown critical CRL entry extension '' @ ee_oid ext)
      else Inr entry_issuer)"

definition crl_entry ::
  "CrlLib \<Rightarrow> Idp option \<Rightarrow> bytes \<times> (bytes \<times> bytes) set \<Rightarrow> bytes \<times> EntryExt list \<Rightarrow> (string, bytes \<times> (bytes \<times> bytes) set) result" where
  "crl_entry lib idp acc entry =
     rbind (rfold (entry_extension lib idp) (fst acc) (snd entry)) (\<lambda>entry_issuer.
       Inr (entry_issuer, insert (entry_issuer, trim_serial (fst entry)) (snd acc)))"

definition parse_and_verify :: "CrlLib \<Rightarrow> bytes \<Rightarrow> X509 \<Rightarrow> bool \<Rightarrow> (string, ParsedCrl) result" where
  "parse_and_verify lib der signer required =
     rbind (map_err (\<lambda>e. ''unparseable CRL: '' @ e) (cl_crl lib der)) (\<lambda>_.
     rbind (cl_key lib signer) (\<lambda>key.
     rbind (check (cl_verify lib der key) ''the CRL signature does not verify with the issuing key'') (\<lambda>_.
     rbind (map_err (\<lambda>e. ''unparseable CRL: '' @ e) (cl_parse lib der)) (\<lambda>(rest, crl).
     rbind (check (rest = []) ''trailing bytes after the CRL'') (\<lambda>_.
     rbind (rbind (x_to_der signer) (\<lambda>d. map_err (\<lambda>e. ''unparseable CRL signer: '' @ e) (cl_cert lib d))) (\<lambda>signer_parsed.
     rbind (check (rc_issuer crl = rv_subject signer_parsed) (''the CRL issuer is not the signing certificate'' @ [CHR 0x27] @ ''s subject'')) (\<lambda>_.
     rbind (check (rv_crl_sign signer_parsed \<noteq> Some False) (''the CRL signer'' @ [CHR 0x27] @ ''s keyUsage does not permit cRLSign'')) (\<lambda>_.
     rbind (rfold (crl_extension (rv_ski signer_parsed)) None (rc_exts crl)) (\<lambda>idp.
     let this = crl_time (rc_last_update crl); next = map_option crl_time (rc_next_update crl) in
     rbind (case next of
         None \<Rightarrow> check (\<not> required) ''the CRL has no nextUpdate (BSI TR-03109-4 Anhang B)''
       | Some n \<Rightarrow> check (this \<le> n) (''the CRL'' @ [CHR 0x27] @ ''s nextUpdate is before its thisUpdate'')) (\<lambda>_.
     rbind (rfold (crl_entry lib idp) (rc_issuer crl, {}) (rc_entries crl)) (\<lambda>(_, listed).
       Inr \<lparr>this_update = this, next_update = next, crl_idp = idp, revoked = listed\<rparr>)))))))))))"

definition covers :: "ParsedCrl \<Rightarrow> RevSubject \<Rightarrow> DistributionPoint \<Rightarrow> (string, unit) result" where
  "covers crl subject point =
     (let indirect = dp_crl_issuer point \<noteq> None; not_indirect = ''an indirect CRL without IssuingDistributionPoint.indirectCRL'' in
      case crl_idp crl of
        None \<Rightarrow> check (\<not> indirect) not_indirect
      | Some idp \<Rightarrow>
          rbind (check (\<not> (indirect \<and> \<not> idp_indirect idp)) not_indirect) (\<lambda>_.
          rbind (check (\<not> idp_only_attribute idp) ''the CRL covers attribute certificates only'') (\<lambda>_.
          rbind (check (\<not> (idp_only_user idp \<and> sb_is_ca subject)) ''the CRL covers end-entity certificates only'') (\<lambda>_.
          rbind (check (\<not> (idp_only_ca idp \<and> \<not> sb_is_ca subject)) ''the CRL covers CA certificates only'') (\<lambda>_.
          rbind (check (\<not> idp_only_some_reasons idp) ''the CRL covers some revocation reasons only'') (\<lambda>_.
          rbind (check (\<not> idp_relative_name idp) ''the CRL names its distribution point relative to its issuer'') (\<lambda>_.
            case idp_uris idp of
              Some uris \<Rightarrow> check (\<exists>u \<in> set uris. u \<in> set (dp_all_uris point))
                (''the CRL'' @ [CHR 0x27] @ ''s distribution point is not the certificate'' @ [CHR 0x27] @ ''s'')
            | None \<Rightarrow> Inr ())))))))"

definition THIS_UPDATE_SKEW :: int where
  "THIS_UPDATE_SKEW = 300 * 1000000000"

definition check_time :: "ParsedCrl \<Rightarrow> system_time \<Rightarrow> (string, unit) result" where
  "check_time crl now = check (\<not> this_update crl > now + THIS_UPDATE_SKEW) (''the CRL'' @ [CHR 0x27] @ ''s thisUpdate is in the future'')"

definition lists :: "ParsedCrl \<Rightarrow> RevSubject \<Rightarrow> bool" where
  "lists crl subject \<longleftrightarrow> (sb_issuer subject, sb_serial subject) \<in> revoked crl"

section \<open>Cached and fetched CRLs\<close>

definition ENVELOPE_V1 :: bytes where
  "ENVELOPE_V1 = map (\<lambda>c. word_of_nat (byte c)) ''asx-rev-v1''"

definition u64_be :: "int \<Rightarrow> bytes" where
  "u64_be n = map (\<lambda>k. word_of_int (n div 256 ^ k)) [7, 6, 5, 4, 3, 2, 1, 0]"

definition u64_from_be :: "bytes \<Rightarrow> int" where
  "u64_from_be bs = foldl (\<lambda>acc b. acc * 256 + uint b) 0 bs"

definition rev_seal :: "system_time \<Rightarrow> bytes \<Rightarrow> bytes" where
  "rev_seal fetched_at der = ENVELOPE_V1 @ u64_be (since_epoch fetched_at div 1000000000) @ der"

definition rev_open :: "bytes \<Rightarrow> (system_time \<times> bytes) option" where
  "rev_open entry =
     (if take (length ENVELOPE_V1) entry \<noteq> ENVELOPE_V1 then None
      else
        let rest = drop (length ENVELOPE_V1) entry in
        if length rest < 8 \<or> length entry \<le> length ENVELOPE_V1 + 8 then None
        else Some (u64_from_be (take 8 rest) * 1000000000, drop 8 rest))"

definition rev_key :: "(bytes \<Rightarrow> bytes) \<Rightarrow> string \<Rightarrow> bytes list \<Rightarrow> string" where
  "rev_key sha256 prefix parts = prefix @ hex (sha256 (case parts of [] \<Rightarrow> [] | p # ps \<Rightarrow> p @ concat (map (\<lambda>q. 0 # q) ps)))"

record Seen =
  seen_der :: bytes
  seen_crl :: ParsedCrl
  seen_fetched_at :: system_time

type_synonym seen_map = "string \<rightharpoonup> Seen"

text \<open>\<open>entry\<close>: what the cache gave, a failure being a miss.\<close>

definition cached_crl ::
  "CrlLib \<Rightarrow> RevocationRule \<Rightarrow> string \<Rightarrow> X509 \<Rightarrow> bytes option \<Rightarrow> seen_map \<Rightarrow> (Seen \<times> system_time) option \<times> seen_map" where
  "cached_crl lib rule key signer entry seen =
     (case Option.bind entry rev_open of
        None \<Rightarrow> (None, seen)
      | Some (stored_at, der) \<Rightarrow>
          let known = (case seen key of Some s \<Rightarrow> if seen_der s = der then Some (seen_crl s) else None | None \<Rightarrow> None);
              s = (\<lambda>crl. \<lparr>seen_der = der, seen_crl = crl, seen_fetched_at = stored_at\<rparr>) in
          case known of
            Some crl \<Rightarrow> (Some (s crl, stored_at), seen)
          | None \<Rightarrow>
              (case parse_and_verify lib der signer (next_update_required rule) of
                 Inr crl \<Rightarrow> (Some (s crl, stored_at), seen(key \<mapsto> s crl))
               | Inl _ \<Rightarrow> (None, seen)))"

text \<open>\<open>response\<close>: the status and body the HTTP client gave; \<open>to_der\<close>: a PEM CRL in DER.\<close>

definition fetch_body :: "nat \<Rightarrow> (string, nat \<times> bytes) result \<Rightarrow> (string, bytes) result" where
  "fetch_body max_bytes response =
     rbind (map_err (\<lambda>e. ''the fetch failed: '' @ e) response) (\<lambda>(status, body).
     rbind (check (200 \<le> status \<and> status < 300) (''HTTP '' @ show_nat status)) (\<lambda>_.
     rbind (check (length body \<le> max_bytes) (''the response exceeds '' @ show_nat max_bytes @ '' bytes'')) (\<lambda>_. Inr body)))"

definition MAX_CRL_BYTES :: nat where
  "MAX_CRL_BYTES = 10 * 1024 * 1024"

definition pem_or_der :: "(bytes \<Rightarrow> (string, bytes) result) \<Rightarrow> bytes \<Rightarrow> (string, bytes) result" where
  "pem_or_der to_der body =
     (if take 10 body = map (\<lambda>c. word_of_nat (byte c)) ''-----BEGIN'' then to_der body else Inr body)"

definition cache_expiry :: "RevocationRule \<Rightarrow> ParsedCrl \<Rightarrow> system_time \<Rightarrow> system_time" where
  "cache_expiry rule crl now =
     min ((case next_update crl of Some n \<Rightarrow> n | None \<Rightarrow> now + refresh_after rule) + (case distrust_after rule of Some d \<Rightarrow> d | None \<Rightarrow> 0))
       (now + 7 * DAY)"

text \<open>The CRL to use, with what is stored in the cache and until when.\<close>

definition fetch_and_store ::
  "CrlLib \<Rightarrow> (bytes \<Rightarrow> (string, bytes) result) \<Rightarrow> RevocationRule \<Rightarrow> string \<Rightarrow> X509 \<Rightarrow> (string, nat \<times> bytes) result \<Rightarrow> system_time \<Rightarrow>
   seen_map \<Rightarrow> (string, Seen \<times> bytes \<times> system_time) result \<times> seen_map" where
  "fetch_and_store lib to_der rule key signer response now seen =
     (case rbind (fetch_body MAX_CRL_BYTES response) (\<lambda>body.
        rbind (pem_or_der to_der body) (\<lambda>der.
        rbind (parse_and_verify lib der signer (next_update_required rule)) (\<lambda>crl.
        rbind (check_time crl now) (\<lambda>_. Inr (der, crl))))) of
        Inl e \<Rightarrow> (Inl e, seen)
      | Inr (der, crl) \<Rightarrow>
          let (der, crl) = (case seen key of
              Some previous \<Rightarrow> if this_update (seen_crl previous) > this_update crl then (seen_der previous, seen_crl previous) else (der, crl)
            | None \<Rightarrow> (der, crl));
              s = \<lparr>seen_der = der, seen_crl = crl, seen_fetched_at = now\<rparr> in
          (Inr (s, rev_seal now der, cache_expiry rule crl now), seen(key \<mapsto> s)))"

text \<open>
  The flight of a key: how often it was fetched, whether the last fetch succeeded, since when it fails.
\<close>

record Flight =
  fl_generation :: nat
  fl_last :: "bool option"
  failing_since :: "system_time option"

text \<open>A waiter whose fetch another task performed takes that result; \<open>result\<close> and \<open>now\<close>: the fetch this task performs.\<close>

definition fetch_crl ::
  "nat \<Rightarrow> Flight \<Rightarrow> Seen option \<Rightarrow> (string, Seen) result \<Rightarrow> system_time \<Rightarrow> Seen option \<times> Flight" where
  "fetch_crl started flight seen result now =
     (if fl_generation flight \<noteq> started then (if fl_last flight = Some True then seen else None, flight)
      else
        (case result of Inr s \<Rightarrow> Some s | Inl _ \<Rightarrow> None,
         flight\<lparr>fl_generation := fl_generation flight + 1, fl_last := Some (is_ok result),
           failing_since := (case result of Inr _ \<Rightarrow> None
             | Inl _ \<Rightarrow> Some (case failing_since flight of Some t \<Rightarrow> t | None \<Rightarrow> now))\<rparr>))"

section \<open>The status of one certificate\<close>

definition effective_next :: "RevocationRule \<Rightarrow> ParsedCrl \<Rightarrow> system_time \<Rightarrow> system_time" where
  "effective_next rule crl fetched_at = (case next_update crl of Some n \<Rightarrow> n | None \<Rightarrow> fetched_at + refresh_after rule)"

definition age :: "system_time \<Rightarrow> system_time \<Rightarrow> int" where
  "age now fetched_at = max 0 (now - fetched_at)"

definition in_window :: "RevocationRule \<Rightarrow> system_time \<Rightarrow> system_time \<Rightarrow> bool" where
  "in_window rule now fetched_at = (case distrust_after rule of None \<Rightarrow> True | Some w \<Rightarrow> age now fetched_at \<le> w)"

definition applies :: "RevSubject \<Rightarrow> DistributionPoint \<Rightarrow> system_time \<Rightarrow> ParsedCrl \<Rightarrow> bool" where
  "applies subject point now crl \<longleftrightarrow> is_ok (covers crl subject point) \<and> is_ok (check_time crl now)"

text \<open>A stored fetch time is not signed: it is held between the CRL's own time and now.\<close>

definition obtained_at :: "system_time \<Rightarrow> system_time \<Rightarrow> ParsedCrl \<Rightarrow> system_time" where
  "obtained_at now stored_at crl = (if stored_at > now then this_update crl else max stored_at (this_update crl))"

text \<open>\<open>cached\<close>: the cached CRL with its stored time; \<open>fetched\<close>: what a fetch gives, asked for unless the cached one is
  fresh; \<open>failing\<close>: since when the refresh fails.\<close>

definition crl_scope ::
  "RevocationRule \<Rightarrow> system_time \<Rightarrow> RevSubject \<Rightarrow> DistributionPoint \<Rightarrow> (Seen \<times> system_time) option \<Rightarrow> Seen option \<Rightarrow>
   system_time option \<Rightarrow> RevStatus \<times> system_time option" where
  "crl_scope rule now subject point cached fetched failing =
     (let forced = (case cached of Some (_, stored_at) \<Rightarrow> stored_at > now | None \<Rightarrow> False);
          held = (case cached of
              Some (s, stored_at) \<Rightarrow>
                if applies subject point now (seen_crl s) then Some (seen_crl s, obtained_at now stored_at (seen_crl s)) else None
            | None \<Rightarrow> None);
          fresh = (case held of Some (crl, fetched_at) \<Rightarrow> \<not> forced \<and> now < effective_next rule crl fetched_at \<and> in_window rule now fetched_at
            | None \<Rightarrow> False);
          (current, src, fetch_failed) =
            (if fresh then (held, Cache, False)
             else case fetched of
                 Some s \<Rightarrow> if applies subject point now (seen_crl s) then (Some (seen_crl s, seen_fetched_at s), Network, False) else (held, Cache, True)
               | None \<Rightarrow> (held, Cache, True)) in
      case current of
        None \<Rightarrow> (StNotObtainable src, failing)
      | Some (crl, fetched_at) \<Rightarrow>
          let next = effective_next rule crl fetched_at in
          if now > next then
            (case distrust_after rule of
               Some _ \<Rightarrow> (StDistrusted DrNotRenewed next src, None)
             | None \<Rightarrow> (StNotObtainable src, failing))
          else if fetch_failed \<and> \<not> in_window rule now fetched_at then (StDistrusted DrNotObtainable fetched_at src, None)
          else if lists crl subject then (StRevoked src, None)
          else (StGood src, failing))"

definition crl_signer :: "(X509 \<Rightarrow> bytes option) \<Rightarrow> (int \<Rightarrow> bool) \<Rightarrow> X509 list \<Rightarrow> bytes \<Rightarrow> system_time \<Rightarrow> X509 option" where
  "crl_signer subject_der asn1_ok crl_signers name now =
     (let n = unix_secs now in
      if \<not> asn1_ok n then None
      else find (\<lambda>s. subject_der s = Some name \<and> x_not_before s \<le> n \<and> n \<le> x_not_after s) crl_signers)"

text \<open>\<open>scope\<close>: the status of one distribution point and address, with the certificate that signs its CRL.\<close>

type_synonym scope = "DistributionPoint \<Rightarrow> X509 \<Rightarrow> string \<Rightarrow> RevStatus \<times> system_time option"

fun crl_urls :: "(string \<Rightarrow> RevStatus \<times> system_time option) \<Rightarrow> string list \<Rightarrow> RevStatus \<times> system_time option \<Rightarrow>
    (RevStatus \<times> system_time option) + (RevStatus \<times> system_time option)" where
  "crl_urls f [] acc = Inr acc"
| "crl_urls f (url # urls) acc =
     (let (status, warn) = f url; warning = (if warn \<noteq> None then warn else snd acc) in
      case status of
        StGood _ \<Rightarrow> Inl (status, warning)
      | StRevoked _ \<Rightarrow> Inl (status, warning)
      | StDistrusted _ _ _ \<Rightarrow> crl_urls f urls (status, warning)
      | _ \<Rightarrow> crl_urls f urls (fst acc, warning))"

fun crl_points :: "(DistributionPoint \<Rightarrow> X509 option) \<Rightarrow> scope \<Rightarrow> DistributionPoint list \<Rightarrow> RevStatus \<times> system_time option \<Rightarrow>
    RevStatus \<times> system_time option" where
  "crl_points signer_of scope [] acc = acc"
| "crl_points signer_of scope (point # points) acc =
     (case signer_of point of
        None \<Rightarrow> crl_points signer_of scope points acc
      | Some signer \<Rightarrow>
          (case crl_urls (scope point signer) (dp_uris point) acc of
             Inl decided \<Rightarrow> decided
           | Inr acc \<Rightarrow> crl_points signer_of scope points acc))"

definition crl_status :: "CrlLib \<Rightarrow> (bytes \<Rightarrow> X509 option) \<Rightarrow> scope \<Rightarrow> X509 \<Rightarrow> X509 \<Rightarrow> RevStatus \<times> system_time option" where
  "crl_status lib signer_named scope cert issuer =
     (case distribution_points lib cert of
        Inl _ \<Rightarrow> (StNotObtainable Network, None)
      | Inr None \<Rightarrow> (StAbsent, None)
      | Inr (Some []) \<Rightarrow> (StAbsent, None)
      | Inr (Some points) \<Rightarrow>
          crl_points (\<lambda>p. case dp_crl_issuer p of None \<Rightarrow> Some issuer | Some name \<Rightarrow> signer_named name) scope points
            (StNotObtainable Network, None))"

section \<open>OCSP\<close>

datatype OcspCertStatus = OcspGood | OcspRevoked | OcspUnknown

text \<open>A single response, its times as OpenSSL prints them.\<close>

record OcspSingle =
  sg_status :: OcspCertStatus
  sg_this_update :: string
  sg_next_update :: "string option"

text \<open>\<open>ol_response\<close>: the status of a response that is not successful, as it is printed.\<close>

record OcspLib =
  ol_responders :: "X509 \<Rightarrow> string list option"
  ol_response :: "bytes \<Rightarrow> (string, string option) result"
  ol_basic :: "bytes \<Rightarrow> (string, unit) result"
  ol_store :: "X509 list \<Rightarrow> X509 list \<Rightarrow> int \<Rightarrow> (string, unit) result"
  ol_verify :: "bytes \<Rightarrow> X509 list \<Rightarrow> X509 list \<Rightarrow> int \<Rightarrow> (string, unit) result"
  ol_cert_id :: "bool \<Rightarrow> X509 \<Rightarrow> X509 \<Rightarrow> (string, bytes) result"
  ol_find :: "bytes \<Rightarrow> bytes \<Rightarrow> OcspSingle option"

definition ocsp_responders :: "OcspLib \<Rightarrow> X509 \<Rightarrow> string list \<times> nat" where
  "ocsp_responders lib cert =
     (case ol_responders lib cert of
        None \<Rightarrow> ([], 0)
      | Some all \<Rightarrow> (foldl (\<lambda>urls url. if is_http url \<and> url \<notin> set urls then urls @ [url] else urls) [] all, length all))"

definition SKEW_SECS :: int where
  "SKEW_SECS = 300"

definition MAX_AGE_SECS :: int where
  "MAX_AGE_SECS = 86400"

definition check_freshness :: "string \<Rightarrow> string option \<Rightarrow> system_time \<Rightarrow> (string, unit) result" where
  "check_freshness this_printed next_printed now =
     (let read = (\<lambda>t what. ok_or (''unreadable '' @ what @ '' '' @ t) (parse_openssl_print_time t)); now = unix_secs now in
      rbind (read this_printed ''thisUpdate'') (\<lambda>this.
      rbind (check (\<not> this > now + SKEW_SECS) ''status not yet valid (thisUpdate in the future)'') (\<lambda>_.
      rbind (check (\<not> this < now - MAX_AGE_SECS) ''status too old (thisUpdate older than 24 h)'') (\<lambda>_.
        case next_printed of
          None \<Rightarrow> Inr ()
        | Some t \<Rightarrow>
            rbind (read t ''nextUpdate'') (\<lambda>next.
            rbind (check (\<not> next < now - SKEW_SECS) ''status expired (nextUpdate in the past)'') (\<lambda>_.
              check (\<not> next < this) ''nextUpdate before thisUpdate''))))))"

definition ocsp_time :: "string \<Rightarrow> (string, system_time) result" where
  "ocsp_time t = rbind (ok_or (''unreadable OCSP time '' @ t) (parse_openssl_print_time t)) (\<lambda>secs. Inr (max secs 0 * 1000000000))"

record OcspVerified =
  ov_status :: OcspCertStatus
  ov_this_update :: system_time
  ov_next_update :: "system_time option"

definition ocsp_verify ::
  "OcspLib \<Rightarrow> bytes \<Rightarrow> X509 \<Rightarrow> X509 \<Rightarrow> X509 list \<Rightarrow> X509 list \<Rightarrow> system_time \<Rightarrow> (string, OcspVerified) result" where
  "ocsp_verify lib der cert issuer untrusted anchors now =
     (let certs = issuer # untrusted; at_time = unix_secs now in
      rbind (map_err (\<lambda>e. ''unparseable OCSP response: '' @ e) (ol_response lib der)) (\<lambda>other.
      rbind (case other of Some status \<Rightarrow> Inl (''the responder answered status '' @ status) | None \<Rightarrow> Inr ()) (\<lambda>_.
      rbind (ol_basic lib der) (\<lambda>_.
      rbind (ol_store lib anchors certs at_time) (\<lambda>_.
      rbind (map_err (\<lambda>e. ''the OCSP response signature or responder is not trusted: '' @ e) (ol_verify lib der certs anchors at_time)) (\<lambda>_.
      rbind (ol_cert_id lib False cert issuer) (\<lambda>sha1.
      rbind (ol_cert_id lib True cert issuer) (\<lambda>sha256.
      rbind (ok_or ''the OCSP response has no status for this certificate''
        (case ol_find lib der sha1 of Some s \<Rightarrow> Some s | None \<Rightarrow> ol_find lib der sha256)) (\<lambda>single.
      rbind (check_freshness (sg_this_update single) (sg_next_update single) now) (\<lambda>_.
      rbind (ocsp_time (sg_this_update single)) (\<lambda>this.
      rbind (case sg_next_update single of None \<Rightarrow> Inr None | Some t \<Rightarrow> rbind (ocsp_time t) (\<lambda>n. Inr (Some n))) (\<lambda>next.
        Inr \<lparr>ov_status = sg_status single, ov_this_update = this, ov_next_update = next\<rparr>))))))))))))"

definition ocsp_expiry :: "OcspVerified \<Rightarrow> system_time" where
  "ocsp_expiry v = min (case ov_next_update v of Some n \<Rightarrow> n | None \<Rightarrow> ov_this_update v + DAY) (ov_this_update v + DAY)"

fun ocsp_answer :: "RevSource \<Rightarrow> OcspCertStatus \<Rightarrow> RevStatus option" where
  "ocsp_answer src OcspGood = Some (StGood src)"
| "ocsp_answer src OcspRevoked = Some (StRevoked src)"
| "ocsp_answer src OcspUnknown = None"

text \<open>\<open>respond\<close>: the body a responder gave and the time it is verified at; no body when the request failed.\<close>

fun ocsp_network :: "(bytes \<Rightarrow> system_time \<Rightarrow> (string, OcspVerified) result) \<Rightarrow> (string \<Rightarrow> (bytes \<times> system_time) option) \<Rightarrow> string list \<Rightarrow> RevStatus" where
  "ocsp_network verify respond [] = StNotObtainable Network"
| "ocsp_network verify respond (url # urls) =
     (case respond url of
        None \<Rightarrow> ocsp_network verify respond urls
      | Some (body, now) \<Rightarrow>
          (case verify body now of
             Inl _ \<Rightarrow> ocsp_network verify respond urls
           | Inr v \<Rightarrow> (case ocsp_answer Network (ov_status v) of Some status \<Rightarrow> status | None \<Rightarrow> ocsp_network verify respond urls)))"

text \<open>\<open>request\<close>: whether a request can be built; \<open>entry\<close>: the cached response and the time it is read at.\<close>

definition ocsp_status ::
  "OcspLib \<Rightarrow> X509 list \<Rightarrow> X509 \<Rightarrow> X509 \<Rightarrow> X509 list \<Rightarrow> bool \<Rightarrow> (bytes \<times> system_time) option \<Rightarrow> (string \<Rightarrow> (bytes \<times> system_time) option) \<Rightarrow> RevStatus" where
  "ocsp_status lib anchors cert issuer upper request entry respond =
     (let (urls, named) = ocsp_responders lib cert; verify = (\<lambda>der now. ocsp_verify lib der cert issuer upper anchors now);
          cached = Option.bind entry (\<lambda>(e, now). Option.bind (rev_open e) (\<lambda>(_, der).
            case verify der now of Inr v \<Rightarrow> ocsp_answer Cache (ov_status v) | Inl _ \<Rightarrow> None)) in
      if named = 0 then StAbsent
      else if \<not> request then StNotObtainable Network
      else case cached of Some status \<Rightarrow> status | None \<Rightarrow> ocsp_network verify respond urls)"

section \<open>The decision\<close>

fun decided :: "string \<Rightarrow> string \<Rightarrow> RevStatus \<Rightarrow> Method \<Rightarrow> (RevOutcome \<times> Method \<times> RevSource) option" where
  "decided name ca (StGood src) m = Some (RevGood, m, src)"
| "decided name ca (StRevoked src) m = Some (RevRevoked name m, m, src)"
| "decided name ca (StDistrusted reason since src) m = Some (RevDistrusted ca reason since, m, src)"
| "decided name ca _ m = None"

text \<open>\<open>ocsp\<close> is asked only when the CRL does not decide and the rule consults it.\<close>

definition decide ::
  "CrlLib \<Rightarrow> (X509 \<Rightarrow> string) \<Rightarrow> RevocationRule \<Rightarrow> X509 \<Rightarrow> X509 \<Rightarrow> RevStatus \<times> system_time option \<Rightarrow> RevStatus \<Rightarrow>
   RevOutcome \<times> Method \<times> RevSource \<times> system_time option" where
  "decide lib display_name rule cert issuer crl_answer ocsp_given =
     (let name = display_name cert; ca = display_name issuer;
          not_obtainable = RevNotObtainable name (unobtainable_accepted rule) in
      case subject_of lib cert of
        Inl _ \<Rightarrow> (not_obtainable, MCrl, Network, None)
      | Inr _ \<Rightarrow>
          let (crl, warning) = crl_answer in
          case decided name ca crl MCrl of
            Some (outcome, m, src) \<Rightarrow> (outcome, m, src, warning)
          | None \<Rightarrow>
              let ocsp = (case rr_sources rule of CrlOnly \<Rightarrow> StAbsent | CrlThenOcsp \<Rightarrow> ocsp_given) in
              case decided name ca ocsp MOcsp of
                Some (outcome, m, src) \<Rightarrow> (outcome, m, src, None)
              | None \<Rightarrow>
                  (case (crl, ocsp) of
                     (StAbsent, StAbsent) \<Rightarrow>
                       (RevNoSource name (missing_source rule = AcceptRecorded) (rr_sources rule = CrlThenOcsp), MCrl, Network, None)
                   | (_, StNotObtainable src) \<Rightarrow> (not_obtainable, MOcsp, src, None)
                   | (StNotObtainable src, _) \<Rightarrow> (not_obtainable, MCrl, src, None)
                   | _ \<Rightarrow> (not_obtainable, MCrl, Network, None)))"

text \<open>The walk, from the anchor down; \<open>one\<close> is the outcome for a certificate, its issuer and the certificates above it.\<close>

fun check_down :: "(nat \<Rightarrow> RevOutcome) \<Rightarrow> nat \<Rightarrow> RevOutcome \<Rightarrow> RevOutcome" where
  "check_down f 0 outcome = outcome"
| "check_down f (Suc i) outcome =
     (let one = f i in if refused one then one else check_down f i (if one \<noteq> RevGood then one else outcome))"

definition check_path :: "(X509 \<Rightarrow> X509 \<Rightarrow> X509 list \<Rightarrow> RevOutcome) \<Rightarrow> X509 list \<Rightarrow> RevOutcome" where
  "check_path one path =
     (if length path < 2 then RevGood
      else check_down (\<lambda>i. one (path ! i) (path ! Suc i) (drop (Suc i) path)) (length path - 1) RevGood)"

section \<open>A check\<close>

text \<open>What the clock, the cache, the memory of verified CRLs and the fetches give during a check, by cache key; the CRL signer of
  a name; the answer of OCSP, as \<open>ocsp_status\<close> gives it.\<close>

record RevWorld =
  w_now :: "string \<Rightarrow> system_time"
  w_entry :: "string \<Rightarrow> bytes option"
  w_seen :: "string \<Rightarrow> seen_map"
  w_fetch :: "string \<Rightarrow> Seen option"
  w_failing :: "string \<Rightarrow> system_time option"
  w_signer :: "bytes \<Rightarrow> X509 option"
  w_ocsp :: "X509 \<Rightarrow> X509 \<Rightarrow> X509 list \<Rightarrow> RevStatus"

definition spki_hash :: "(bytes \<Rightarrow> bytes) \<Rightarrow> X509 \<Rightarrow> bytes" where
  "spki_hash sha256 cert = sha256 (case x_public_key cert of Some k \<Rightarrow> pk_spki k | None \<Rightarrow> [])"

definition scope_key :: "(bytes \<Rightarrow> bytes) \<Rightarrow> X509 \<Rightarrow> DistributionPoint \<Rightarrow> string \<Rightarrow> string" where
  "scope_key sha256 issuer point url =
     (let octets = map (\<lambda>c. word_of_nat (byte c)) in
      rev_key sha256 ''crl:''
        [case dp_crl_issuer point of None \<Rightarrow> spki_hash sha256 issuer | Some name \<Rightarrow> octets ''indirect'' @ name, octets url])"

definition scope_status :: "CrlLib \<Rightarrow> (bytes \<Rightarrow> bytes) \<Rightarrow> RevocationRule \<Rightarrow> RevWorld \<Rightarrow> X509 \<Rightarrow> RevSubject \<Rightarrow> scope" where
  "scope_status lib sha256 rule w issuer subject point signer url =
     (let key = scope_key sha256 issuer point url in
      crl_scope rule (w_now w key) subject point (fst (cached_crl lib rule key signer (w_entry w key) (w_seen w key)))
        (w_fetch w key) (w_failing w key))"

definition check_one :: "CrlLib \<Rightarrow> (bytes \<Rightarrow> bytes) \<Rightarrow> (X509 \<Rightarrow> string) \<Rightarrow> RevocationRule \<Rightarrow> RevWorld \<Rightarrow> X509 \<Rightarrow> X509 \<Rightarrow> X509 list \<Rightarrow> RevOutcome" where
  "check_one lib sha256 display_name rule w cert issuer upper =
     fst (decide lib display_name rule cert issuer
       (case subject_of lib cert of
          Inr subject \<Rightarrow> crl_status lib (w_signer w) (scope_status lib sha256 rule w issuer subject) cert issuer
        | Inl _ \<Rightarrow> (StAbsent, None))
       (w_ocsp w cert issuer upper))"

section \<open>Accepted paths\<close>

definition seen_verified :: "CrlLib \<Rightarrow> RevocationRule \<Rightarrow> Seen \<Rightarrow> bool" where
  "seen_verified lib rule s \<longleftrightarrow> (\<exists>signer. parse_and_verify lib (seen_der s) signer (next_update_required rule) = Inr (seen_crl s))"

definition memory_verified :: "CrlLib \<Rightarrow> RevocationRule \<Rightarrow> seen_map \<Rightarrow> bool" where
  "memory_verified lib rule seen \<longleftrightarrow> (\<forall>k s. seen k = Some s \<longrightarrow> seen_verified lib rule s)"

text \<open>The memory of verified CRLs stays one, and what is read from the cache through it is verified.\<close>

lemma seen_verifiedI [intro]:
  "parse_and_verify lib der signer (next_update_required rule) = Inr crl \<Longrightarrow>
   seen_verified lib rule \<lparr>seen_der = der, seen_crl = crl, seen_fetched_at = t\<rparr>"
  by (auto simp: seen_verified_def)

lemma seen_verified_again [simp]:
  "seen_verified lib rule \<lparr>seen_der = seen_der s, seen_crl = seen_crl s, seen_fetched_at = t\<rparr> = seen_verified lib rule s"
  by (simp add: seen_verified_def)

lemma memory_verified_put:
  "memory_verified lib rule seen \<Longrightarrow> seen_verified lib rule s \<Longrightarrow> memory_verified lib rule (seen(k \<mapsto> s))"
  by (simp add: memory_verified_def)

lemma memory_verifiedD: "memory_verified lib rule seen \<Longrightarrow> seen k = Some s \<Longrightarrow> seen_verified lib rule s"
  by (simp add: memory_verified_def)

lemma cached_crl_verified:
  assumes "memory_verified lib rule seen" "cached_crl lib rule key signer entry seen = (r, seen')"
  shows "memory_verified lib rule seen'" and "r = Some (s, t) \<Longrightarrow> seen_verified lib rule s"
  using assms
  by (auto simp: cached_crl_def Let_def split: option.splits prod.splits sum.splits if_splits
      intro: memory_verified_put dest: memory_verifiedD)

lemma fetch_and_store_verified:
  assumes "memory_verified lib rule seen" "fetch_and_store lib to_der rule key signer response now seen = (r, seen')"
  shows "memory_verified lib rule seen'" and "r = Inr (s, e, t) \<Longrightarrow> seen_verified lib rule s"
  using assms
  by (auto simp: fetch_and_store_def Let_def res_simps split: option.splits prod.splits sum.splits if_splits
      intro!: memory_verified_put dest: memory_verifiedD)

lemma verified_next_update:
  "parse_and_verify lib der signer True = Inr crl \<Longrightarrow> \<exists>n. next_update crl = Some n \<and> this_update crl \<le> n"
  by (auto simp: parse_and_verify_def res_simps Let_def split: option.splits prod.splits)

text \<open>What an unlisted certificate rests on.\<close>

definition current_crl :: "CrlLib \<Rightarrow> RevSubject \<Rightarrow> system_time \<Rightarrow> ParsedCrl \<Rightarrow> bool" where
  "current_crl lib subject now crl \<longleftrightarrow>
     (\<exists>der signer. parse_and_verify lib der signer True = Inr crl) \<and> \<not> lists crl subject \<and>
     this_update crl \<le> now + THIS_UPDATE_SKEW \<and> (\<exists>next. next_update crl = Some next \<and> now \<le> next)"

definition recently_obtained :: "RevWorld \<Rightarrow> string \<Rightarrow> ParsedCrl \<Rightarrow> bool" where
  "recently_obtained w key crl \<longleftrightarrow>
     (\<exists>s. w_fetch w key = Some s \<and> seen_crl s = crl) \<or>
     (\<exists>entry stored_at der. w_entry w key = Some entry \<and> rev_open entry = Some (stored_at, der) \<and>
        age (w_now w key) (obtained_at (w_now w key) stored_at crl) \<le> 3 * DAY)"

definition good_for :: "RevocationRule \<Rightarrow> system_time \<Rightarrow> RevSubject \<Rightarrow> DistributionPoint \<Rightarrow> ParsedCrl \<Rightarrow> system_time \<Rightarrow> bool" where
  "good_for rule now subject point crl t \<longleftrightarrow> applies subject point now crl \<and> now \<le> effective_next rule crl t \<and> \<not> lists crl subject"

lemma scope_good:
  "crl_scope rule now subject point cached fetched failing = (StGood src, warn) \<Longrightarrow>
   (\<exists>s stored_at. cached = Some (s, stored_at) \<and> in_window rule now (obtained_at now stored_at (seen_crl s)) \<and>
      good_for rule now subject point (seen_crl s) (obtained_at now stored_at (seen_crl s))) \<or>
   (\<exists>s. fetched = Some s \<and> good_for rule now subject point (seen_crl s) (seen_fetched_at s))"
  by (auto simp: crl_scope_def good_for_def Let_def split: option.splits if_splits prod.splits)

lemma cached_crl_stored:
  "cached_crl lib rule key signer entry seen = (Some (s, stored_at), seen') \<Longrightarrow>
   \<exists>e der. entry = Some e \<and> rev_open e = Some (stored_at, der)"
  by (cases entry) (auto simp: cached_crl_def Let_def split: option.splits prod.splits sum.splits if_splits)

lemma crl_urls_good:
  "crl_urls f urls acc = Inl (StGood src, w) \<Longrightarrow> \<exists>url \<in> set urls. \<exists>w'. f url = (StGood src, w')"
proof (induction urls arbitrary: acc)
  case (Cons url urls)
  then show ?case by (cases "f url"; cases "fst (f url)") (auto simp: Let_def)
qed simp

lemma crl_urls_undecided:
  "crl_urls f urls acc = Inr (StGood src, w) \<Longrightarrow> fst acc = StGood src"
proof (induction urls arbitrary: acc)
  case (Cons url urls)
  then show ?case by (cases "f url"; cases "fst (f url)") (fastforce simp: Let_def)+
qed simp

lemma crl_points_good:
  "crl_points signer_of scope points acc = (StGood src, w) \<Longrightarrow>
   fst acc = StGood src \<or> (\<exists>p \<in> set points. \<exists>signer url w'. signer_of p = Some signer \<and> url \<in> set (dp_uris p) \<and> scope p signer url = (StGood src, w'))"
proof (induction points arbitrary: acc)
  case (Cons p points)
  show ?case
  proof (cases "signer_of p")
    case None
    with Cons show ?thesis by auto
  next
    case (Some signer)
    show ?thesis
    proof (cases "crl_urls (scope p signer) (dp_uris p) acc")
      case (Inl d)
      with Cons.prems Some have "d = (StGood src, w)" by simp
      with Inl crl_urls_good [of "scope p signer" "dp_uris p" acc src w] Some show ?thesis by auto
    next
      case (Inr acc')
      with Cons.prems Some have "crl_points signer_of scope points acc' = (StGood src, w)" by simp
      from Cons.IH [OF this] Inr crl_urls_undecided [of "scope p signer" "dp_uris p" acc src "snd acc'"] show ?thesis
        by (cases acc') auto
    qed
  qed
qed simp

lemma check_down_accepts: "\<not> refused (check_down f n outcome) \<Longrightarrow> i < n \<Longrightarrow> \<not> refused (f i)"
  by (induction f n outcome rule: check_down.induct) (auto simp: Let_def less_Suc_eq split: if_splits)

lemma decide_bdew:
  "\<not> refused (fst (decide lib dn bdew_rule cert issuer crl ocsp)) \<Longrightarrow> \<exists>subject src w. subject_of lib cert = Inr subject \<and> crl = (StGood src, w)"
  by (cases crl; cases "fst crl") (auto simp: decide_def bdew_rule_def Let_def split: sum.splits)


definition demo_revocable :: X509 where
  "demo_revocable = \<lparr>x_to_der = Inr [1], x_public_key = None, x_subject = [], x_not_before = 0, x_not_after = 0,
     x_subject_key_id = None, x_spk_bits = None, x_crl_sign = None, x_pem = []\<rparr>"

definition demo_crl_lib :: CrlLib where
  "demo_crl_lib = \<lparr>cl_crl = (\<lambda>_. Inr ()), cl_key = (\<lambda>_. Inr \<lparr>pk_id = Id_RSA, pk_bits = 0, pk_ec_key = None, pk_spki = []\<rparr>),
     cl_verify = (\<lambda>_ _. True),
     cl_parse = (\<lambda>_. Inr ([], \<lparr>rc_issuer = [9], rc_exts = [], rc_last_update = 0, rc_next_update = Some 100, rc_entries = []\<rparr>)),
     cl_cert = (\<lambda>_. Inr \<lparr>rv_subject = [9], rv_issuer = [9], rv_raw_serial = [1], rv_ca = False, rv_crl_sign = None, rv_ski = None,
       rv_points = Some [\<lparr>rp_full_name = Some [GnUri ''http://a''], rp_crl_issuer = None\<rparr>]\<rparr>),
     cl_general_name = (\<lambda>_. None)\<rparr>"

definition demo_fetched :: Seen where
  "demo_fetched = \<lparr>seen_der = [], seen_crl = \<lparr>this_update = 0, next_update = Some 100000000000, crl_idp = None, revoked = {}\<rparr>,
     seen_fetched_at = 50000000000\<rparr>"

definition demo_world :: RevWorld where
  "demo_world = \<lparr>w_now = (\<lambda>_. 50000000000), w_entry = (\<lambda>_. None), w_seen = (\<lambda>_. Map.empty), w_fetch = (\<lambda>_. Some demo_fetched),
     w_failing = (\<lambda>_. None), w_signer = (\<lambda>_. None), w_ocsp = (\<lambda>_ _ _. StAbsent)\<rparr>"

lemma demo_fetched_verified: "seen_verified demo_crl_lib bdew_rule demo_fetched"
  by (simp add: seen_verified_def demo_fetched_def bdew_rule_def parse_and_verify_def demo_crl_lib_def demo_revocable_def
      crl_time_def exI [of _ demo_revocable])

lemma demo_points: "distribution_points demo_crl_lib demo_revocable =
    Inr (Some [\<lparr>dp_uris = [''http://a''], dp_all_uris = [''http://a''], dp_crl_issuer = None\<rparr>])"
  by code_simp

lemma demo_path_accepted:
  "\<not> refused (check_path (check_one demo_crl_lib (\<lambda>b. b) (\<lambda>_. []) bdew_rule demo_world) [demo_revocable, demo_revocable])"
proof -
  have "subject_of demo_crl_lib demo_revocable = Inr \<lparr>sb_serial = [1], sb_issuer = [9], sb_is_ca = False\<rparr>"
    by (simp add: subject_of_def parsed_cert_def demo_crl_lib_def demo_revocable_def trim_serial_def)
  then show ?thesis
    by (simp add: check_path_def check_one_def decide_def crl_status_def demo_points scope_status_def crl_scope_def demo_world_def
        cached_crl_def demo_fetched_def applies_def covers_def check_time_def effective_next_def lists_def THIS_UPDATE_SKEW_def)
qed


end
