(* ===== verification/Egress.thy ===== *)
theory Egress
  imports Core_Error
begin

text \<open>
  Hardened HTTP egress (src/transport/egress.rs): the classification of addresses an outbound
  request must never reach, the validation of a target with its resolution, the settings of the
  clients pinned to the validated addresses, and the capped read of a response body. The URL
  parser, the resolver and the HTTP library are parameters; the address types, their parser and
  their text (Rust's \<open>std::net\<close>) are modelled.
\<close>

unbundle bit_operations_syntax

section \<open>Addresses (std::net)\<close>

datatype Ipv4Addr = Ipv4Addr "8 word" "8 word" "8 word" "8 word"

datatype Ipv6Addr =
  Ipv6Addr "16 word" "16 word" "16 word" "16 word" "16 word" "16 word" "16 word" "16 word"

datatype IpAddr = V4 Ipv4Addr | V6 Ipv6Addr

record SocketAddr =
  sa_ip :: IpAddr
  sa_port :: nat

fun segments :: "Ipv6Addr \<Rightarrow> 16 word list" where
  "segments (Ipv6Addr a b c d e f g h) = [a, b, c, d, e, f, g, h]"

definition v6_of_segments :: "16 word list \<Rightarrow> Ipv6Addr" where
  "v6_of_segments s = Ipv6Addr (s ! 0) (s ! 1) (s ! 2) (s ! 3) (s ! 4) (s ! 5) (s ! 6) (s ! 7)"

text \<open>\<open>Ipv4Addr::new((x >> 8) as u8, x as u8, (y >> 8) as u8, y as u8)\<close>\<close>

definition v4_of_segments :: "16 word \<Rightarrow> 16 word \<Rightarrow> Ipv4Addr" where
  "v4_of_segments x y = Ipv4Addr (ucast (drop_bit 8 x)) (ucast x) (ucast (drop_bit 8 y)) (ucast y)"

definition seg_of_octets :: "8 word \<Rightarrow> 8 word \<Rightarrow> 16 word" where
  "seg_of_octets a b = push_bit 8 (ucast a) OR ucast b"

fun to_ipv4_mapped :: "Ipv6Addr \<Rightarrow> Ipv4Addr option" where
  "to_ipv4_mapped (Ipv6Addr a b c d e f g h) =
     (if a = 0 \<and> b = 0 \<and> c = 0 \<and> d = 0 \<and> e = 0 \<and> f = 0xffff
      then Some (v4_of_segments g h) else None)"

fun to_canonical :: "IpAddr \<Rightarrow> IpAddr" where
  "to_canonical (V4 ip) = V4 ip"
| "to_canonical (V6 ip) = (case to_ipv4_mapped ip of Some v4 \<Rightarrow> V4 v4 | None \<Rightarrow> V6 ip)"

fun v4_is_loopback :: "Ipv4Addr \<Rightarrow> bool" where
  "v4_is_loopback (Ipv4Addr a b c d) = (a = 127)"

fun v4_is_private :: "Ipv4Addr \<Rightarrow> bool" where
  "v4_is_private (Ipv4Addr a b c d) =
     (a = 10 \<or> (a = 172 \<and> 16 \<le> b \<and> b \<le> 31) \<or> (a = 192 \<and> b = 168))"

fun v4_is_link_local :: "Ipv4Addr \<Rightarrow> bool" where
  "v4_is_link_local (Ipv4Addr a b c d) = (a = 169 \<and> b = 254)"

fun v4_is_broadcast :: "Ipv4Addr \<Rightarrow> bool" where
  "v4_is_broadcast (Ipv4Addr a b c d) = (a = 255 \<and> b = 255 \<and> c = 255 \<and> d = 255)"

fun v4_is_documentation :: "Ipv4Addr \<Rightarrow> bool" where
  "v4_is_documentation (Ipv4Addr a b c d) =
     ((a = 192 \<and> b = 0 \<and> c = 2) \<or> (a = 198 \<and> b = 51 \<and> c = 100) \<or> (a = 203 \<and> b = 0 \<and> c = 113))"

fun v4_is_multicast :: "Ipv4Addr \<Rightarrow> bool" where
  "v4_is_multicast (Ipv4Addr a b c d) = (224 \<le> a \<and> a \<le> 239)"

definition v6_is_loopback :: "Ipv6Addr \<Rightarrow> bool" where
  "v6_is_loopback ip \<longleftrightarrow> segments ip = [0, 0, 0, 0, 0, 0, 0, 1]"

definition v6_is_unspecified :: "Ipv6Addr \<Rightarrow> bool" where
  "v6_is_unspecified ip \<longleftrightarrow> segments ip = [0, 0, 0, 0, 0, 0, 0, 0]"

definition v6_is_multicast :: "Ipv6Addr \<Rightarrow> bool" where
  "v6_is_multicast ip \<longleftrightarrow> (segments ip ! 0) AND 0xff00 = 0xff00"

subsection \<open>The parser behind str::parse::<IpAddr>\<close>

definition to_digit :: "nat \<Rightarrow> char \<Rightarrow> nat option" where
  "to_digit radix c =
     (let b = byte c;
          d = (if 48 \<le> b \<and> b \<le> 57 then Some (b - 48)
               else if 97 \<le> b \<and> b \<le> 122 then Some (b - 87)
               else if 65 \<le> b \<and> b \<le> 90 then Some (b - 55) else None)
      in case d of Some v \<Rightarrow> if v < radix then Some v else None | None \<Rightarrow> None)"

text \<open>The digits of a number below \<open>limit\<close>, at most \<open>max_digits\<close>: value, count and the rest.\<close>

fun read_digits :: "nat \<Rightarrow> nat \<Rightarrow> nat \<Rightarrow> nat \<Rightarrow> nat \<Rightarrow> string \<Rightarrow> (nat \<times> nat \<times> string) option" where
  "read_digits radix limit max_digits n v [] = Some (v, n, [])"
| "read_digits radix limit max_digits n v (c # cs) =
     (case to_digit radix c of
        None \<Rightarrow> Some (v, n, c # cs)
      | Some d \<Rightarrow>
          if v * radix + d \<ge> limit \<or> n + 1 > max_digits then None
          else read_digits radix limit max_digits (n + 1) (v * radix + d) cs)"

definition read_number :: "nat \<Rightarrow> nat \<Rightarrow> nat \<Rightarrow> bool \<Rightarrow> string \<Rightarrow> (nat \<times> string) option" where
  "read_number radix limit max_digits allow_zero_prefix s =
     (case read_digits radix limit max_digits 0 0 s of
        None \<Rightarrow> None
      | Some (v, n, r) \<Rightarrow>
          if n = 0 then None
          else if \<not> allow_zero_prefix \<and> take 1 s = ''0'' \<and> n > 1 then None
          else Some (v, r))"

definition read_given_char :: "char \<Rightarrow> string \<Rightarrow> string option" where
  "read_given_char c s = (case s of [] \<Rightarrow> None | x # r \<Rightarrow> if x = c then Some r else None)"

definition read_separator ::
  "char \<Rightarrow> nat \<Rightarrow> (string \<Rightarrow> ('a \<times> string) option) \<Rightarrow> string \<Rightarrow> ('a \<times> string) option" where
  "read_separator sep index inner s =
     (if index > 0 then Option.bind (read_given_char sep s) inner else inner s)"

definition read_octet :: "nat \<Rightarrow> string \<Rightarrow> (nat \<times> string) option" where
  "read_octet i = read_separator CHR ''.'' i (read_number 10 256 3 False)"

definition read_ipv4_addr :: "string \<Rightarrow> (Ipv4Addr \<times> string) option" where
  "read_ipv4_addr s =
     Option.bind (read_octet 0 s) (\<lambda>(a, s).
     Option.bind (read_octet 1 s) (\<lambda>(b, s).
     Option.bind (read_octet 2 s) (\<lambda>(c, s).
     Option.bind (read_octet 3 s) (\<lambda>(d, s).
       Some (Ipv4Addr (of_nat a) (of_nat b) (of_nat c) (of_nat d), s)))))"

text \<open>
  Groups \<open>i\<close>, \<open>i + 1\<close>, \ldots of at most \<open>limit\<close> (\<open>left = limit - i\<close>): the groups read, whether the
  last two came from an embedded IPv4 address, and the rest.
\<close>

fun read_groups :: "nat \<Rightarrow> nat \<Rightarrow> string \<Rightarrow> 16 word list \<times> bool \<times> string" where
  "read_groups i 0 s = ([], False, s)"
| "read_groups i (Suc left) s =
     (case (if left > 0 then read_separator CHR '':'' i read_ipv4_addr s else None) of
        Some (Ipv4Addr a b c d, r) \<Rightarrow> ([seg_of_octets a b, seg_of_octets c d], True, r)
      | None \<Rightarrow>
          (case read_separator CHR '':'' i (read_number 16 65536 4 True) s of
             None \<Rightarrow> ([], False, s)
           | Some (g, r) \<Rightarrow>
               (case read_groups (i + 1) left r of (gs, v4, r') \<Rightarrow> (of_nat g # gs, v4, r'))))"

definition read_ipv6_addr :: "string \<Rightarrow> (Ipv6Addr \<times> string) option" where
  "read_ipv6_addr s =
     (case read_groups 0 8 s of (head, head_ipv4, r) \<Rightarrow>
        if length head = 8 then Some (v6_of_segments head, r)
        else if head_ipv4 then None
        else
          Option.bind (read_given_char CHR '':'' r) (\<lambda>r.
          Option.bind (read_given_char CHR '':'' r) (\<lambda>r.
            case read_groups 0 (8 - (length head + 1)) r of (tail, _, r) \<Rightarrow>
              Some (v6_of_segments (head @ replicate (8 - length head - length tail) 0 @ tail), r))))"

definition parse_ip :: "string \<Rightarrow> IpAddr option" where
  "parse_ip s =
     (case (case read_ipv4_addr s of
              Some (a, r) \<Rightarrow> Some (V4 a, r)
            | None \<Rightarrow> (case read_ipv6_addr s of Some (a, r) \<Rightarrow> Some (V6 a, r) | None \<Rightarrow> None)) of
        Some (a, []) \<Rightarrow> Some a
      | _ \<Rightarrow> None)"

subsection \<open>The text of an address\<close>

fun show_ipv4 :: "Ipv4Addr \<Rightarrow> string" where
  "show_ipv4 (Ipv4Addr a b c d) =
     show_nat (unat a) @ ''.'' @ show_nat (unat b) @ ''.'' @ show_nat (unat c) @ ''.'' @ show_nat (unat d)"

fun hex_nat :: "nat \<Rightarrow> string" where
  "hex_nat n = (if n < 16 then [hex_digit n] else hex_nat (n div 16) @ [hex_digit (n mod 16)])"

declare hex_nat.simps [simp del]

text \<open>The first longest run of zero segments, as start and length.\<close>

fun zero_span :: "nat \<Rightarrow> nat \<times> nat \<Rightarrow> nat \<times> nat \<Rightarrow> 16 word list \<Rightarrow> nat \<times> nat" where
  "zero_span i longest current [] = longest"
| "zero_span i longest current (s # ss) =
     (if s = 0 then
        (let cur = (if snd current = 0 then i else fst current, snd current + 1)
         in zero_span (i + 1) (if snd cur > snd longest then cur else longest) cur ss)
      else zero_span (i + 1) longest (0, 0) ss)"

fun fmt_subslice :: "16 word list \<Rightarrow> string" where
  "fmt_subslice [] = []"
| "fmt_subslice [s] = hex_nat (unat s)"
| "fmt_subslice (s # ss) = hex_nat (unat s) @ '':'' @ fmt_subslice ss"

definition show_ipv6 :: "Ipv6Addr \<Rightarrow> string" where
  "show_ipv6 ip =
     (case to_ipv4_mapped ip of
        Some v4 \<Rightarrow> ''::ffff:'' @ show_ipv4 v4
      | None \<Rightarrow>
          (case zero_span 0 (0, 0) (0, 0) (segments ip) of (start, len) \<Rightarrow>
             if len > 1 then
               fmt_subslice (take start (segments ip)) @ ''::'' @
               fmt_subslice (drop (start + len) (segments ip))
             else fmt_subslice (segments ip)))"

fun show_ip :: "IpAddr \<Rightarrow> string" where
  "show_ip (V4 a) = show_ipv4 a"
| "show_ip (V6 a) = show_ipv6 a"

section \<open>Private addresses\<close>

fun is_private_ipv4 :: "Ipv4Addr \<Rightarrow> bool" where
  "is_private_ipv4 (Ipv4Addr a b c d) =
     (let ip = Ipv4Addr a b c d in
      v4_is_loopback ip \<or> v4_is_private ip \<or> v4_is_link_local ip \<or> v4_is_broadcast ip
      \<or> v4_is_documentation ip \<or> v4_is_multicast ip
      \<or> a = 0 \<or> (a = 100 \<and> 64 \<le> b \<and> b \<le> 127) \<or> (a = 192 \<and> b = 0)
      \<or> (a = 198 \<and> (b = 18 \<or> b = 19)) \<or> a \<ge> 240)"

definition is_private_ipv6 :: "Ipv6Addr \<Rightarrow> bool" where
  "is_private_ipv6 ip =
     (let seg = (\<lambda>i. segments ip ! i);
          low32 = v4_of_segments (seg 6) (seg 7);
          nat64_wkp = (seg 0 = 0x0064 \<and> seg 1 = 0xff9b \<and>
            seg 2 = 0 \<and> seg 3 = 0 \<and> seg 4 = 0 \<and> seg 5 = 0);
          nat64_local = (seg 0 = 0x0064 \<and> seg 1 = 0xff9b \<and> seg 2 = 0x0001);
          ipv4_compatible = (take 6 (segments ip) = [0, 0, 0, 0, 0, 0])
      in if nat64_wkp \<or> nat64_local \<or> ipv4_compatible then is_private_ipv4 low32
         else if seg 0 = 0x2002 then is_private_ipv4 (v4_of_segments (seg 1) (seg 2))
         else v6_is_loopback ip \<or> v6_is_unspecified ip \<or> v6_is_multicast ip
           \<or> seg 0 AND 0xfe00 = 0xfc00
           \<or> seg 0 AND 0xffc0 = 0xfe80
           \<or> (seg 0 = 0x2001 \<and> seg 1 = 0x0000)
           \<or> (seg 0 = 0x2001 \<and> seg 1 = 0x0db8)
           \<or> take 4 (segments ip) = [0x0100, 0, 0, 0])"

definition is_private_ip :: "IpAddr \<Rightarrow> bool" where
  "is_private_ip addr =
     (case to_canonical addr of V4 ip \<Rightarrow> is_private_ipv4 ip | V6 ip \<Rightarrow> is_private_ipv6 ip)"

definition trim_start_char :: "char \<Rightarrow> string \<Rightarrow> string" where
  "trim_start_char c s = dropWhile (\<lambda>x. x = c) s"

definition trim_end_char :: "char \<Rightarrow> string \<Rightarrow> string" where
  "trim_end_char c s = rev (dropWhile (\<lambda>x. x = c) (rev s))"

definition is_private_host :: "string \<Rightarrow> bool" where
  "is_private_host host =
     (if eq_ignore_ascii_case host ''localhost'' then True
      else
        let h_bare = trim_end_char CHR '']'' (trim_start_char CHR ''['' (to_ascii_lowercase host))
        in case parse_ip h_bare of Some ip \<Rightarrow> is_private_ip ip | None \<Rightarrow> False)"

section \<open>Validation of a target\<close>

datatype EgressSchemePolicy = HttpsOnly | AllowPlaintextForSignedRevocation

record ValidatedEgressTarget =
  resolved_host :: "string option"
  resolved_addrs :: "SocketAddr list"

text \<open>What the code asks of a parsed URL.\<close>

record Url =
  url_scheme :: string
  url_host_str :: "string option"
  url_port_or_known_default :: "nat option"

fun push_public :: "string \<Rightarrow> string \<Rightarrow> SocketAddr list \<Rightarrow> SocketAddr list \<Rightarrow> SocketAddr list res" where
  "push_public host ctx acc [] = Inr acc"
| "push_public host ctx acc (a # as) =
     (if is_private_ip (sa_ip a) then
        Inl (asx_error InvalidInput
          (''egress URL host '' @ squote host @ '' resolves to a private or loopback address ('' @
           show_ip (sa_ip a) @ ''); outbound requests to internal networks are not permitted'')
          (context_new ctx))
      else push_public host ctx (acc @ [a]) as)"

definition check_scheme :: "string \<Rightarrow> EgressSchemePolicy \<Rightarrow> string \<Rightarrow> unit res" where
  "check_scheme ctx scheme_policy scheme =
     (if scheme = ''https'' then Inr ()
      else if scheme = ''http'' \<and> scheme_policy = AllowPlaintextForSignedRevocation then Inr ()
      else if scheme = ''http'' then
        Inl (asx_error PolicyViolation
          ''plain HTTP egress is not permitted; use HTTPS for all outbound transport'' (context_new ctx))
      else
        Inl (asx_error InvalidInput
          (''egress URL scheme '' @ squote scheme @ '' is not allowed; only http and https are permitted'')
          (context_new ctx)))"

definition validate_egress_target ::
  "(string \<Rightarrow> Url option) \<Rightarrow> (string \<Rightarrow> (string, SocketAddr list) result) \<Rightarrow>
   string \<Rightarrow> string \<Rightarrow> EgressSchemePolicy \<Rightarrow> ValidatedEgressTarget res" where
  "validate_egress_target parse_url lookup_host url ctx scheme_policy =
     rbind (ok_or (asx_error InvalidInput (''malformed egress URL: '' @ url) (context_new ctx))
              (parse_url url)) (\<lambda>parsed.
     rbind (check_scheme ctx scheme_policy (url_scheme parsed)) (\<lambda>_.
       case url_host_str parsed of
         None \<Rightarrow> Inr \<lparr>resolved_host = None, resolved_addrs = []\<rparr>
       | Some host \<Rightarrow>
           rbind (check (\<not> is_private_host host)
             (asx_error InvalidInput
               (''egress URL host '' @ squote host @ '' is a private or loopback address; '' @
                ''outbound requests to internal networks are not permitted'')
               (context_new ctx))) (\<lambda>_.
           if parse_ip host = None then
             (let port = (case url_port_or_known_default parsed of Some p \<Rightarrow> p | None \<Rightarrow> 443) in
              rbind (map_err (\<lambda>e. asx_error InvalidInput
                  (''egress URL host '' @ squote host @ '' could not be resolved: '' @ e)
                  (context_new ctx)) (lookup_host (host @ '':'' @ show_nat port))) (\<lambda>addrs.
              rbind (push_public host ctx [] addrs) (\<lambda>addrs.
              rbind (check (addrs \<noteq> []) (asx_error InvalidInput
                  (''egress URL host '' @ squote host @ '' resolved to no usable addresses'')
                  (context_new ctx))) (\<lambda>_.
                Inr \<lparr>resolved_host = Some host, resolved_addrs = addrs\<rparr>))))
           else Inr \<lparr>resolved_host = None, resolved_addrs = []\<rparr>)))"

definition validate_egress_target_with_policy ::
  "(string \<Rightarrow> Url option) \<Rightarrow> (string \<Rightarrow> (string, SocketAddr list) result) \<Rightarrow>
   string \<Rightarrow> string \<Rightarrow> ValidatedEgressTarget res" where
  "validate_egress_target_with_policy parse_url lookup_host url ctx =
     validate_egress_target parse_url lookup_host url ctx HttpsOnly"

section \<open>Clients\<close>

text \<open>\<open>reqwest::Identity::from_pem\<close> is a parameter; durations are in seconds.\<close>

record 'i ClientIdentity =
  identity :: 'i
  cert_chain_len :: nat

definition identity_from_pem ::
  "(string \<Rightarrow> (string, 'i) result) \<Rightarrow> string \<Rightarrow> string \<Rightarrow> 'i ClientIdentity res" where
  "identity_from_pem parse_identity cert_chain_pem key_pem =
     (let ctx = context_new ''transport_client_identity'' in
      rbind (check (cert_chain_pem \<noteq> [])
        (asx_error InvalidInput ''client identity certificate chain is empty'' ctx)) (\<lambda>_.
      rbind (check (key_pem \<noteq> [])
        (asx_error InvalidInput ''client identity private key is empty'' ctx)) (\<lambda>_.
      let combined = key_pem @ (if last key_pem = CHR 0x0A then [] else [CHR 0x0A]) @ cert_chain_pem in
      rbind (map_err (\<lambda>err. asx_error InvalidInput
          (''invalid TLS client identity (certificate/key pair): '' @ err) ctx)
          (parse_identity combined)) (\<lambda>parsed.
        Inr \<lparr>identity = parsed, cert_chain_len = length cert_chain_pem\<rparr>))))"

record 'i TransportConfig =
  connect_timeout :: nat
  request_timeout :: nat
  user_agent :: string
  pool_max_idle_per_host :: nat
  pool_idle_timeout :: nat
  client_identity :: "'i ClientIdentity option"

definition transport_config_default :: "string \<Rightarrow> 'i TransportConfig" where
  "transport_config_default crate_version =
     \<lparr>connect_timeout = 10, request_timeout = 60, user_agent = ''asx/'' @ crate_version,
      pool_max_idle_per_host = 4, pool_idle_timeout = 90, client_identity = None\<rparr>"

text \<open>
  A client of the HTTP library, by the settings its builder was given; \<open>None\<close> where the builder
  keeps the library's default. \<open>build\<close> is the builder's own check of them.
\<close>

record 'i Client =
  https_only :: bool
  follows_redirects :: bool
  c_connect_timeout :: nat
  c_timeout :: nat
  c_user_agent :: string
  c_pool_max_idle :: "nat option"
  c_pool_idle_timeout :: "nat option"
  c_identity :: "'i option"
  c_resolve_to_addrs :: "(string \<times> SocketAddr list) option"

definition build_revocation_http_client ::
  "('i Client \<Rightarrow> string option) \<Rightarrow> 'i TransportConfig \<Rightarrow> string \<Rightarrow>
   (string \<times> SocketAddr list) option \<Rightarrow> 'i Client res" where
  "build_revocation_http_client build config ctx pinned =
     (let c = \<lparr>https_only = False, follows_redirects = False,
               c_connect_timeout = connect_timeout config, c_timeout = request_timeout config,
               c_user_agent = user_agent config, c_pool_max_idle = None, c_pool_idle_timeout = None,
               c_identity = None, c_resolve_to_addrs = pinned\<rparr>
      in case build c of
           Some err \<Rightarrow> Inl (asx_error TransportFailure
             (''failed to build revocation HTTP client: '' @ err) (context_new ctx))
         | None \<Rightarrow> Inr c)"

definition build_http_client ::
  "('i Client \<Rightarrow> string option) \<Rightarrow> 'i TransportConfig \<Rightarrow> string \<Rightarrow>
   (string \<times> SocketAddr list) option \<Rightarrow> 'i Client res" where
  "build_http_client build config ctx pinned =
     (let c = \<lparr>https_only = True, follows_redirects = False,
               c_connect_timeout = connect_timeout config, c_timeout = request_timeout config,
               c_user_agent = user_agent config,
               c_pool_max_idle = Some (pool_max_idle_per_host config),
               c_pool_idle_timeout = Some (pool_idle_timeout config),
               c_identity = map_option identity (client_identity config),
               c_resolve_to_addrs = pinned\<rparr>
      in case build c of
           Some err \<Rightarrow> Inl (asx_error TransportFailure
             (''failed to build HTTP client: '' @ err) (context_new ctx))
         | None \<Rightarrow> Inr c)"

definition validated_pinned_revocation_client ::
  "(string \<Rightarrow> Url option) \<Rightarrow> (string \<Rightarrow> (string, SocketAddr list) result) \<Rightarrow>
   ('i Client \<Rightarrow> string option) \<Rightarrow> string \<Rightarrow> 'i TransportConfig \<Rightarrow> string \<Rightarrow> 'i Client res" where
  "validated_pinned_revocation_client parse_url lookup_host build url config ctx =
     rbind (validate_egress_target parse_url lookup_host url ctx AllowPlaintextForSignedRevocation)
       (\<lambda>target. build_revocation_http_client build config ctx
          (map_option (\<lambda>host. (host, resolved_addrs target)) (resolved_host target)))"

definition validated_pinned_client ::
  "(string \<Rightarrow> Url option) \<Rightarrow> (string \<Rightarrow> (string, SocketAddr list) result) \<Rightarrow>
   ('i Client \<Rightarrow> string option) \<Rightarrow> string \<Rightarrow> 'i TransportConfig \<Rightarrow> string \<Rightarrow> 'i Client res" where
  "validated_pinned_client parse_url lookup_host build url config ctx =
     rbind (validate_egress_target_with_policy parse_url lookup_host url ctx) (\<lambda>target.
       case resolved_host target of
         Some host \<Rightarrow> build_http_client build config ctx (Some (host, resolved_addrs target))
       | None \<Rightarrow> build_http_client build config ctx None)"

section \<open>Reading a response body\<close>

text \<open>
  A response as the code reads it: the declared length and the chunks, the last of which may be
  a read error. \<open>read_chunks\<close> is the loop, with the bytes read so far.
\<close>

definition too_large :: "nat \<Rightarrow> string \<Rightarrow> string \<Rightarrow> AsxError" where
  "too_large cap stage sz =
     asx_error PayloadTooLarge
       (''response body '' @ sz @ '' exceeds the '' @ show_nat cap @ '' byte limit'')
       (context_new stage)"

definition usize_max :: nat where
  "usize_max = 18446744073709551615"

definition saturating_add :: "nat \<Rightarrow> nat \<Rightarrow> nat" where
  "saturating_add a b = min (a + b) usize_max"

fun read_chunks :: "nat \<Rightarrow> string \<Rightarrow> 'b list \<Rightarrow> (string, 'b list) result list \<Rightarrow> 'b list res" where
  "read_chunks cap stage body [] = Inr body"
| "read_chunks cap stage body (Inl err # rest) =
     Inl (asx_error TransportFailure (''failed to read response body: '' @ err) (context_new stage))"
| "read_chunks cap stage body (Inr chunk # rest) =
     (if saturating_add (length body) (length chunk) > cap then
        Inl (too_large cap stage
          (''of more than '' @ show_nat (saturating_add (length body) (length chunk)) @ '' bytes''))
      else read_chunks cap stage (body @ chunk) rest)"

definition read_body_capped ::
  "nat option \<Rightarrow> (string, 'b list) result list \<Rightarrow> nat \<Rightarrow> string \<Rightarrow> 'b list res" where
  "read_body_capped content_length chunks cap stage =
     (case content_length of
        Some declared \<Rightarrow>
          if declared > cap then
            Inl (too_large cap stage (''of '' @ show_nat declared @ '' bytes (Content-Length)''))
          else read_chunks cap stage [] chunks
      | None \<Rightarrow> read_chunks cap stage [] chunks)"

section \<open>The IPv4 table\<close>

text \<open>An address as a number, and membership in a CIDR block.\<close>

definition v4_number :: "nat \<Rightarrow> nat \<Rightarrow> nat \<Rightarrow> nat \<Rightarrow> nat" where
  "v4_number a b c d = a * 2 ^ 24 + b * 2 ^ 16 + c * 2 ^ 8 + d"

fun v4_value :: "Ipv4Addr \<Rightarrow> nat" where
  "v4_value (Ipv4Addr a b c d) = v4_number (unat a) (unat b) (unat c) (unat d)"

definition in_block :: "nat \<Rightarrow> nat \<times> nat \<Rightarrow> bool" where
  "in_block v blk \<longleftrightarrow> v div 2 ^ (32 - snd blk) = fst blk div 2 ^ (32 - snd blk)"

definition private_blocks :: "(nat \<times> nat) list" where
  "private_blocks =
     [(v4_number 0 0 0 0, 8), (v4_number 10 0 0 0, 8), (v4_number 100 64 0 0, 10),
      (v4_number 127 0 0 0, 8), (v4_number 169 254 0 0, 16), (v4_number 172 16 0 0, 12),
      (v4_number 192 0 0 0, 16), (v4_number 192 168 0 0, 16), (v4_number 198 18 0 0, 15),
      (v4_number 198 51 100 0, 24), (v4_number 203 0 113 0, 24), (v4_number 224 0 0 0, 4),
      (v4_number 240 0 0 0, 4)]"

lemma word8_iff:
  "(a :: 8 word) = b \<longleftrightarrow> unat a = unat b" "(a :: 8 word) \<le> b \<longleftrightarrow> unat a \<le> unat b"
  by (simp_all add: word_unat_eq_iff word_le_nat_alt)

lemma div_eq_range: "0 < d \<Longrightarrow> (v :: nat) div d = n \<longleftrightarrow> n * d \<le> v \<and> v < (n + 1) * d"
  by (metis add.commute div_nat_eqI dividend_less_times_div le_eq_less_or_eq mult.commute
      mult_Suc_right plus_1_eq_Suc times_div_less_eq_dividend)

lemma blocks_8_16:
  assumes "A < 256" "B < 256" "C < 256" "D < 256"
  shows "v4_number A B C D div 2 ^ 24 = A" "v4_number A B C D div 2 ^ 16 = A * 256 + B"
    "v4_number A B C D div 2 ^ 8 = (A * 256 + B) * 256 + C"
    "v4_number A B C D div 2 ^ 28 = A div 16" "v4_number A B C D div 2 ^ 20 = A * 16 + B div 16"
    "v4_number A B C D div 2 ^ 22 = A * 4 + B div 64" "v4_number A B C D div 2 ^ 17 = A * 128 + B div 2"
proof -
  have s: "v4_number A B C D = ((A * 256 + B) * 256 + C) * 256 + D"
    by (simp add: v4_number_def)
  show 8: "v4_number A B C D div 2 ^ 8 = (A * 256 + B) * 256 + C"
    using assms by (simp add: s)
  have "v4_number A B C D div 2 ^ 16 = v4_number A B C D div 2 ^ 8 div 2 ^ 8"
    by (simp flip: div_mult2_eq)
  then show 16: "v4_number A B C D div 2 ^ 16 = A * 256 + B"
    unfolding 8 using assms by simp
  have "v4_number A B C D div 2 ^ 24 = v4_number A B C D div 2 ^ 16 div 2 ^ 8"
    by (simp flip: div_mult2_eq)
  then show 24: "v4_number A B C D div 2 ^ 24 = A" unfolding 16 using assms by simp
  have "v4_number A B C D div 2 ^ 28 = v4_number A B C D div 2 ^ 24 div 2 ^ 4"
    by (simp flip: div_mult2_eq)
  then show "v4_number A B C D div 2 ^ 28 = A div 16" unfolding 24 by simp
  have "v4_number A B C D div 2 ^ 20 = v4_number A B C D div 2 ^ 16 div 2 ^ 4"
    by (simp flip: div_mult2_eq)
  then show "v4_number A B C D div 2 ^ 20 = A * 16 + B div 16" unfolding 16 by simp
  have "v4_number A B C D div 2 ^ 22 = v4_number A B C D div 2 ^ 16 div 2 ^ 6"
    by (simp flip: div_mult2_eq)
  then show "v4_number A B C D div 2 ^ 22 = A * 4 + B div 64" unfolding 16 by simp
  have "v4_number A B C D div 2 ^ 17 = v4_number A B C D div 2 ^ 16 div 2 ^ 1"
    by (simp flip: div_mult2_eq)
  then show "v4_number A B C D div 2 ^ 17 = A * 128 + B div 2" unfolding 16 by simp
qed

lemma in_private_blocks:
  assumes "A < 256" "B < 256" "C < 256" "D < 256"
  shows "list_ex (in_block (v4_number A B C D)) private_blocks \<longleftrightarrow>
     A = 0 \<or> A = 10 \<or> (A = 100 \<and> B div 64 = 1) \<or> A = 127 \<or> (A = 169 \<and> B = 254) \<or>
     (A = 172 \<and> B div 16 = 1) \<or> (A = 192 \<and> B = 0) \<or> (A = 192 \<and> B = 168) \<or>
     (A = 198 \<and> B div 2 = 9) \<or> (A = 198 \<and> B = 51 \<and> C = 100) \<or> (A = 203 \<and> B = 0 \<and> C = 113) \<or>
     A div 16 = 14 \<or> A div 16 = 15"
proof -
  have pair: "X * k + Y = n * k + m \<longleftrightarrow> X = n \<and> Y = m" if "Y < k" "m < k" for X Y k n m :: nat
    using that by (metis add.commute div_mult_self3 div_less add_0 mod_less mod_mult_self3 not_less0)
  have d: "B div 64 < 4" "B div 16 < 16" "B div 2 < 128" using assms by linarith+
  note pairs = pair [of "B div 64" 4 1 A 100] pair [of B 256 254 A 169]
    pair [of "B div 16" 16 1 A 172] pair [of B 256 0 A 192] pair [of B 256 168 A 192]
    pair [of "B div 2" 128 9 A 198] pair [of C 256 100 "A * 256 + B" "198 * 256 + 51"]
    pair [of B 256 51 A 198] pair [of C 256 113 "A * 256 + B" "203 * 256"] pair [of B 256 0 A 203]
  show ?thesis
    using pairs assms d
    by (simp add: private_blocks_def in_block_def blocks_8_16 [OF assms, simplified])
       (simp add: v4_number_def)
qed

section \<open>Lemmas\<close>

lemma push_public_Inr:
  "push_public host ctx acc as = Inr out \<longleftrightarrow>
     list_all (\<lambda>a. \<not> is_private_ip (sa_ip a)) as \<and> out = acc @ as"
  by (induction as arbitrary: acc) auto

lemma check_scheme_Inr:
  "check_scheme ctx pol s = Inr u \<longleftrightarrow>
     s = ''https'' \<or> s = ''http'' \<and> pol = AllowPlaintextForSignedRevocation"
  by (simp add: check_scheme_def)

text \<open>What an accepted target is.\<close>

definition egress_ok ::
  "(string \<Rightarrow> (string, SocketAddr list) result) \<Rightarrow> EgressSchemePolicy \<Rightarrow> Url \<Rightarrow> ValidatedEgressTarget \<Rightarrow> bool" where
  "egress_ok lookup_host pol parsed t \<longleftrightarrow>
     (url_scheme parsed = ''https'' \<or>
      url_scheme parsed = ''http'' \<and> pol = AllowPlaintextForSignedRevocation) \<and>
     (case url_host_str parsed of
        None \<Rightarrow> t = \<lparr>resolved_host = None, resolved_addrs = []\<rparr>
      | Some host \<Rightarrow> \<not> is_private_host host \<and>
          (if parse_ip host \<noteq> None then t = \<lparr>resolved_host = None, resolved_addrs = []\<rparr>
           else resolved_host t = Some host \<and> resolved_addrs t \<noteq> [] \<and>
             list_all (\<lambda>a. \<not> is_private_ip (sa_ip a)) (resolved_addrs t) \<and>
             lookup_host (host @ '':'' @ show_nat
               (case url_port_or_known_default parsed of Some p \<Rightarrow> p | None \<Rightarrow> 443)) = Inr (resolved_addrs t)))"

lemma validate_egress_target_Inr:
  "validate_egress_target parse_url lookup_host url ctx pol = Inr t \<longleftrightarrow>
     (\<exists>parsed. parse_url url = Some parsed \<and> egress_ok lookup_host pol parsed t)"
proof (cases "parse_url url")
  case (Some parsed)
  show ?thesis
  proof (cases "url_host_str parsed")
    case None
    then show ?thesis using Some
      by (auto simp: validate_egress_target_def egress_ok_def res_simps check_scheme_Inr)
  next
    case (Some host)
    show ?thesis
    proof (cases "parse_ip host = None")
      case True
      then show ?thesis using Some \<open>parse_url url = Some parsed\<close>
        by (cases t)
           (auto simp: validate_egress_target_def egress_ok_def res_simps check_scheme_Inr push_public_Inr Let_def)
    next
      case False
      then show ?thesis using Some \<open>parse_url url = Some parsed\<close>
        by (auto simp: validate_egress_target_def egress_ok_def res_simps check_scheme_Inr)
    qed
  qed
qed (simp add: validate_egress_target_def)

subsection \<open>Literal addresses\<close>

text \<open>The address parser consumes only digits, dots and colons, and ignores the case of letters.\<close>

definition ip_char :: "char \<Rightarrow> bool" where
  "ip_char c \<longleftrightarrow> to_digit 16 c \<noteq> None \<or> c = CHR ''.'' \<or> c = CHR '':''"

definition consumes :: "(string \<Rightarrow> ('a \<times> string) option) \<Rightarrow> bool" where
  "consumes f \<longleftrightarrow> (\<forall>s v r. f s = Some (v, r) \<longrightarrow> (\<exists>p. s = p @ r \<and> list_all ip_char p))"

definition caseless :: "(string \<Rightarrow> ('a \<times> string) option) \<Rightarrow> bool" where
  "caseless f \<longleftrightarrow> (\<forall>s. f (to_ascii_lowercase s) =
     map_option (\<lambda>(v, r). (v, to_ascii_lowercase r)) (f s))"

lemma to_digit_lower: "radix \<le> 36 \<Longrightarrow> to_digit radix (ascii_lower c) = to_digit radix c"
  by (auto simp: to_digit_def ascii_lower_def Let_def)

lemma to_digit_mono: "to_digit 10 c = Some d \<Longrightarrow> to_digit 16 c = Some d"
  by (auto simp: to_digit_def Let_def split: if_splits option.splits)

lemma read_digits_consumes:
  "radix = 10 \<or> radix = 16 \<Longrightarrow> read_digits radix l m n v s = Some (v', n', r) \<Longrightarrow>
     \<exists>p. s = p @ r \<and> list_all ip_char p"
proof (induction radix l m n v s rule: read_digits.induct)
  case (2 radix l m n v c cs)
  show ?case
  proof (cases "to_digit radix c")
    case None
    then show ?thesis using 2 by (intro exI [of _ "[]"]) auto
  next
    case (Some d)
    with 2 obtain p where "cs = p @ r" "list_all ip_char p" by (auto split: if_splits)
    moreover have "ip_char c" using Some 2(2) to_digit_mono by (auto simp: ip_char_def)
    ultimately show ?thesis by (intro exI [of _ "c # p"]) simp
  qed
qed auto

lemma read_digits_caseless:
  "radix = 10 \<or> radix = 16 \<Longrightarrow> read_digits radix l m n v (to_ascii_lowercase s) =
     map_option (\<lambda>(v, n, r). (v, n, to_ascii_lowercase r)) (read_digits radix l m n v s)"
  by (induction radix l m n v s rule: read_digits.induct)
     (auto simp: to_ascii_lowercase_def to_digit_lower split: option.splits)

lemma lower_eq_iff: "c \<in> {CHR ''.'', CHR '':'', CHR ''0''} \<Longrightarrow> ascii_lower x = c \<longleftrightarrow> x = c"
proof (cases "65 \<le> byte x \<and> byte x \<le> 90")
  case True
  then have "byte (ascii_lower x) = byte x + 32" by (simp add: ascii_lower_def)
  moreover assume "c \<in> {CHR ''.'', CHR '':'', CHR ''0''}"
  ultimately show ?thesis using True by (auto simp: byte_def)
qed (auto simp: ascii_lower_def)

lemma read_number_consumes [intro]: "radix = 10 \<or> radix = 16 \<Longrightarrow> consumes (read_number radix l m z)"
  unfolding consumes_def read_number_def
  using read_digits_consumes by (fastforce split: option.splits if_splits)

lemma read_number_caseless [intro]: "radix = 10 \<or> radix = 16 \<Longrightarrow> caseless (read_number radix l m z)"
proof -
  assume r: "radix = 10 \<or> radix = 16"
  have "take 1 (to_ascii_lowercase s) = ''0'' \<longleftrightarrow> take 1 s = ''0''" for s
    by (cases s) (auto simp: to_ascii_lowercase_def lower_eq_iff)
  with r show ?thesis
    unfolding caseless_def read_number_def
    by (auto simp: read_digits_caseless split: option.splits if_splits)
qed

lemma read_given_char_Some: "read_given_char c s = Some r \<longleftrightarrow> s = c # r"
  by (auto simp: read_given_char_def split: list.splits)

lemma read_given_char_caseless:
  "c \<in> {CHR ''.'', CHR '':''} \<Longrightarrow>
     read_given_char c (to_ascii_lowercase s) = map_option to_ascii_lowercase (read_given_char c s)"
  by (auto simp: read_given_char_def to_ascii_lowercase_def lower_eq_iff split: list.splits)

lemma read_separator_consumes [intro]:
  assumes "consumes f" "c \<in> {CHR ''.'', CHR '':''}"
  shows "consumes (read_separator c i f)"
  unfolding consumes_def
proof (intro allI impI)
  fix s v r assume a: "read_separator c i f s = Some (v, r)"
  show "\<exists>p. s = p @ r \<and> list_all ip_char p"
  proof (cases "i > 0")
    case True
    with a obtain s' where s: "s = c # s'" "f s' = Some (v, r)"
      by (auto simp: read_separator_def bind_eq_Some_conv read_given_char_Some)
    with assms(1) obtain p where "s' = p @ r" "list_all ip_char p" unfolding consumes_def by blast
    with s assms(2) show ?thesis by (intro exI [of _ "c # p"]) (auto simp: ip_char_def)
  qed (use a assms(1) in \<open>auto simp: read_separator_def consumes_def\<close>)
qed

lemma read_separator_caseless [intro]:
  "caseless f \<Longrightarrow> c \<in> {CHR ''.'', CHR '':''} \<Longrightarrow> caseless (read_separator c i f)"
  unfolding caseless_def
  by (auto simp: read_separator_def read_given_char_caseless option.map_comp map_conv_bind_option
      Option.bind_assoc split: Option.bind_splits)
lemma consumes_bind [intro]:
  assumes f: "consumes f" and g: "\<And>v. consumes (g v)"
  shows "consumes (\<lambda>s. Option.bind (f s) (\<lambda>(v, r). g v r))"
  unfolding consumes_def
proof (intro allI impI)
  fix s v r assume "Option.bind (f s) (\<lambda>(v, r). g v r) = Some (v, r)"
  then obtain w t where "f s = Some (w, t)" "g w t = Some (v, r)" by (auto simp: bind_eq_Some_conv)
  with f g obtain p q where "s = p @ t" "list_all ip_char p" "t = q @ r" "list_all ip_char q"
    unfolding consumes_def by metis
  then show "\<exists>p. s = p @ r \<and> list_all ip_char p" by (intro exI [of _ "p @ q"]) simp
qed

lemma caseless_bind [intro]:
  assumes "caseless f" and "\<And>v. caseless (g v)"
  shows "caseless (\<lambda>s. Option.bind (f s) (\<lambda>(v, r). g v r))"
  unfolding caseless_def
proof
  fix s show "Option.bind (f (to_ascii_lowercase s)) (\<lambda>(v, r). g v r) =
    map_option (\<lambda>(v, r). (v, to_ascii_lowercase r)) (Option.bind (f s) (\<lambda>(v, r). g v r))"
    using assms unfolding caseless_def by (cases "f s") auto
qed

lemma consumes_ret [intro]: "consumes (\<lambda>s. Some (x, s))"
  by (auto simp: consumes_def)

lemma caseless_ret [intro]: "caseless (\<lambda>s. Some (x, s))"
  by (auto simp: caseless_def)

lemma read_octet_reads: "consumes (read_octet i)" "caseless (read_octet i)"
  unfolding read_octet_def by (intro read_separator_consumes read_number_consumes; simp)
    (intro read_separator_caseless read_number_caseless; simp)

lemma read_ipv4_reads: "consumes read_ipv4_addr" "caseless read_ipv4_addr"
  unfolding read_ipv4_addr_def
  by (intro consumes_bind consumes_ret read_octet_reads)
     (intro caseless_bind caseless_ret read_octet_reads)

lemma read_group_reads:
  "consumes (read_separator CHR '':'' i (read_number 16 65536 4 True))"
  "caseless (read_separator CHR '':'' i (read_number 16 65536 4 True))"
  "consumes (read_separator CHR '':'' i read_ipv4_addr)"
  "caseless (read_separator CHR '':'' i read_ipv4_addr)"
  by (intro read_separator_consumes read_separator_caseless read_number_consumes
      read_number_caseless read_ipv4_reads; simp)+

lemma consumesD: "consumes f \<Longrightarrow> f s = Some (v, r) \<Longrightarrow> \<exists>p. s = p @ r \<and> list_all ip_char p"
  unfolding consumes_def by blast

lemma caselessD:
  "caseless f \<Longrightarrow> f (to_ascii_lowercase s) = map_option (\<lambda>(v, r). (v, to_ascii_lowercase r)) (f s)"
  unfolding caseless_def by blast

lemma read_groups_consumes:
  "read_groups i n s = (gs, b, r) \<Longrightarrow> \<exists>p. s = p @ r \<and> list_all ip_char p"
proof (induction i n s arbitrary: gs b r rule: read_groups.induct)
  case (2 i left s)
  define v4 where "v4 = (if left > 0 then read_separator CHR '':'' i read_ipv4_addr s else None)"
  show ?case
  proof (cases v4)
    case (Some ar)
    then obtain a b' c d t where ar: "v4 = Some (Ipv4Addr a b' c d, t)" by (metis Ipv4Addr.exhaust surj_pair)
    with 2(2) have "r = t" by (simp add: v4_def [symmetric])
    with ar show ?thesis using consumesD [OF read_group_reads(3)] by (simp add: v4_def split: if_splits)
  next
    case None
    show ?thesis
    proof (cases "read_separator CHR '':'' i (read_number 16 65536 4 True) s")
      case (Some gt)
      obtain g t where gt: "gt = (g, t)" by fastforce
      obtain gs' b' r' where rec: "read_groups (i + 1) left t = (gs', b', r')" by (metis surj_pair)
      with 2(2) None Some gt have r: "r = r'" by (simp add: v4_def [symmetric])
      have "\<exists>p. t = p @ r' \<and> list_all ip_char p"
        using 2(1) [OF None [unfolded v4_def] Some gt [symmetric]] rec by blast
      then obtain p q where "t = p @ r'" "list_all ip_char p" "s = q @ t" "list_all ip_char q"
        using consumesD [OF read_group_reads(1)] Some gt by blast
      then show ?thesis using r by (intro exI [of _ "q @ p"]) simp
    qed (use 2(2) None in \<open>simp add: v4_def [symmetric]\<close>)
  qed
qed simp

lemma read_groups_caseless:
  "read_groups i n (to_ascii_lowercase s) =
     (case read_groups i n s of (gs, b, r) \<Rightarrow> (gs, b, to_ascii_lowercase r))"
proof (induction i n s rule: read_groups.induct)
  case (2 i left s)
  then show ?case
    by (simp add: caselessD [OF read_group_reads(2)] caselessD [OF read_group_reads(4)]
        split: option.splits prod.splits Ipv4Addr.splits)
qed simp

lemma read_ipv6_consumes: "consumes read_ipv6_addr"
  unfolding consumes_def
proof (intro allI impI)
  fix s v r assume a: "read_ipv6_addr s = Some (v, r)"
  obtain h b t where g: "read_groups 0 8 s = (h, b, t)" by (metis surj_pair)
  with read_groups_consumes obtain p where p: "s = p @ t" "list_all ip_char p" by blast
  show "\<exists>p. s = p @ r \<and> list_all ip_char p"
  proof (cases "length h = 8")
    case True
    then show ?thesis using a g p by (auto simp: read_ipv6_addr_def)
  next
    case False
    then obtain u where u: "t = CHR '':'' # CHR '':'' # u"
      using a g by (auto simp: read_ipv6_addr_def bind_eq_Some_conv read_given_char_Some split: if_splits)
    obtain h' b' t' where g': "read_groups 0 (8 - (length h + 1)) u = (h', b', t')" by (metis surj_pair)
    with read_groups_consumes obtain q where q: "u = q @ t'" "list_all ip_char q" by blast
    have "r = t'" using a g g' u False
      by (auto simp: read_ipv6_addr_def read_given_char_def split: if_splits)
    then show ?thesis using p q u
      by (intro exI [of _ "p @ CHR '':'' # CHR '':'' # q"]) (auto simp: ip_char_def)
  qed
qed

lemma read_ipv6_caseless: "caseless read_ipv6_addr"
  unfolding caseless_def
proof
  fix s
  have c: "read_given_char CHR '':'' (to_ascii_lowercase t) =
      map_option to_ascii_lowercase (read_given_char CHR '':'' t)" for t
    by (rule read_given_char_caseless) simp
  obtain h b t where g: "read_groups 0 8 s = (h, b, t)" by (metis surj_pair)
  show "read_ipv6_addr (to_ascii_lowercase s) =
      map_option (\<lambda>(v, r). (v, to_ascii_lowercase r)) (read_ipv6_addr s)"
    unfolding read_ipv6_addr_def read_groups_caseless g
    by (cases "read_given_char CHR '':'' t"; cases "read_given_char CHR '':'' (the (read_given_char CHR '':'' t))")
       (auto simp: c read_groups_caseless split: prod.splits)
qed

lemma parse_ip_chars: "parse_ip s = Some ip \<Longrightarrow> list_all ip_char s"
  using consumesD [OF read_ipv4_reads(1), of s] consumesD [OF read_ipv6_consumes, of s]
  by (fastforce simp: parse_ip_def split: option.splits list.splits prod.splits)

lemma parse_ip_lower: "parse_ip (to_ascii_lowercase s) = parse_ip s"
  unfolding parse_ip_def caselessD [OF read_ipv4_reads(2)] caselessD [OF read_ipv6_caseless]
  by (auto simp: to_ascii_lowercase_def split: option.splits list.splits)

lemma no_bracket: "\<not> ip_char CHR ''[''" "\<not> ip_char CHR '']''"
  by code_simp+

lemma dropWhile_absent: "c \<notin> set s \<Longrightarrow> dropWhile (\<lambda>x. x = c) s = s"
  by (cases s) auto

text \<open>A host that is an address is judged as that address.\<close>

lemma is_private_host_literal:
  assumes "parse_ip host = Some ip" "\<not> is_private_host host"
  shows "\<not> is_private_ip ip"
proof -
  have p: "parse_ip (to_ascii_lowercase host) = Some ip" using assms(1) by (simp add: parse_ip_lower)
  have "CHR ''['' \<notin> set (to_ascii_lowercase host)" "CHR '']'' \<notin> set (to_ascii_lowercase host)"
    using parse_ip_chars [OF p] no_bracket by (auto simp: list_all_iff)
  then have "trim_end_char CHR '']'' (trim_start_char CHR ''['' (to_ascii_lowercase host)) =
      to_ascii_lowercase host"
    by (simp add: trim_end_char_def trim_start_char_def dropWhile_absent)
  then show ?thesis using assms(2) p by (auto simp: is_private_host_def Let_def split: if_splits)
qed

lemma read_chunks_Inr:
  "cap < usize_max \<Longrightarrow> read_chunks cap stage body chunks = Inr out \<Longrightarrow> length body \<le> cap \<Longrightarrow>
     (\<exists>cs. chunks = map Inr cs \<and> out = body @ concat cs) \<and> length out \<le> cap"
proof (induction cap stage body chunks rule: read_chunks.induct)
  case (3 cap stage body chunk rest)
  then have le: "length (body @ chunk) \<le> cap"
    by (auto simp: saturating_add_def split: if_splits)
  with 3 obtain cs where "rest = map Inr cs" "out = (body @ chunk) @ concat cs" "length out \<le> cap"
    by (auto split: if_splits)
  then show ?case by (intro conjI exI [of _ "chunk # cs"]) auto
qed auto

lemma read_chunks_complete:
  "length body + length (concat cs) \<le> cap \<Longrightarrow>
     read_chunks cap stage body (map Inr cs) = Inr (body @ concat cs)"
  by (induction cs arbitrary: body) (auto simp: saturating_add_def min_def)

lemma validated_pinned_client_alt:
  "validated_pinned_client parse_url lookup_host build url config ctx =
     rbind (validate_egress_target parse_url lookup_host url ctx HttpsOnly) (\<lambda>target.
       build_http_client build config ctx
         (map_option (\<lambda>host. (host, resolved_addrs target)) (resolved_host target)))"
  by (auto simp: validated_pinned_client_def validate_egress_target_with_policy_def rbind_def
      split: option.splits sum.splits)

text \<open>
  A client the egress layer hands out can reach public addresses only. It never follows
  redirects; the message client speaks HTTPS only to an \<open>https\<close> URL, and the revocation client
  (\<open>http\<close> or \<open>https\<close>) presents no client identity. Either the host is pinned to exactly the
  addresses the resolver returned during validation, at least one and none private, or the host
  is a literal public address, or the URL has no host.
\<close>
lemma pinned_clients_reach_public_only:
  assumes "(if revocation
      then validated_pinned_revocation_client parse_url lookup_host build url config ctx
      else validated_pinned_client parse_url lookup_host build url config ctx) = Inr client"
  shows "\<exists>parsed. parse_url url = Some parsed \<and> \<not> follows_redirects client \<and>
    (if revocation then c_identity client = None \<and> url_scheme parsed \<in> {''http'', ''https''}
     else https_only client \<and> url_scheme parsed = ''https'') \<and>
    (case c_resolve_to_addrs client of
       Some (host, addrs) \<Rightarrow> url_host_str parsed = Some host \<and> addrs \<noteq> [] \<and>
         (\<forall>a \<in> set addrs. \<not> is_private_ip (sa_ip a)) \<and>
         (\<exists>port. lookup_host (host @ '':'' @ show_nat port) = Inr addrs)
     | None \<Rightarrow> (case url_host_str parsed of None \<Rightarrow> True
         | Some host \<Rightarrow> (\<exists>ip. parse_ip host = Some ip \<and> \<not> is_private_ip ip)))"
proof -
  define pol where "pol = (if revocation then AllowPlaintextForSignedRevocation else HttpsOnly)"
  obtain t where t: "validate_egress_target parse_url lookup_host url ctx pol = Inr t"
    and res: "c_resolve_to_addrs client = map_option (\<lambda>host. (host, resolved_addrs t)) (resolved_host t)"
    and set: "\<not> follows_redirects client" "revocation \<Longrightarrow> c_identity client = None"
      "\<not> revocation \<Longrightarrow> https_only client"
    using assms
    by (auto simp: pol_def validated_pinned_revocation_client_def validated_pinned_client_alt
        build_http_client_def build_revocation_http_client_def
        res_simps Let_def split: if_splits option.splits)
  then obtain parsed where parsed: "parse_url url = Some parsed" "egress_ok lookup_host pol parsed t"
    by (auto simp: validate_egress_target_Inr)
  then show ?thesis
    using set is_private_host_literal
    by (intro exI [of _ parsed])
       (auto simp: res egress_ok_def pol_def list_all_iff split: option.splits if_splits)
qed

section \<open>Properties\<close>

text \<open>
  C10. An IPv4 address is refused exactly when it lies in one of the listed CIDR blocks: the
  loopback, private, link-local, carrier-grade NAT, documentation, benchmarking, multicast and
  reserved blocks, and 192.0.0.0/16 (the source's comment names 192.0.0.0/24).
\<close>
theorem private_ipv4_is_block_table:
  "is_private_ipv4 ip \<longleftrightarrow> list_ex (in_block (v4_value ip)) private_blocks"
proof (cases ip)
  case (Ipv4Addr a b c d)
  note lt = unat_byte_less [of a] unat_byte_less [of b] unat_byte_less [of c] unat_byte_less [of d]
  have ranges: "unat b div 64 = 1 \<longleftrightarrow> 64 \<le> unat b \<and> unat b \<le> 127"
    "unat b div 16 = 1 \<longleftrightarrow> 16 \<le> unat b \<and> unat b \<le> 31"
    "unat b div 2 = 9 \<longleftrightarrow> unat b = 18 \<or> unat b = 19"
    "unat a div 16 = 14 \<longleftrightarrow> 224 \<le> unat a \<and> unat a \<le> 239"
    "unat a div 16 = 15 \<longleftrightarrow> 240 \<le> unat a"
    using lt by linarith+
  show ?thesis
    unfolding Ipv4Addr v4_value.simps in_private_blocks [OF lt] ranges is_private_ipv4.simps Let_def
      v4_is_loopback.simps v4_is_private.simps v4_is_link_local.simps v4_is_broadcast.simps
      v4_is_documentation.simps v4_is_multicast.simps word8_iff
    by (rule iffI; elim disjE conjE; simp)
qed

text \<open>
  C9. No IPv6 form of a private IPv4 address slips through: an IPv4-mapped, an IPv4-compatible, a
  NAT64 (well-known or local-use prefix) and a 6to4 address are classified exactly as the IPv4
  address they embed; unique-local, link-local, multicast and Teredo addresses are refused.
\<close>
theorem embedded_ipv4_is_judged:
  "is_private_ip (V6 (Ipv6Addr 0 0 0 0 0 0xffff g h)) = is_private_ipv4 (v4_of_segments g h) \<and>
   is_private_ip (V6 (Ipv6Addr 0 0 0 0 0 0 g h)) = is_private_ipv4 (v4_of_segments g h) \<and>
   is_private_ip (V6 (Ipv6Addr 0x64 0xff9b 0 0 0 0 g h)) = is_private_ipv4 (v4_of_segments g h) \<and>
   is_private_ip (V6 (Ipv6Addr 0x64 0xff9b 1 c d e g h)) = is_private_ipv4 (v4_of_segments g h) \<and>
   is_private_ip (V6 (Ipv6Addr 0x2002 g h b c d e f)) = is_private_ipv4 (v4_of_segments g h) \<and>
   is_private_ip (V6 (Ipv6Addr 0x2001 0 g h c d e f)) \<and>
   (a AND 0xfe00 = 0xfc00 \<or> a AND 0xffc0 = 0xfe80 \<or> a AND 0xff00 = 0xff00 \<longrightarrow>
      is_private_ip (V6 (Ipv6Addr a b c d e f g h)))"
proof -
  have "is_private_ip (V6 (Ipv6Addr a b c d e f g h))"
    if "a AND 0xfe00 = 0xfc00 \<or> a AND 0xffc0 = 0xfe80 \<or> a AND 0xff00 = 0xff00"
  proof -
    have "a \<noteq> 0" "a \<noteq> 0x64" "a \<noteq> 0x2002" using that by auto
    then show ?thesis using that
      by (auto simp: is_private_ip_def is_private_ipv6_def Let_def v6_is_multicast_def)
  qed
  then show ?thesis
    by (intro conjI impI) (simp_all add: is_private_ip_def is_private_ipv6_def Let_def)
qed

theorem embedded_ipv4_is_judged_witness:
  "is_private_ip (V6 (Ipv6Addr 0xfd00 1 2 3 4 5 6 7)) \<and>
   is_private_ip (V6 (Ipv6Addr 0 0 0 0 0 0xffff 0x7f00 1))"
  using embedded_ipv4_is_judged [where a = 0 and b = 0 and c = 0 and d = 0 and e = 0 and f = 0
      and g = "0x7f00" and h = 1]
    embedded_ipv4_is_judged [where a = "0xfd00" and b = 1 and c = 2 and d = 3 and e = 4 and f = 5
      and g = 6 and h = 7]
  by (simp add: v4_of_segments_def)

text \<open>
  C11. The capped read is exact: for a cap below the largest \<open>usize\<close>, it returns a body exactly when
  the declared length, if any, and the total of the chunks are within the cap and no chunk failed,
  and the body is then all of the chunks in order; a body beyond the cap is an error.
\<close>
theorem read_body_capped_exact:
  assumes "cap < usize_max"
  shows "read_body_capped content_length chunks cap stage = Inr body \<longleftrightarrow>
    (case content_length of None \<Rightarrow> True | Some d \<Rightarrow> d \<le> cap) \<and>
    (\<exists>cs. chunks = map Inr cs \<and> body = concat cs \<and> length body \<le> cap)"
proof -
  have "read_chunks cap stage [] chunks = Inr body \<longleftrightarrow>
      (\<exists>cs. chunks = map Inr cs \<and> body = concat cs \<and> length body \<le> cap)"
    using read_chunks_Inr [OF assms, of stage "[]" chunks body] read_chunks_complete [of "[]" _ cap stage]
    by auto
  then show ?thesis by (auto simp: read_body_capped_def split: option.splits)
qed

theorem read_body_capped_exact_witness:
  "read_body_capped (Some 3) [Inr ''ab'', Inr ''c''] 4 ''s'' = Inr ''abc''"
  using read_body_capped_exact [of 4 "Some 3" "[Inr ''ab'', Inr ''c'']" "''s''" "''abc''"]
  by (auto simp: usize_max_def intro: exI [of _ "[''ab'', ''c'']"])

end
