(* ===== verification/Http_Client.thy ===== *)
theory Http_Client
  imports Egress
begin

text \<open>
  The built-in HTTP client and the classification of HTTP failures (src/http_client.rs). The HTTP
  library is a parameter: what it parses, resolves, builds and sends. An exchange returns, beside
  its result, the request it handed to the library, so that what leaves the process is visible.
\<close>

section \<open>Failures of an exchange\<close>

datatype BoxError = NotWritten AsxError | Written AsxError | OtherError string

definition classify :: "BoxError \<Rightarrow> 'r Error" where
  "classify err =
     (case err of
        NotWritten e \<Rightarrow> from_internal HttpNotWritten e
      | Written e \<Rightarrow> from_internal HttpAfterWrite e
      | OtherError other \<Rightarrow>
          with_source (SrcOther other)
            (error_new Indeterminate (''the HTTP client failed: '' @ other)))"

section \<open>The built-in client\<close>

definition MAX_RESPONSE_BYTES :: nat where
  "MAX_RESPONSE_BYTES = 16 * 1024 * 1024"

type_synonym header_list = "(string \<times> string) list"

record HttpRequest =
  rq_method :: string
  rq_uri :: string
  rq_headers :: header_list
  rq_body :: "8 word list"
  rq_revocation_fetch :: "nat option"

record HttpResponse =
  rs_status :: nat
  rs_headers :: header_list
  rs_body :: "8 word list"

text \<open>The library's answers: a failed send with its chain of causes, or a response to be read.\<close>

record SendError =
  se_message :: string
  se_causes :: "string list"
  is_connect :: bool
  is_builder :: bool

record LibResponse =
  lr_status :: nat
  lr_headers :: header_list
  lr_content_length :: "nat option"
  lr_chunks :: "(string, 8 word list) result list"

record 'i HttpLib =
  lib_parse_url :: "string \<Rightarrow> Url option"
  lib_lookup_host :: "string \<Rightarrow> (string, SocketAddr list) result"
  lib_build :: "'i Client \<Rightarrow> string option"
  lib_method_ok :: "string \<Rightarrow> bool"
  lib_send :: "'i Client \<Rightarrow> HttpRequest \<Rightarrow> (SendError, LibResponse) result"
  lib_response_error :: "HttpResponse \<Rightarrow> string option"
  lib_identity :: "string \<Rightarrow> (string, 'i) result"
  crate_version :: string

record 'i BuiltinClient =
  bc_identity :: "'i ClientIdentity option"

text \<open>\<open>new\<close> takes the chain and the key of the TLS key pair, both in PEM.\<close>

definition builtin_new ::
  "'i HttpLib \<Rightarrow> (string \<times> string) option \<Rightarrow> ('r Error, 'i BuiltinClient) result" where
  "builtin_new lib tls =
     (case tls of
        Some (chain_pem, key_pem) \<Rightarrow>
          rbind (map_err error_internal (identity_from_pem (lib_identity lib) chain_pem key_pem))
            (\<lambda>i. Inr \<lparr>bc_identity = Some i\<rparr>)
      | None \<Rightarrow> Inr \<lparr>bc_identity = None\<rparr>)"

fun push_causes :: "string \<Rightarrow> string list \<Rightarrow> string" where
  "push_causes msg [] = msg"
| "push_causes msg (cause # causes) = push_causes (msg @ '': '' @ cause) causes"

definition flatten :: "SendError \<Rightarrow> string" where
  "flatten err = push_causes (se_message err) (se_causes err)"

definition finish_response :: "'i HttpLib \<Rightarrow> string \<Rightarrow> HttpResponse \<Rightarrow> (BoxError, HttpResponse) result" where
  "finish_response lib stage out =
     (case lib_response_error lib out of
        Some err \<Rightarrow> Inl (Written (asx_error ParseFailed
          (''unrepresentable HTTP response: '' @ err) (context_new stage)))
      | None \<Rightarrow> Inr out)"

type_synonym 'i exchanged = "(BoxError, HttpResponse) result \<times> ('i Client \<times> HttpRequest) option"

definition revocation :: "'i HttpLib \<Rightarrow> HttpRequest \<Rightarrow> nat \<Rightarrow> 'i exchanged" where
  "revocation lib request max_bytes =
     (let stage = ''revocation_fetch'';
          config = (transport_config_default (crate_version lib))
            \<lparr>connect_timeout := 3, request_timeout := 10, client_identity := None\<rparr> in
      case validated_pinned_revocation_client (lib_parse_url lib) (lib_lookup_host lib) (lib_build lib)
             (rq_uri request) config stage of
        Inl e \<Rightarrow> (Inl (NotWritten e), None)
      | Inr client \<Rightarrow>
          if rq_method request \<noteq> ''GET'' \<and> rq_method request \<noteq> ''POST'' then
            (Inl (NotWritten (asx_error InvalidInput
              ''a revocation fetch is a GET or a POST'' (context_new stage))), None)
          else
            (case lib_send lib client request of
               Inl err \<Rightarrow> Inl (Written (asx_error TransportFailure
                 (''revocation fetch failed: '' @ flatten err) (context_new stage)))
             | Inr response \<Rightarrow>
                 rbind (map_err Written (read_body_capped (lr_content_length response)
                          (lr_chunks response) max_bytes stage)) (\<lambda>body.
                   finish_response lib stage
                     \<lparr>rs_status = lr_status response, rs_headers = [], rs_body = body\<rparr>),
             Some (client, request)))"

definition exchange :: "'i HttpLib \<Rightarrow> 'i BuiltinClient \<Rightarrow> HttpRequest \<Rightarrow> 'i exchanged" where
  "exchange lib self request =
     (let stage = ''http_client'' in
      case rq_revocation_fetch request of
        Some max_bytes \<Rightarrow> revocation lib request max_bytes
      | None \<Rightarrow>
          (let config = (transport_config_default (crate_version lib))
             \<lparr>connect_timeout := 10, request_timeout := 300, client_identity := bc_identity self\<rparr> in
           case validated_pinned_client (lib_parse_url lib) (lib_lookup_host lib) (lib_build lib)
                  (rq_uri request) config stage of
             Inl e \<Rightarrow> (Inl (NotWritten e), None)
           | Inr client \<Rightarrow>
               if \<not> lib_method_ok lib (rq_method request) then
                 (Inl (NotWritten (asx_error InvalidInput ''bad method'' (context_new stage))), None)
               else
                 (case lib_send lib client request of
                    Inl err \<Rightarrow>
                      (let internal = asx_error TransportFailure
                             (''HTTP request failed: '' @ flatten err) (context_new stage)
                       in if is_connect err \<or> is_builder err then Inl (NotWritten internal)
                          else Inl (Written internal))
                  | Inr response \<Rightarrow>
                      rbind (map_err Written (read_body_capped (lr_content_length response)
                               (lr_chunks response) MAX_RESPONSE_BYTES stage)) (\<lambda>body.
                        finish_response lib stage
                          \<lparr>rs_status = lr_status response, rs_headers = lr_headers response,
                           rs_body = body\<rparr>),
                  Some (client, request))))"

section \<open>Lemmas\<close>

text \<open>The error codes of a refused target and of an unread body.\<close>

lemma push_public_code [errs_intros]: "errs_only (\<lambda>e. err_code e = InvalidInput) (push_public h ctx acc as)"
  by (induction as arbitrary: acc) (auto intro!: errs_intros)

lemma validate_egress_code [errs_intros]:
  "errs_only (\<lambda>e. err_code e \<in> {InvalidInput, PolicyViolation}) (validate_egress_target pu lh url ctx pol)"
  unfolding validate_egress_target_def check_scheme_def Let_def
  by (intro errs_intros errs_only_mono [OF push_public_code])
     (auto intro: errs_only_mono [OF errs_only_True])

lemma read_chunks_code: "errs_only (\<lambda>e. err_code e \<in> {PayloadTooLarge, TransportFailure}) (read_chunks cap stage b cs)"
  by (induction cap stage b cs rule: read_chunks.induct) (auto simp: too_large_def intro!: errs_intros)

lemma read_body_code:
  "errs_only (\<lambda>e. err_code e \<in> {PayloadTooLarge, TransportFailure}) (read_body_capped cl cs cap stage)"
  unfolding read_body_capped_def by (intro errs_intros read_chunks_code) (simp add: too_large_def)

lemma pinned_client_code:
  "errs_only (\<lambda>e. err_code e \<in> {InvalidInput, PolicyViolation, TransportFailure})
     (validated_pinned_client pu lh bld url config ctx)"
  unfolding validated_pinned_client_alt build_http_client_def Let_def
  by (intro errs_intros errs_only_mono [OF validate_egress_code]) auto

lemma classify_not_written:
  "err_code e \<in> {InvalidInput, PolicyViolation, TransportFailure} \<Longrightarrow>
     kind (classify (NotWritten e) :: 'r Error) = Transport"
  by (auto simp: classify_def)

lemma classify_written:
  "err_code e \<in> {PayloadTooLarge, TransportFailure, ParseFailed} \<Longrightarrow>
     kind (classify (Written e) :: 'r Error) = Indeterminate \<and> is_retryable (classify (Written e) :: 'r Error)"
  by (auto simp: classify_def from_internal_retryable address_pin_refusal_def)

lemma body_errors:
  "rbind (map_err Written (read_body_capped cl cs cap stage)) (\<lambda>body. finish_response lib stage (f body)) = Inl e
   \<Longrightarrow> kind (classify e :: 'r Error) = Indeterminate \<and> is_retryable (classify e :: 'r Error)"
  by (cases "read_body_capped cl cs cap stage")
     (auto simp: finish_response_def classify_written split: option.splits dest!: errs_onlyD [OF read_body_code])

lemma body_ok:
  "cap < usize_max \<Longrightarrow>
   rbind (map_err Written (read_body_capped cl cs cap stage)) (\<lambda>body. finish_response lib stage (f body)) = Inr r
   \<Longrightarrow> \<exists>body. r = f body \<and> length body \<le> cap"
  using read_chunks_Inr [of cap stage "[]" cs]
  by (auto simp: res_simps finish_response_def read_body_capped_def split: option.splits if_splits)

section \<open>Properties\<close>

text \<open>
  C7. What leaves the process. A request the built-in client hands to the HTTP library is the
  caller's request unchanged, under a client that never follows redirects and that is pinned to
  at least one resolved address, none private (or whose host is a literal public address). A
  message request goes over an HTTPS-only client with the configured identity; a revocation fetch
  is a GET or a POST and presents no identity.
\<close>
theorem exchange_reaches_public_only:
  fixes lib :: "'a HttpLib"
  assumes "snd (exchange lib self request) = Some (client, sent)"
  shows "sent = request \<and> \<not> follows_redirects client \<and>
    (\<exists>parsed. lib_parse_url lib (rq_uri request) = Some parsed \<and>
      (case c_resolve_to_addrs client of
         Some (host, addrs) \<Rightarrow> url_host_str parsed = Some host \<and> addrs \<noteq> [] \<and>
           (\<forall>a \<in> set addrs. \<not> is_private_ip (sa_ip a)) \<and>
           (\<exists>port. lib_lookup_host lib (host @ '':'' @ show_nat port) = Inr addrs)
       | None \<Rightarrow> (case url_host_str parsed of None \<Rightarrow> True
           | Some host \<Rightarrow> (\<exists>ip. parse_ip host = Some ip \<and> \<not> is_private_ip ip))) \<and>
      (if rq_revocation_fetch request = None
       then https_only client \<and> url_scheme parsed = ''https'' \<and>
         c_identity client = map_option identity (bc_identity self)
       else c_identity client = None \<and> rq_method request \<in> {''GET'', ''POST''}))"
proof (cases "rq_revocation_fetch request")
  case None
  define config where "config = (transport_config_default (crate_version lib))
     \<lparr>connect_timeout := 10, request_timeout := 300, client_identity := bc_identity self\<rparr>"
  have c: "validated_pinned_client (lib_parse_url lib) (lib_lookup_host lib) (lib_build lib)
      (rq_uri request) config ''http_client'' = Inr client" and s: "sent = request"
    using assms None by (auto simp: exchange_def config_def Let_def split: sum.splits if_splits)
  have "c_identity client = map_option identity (bc_identity self)"
    using c by (auto simp: validated_pinned_client_alt build_http_client_def res_simps Let_def config_def
        split: option.splits)
  with pinned_clients_reach_public_only [where revocation = False, simplified, OF c] s None
  show ?thesis by auto
next
  case (Some n)
  define config :: "'a TransportConfig" where "config = (transport_config_default (crate_version lib))
     \<lparr>connect_timeout := 3, request_timeout := 10, client_identity := None\<rparr>"
  have c: "validated_pinned_revocation_client (lib_parse_url lib) (lib_lookup_host lib) (lib_build lib)
      (rq_uri request) config ''revocation_fetch'' = Inr client"
    and s: "sent = request" "rq_method request \<in> {''GET'', ''POST''}"
    using assms Some
    by (auto simp: exchange_def revocation_def config_def Let_def split: sum.splits if_splits)
  show ?thesis
    using pinned_clients_reach_public_only [where revocation = True, simplified, OF c] s Some by auto
qed

text \<open>
  C8. The classification of a message exchange tells whether the partner may have the message.
  Nothing handed to the library is \<open>Transport\<close>; after the hand-over a failure is \<open>Transport\<close>
  exactly when the library could not connect or could not build the request, and otherwise
  \<open>Indeterminate\<close> and retryable; a response is at most 16 MiB.
\<close>
theorem exchange_classification:
  assumes "rq_revocation_fetch request = None" and "exchange lib self request = (r, sent)"
  shows "case sent of
      None \<Rightarrow> (\<exists>e. r = Inl e \<and> kind (classify e :: 'r Error) = Transport)
    | Some (client, rq) \<Rightarrow>
        (case r of
           Inl e \<Rightarrow>
             (if (\<exists>err. lib_send lib client rq = Inl err \<and> (is_connect err \<or> is_builder err))
              then kind (classify e :: 'r Error) = Transport
              else kind (classify e :: 'r Error) = Indeterminate \<and> is_retryable (classify e :: 'r Error))
         | Inr resp \<Rightarrow> (\<exists>response. lib_send lib client rq = Inr response \<and>
             rs_status resp = lr_status response \<and> length (rs_body resp) \<le> MAX_RESPONSE_BYTES))"
proof -
  have cap: "MAX_RESPONSE_BYTES < usize_max" by (simp add: MAX_RESPONSE_BYTES_def usize_max_def)
  define config where "config = (transport_config_default (crate_version lib))
     \<lparr>connect_timeout := 10, request_timeout := 300, client_identity := bc_identity self\<rparr>"
  define c where "c = validated_pinned_client (lib_parse_url lib) (lib_lookup_host lib) (lib_build lib)
      (rq_uri request) config ''http_client''"
  note ex = assms(2) [unfolded exchange_def Let_def assms(1) option.case, folded config_def, folded c_def]
  show ?thesis
  proof (cases c)
    case (Inl e)
    then show ?thesis
      using ex classify_not_written [OF errs_onlyD [OF pinned_client_code Inl [unfolded c_def]]] by auto
  next
    case (Inr client)
    show ?thesis
    proof (cases "lib_method_ok lib (rq_method request)")
      case False
      then show ?thesis using ex Inr by (auto intro!: classify_not_written)
    next
      case True
      show ?thesis
      proof (cases "lib_send lib client request")
        case (Inl err)
        then show ?thesis
          using ex Inr True by (auto intro!: classify_not_written simp: classify_written split: if_splits)
      next
        case (Inr response)
        define mk where "mk body = \<lparr>rs_status = lr_status response, rs_headers = lr_headers response,
          rs_body = body\<rparr>" for body
        have "r = rbind (map_err Written (read_body_capped (lr_content_length response)
            (lr_chunks response) MAX_RESPONSE_BYTES ''http_client''))
            (\<lambda>body. finish_response lib ''http_client'' (mk body))" "sent = Some (client, request)"
          using ex \<open>c = Inr client\<close> True Inr by (auto simp: mk_def)
        then show ?thesis
          using Inr body_errors [of _ _ _ _ lib mk, where ?'r = 'r] body_ok [OF cap, of _ _ _ lib mk]
          by (cases r) (fastforce simp: mk_def)+
      qed
    qed
  qed
qed

text \<open>A library that resolves every name to one public address and answers 200.\<close>

definition demo_lib :: "unit HttpLib" where
  "demo_lib =
     \<lparr>lib_parse_url = (\<lambda>_. Some \<lparr>url_scheme = ''https'', url_host_str = Some ''mp.example'',
        url_port_or_known_default = Some 443\<rparr>),
      lib_lookup_host = (\<lambda>_. Inr [\<lparr>sa_ip = V4 (Ipv4Addr 8 8 8 8), sa_port = 443\<rparr>]),
      lib_build = (\<lambda>_. None), lib_method_ok = (\<lambda>_. True),
      lib_send = (\<lambda>_ _. Inr \<lparr>lr_status = 200, lr_headers = [], lr_content_length = Some 1,
        lr_chunks = [Inr [7]]\<rparr>),
      lib_response_error = (\<lambda>_. None), lib_identity = (\<lambda>_. Inr ()), crate_version = ''1''\<rparr>"

definition demo_request :: HttpRequest where
  "demo_request = \<lparr>rq_method = ''POST'', rq_uri = ''https://mp.example/as4'', rq_headers = [],
     rq_body = [1], rq_revocation_fetch = None\<rparr>"

lemma demo_exchange:
  "\<exists>client resp. exchange demo_lib \<lparr>bc_identity = None\<rparr> demo_request = (Inr resp, Some (client, demo_request))"
proof -
  have low: "to_ascii_lowercase ''mp.example'' = ''mp.example''" "to_ascii_lowercase ''localhost'' = ''localhost''"
    by code_simp+
  have d: "to_digit 10 CHR ''m'' = None" "to_digit 16 CHR ''m'' = None" by code_simp+
  have "read_groups 0 (Suc 7) ''mp.example'' = ([], False, ''mp.example'')"
    unfolding read_groups.simps by (simp add: d read_separator_def read_ipv4_addr_def read_octet_def read_number_def)
  then have "read_groups 0 8 ''mp.example'' = ([], False, ''mp.example'')" by simp
  then have ip: "parse_ip ''mp.example'' = None"
    by (simp add: parse_ip_def read_ipv4_addr_def read_octet_def read_separator_def read_number_def d
        read_ipv6_addr_def read_given_char_def)
  moreover have "\<not> is_private_host ''mp.example''"
    by (simp add: is_private_host_def eq_ignore_ascii_case_def low trim_start_char_def trim_end_char_def ip)
  ultimately show ?thesis
    by (simp add: exchange_def demo_lib_def demo_request_def validated_pinned_client_def
        validate_egress_target_with_policy_def validate_egress_target_def check_scheme_def Let_def
        is_private_ip_def build_http_client_def read_body_capped_def saturating_add_def
        MAX_RESPONSE_BYTES_def usize_max_def finish_response_def)
qed

theorem exchange_reaches_public_only_witness:
  "\<exists>client. snd (exchange demo_lib \<lparr>bc_identity = None\<rparr> demo_request) = Some (client, demo_request) \<and>
     https_only client \<and> \<not> follows_redirects client"
proof -
  obtain client where
    s: "snd (exchange demo_lib \<lparr>bc_identity = None\<rparr> demo_request) = Some (client, demo_request)"
    using demo_exchange by fastforce
  show ?thesis
    using exchange_reaches_public_only [OF s] s by (auto simp: demo_request_def)
qed

theorem exchange_classification_witness:
  "\<exists>resp. fst (exchange demo_lib \<lparr>bc_identity = None\<rparr> demo_request) = Inr resp \<and>
     length (rs_body resp) \<le> MAX_RESPONSE_BYTES"
proof -
  obtain client resp where
    e: "exchange demo_lib \<lparr>bc_identity = None\<rparr> demo_request = (Inr resp, Some (client, demo_request))"
    using demo_exchange by blast
  show ?thesis
    using exchange_classification [OF _ e, where ?'r = unit] e by (auto simp: demo_request_def)
qed

end
