(* ===== verification/Builder.thy ===== *)
theory Builder
  imports Profile Http_Client "HOL-Library.Multiset"
begin

text \<open>
  The validation of a client's configuration against its profile (src/builder.rs). A refusal is a
  value naming the setting, the reason and the section of the profile; its text is the public
  configuration error. The URI parser and the libraries are parameters. Shown: a configuration
  that passes satisfies what the send and receive paths rely on, every refusal is a
  configuration error, and the policy of a sender does not depend on the iteration order of the map of partners.
\<close>

section \<open>Refusals\<close>

datatype EndpointFault = NotAUrl string | NotHttps string | NoHost string | CarriesUserinfo string

datatype Refusal =
    BadEndpoint EndpointFault
  | NeedsEncryptionCert
  | NeedsPin
  | KeyNotAllowed KeyKind KeyRule
  | CertNotValid
  | SubjectLacksMpId string
  | CnIsNot string
  | QuirkOtherProtocol Quirk
  | As2IdSyntax
  | TypeNotOneOf string "string list"
  | TypeRequired "string list"
  | TypeFixed string
  | WrongClient Profile
  | MaxOutside nat nat
  | NoLocalParty
  | NoSigner
  | SeveralSigners
  | NoDecrypter
  | EmptyChain
  | AmbiguousDecrypters
  | SignerIsDecrypter
  | TlsNotSeparate
  | NotMpId string
  | NoAnchor
  | SignerNotChained
  | PartnerIsLocal
  | PartnerTwice
  | CrlSignerTwice
  | CrlSignerIsAnchor
  | CrlSignerNoUsage
  | CrlSignerNotChained

record BuildRefusal =
  br_setting :: string
  br_detail :: Refusal
  br_section :: string

text \<open>An error of \<open>build()\<close>: a refusal, or an error of the built-in HTTP client's construction.\<close>

datatype 'r BuildError = Refused BuildRefusal | HttpError "'r Error"

definition refuse :: "string \<Rightarrow> Refusal \<Rightarrow> string \<Rightarrow> 'r BuildError" where
  "refuse setting detail section_of = Refused \<lparr>br_setting = setting, br_detail = detail, br_section = section_of\<rparr>"

text \<open>The public error; \<open>render\<close> is the display of a reason.\<close>

definition build_error :: "(Refusal \<Rightarrow> string) \<Rightarrow> Profile \<Rightarrow> 'r BuildError \<Rightarrow> 'r Error" where
  "build_error render profile e =
     (case e of
        HttpError err \<Rightarrow> err
      | Refused r \<Rightarrow>
          if br_section r = [] then error_config (br_setting r @ '': '' @ render (br_detail r))
          else error_config (br_setting r @ '': '' @ render (br_detail r) @ '' ('' @ citation profile @
                 '' '' @ br_section r @ '')''))"

section \<open>Checks of single values\<close>

definition is_mp_id :: "string \<Rightarrow> bool" where
  "is_mp_id i \<longleftrightarrow> length i = 13 \<and> list_all is_ascii_digit i"

definition bdew_subject_carries :: "Certificate \<Rightarrow> string \<Rightarrow> bool" where
  "bdew_subject_carries cert mp_id \<longleftrightarrow>
     list_ex (\<lambda>(nid, v). nid = ORGANIZATIONALUNITNAME \<and> trim v = mp_id) (subject_values cert)"

definition is_as2_id :: "string \<Rightarrow> bool" where
  "is_as2_id i \<longleftrightarrow> 1 \<le> length i \<and> length i \<le> 128 \<and> list_all (\<lambda>c. 0x20 \<le> byte c \<and> byte c < 0x7f) i"

text \<open>What the code asks of a parsed \<open>http::Uri\<close>: scheme, and authority with its host.\<close>

record Uri =
  uri_scheme :: "string option"
  uri_authority :: "(string \<times> string) option"

definition check_endpoint :: "(string \<Rightarrow> Uri option) \<Rightarrow> string \<Rightarrow> (EndpointFault, unit) result" where
  "check_endpoint parse_uri url =
     rbind (ok_or (NotAUrl url) (parse_uri url)) (\<lambda>parsed.
     rbind (check (uri_scheme parsed = Some ''https'') (NotHttps url)) (\<lambda>_.
     rbind (ok_or (NoHost url) (uri_authority parsed)) (\<lambda>(authority, host).
     rbind (check (CHR 0x40 \<notin> set authority) (CarriesUserinfo url)) (\<lambda>_.
       check (host \<noteq> []) (NoHost url)))))"

definition chains_to :: "'k Ossl \<Rightarrow> Certificate \<Rightarrow> Certificate list \<Rightarrow> Certificate list \<Rightarrow> system_time \<Rightarrow> bool" where
  "chains_to lib lf intermediates anchors now =
     os_verify_cert lib (map c_x509 anchors) (map c_x509 intermediates) (c_x509 lf) (unix_secs now)"

definition encryption_allowed :: "Profile \<Rightarrow> KeyKind \<Rightarrow> bool" where
  "encryption_allowed profile k = allows (decrypter_keys profile) k"

definition signature_section :: "Profile \<Rightarrow> string" where
  "signature_section p =
     (case pr_id p of Bdew12 \<Rightarrow> sect ''2.2.6.2.1'' | Peppol203 \<Rightarrow> sect ''3'' | Edelivery115 \<Rightarrow> sect ''3.2.6''
      | Entsog36 \<Rightarrow> sect ''2.2.6.2'' | As2Profile \<Rightarrow> sect ''2.4'')"

definition encryption_section :: "Profile \<Rightarrow> string" where
  "encryption_section p =
     (case pr_id p of Bdew12 \<Rightarrow> sect ''2.2.6.2.2'' | Peppol203 \<Rightarrow> sect ''3'' | Edelivery115 \<Rightarrow> sect ''3.2.6''
      | Entsog36 \<Rightarrow> sect ''2.2.6.3'' | As2Profile \<Rightarrow> sect ''2.4'')"

definition check_party_type :: "Profile \<Rightarrow> string \<Rightarrow> string option \<Rightarrow> ('r BuildError, unit) result" where
  "check_party_type profile setting party_type =
     (case party_types profile of
        PtOneOf allowed \<Rightarrow>
          (case party_type of
             Some t \<Rightarrow> if t \<in> set allowed then Inr ()
               else Inl (refuse setting (TypeNotOneOf t allowed) (sect ''2.3.1.1''))
           | None \<Rightarrow> Inl (refuse setting (TypeRequired allowed) (sect ''2.3.1.1'')))
      | PtFixed fixed \<Rightarrow>
          (case party_type of
             None \<Rightarrow> Inr ()
           | Some _ \<Rightarrow> Inl (refuse setting (TypeFixed fixed) (sect ''4.5'')))
      | PtCallerSet \<Rightarrow> Inr ())"

section \<open>A partner\<close>

definition setting_of :: "Partner \<Rightarrow> string \<Rightarrow> string" where
  "setting_of partner what = ''Partner('' @ pa_id partner @ '')::'' @ what"

definition check_signing_cert ::
  "'k Ossl \<Rightarrow> Profile \<Rightarrow> Partner \<Rightarrow> system_time \<Rightarrow> Certificate \<Rightarrow> ('r BuildError, unit) result" where
  "check_signing_cert lib profile partner now cert =
     (let setting = setting_of partner ''signing_cert''; k = key_kind cert in
      rbind (check (allows (signer_keys profile) k)
        (refuse setting (KeyNotAllowed k (signer_keys profile)) (signature_section profile))) (\<lambda>_.
      rbind (check (is_valid_at lib cert now) (refuse setting CertNotValid [])) (\<lambda>_.
        case sender_rule profile of
          AnchorAndSubject \<Rightarrow> check (bdew_subject_carries cert (pa_id partner))
            (refuse setting (SubjectLacksMpId (pa_id partner)) (sect ''2.3.4.4''))
        | AnchorAndCn \<Rightarrow> check (subject_cn cert = Some (pa_id partner))
            (refuse setting (CnIsNot (pa_id partner)) (sect ''4.5''))
        | RegisteredOnly \<Rightarrow> Inr ())))"

definition check_encryption_cert ::
  "'k Ossl \<Rightarrow> Profile \<Rightarrow> Partner \<Rightarrow> system_time \<Rightarrow> Certificate \<Rightarrow> ('r BuildError, unit) result" where
  "check_encryption_cert lib profile partner now cert =
     (let setting = setting_of partner ''encryption_cert''; k = key_kind cert in
      rbind (check (encryption_allowed profile k)
        (refuse setting (KeyNotAllowed k (decrypter_keys profile)) (encryption_section profile))) (\<lambda>_.
        check (is_valid_at lib cert now) (refuse setting CertNotValid [])))"

definition check_partner ::
  "'k Ossl \<Rightarrow> (string \<Rightarrow> Uri option) \<Rightarrow> Profile \<Rightarrow> Partner \<Rightarrow> bool \<Rightarrow> system_time \<Rightarrow>
   ('r BuildError, unit) result" where
  "check_partner lib parse_uri profile partner registered now =
     rbind (case pa_endpoint partner of
         Some url \<Rightarrow>
           rbind (map_err (\<lambda>d. refuse (setting_of partner ''endpoint'') (BadEndpoint d) [])
                    (check_endpoint parse_uri url)) (\<lambda>_.
             check (\<not> (pa_encryption partner = None \<and> \<not> path_switch profile))
               (refuse (setting_of partner ''encryption_cert'') NeedsEncryptionCert []))
       | None \<Rightarrow> Inr ()) (\<lambda>_.
     rbind (check (\<not> (registered \<and> sender_rule profile = RegisteredOnly \<and> pa_signing partner = []))
         (refuse (setting_of partner ''signing_cert'') NeedsPin [])) (\<lambda>_.
     rbind (for_each (check_signing_cert lib profile partner now) (pa_signing partner)) (\<lambda>_.
     rbind (case pa_encryption partner of
         Some cert \<Rightarrow> check_encryption_cert lib profile partner now cert
       | None \<Rightarrow> Inr ()) (\<lambda>_.
     rbind (for_each (\<lambda>q. check (quirk_protocol q = protocol profile)
         (refuse (setting_of partner ''quirk'') (QuirkOtherProtocol q) [])) (pa_quirks partner)) (\<lambda>_.
     rbind (check_party_type profile (setting_of partner ''party_type'') (pa_party_type partner)) (\<lambda>_.
       check (\<not> (protocol profile = As2 \<and> \<not> is_as2_id (pa_id partner)))
         (refuse (setting_of partner ''id'') As2IdSyntax (sect ''6.2''))))))))"

section \<open>The whole configuration\<close>

text \<open>\<open>'h\<close> is the type of an embedder's HTTP client, \<open>'a\<close> of its audit sink.\<close>

record ('k, 'h, 'a) BuilderState =
  b_profile :: Profile
  b_local :: "'k LocalParty option"
  b_partners :: "Partner list"
  b_anchors :: "Certificate list"
  b_crl_signers :: "Certificate list"
  b_http :: "'h option"
  b_audit :: "'a option"

definition builder_new :: "Profile \<Rightarrow> ('k, 'h, 'a) BuilderState" where
  "builder_new p = \<lparr>b_profile = p, b_local = None, b_partners = [], b_anchors = [], b_crl_signers = [],
     b_http = None, b_audit = None\<rparr>"

definition builder_local :: "'k LocalParty \<Rightarrow> ('k, 'h, 'a) BuilderState \<Rightarrow> ('k, 'h, 'a) BuilderState" where
  "builder_local party b = b\<lparr>b_local := Some party\<rparr>"

definition builder_partner :: "Partner \<Rightarrow> ('k, 'h, 'a) BuilderState \<Rightarrow> ('k, 'h, 'a) BuilderState" where
  "builder_partner partner b = b\<lparr>b_partners := b_partners b @ [partner]\<rparr>"

definition builder_trust_anchor :: "Certificate \<Rightarrow> ('k, 'h, 'a) BuilderState \<Rightarrow> ('k, 'h, 'a) BuilderState" where
  "builder_trust_anchor c b = b\<lparr>b_anchors := b_anchors b @ [c]\<rparr>"

definition builder_crl_signer :: "Certificate \<Rightarrow> ('k, 'h, 'a) BuilderState \<Rightarrow> ('k, 'h, 'a) BuilderState" where
  "builder_crl_signer c b = b\<lparr>b_crl_signers := b_crl_signers b @ [c]\<rparr>"

definition builder_http_client :: "'h \<Rightarrow> ('k, 'h, 'a) BuilderState \<Rightarrow> ('k, 'h, 'a) BuilderState" where
  "builder_http_client h b = b\<lparr>b_http := Some h\<rparr>"

definition builder_audit :: "'a \<Rightarrow> ('k, 'h, 'a) BuilderState \<Rightarrow> ('k, 'h, 'a) BuilderState" where
  "builder_audit sink b = b\<lparr>b_audit := Some sink\<rparr>"

text \<open>The map of partners is the list of its entries, in the order an iteration visits them.\<close>

type_synonym partner_map = "((string option \<times> string) \<times> PartnerPolicy) list"

record ('k, 'h, 'a, 'i) ClientConfig =
  cc_profile :: Profile
  cc_local :: "'k LocalParty"
  cc_partners :: partner_map
  cc_anchors :: "Certificate list"
  cc_http :: "'h + 'i BuiltinClient"
  cc_audit :: "'a option"
  cc_crl_signers :: "Certificate list"

definition policy_for :: "partner_map \<Rightarrow> string option \<Rightarrow> string \<Rightarrow> PartnerPolicy option" where
  "policy_for partners party_type i =
     (case map_of partners (party_type, i) of
        Some policy \<Rightarrow> Some policy
      | None \<Rightarrow>
          (case filter (\<lambda>((_, pid), _). pid = i) partners of
             [(_, policy)] \<Rightarrow> Some policy
           | _ \<Rightarrow> None))"

fun check_decrypters ::
  "'k Ossl \<Rightarrow> Profile \<Rightarrow> Certificate list \<Rightarrow> bytes list \<Rightarrow> 'k LocalDecrypter list \<Rightarrow>
   ('r BuildError, Certificate list) result" where
  "check_decrypters lib p seen_certs seen_skis [] = Inr seen_certs"
| "check_decrypters lib p seen_certs seen_skis (d # ds) =
     (let cert = ld_certificate d; k = key_kind cert; skis = ski_candidates lib cert in
      rbind (check (encryption_allowed p k)
        (refuse ''LocalParty::decrypter'' (KeyNotAllowed k (decrypter_keys p)) (encryption_section p))) (\<lambda>_.
      rbind (check (\<not> (certs_contain seen_certs cert \<or> list_ex (\<lambda>s. s \<in> set seen_skis) skis))
        (refuse ''LocalParty::decrypter'' AmbiguousDecrypters [])) (\<lambda>_.
        check_decrypters lib p (seen_certs @ [cert]) (seen_skis @ skis) ds)))"

definition check_separate_keys ::
  "Profile \<Rightarrow> 'k LocalParty \<Rightarrow> Certificate \<Rightarrow> Certificate list \<Rightarrow> ('r BuildError, unit) result" where
  "check_separate_keys p local_party signer_leaf seen_certs =
     (if \<not> separate_keys p then Inr ()
      else
        rbind (check (\<not> certs_contain seen_certs signer_leaf)
          (refuse ''LocalParty::signer'' SignerIsDecrypter (sect ''2.3.4.4''))) (\<lambda>_.
          case lp_tls local_party of
            Some tls \<Rightarrow> check (\<not> (cert_eq (leaf tls) signer_leaf \<or> certs_contain seen_certs (leaf tls)))
              (refuse ''LocalParty::tls_identity'' TlsNotSeparate (sect ''2.3.4.4''))
          | None \<Rightarrow> Inr ()))"

fun resolve_partners ::
  "'k Ossl \<Rightarrow> (string \<Rightarrow> Uri option) \<Rightarrow> Profile \<Rightarrow> string \<Rightarrow> system_time \<Rightarrow> partner_map \<Rightarrow> Partner list \<Rightarrow>
   ('r BuildError, partner_map) result" where
  "resolve_partners lib parse_uri p local_id now resolved [] = Inr resolved"
| "resolve_partners lib parse_uri p local_id now resolved (partner # rest) =
     rbind (check_partner lib parse_uri p partner True now) (\<lambda>_.
     rbind (check (pa_id partner \<noteq> local_id)
       (refuse (''Partner('' @ pa_id partner @ '')'') PartnerIsLocal [])) (\<lambda>_.
     rbind (check (map_of resolved (partner_key partner) = None)
       (refuse (''Partner('' @ pa_id partner @ '')'') PartnerTwice [])) (\<lambda>_.
       resolve_partners lib parse_uri p local_id now
         (resolved @ [(partner_key partner, resolve p partner)]) rest)))"

fun check_crl_signers ::
  "'k Ossl \<Rightarrow> Certificate list \<Rightarrow> system_time \<Rightarrow> Certificate list \<Rightarrow> Certificate list \<Rightarrow>
   ('r BuildError, unit) result" where
  "check_crl_signers lib anchors now before [] = Inr ()"
| "check_crl_signers lib anchors now before (signer # rest) =
     rbind (check (\<not> certs_contain before signer) (refuse ''Builder::crl_signer'' CrlSignerTwice [])) (\<lambda>_.
     rbind (check (\<not> certs_contain anchors signer) (refuse ''Builder::crl_signer'' CrlSignerIsAnchor [])) (\<lambda>_.
     rbind (check (has_crl_sign signer) (refuse ''Builder::crl_signer'' CrlSignerNoUsage [])) (\<lambda>_.
     rbind (check (chains_to lib signer [] anchors now)
       (refuse ''Builder::crl_signer'' CrlSignerNotChained [])) (\<lambda>_.
       check_crl_signers lib anchors now (before @ [signer]) rest))))"

definition default_http ::
  "'i HttpLib \<Rightarrow> 'k LocalParty \<Rightarrow> ('r BuildError, 'h + 'i BuiltinClient) result" where
  "default_http hlib local_party =
     rbind (map_err HttpError (builtin_new hlib
       (map_option (\<lambda>kp. (chain_pem_of kp, kp_pem kp)) (lp_tls local_party)))) (\<lambda>c. Inr (Inr c))"

definition check_local_ids :: "Profile \<Rightarrow> Protocol \<Rightarrow> 'k LocalParty \<Rightarrow> ('r BuildError, unit) result" where
  "check_local_ids p proto local_party =
     rbind (check (\<not> (pr_id p = Bdew12 \<and> \<not> is_mp_id (lp_id local_party)))
       (refuse ''LocalParty::new'' (NotMpId (lp_id local_party)) (sect ''2.3.1.1''))) (\<lambda>_.
     rbind (check (\<not> (proto = As2 \<and> \<not> is_as2_id (lp_id local_party)))
       (refuse ''LocalParty::new'' As2IdSyntax (sect ''6.2''))) (\<lambda>_.
       check_party_type p ''LocalParty::party_type'' (lp_party_type local_party)))"

definition check_signer ::
  "'k Ossl \<Rightarrow> Profile \<Rightarrow> 'k LocalParty \<Rightarrow> system_time \<Rightarrow>
   ('r BuildError, Certificate \<times> Certificate list) result" where
  "check_signer lib p local_party now =
     rbind (case lp_signers local_party of
         [one] \<Rightarrow> Inr one
       | [] \<Rightarrow> Inl (refuse ''LocalParty::signer'' NoSigner [])
       | _ \<Rightarrow> Inl (refuse ''LocalParty::signer'' SeveralSigners [])) (\<lambda>chain.
     rbind (check (lp_decrypters local_party \<noteq> [])
       (refuse ''LocalParty::decrypter'' NoDecrypter (encryption_section p))) (\<lambda>_.
     rbind (case chain of [] \<Rightarrow> Inl (refuse ''LocalParty::signer'' EmptyChain []) | l # rest \<Rightarrow> Inr (l, rest))
       (\<lambda>(signer_leaf, intermediates).
     rbind (check (is_valid_at lib signer_leaf now) (refuse ''LocalParty::signer'' CertNotValid [])) (\<lambda>_.
     rbind (check (allows (signer_keys p) (key_kind signer_leaf))
       (refuse ''LocalParty::signer'' (KeyNotAllowed (key_kind signer_leaf) (signer_keys p))
         (signature_section p))) (\<lambda>_.
       Inr (signer_leaf, intermediates))))))"

definition validate ::
  "'k Ossl \<Rightarrow> 'i HttpLib \<Rightarrow> (string \<Rightarrow> Uri option) \<Rightarrow> system_time \<Rightarrow> ('k, 'h, 'a) BuilderState \<Rightarrow> Protocol \<Rightarrow>
   ('r BuildError, ('k, 'h, 'a, 'i) ClientConfig) result" where
  "validate lib hlib parse_uri now b proto =
     (let p = b_profile b in
      rbind (check (protocol p = proto) (refuse ''Profile'' (WrongClient p) [])) (\<lambda>_.
      rbind (case requested_max p of
          Some requested \<Rightarrow> check (\<not> (requested = 0 \<or> requested > ceiling_bytes p))
            (refuse ''Profile::max_message_bytes'' (MaxOutside requested (ceiling_bytes p)) [])
        | None \<Rightarrow> Inr ()) (\<lambda>_.
      rbind (ok_or (refuse ''Builder::local'' NoLocalParty []) (b_local b)) (\<lambda>local_party.
      rbind (check_signer lib p local_party now) (\<lambda>(signer_leaf, intermediates).
      rbind (check_decrypters lib p [] [] (lp_decrypters local_party)) (\<lambda>seen_certs.
      rbind (check_separate_keys p local_party signer_leaf seen_certs) (\<lambda>_.
      rbind (check_local_ids p proto local_party) (\<lambda>_.
      rbind (check (b_anchors b \<noteq> []) (refuse ''Builder::trust_anchor'' NoAnchor [])) (\<lambda>_.
      rbind (check (chains_to lib signer_leaf intermediates (b_anchors b) now)
        (refuse ''LocalParty::signer'' SignerNotChained [])) (\<lambda>_.
      rbind (resolve_partners lib parse_uri p (lp_id local_party) now [] (b_partners b)) (\<lambda>resolved.
      rbind (check_crl_signers lib (b_anchors b) now [] (b_crl_signers b)) (\<lambda>_.
      rbind (case b_http b of Some h \<Rightarrow> Inr (Inl h) | None \<Rightarrow> default_http hlib local_party) (\<lambda>http.
        Inr \<lparr>cc_profile = p, cc_local = local_party, cc_partners = resolved, cc_anchors = b_anchors b,
             cc_http = http, cc_audit = b_audit b, cc_crl_signers = b_crl_signers b\<rparr>)))))))))))))"

section \<open>What a valid configuration is\<close>

definition party_type_ok :: "Profile \<Rightarrow> string option \<Rightarrow> bool" where
  "party_type_ok profile t =
     (case party_types profile of
        PtOneOf allowed \<Rightarrow> (case t of Some x \<Rightarrow> x \<in> set allowed | None \<Rightarrow> False)
      | PtFixed _ \<Rightarrow> t = None
      | PtCallerSet \<Rightarrow> True)"

definition signing_cert_ok :: "'k Ossl \<Rightarrow> Profile \<Rightarrow> string \<Rightarrow> system_time \<Rightarrow> Certificate \<Rightarrow> bool" where
  "signing_cert_ok lib profile i now cert \<longleftrightarrow>
     allows (signer_keys profile) (key_kind cert) \<and> is_valid_at lib cert now \<and>
     (case sender_rule profile of
        AnchorAndSubject \<Rightarrow> bdew_subject_carries cert i
      | AnchorAndCn \<Rightarrow> subject_cn cert = Some i
      | RegisteredOnly \<Rightarrow> True)"

definition partner_ok ::
  "'k Ossl \<Rightarrow> (string \<Rightarrow> Uri option) \<Rightarrow> Profile \<Rightarrow> bool \<Rightarrow> system_time \<Rightarrow> Partner \<Rightarrow> bool" where
  "partner_ok lib parse_uri profile registered now partner \<longleftrightarrow>
     (case pa_endpoint partner of None \<Rightarrow> True
      | Some url \<Rightarrow> check_endpoint parse_uri url = Inr () \<and>
          (pa_encryption partner \<noteq> None \<or> pr_id profile = Bdew12)) \<and>
     (registered \<and> sender_rule profile = RegisteredOnly \<longrightarrow> pa_signing partner \<noteq> []) \<and>
     (\<forall>c \<in> set (pa_signing partner). signing_cert_ok lib profile (pa_id partner) now c) \<and>
     (case pa_encryption partner of None \<Rightarrow> True
      | Some c \<Rightarrow> allows (decrypter_keys profile) (key_kind c) \<and> is_valid_at lib c now) \<and>
     (\<forall>q \<in> set (pa_quirks partner). quirk_protocol q = protocol profile) \<and>
     party_type_ok profile (pa_party_type partner) \<and>
     (protocol profile = As2 \<longrightarrow> is_as2_id (pa_id partner))"

text \<open>Two decryption certificates no key reference can confuse.\<close>

definition distinguishable :: "'k Ossl \<Rightarrow> Certificate \<Rightarrow> Certificate \<Rightarrow> bool" where
  "distinguishable lib c d \<longleftrightarrow>
     c_der c \<noteq> c_der d \<and> set (ski_candidates lib c) \<inter> set (ski_candidates lib d) = {}"

definition decrypter_certs :: "'k LocalParty \<Rightarrow> Certificate list" where
  "decrypter_certs l = map ld_certificate (lp_decrypters l)"

definition local_ok ::
  "'k Ossl \<Rightarrow> Profile \<Rightarrow> Certificate list \<Rightarrow> system_time \<Rightarrow> 'k LocalParty \<Rightarrow> bool" where
  "local_ok lib p anchors now l \<longleftrightarrow>
     (\<exists>lf rest. lp_signers l = [lf # rest] \<and> is_valid_at lib lf now \<and>
        allows (signer_keys p) (key_kind lf) \<and> chains_to lib lf rest anchors now \<and>
        (pr_id p = Bdew12 \<longrightarrow> \<not> certs_contain (decrypter_certs l) lf \<and>
           (\<forall>tls. lp_tls l = Some tls \<longrightarrow> \<not> cert_eq (leaf tls) lf \<and>
              \<not> certs_contain (decrypter_certs l) (leaf tls)))) \<and>
     lp_decrypters l \<noteq> [] \<and>
     (\<forall>c \<in> set (decrypter_certs l). allows (decrypter_keys p) (key_kind c)) \<and>
     sorted_wrt (distinguishable lib) (decrypter_certs l) \<and>
     (pr_id p = Bdew12 \<longrightarrow> is_mp_id (lp_id l)) \<and> (protocol p = As2 \<longrightarrow> is_as2_id (lp_id l)) \<and>
     party_type_ok p (lp_party_type l)"

section \<open>Lemmas\<close>

lemma check_party_type_Inr: "check_party_type p setting t = Inr u \<longleftrightarrow> party_type_ok p t"
  by (cases "party_types p"; cases t) (auto simp: check_party_type_def party_type_ok_def)

lemma check_signing_cert_Inr:
  "check_signing_cert lib p partner now c = Inr u \<longleftrightarrow> signing_cert_ok lib p (pa_id partner) now c"
  by (cases "sender_rule p") (auto simp: check_signing_cert_def signing_cert_ok_def Let_def res_simps)

lemma check_partner_Inr:
  "check_partner lib parse_uri p partner registered now = Inr u \<longleftrightarrow>
     partner_ok lib parse_uri p registered now partner"
proof -
  have e: "(case pa_endpoint partner of
         Some url \<Rightarrow>
           rbind (map_err (\<lambda>d. refuse (setting_of partner ''endpoint'') (BadEndpoint d) [])
                    (check_endpoint parse_uri url)) (\<lambda>_.
             check (\<not> (pa_encryption partner = None \<and> \<not> path_switch p))
               (refuse (setting_of partner ''encryption_cert'') NeedsEncryptionCert []))
       | None \<Rightarrow> Inr ()) = Inr () \<longleftrightarrow>
      (case pa_endpoint partner of None \<Rightarrow> True
      | Some url \<Rightarrow> check_endpoint parse_uri url = Inr () \<and>
          (pa_encryption partner \<noteq> None \<or> pr_id p = Bdew12))"
    by (auto simp: res_simps path_switch_def split: option.splits)
  have c: "(case pa_encryption partner of
         Some cert \<Rightarrow> check_encryption_cert lib p partner now cert | None \<Rightarrow> Inr ()) = Inr () \<longleftrightarrow>
      (case pa_encryption partner of None \<Rightarrow> True
      | Some c \<Rightarrow> allows (decrypter_keys p) (key_kind c) \<and> is_valid_at lib c now)"
    by (auto simp: check_encryption_cert_def encryption_allowed_def Let_def res_simps split: option.splits)
  show ?thesis
    unfolding check_partner_def partner_ok_def rbind_Inr_iff unit_eq [of "_ :: unit"]
    by (simp add: e c for_each_Inr_iff check_Inr_iff check_signing_cert_Inr check_party_type_Inr) blast
qed

lemma check_decrypters_Inr:
  "check_decrypters lib p seen skis ds = Inr out \<longleftrightarrow>
     (\<forall>d \<in> set ds. allows (decrypter_keys p) (key_kind (ld_certificate d)) \<and>
        \<not> certs_contain seen (ld_certificate d) \<and> set (ski_candidates lib (ld_certificate d)) \<inter> set skis = {}) \<and>
     sorted_wrt (distinguishable lib) (map ld_certificate ds) \<and> out = seen @ map ld_certificate ds"
proof (induction ds arbitrary: seen skis)
  case (Cons d ds)
  have "certs_contain (seen @ [c]) c' \<longleftrightarrow> certs_contain seen c' \<or> cert_eq c' c" for c c'
    by (simp add: certs_contain_def)
  then show ?case
    by (auto simp: Let_def res_simps Cons.IH encryption_allowed_def distinguishable_def cert_eq_def
        list_ex_iff Int_Un_distrib)
qed auto

lemma resolve_partners_Inr:
  "resolve_partners lib parse_uri p i now resolved ps = Inr out \<longleftrightarrow>
     (\<forall>x \<in> set ps. partner_ok lib parse_uri p True now x \<and> pa_id x \<noteq> i \<and>
        partner_key x \<notin> fst ` set resolved) \<and>
     distinct (map partner_key ps) \<and> out = resolved @ map (\<lambda>x. (partner_key x, resolve p x)) ps"
proof (induction ps arbitrary: resolved)
  case (Cons x ps)
  then show ?case
    by (auto simp: res_simps check_partner_Inr map_of_eq_None_iff) (metis rev_image_eqI)
qed auto

lemma check_crl_signers_Inr:
  "check_crl_signers lib anchors now before ss = Inr () \<longleftrightarrow>
     (\<forall>s \<in> set ss. \<not> certs_contain before s \<and> \<not> certs_contain anchors s \<and> has_crl_sign s \<and>
        chains_to lib s [] anchors now) \<and> distinct (map c_der ss)"
proof (induction ss arbitrary: before)
  case (Cons s ss)
  have "certs_contain (before @ [c]) c' \<longleftrightarrow> certs_contain before c' \<or> c_der c' = c_der c" for c c'
    by (auto simp: certs_contain_def cert_eq_def)
  then show ?case by (auto simp: res_simps Cons.IH) (metis rev_image_eqI)
qed simp

lemma check_signer_Inr:
  "check_signer lib p l now = Inr (lf, rest) \<longleftrightarrow>
     lp_signers l = [lf # rest] \<and> lp_decrypters l \<noteq> [] \<and> is_valid_at lib lf now \<and>
     allows (signer_keys p) (key_kind lf)"
  by (auto simp: check_signer_def res_simps split: list.splits)

lemma check_separate_Inr:
  "check_separate_keys p l lf seen = Inr u \<longleftrightarrow>
     (pr_id p = Bdew12 \<longrightarrow> \<not> certs_contain seen lf \<and>
        (\<forall>tls. lp_tls l = Some tls \<longrightarrow> \<not> cert_eq (leaf tls) lf \<and> \<not> certs_contain seen (leaf tls)))"
  by (auto simp: check_separate_keys_def separate_keys_def res_simps split: option.splits)

lemma check_local_ids_Inr:
  "check_local_ids p proto l = Inr u \<longleftrightarrow>
     (pr_id p = Bdew12 \<longrightarrow> is_mp_id (lp_id l)) \<and> (proto = As2 \<longrightarrow> is_as2_id (lp_id l)) \<and>
     party_type_ok p (lp_party_type l)"
  by (auto simp: check_local_ids_def res_simps check_party_type_Inr)

lemmas validate_steps = check_signer_Inr check_decrypters_Inr check_separate_Inr check_local_ids_Inr
  resolve_partners_Inr check_crl_signers_Inr

text \<open>What the validation asks of the whole configuration, and the configuration it returns.\<close>

definition config_ok ::
  "'k Ossl \<Rightarrow> (string \<Rightarrow> Uri option) \<Rightarrow> system_time \<Rightarrow> ('k, 'h, 'a) BuilderState \<Rightarrow> Protocol \<Rightarrow> 'k LocalParty \<Rightarrow> bool" where
  "config_ok lib parse_uri now b proto l \<longleftrightarrow>
     protocol (b_profile b) = proto \<and> b_local b = Some l \<and>
     (case requested_max (b_profile b) of None \<Rightarrow> True | Some n \<Rightarrow> 0 < n \<and> n \<le> CEILING) \<and>
     local_ok lib (b_profile b) (b_anchors b) now l \<and> b_anchors b \<noteq> [] \<and>
     distinct (map partner_key (b_partners b)) \<and>
     (\<forall>x \<in> set (b_partners b). partner_ok lib parse_uri (b_profile b) True now x \<and> pa_id x \<noteq> lp_id l) \<and>
     distinct (map c_der (b_crl_signers b)) \<and>
     (\<forall>s \<in> set (b_crl_signers b). \<not> certs_contain (b_anchors b) s \<and> has_crl_sign s \<and>
        chains_to lib s [] (b_anchors b) now)"

definition http_of ::
  "'i HttpLib \<Rightarrow> ('k, 'h, 'a) BuilderState \<Rightarrow> 'k LocalParty \<Rightarrow> ('r BuildError, 'h + 'i BuiltinClient) result" where
  "http_of hlib b l = (case b_http b of Some h \<Rightarrow> Inr (Inl h) | None \<Rightarrow> default_http hlib l)"

definition config_of ::
  "('k, 'h, 'a) BuilderState \<Rightarrow> 'k LocalParty \<Rightarrow> 'h + 'i BuiltinClient \<Rightarrow> ('k, 'h, 'a, 'i) ClientConfig" where
  "config_of b l http =
     \<lparr>cc_profile = b_profile b, cc_local = l,
      cc_partners = map (\<lambda>x. (partner_key x, resolve (b_profile b) x)) (b_partners b),
      cc_anchors = b_anchors b, cc_http = http, cc_audit = b_audit b, cc_crl_signers = b_crl_signers b\<rparr>"

lemma validate_sound:
  assumes "validate lib hlib parse_uri now b proto = (Inr cfg :: ('r BuildError, _) result)"
  obtains l http where "config_ok lib parse_uri now b proto l"
    "http_of hlib b l = (Inr http :: ('r BuildError, _) result)" "cfg = config_of b l http"
proof -
  obtain l lf rest resolved http where v: "protocol (b_profile b) = proto" "b_local b = Some l"
    "case requested_max (b_profile b) of None \<Rightarrow> True | Some n \<Rightarrow> 0 < n \<and> n \<le> CEILING"
    "check_signer lib (b_profile b) l now = (Inr (lf, rest) :: ('r BuildError, _) result)"
    "check_decrypters lib (b_profile b) [] [] (lp_decrypters l) = (Inr (decrypter_certs l) :: ('r BuildError, _) result)"
    "check_separate_keys (b_profile b) l lf (decrypter_certs l) = (Inr () :: ('r BuildError, _) result)"
    "check_local_ids (b_profile b) proto l = (Inr () :: ('r BuildError, _) result)"
    "b_anchors b \<noteq> []" "chains_to lib lf rest (b_anchors b) now"
    "resolve_partners lib parse_uri (b_profile b) (lp_id l) now [] (b_partners b) = (Inr resolved :: ('r BuildError, _) result)"
    "check_crl_signers lib (b_anchors b) now [] (b_crl_signers b) = (Inr () :: ('r BuildError, _) result)"
    "http_of hlib b l = (Inr http :: ('r BuildError, _) result)"
    "cfg = \<lparr>cc_profile = b_profile b, cc_local = l, cc_partners = resolved, cc_anchors = b_anchors b,
             cc_http = http, cc_audit = b_audit b, cc_crl_signers = b_crl_signers b\<rparr>"
    using assms unfolding validate_def Let_def http_of_def
    by (auto simp: res_simps ceiling_bytes_def check_decrypters_Inr decrypter_certs_def split: option.splits prod.splits)
  have "cfg = config_of b l http" using v(10,13) by (simp add: config_of_def resolve_partners_Inr)
  moreover have "config_ok lib parse_uri now b proto l"
    using v unfolding config_ok_def local_ok_def by (auto simp: validate_steps decrypter_certs_def)
  ultimately show thesis using v(12) that by blast
qed

lemma validate_complete:
  assumes "config_ok lib parse_uri now b proto l"
    and "http_of hlib b l = (Inr http :: ('r BuildError, _) result)"
  shows "validate lib hlib parse_uri now b proto = (Inr (config_of b l http) :: ('r BuildError, _) result)"
proof -
  let ?p = "b_profile b"
  obtain lf rest where s: "lp_signers l = [lf # rest]" "is_valid_at lib lf now" "allows (signer_keys ?p) (key_kind lf)"
    "chains_to lib lf rest (b_anchors b) now"
    "check_separate_keys ?p l lf (decrypter_certs l) = (Inr () :: ('r BuildError, _) result)"
    using assms(1) unfolding config_ok_def local_ok_def check_separate_Inr by blast
  have "check_signer lib ?p l now = (Inr (lf, rest) :: ('r BuildError, _) result)"
    "check_decrypters lib ?p [] [] (lp_decrypters l) = (Inr (decrypter_certs l) :: ('r BuildError, _) result)"
    "check_local_ids ?p proto l = (Inr () :: ('r BuildError, _) result)"
    "resolve_partners lib parse_uri ?p (lp_id l) now [] (b_partners b) =
      (Inr (map (\<lambda>x. (partner_key x, resolve ?p x)) (b_partners b)) :: ('r BuildError, _) result)"
    "check_crl_signers lib (b_anchors b) now [] (b_crl_signers b) = (Inr () :: ('r BuildError, _) result)"
    using assms(1) s unfolding config_ok_def local_ok_def
    by (auto simp: validate_steps decrypter_certs_def certs_contain_def)
  with assms s show ?thesis
    unfolding validate_def Let_def config_ok_def config_of_def http_of_def
    by (cases "requested_max ?p") (auto simp: res_simps ceiling_bytes_def)
qed


definition demo_cert :: "bytes \<Rightarrow> Certificate" where
  "demo_cert d =
     \<lparr>c_der = d, c_x509 = \<lparr>x_to_der = Inr d, x_public_key = Some (os_public demo_ossl ()),
        x_subject = [(ORGANIZATIONALUNITNAME, ''9900000000002'')], x_not_before = 0, x_not_after = 4000000000,
        x_subject_key_id = Some d, x_spk_bits = Some d, x_crl_sign = Some True, x_pem = ''pem''\<rparr>,
      c_fingerprint = from_cert_der (os_sha256 demo_ossl) d\<rparr>"

definition demo_builder :: "(unit, unit, unit) BuilderState" where
  "demo_builder =
     builder_crl_signer (demo_cert [9]) (builder_trust_anchor (demo_cert [8])
       (builder_partner (partner_type (hd BDEW_PARTY_TYPES)
          (partner_signing_cert (demo_cert [3]) (partner_encryption_cert (demo_cert [4])
            (partner_endpoint ''https://mp.example/as4'' (partner_new ''9900000000002'')))))
       (builder_local (local_party_type (hd BDEW_PARTY_TYPES)
          (local_decrypter \<lparr>ld_certificate = demo_cert [2], ld_key_pair = None\<rparr>
            (local_signer [demo_cert [1]] (local_party_new ''9900000000001'')))) (builder_new (preset Bdew12)))))"

definition demo_parse_uri :: "string \<Rightarrow> Uri option" where
  "demo_parse_uri u = Some \<lparr>uri_scheme = Some ''https'', uri_authority = Some (''mp.example'', ''mp.example'')\<rparr>"

lemmas demo_builder_defs = demo_builder_def builder_crl_signer_def builder_trust_anchor_def builder_partner_def
  builder_local_def builder_new_def partner_type_def partner_signing_cert_def partner_encryption_cert_def
  partner_endpoint_def partner_new_def local_party_type_def local_decrypter_def local_signer_def
  local_party_new_def preset_def

section \<open>The policy of a sender\<close>

lemma filter_single:
  assumes "distinct (map fst ps)"
  shows "filter P ps = [x] \<longleftrightarrow> {y \<in> set ps. P y} = {x}"
proof
  assume s: "{y \<in> set ps. P y} = {x}"
  have "distinct (filter P ps)" using assms by (simp add: distinct_map)
  then have "length (filter P ps) = card {y \<in> set ps. P y}"
    using distinct_card [of "filter P ps"] by simp
  then obtain z where "filter P ps = [z]" using s by (auto simp: length_Suc_conv)
  moreover have "set (filter P ps) = {x}" using s by simp
  ultimately show "filter P ps = [x]" by simp
qed (auto dest!: arg_cong [where f = set])

lemma policy_for_Some:
  assumes "distinct (map fst partners)"
  shows "policy_for partners t i = Some pol \<longleftrightarrow>
     ((t, i), pol) \<in> set partners \<or>
     (t, i) \<notin> fst ` set partners \<and> (\<exists>t'. {e \<in> set partners. snd (fst e) = i} = {((t', i), pol)})"
proof (cases "map_of partners (t, i)")
  case None
  then have n: "(t, i) \<notin> fst ` set partners" by (simp add: map_of_eq_None_iff)
  let ?f = "filter (\<lambda>((_, pid), _). pid = i) partners"
  have f: "?f = [e] \<longleftrightarrow> {e \<in> set partners. snd (fst e) = i} = {e}" for e
    using filter_single [OF assms, of "\<lambda>((_, pid), _). pid = i" e] by (simp add: case_prod_beta)
  have "policy_for partners t i = Some pol \<longleftrightarrow> (\<exists>k. ?f = [(k, pol)])"
    using None by (auto simp: policy_for_def split: list.splits)
  also have "\<dots> \<longleftrightarrow> (\<exists>t'. ?f = [((t', i), pol)])"
  proof
    assume "\<exists>k. ?f = [(k, pol)]"
    then obtain t' i' where k: "?f = [((t', i'), pol)]" by auto
    then have "((t', i'), pol) \<in> {e \<in> set partners. snd (fst e) = i}" unfolding f by simp
    with k show "\<exists>t'. ?f = [((t', i), pol)]" by auto
  qed auto
  finally have "policy_for partners t i = Some pol \<longleftrightarrow>
      (\<exists>t'. {e \<in> set partners. snd (fst e) = i} = {((t', i), pol)})" unfolding f .
  moreover have "((t, i), pol) \<notin> set partners" using n by force
  ultimately show ?thesis using n by simp
next
  case (Some q)
  then have m: "((t, i), q) \<in> set partners" by (rule map_of_SomeD)
  then have k: "(t, i) \<in> fst ` set partners" by (rule rev_image_eqI) simp
  have "((t, i), r) \<in> set partners \<longleftrightarrow> r = q" for r
    using m Some map_of_is_SomeI [OF assms, of "(t, i)" r] by auto
  moreover have "policy_for partners t i = Some q" using Some by (simp add: policy_for_def)
  ultimately show ?thesis using k by auto
qed

text \<open>
  The policy a message is judged under depends on the registered partners and not on the iteration
  order of the map they are kept in: any two orders of the entries give the same answer.
  A partner registered under exactly the type and the identifier of the message is chosen; otherwise
  the only partner with that identifier, and none when there are several: an untyped
  identifier never picks one of two partners.
\<close>
theorem policy_for_order_independent:
  assumes "validate lib hlib parse_uri now b proto = (Inr cfg :: ('r BuildError, _) result)"
    and "mset entries = mset (cc_partners cfg)"
  shows "policy_for entries t i = policy_for (cc_partners cfg) t i \<and>
    (\<forall>pol. policy_for entries t i = Some pol \<longrightarrow>
       (\<exists>x \<in> set (b_partners b). pol = resolve (b_profile b) x \<and> pa_id x = i)) \<and>
    (\<forall>x \<in> set (b_partners b). partner_key x = (t, i) \<longrightarrow>
       policy_for entries t i = Some (resolve (b_profile b) x)) \<and>
    ((\<exists>x \<in> set (b_partners b). \<exists>y \<in> set (b_partners b). pa_id x = i \<and> pa_id y = i \<and>
        partner_key x \<noteq> partner_key y \<and> (t, i) \<notin> partner_key ` set (b_partners b)) \<longrightarrow>
       policy_for entries t i = None)"
proof -
  obtain l where ok: "config_ok lib parse_uri now b proto l"
    and cp: "cc_partners cfg = map (\<lambda>x. (partner_key x, resolve (b_profile b) x)) (b_partners b)"
    using assms(1) by (auto elim!: validate_sound simp: config_of_def)
  have d: "distinct (map fst (cc_partners cfg))"
    using ok by (simp add: cp config_ok_def comp_def)
  have se: "set entries = set (cc_partners cfg)" using assms(2) by (rule mset_eq_setD)
  have "mset (map fst entries) = mset (map fst (cc_partners cfg))" using assms(2) by simp
  then have de: "distinct (map fst entries)" using d by (metis mset_eq_imp_distinct_iff)
  note ps = policy_for_Some [OF de] policy_for_Some [OF d]
  show ?thesis
  proof (intro conjI)
    have "policy_for entries t i = Some pol \<longleftrightarrow> policy_for (cc_partners cfg) t i = Some pol" for pol
      unfolding ps se ..
    then show "policy_for entries t i = policy_for (cc_partners cfg) t i"
      by (metis not_Some_eq)
    have "((t', i), pol) \<in> set (cc_partners cfg) \<Longrightarrow>
        \<exists>x \<in> set (b_partners b). pol = resolve (b_profile b) x \<and> pa_id x = i" for t' pol
      by (auto simp: cp partner_key_def)
    then show "\<forall>pol. policy_for entries t i = Some pol \<longrightarrow>
       (\<exists>x \<in> set (b_partners b). pol = resolve (b_profile b) x \<and> pa_id x = i)"
      unfolding ps se by blast
    show "\<forall>x \<in> set (b_partners b). partner_key x = (t, i) \<longrightarrow>
       policy_for entries t i = Some (resolve (b_profile b) x)"
      unfolding ps se cp by (auto intro: rev_image_eqI)
    show "(\<exists>x \<in> set (b_partners b). \<exists>y \<in> set (b_partners b). pa_id x = i \<and> pa_id y = i \<and>
        partner_key x \<noteq> partner_key y \<and> (t, i) \<notin> partner_key ` set (b_partners b)) \<longrightarrow>
       policy_for entries t i = None"
    proof (intro impI, elim bexE conjE)
      fix x y assume a: "x \<in> set (b_partners b)" "y \<in> set (b_partners b)" "pa_id x = i" "pa_id y = i"
        "partner_key x \<noteq> partner_key y" "(t, i) \<notin> partner_key ` set (b_partners b)"
      let ?e = "\<lambda>x. (partner_key x, resolve (b_profile b) x)"
      have "{?e x, ?e y} \<subseteq> {e \<in> set (cc_partners cfg). snd (fst e) = i}"
        using a by (auto simp: cp partner_key_def)
      then have "{e \<in> set (cc_partners cfg). snd (fst e) = i} \<noteq> {z}" for z
        using a(5) by (metis (no_types, lifting) Pair_inject insert_subset singletonD)
      moreover have "(t, i) \<notin> fst ` set (cc_partners cfg)" using a(6) by (auto simp: cp)
      ultimately have "policy_for entries t i \<noteq> Some pol" for pol
        unfolding ps se by (metis fst_conv image_eqI)
      then show "policy_for entries t i = None" by (metis not_Some_eq)
    qed
  qed
qed

lemma bdew_type_ok: "party_types (preset Bdew12) = PtOneOf BDEW_PARTY_TYPES" "hd BDEW_PARTY_TYPES \<in> set BDEW_PARTY_TYPES"
  by (simp_all add: party_types_def preset_def BDEW_PARTY_TYPES_def)

lemma demo_config_ok:
  "config_ok demo_ossl demo_parse_uri 1700000000000000000 demo_builder As4 (the (b_local demo_builder))"
proof -
  have "unix_secs 1700000000000000000 = 1700000000" by (simp add: unix_secs_def i64_max_def)
  then have v: "is_valid_at demo_ossl (demo_cert d) 1700000000000000000" for d
    by (simp add: is_valid_at_def demo_cert_def demo_ossl_def)
  have k: "key_kind (demo_cert d) = Ec (Some BRAINPOOL_P256R1)" for d
    by (simp add: key_kind_def demo_cert_def demo_ossl_def of_public_def)
  have c: "chains_to demo_ossl x y z t" for x y z t by (simp add: chains_to_def demo_ossl_def)
  have t: "trim ''9900000000002'' = ''9900000000002''" by code_simp
  have e: "check_endpoint demo_parse_uri u = Inr ()" for u
    by (simp add: check_endpoint_def demo_parse_uri_def res_simps)
  have "bdew_subject_carries (demo_cert d) ''9900000000002''" for d
    by (simp add: bdew_subject_carries_def subject_values_def demo_cert_def t)
  moreover have "c_der (demo_cert d) = d" "has_crl_sign (demo_cert d)" for d
    by (simp_all add: demo_cert_def has_crl_sign_def)
  moreover have "is_mp_id ''9900000000001''" by code_simp
  ultimately show ?thesis
    using v k c e bdew_type_ok
    by (simp add: config_ok_def demo_builder_defs local_ok_def partner_ok_def signing_cert_ok_def
      decrypter_certs_def certs_contain_def cert_eq_def protocol_def requested_max_def signer_keys_def
      decrypter_keys_def party_type_ok_def sender_rule_def)
qed

lemma demo_validates:
  "validate demo_ossl demo_lib demo_parse_uri 1700000000000000000 demo_builder As4 =
     (Inr (config_of demo_builder (the (b_local demo_builder)) (Inr \<lparr>bc_identity = None\<rparr>)) :: (unit BuildError, _) result)"
  by (rule validate_complete [OF demo_config_ok])
     (simp add: http_of_def demo_builder_defs default_http_def builtin_new_def)

theorem policy_for_order_independent_witness:
  "policy_for (cc_partners (config_of demo_builder (the (b_local demo_builder)) (Inr \<lparr>bc_identity = None\<rparr> :: unit + unit BuiltinClient)))
     (Some (hd BDEW_PARTY_TYPES)) ''9900000000002'' =
   Some (resolve (b_profile demo_builder) (hd (b_partners demo_builder)))"
proof -
  have "hd (b_partners demo_builder) \<in> set (b_partners demo_builder)"
    "partner_key (hd (b_partners demo_builder)) = (Some (hd BDEW_PARTY_TYPES), ''9900000000002'')"
    by (simp_all add: demo_builder_defs partner_key_def)
  then show ?thesis using policy_for_order_independent [OF demo_validates refl] by blast
qed

definition operator_error :: "'r BuildError \<Rightarrow> bool" where
  "operator_error e =
     (case e of Refused _ \<Rightarrow> True | HttpError err \<Rightarrow> \<exists>x. err = error_internal x \<and> err_code x = InvalidInput)"

lemma operator_error_refuse [simp]: "operator_error (refuse a d sec)"
  by (simp add: operator_error_def refuse_def)

lemma check_party_type_errs [errs_intros]: "errs_only operator_error (check_party_type p setting t)"
  by (cases "party_types p"; cases t) (simp_all add: check_party_type_def errs_only_def)

lemma check_signing_cert_errs: "errs_only operator_error (check_signing_cert lib p partner now c)"
  unfolding check_signing_cert_def Let_def
  by (cases "sender_rule p") (auto intro!: errs_intros)

lemma check_partner_errs [errs_intros]: "errs_only operator_error (check_partner lib parse_uri p partner r now)"
  unfolding check_partner_def check_encryption_cert_def Let_def
  by (intro errs_intros errs_only_True check_signing_cert_errs)
     (auto simp: errs_only_def map_err_def split: sum.splits)

lemma check_decrypters_errs [errs_intros]: "errs_only operator_error (check_decrypters lib p seen skis ds)"
  by (induction ds arbitrary: seen skis) (auto simp: Let_def intro!: errs_intros)

lemma resolve_partners_errs [errs_intros]:
  "errs_only operator_error (resolve_partners lib parse_uri p i now resolved ps)"
  by (induction ps arbitrary: resolved) (auto intro!: errs_intros)

lemma check_crl_signers_errs [errs_intros]: "errs_only operator_error (check_crl_signers lib anchors now before ss)"
  by (induction ss arbitrary: before) (auto intro!: errs_intros)

lemma check_separate_errs [errs_intros]: "errs_only operator_error (check_separate_keys p l lf seen)"
  unfolding check_separate_keys_def by (intro errs_intros) simp_all

lemma check_local_ids_errs [errs_intros]: "errs_only operator_error (check_local_ids p proto l)"
  unfolding check_local_ids_def by (intro errs_intros) simp_all

lemma check_signer_errs [errs_intros]: "errs_only operator_error (check_signer lib p l now)"
  unfolding check_signer_def
  by (auto simp: errs_only_def check_def rbind_def split: list.splits sum.splits if_splits prod.splits)

lemma identity_from_pem_errs: "errs_only (\<lambda>x. err_code x = InvalidInput) (identity_from_pem f c k)"
  unfolding identity_from_pem_def Let_def
  by (intro errs_intros errs_only_True) (auto simp: asx_error_def errs_only_def)

lemma default_http_errs [errs_intros]: "errs_only operator_error (default_http hlib l)"
  unfolding default_http_def builtin_new_def
  by (auto simp: operator_error_def errs_only_def map_err_def rbind_def split: option.splits sum.splits
      dest: errs_onlyD [OF identity_from_pem_errs])

lemma validate_errs: "errs_only operator_error (validate lib hlib parse_uri now b proto)"
  unfolding validate_def Let_def by (intro errs_intros) (auto intro!: errs_intros)

text \<open>
  Every refusal of a configuration is an error the operator repairs: whatever \<open>validate\<close> returns
  instead of a configuration is reported with the kind \<open>Config\<close> and is not retryable, carries no
  evidence and no code of the partner, and a refusal names the setting it is about.
\<close>
theorem build_errors_are_config_errors:
  assumes "validate lib hlib parse_uri now b proto = (Inl e :: ('r BuildError, _) result)"
  shows "kind (build_error render p e) = Config \<and> \<not> is_retryable (build_error render p e) \<and>
    evidence (build_error render p e) = None \<and> ebms_code (build_error render p e) = None \<and>
    (\<forall>r. e = Refused r \<longrightarrow> (\<exists>rest. message (build_error render p e) = br_setting r @ '': '' @ rest))"
proof (cases e)
  case (Refused r)
  then show ?thesis by (simp add: build_error_def error_config_def error_new_def)
next
  case (HttpError err)
  then show ?thesis
    using errs_onlyD [OF validate_errs assms]
    by (auto simp: operator_error_def build_error_def error_internal_def from_internal_retryable)
qed

theorem build_errors_are_config_errors_witness:
  "\<exists>e :: unit BuildError. validate demo_ossl demo_lib demo_parse_uri 0
       (builder_new (preset Bdew12) :: (unit, unit, unit) BuilderState) As4 = Inl e \<and>
     kind (build_error (\<lambda>_. ''none'') (preset Bdew12) e) = Config"
proof -
  have v: "validate demo_ossl demo_lib demo_parse_uri 0 (builder_new (preset Bdew12) :: (unit, unit, unit) BuilderState) As4 =
      (Inl (refuse ''Builder::local'' NoLocalParty []) :: (unit BuildError, _) result)"
    by (simp add: validate_def Let_def builder_new_def preset_def protocol_def requested_max_def)
  show ?thesis using build_errors_are_config_errors [OF v] v by blast
qed

end
