(* ===== verification/As4_Inbound.thy ===== *)
theory As4_Inbound
  imports As4_Receive As4_Signals Interaction Revocation_Check Builder
begin

text \<open>
  The AS4 receive endpoint (src/as4/inbound.rs, src/inbound.rs, src/verified.rs): a request is verified (signature, sender,
  revocation, decryption), claimed in the dedup store, handed to the application and answered, with the claim settled by
  what the handler said. Asynchronous code is a program of \<open>Interaction\<close>: every use of the clock, of randomness, of the
  blocking pool, of the signing key, of the revocation check, of an external decrypter, of the store, of the handler and of
  the audit sink is a request whose answer may be anything. What the endpoint guarantees, whatever the answers are, is
  shown in Inbound_Protocol.
\<close>

section \<open>Data\<close>

datatype Fault = DeliveryFailure | Permanent | NotServiced

record Payload =
  pl_bytes :: bytes
  pl_mime_type :: string
  pl_name :: "string option"

definition payload_new :: "bytes \<Rightarrow> string \<Rightarrow> Payload" where
  "payload_new bs mime_type = \<lparr>pl_bytes = bs, pl_mime_type = mime_type, pl_name = None\<rparr>"

definition payload_named :: "string \<Rightarrow> Payload \<Rightarrow> Payload" where
  "payload_named name p = p\<lparr>pl_name := Some name\<rparr>"

record UserMessage =
  u_message_id :: string
  u_conversation_id :: string
  u_from :: string
  u_service :: string
  u_action :: string
  u_payloads :: "Payload list"
  u_path_switch :: "PathSwitch option"

record 'a Verified =
  v_inner :: 'a
  v_signer :: Certificate
  v_evidence :: AuditRecord

text \<open>An HTTP response: its status, its Content-Type and its body.\<close>

record Response =
  ht_status :: nat
  ht_content_type :: "string option"
  ht_body :: string

definition empty_response :: "nat \<Rightarrow> Response" where
  "empty_response status = \<lparr>ht_status = status, ht_content_type = None, ht_body = []\<rparr>"

definition with_body :: "nat \<Rightarrow> string \<Rightarrow> string \<Rightarrow> Response" where
  "with_body status content_type body = \<lparr>ht_status = status, ht_content_type = Some content_type, ht_body = body\<rparr>"

definition SOAP :: string where
  "SOAP = ''application/soap+xml''"

datatype ReceiveOutcome = RoAccepted | RoDuplicate | RoInFlight | RoRejected | RoStorage

fun receive_outcome_as_str :: "ReceiveOutcome \<Rightarrow> string" where
  "receive_outcome_as_str RoAccepted = ''accepted''"
| "receive_outcome_as_str RoDuplicate = ''duplicate''"
| "receive_outcome_as_str RoInFlight = ''in_flight''"
| "receive_outcome_as_str RoRejected = ''rejected''"
| "receive_outcome_as_str RoStorage = ''storage''"

record Answer =
  an_response :: Response
  an_outcome :: ReceiveOutcome
  an_message_id :: "string option"
  an_error :: "AsxError option"
  an_code :: "string option"

text \<open>
  The endpoint: the client's configuration, the session it verifies under, and the libraries. \<open>ie_rnd\<close>: the randomness the
  blocking task of a pass draws; \<open>ie_pkcs1\<close>: what an in-memory key draws; \<open>ie_issuer\<close>: the attributes of an
  issuer name; \<open>ie_serial\<close> and \<open>ie_dec_str\<close>: serial numbers as big numbers.
\<close>

record ('k, 'h, 'i, 'st) InboundEnv =
  ie_config :: "('k, 'h, AuditDurability, 'i) ClientConfig"
  ie_session :: ReceiveSession
  ie_lib :: "'st ReceiveLib"
  ie_sign :: SignLib
  ie_audit :: AuditLib
  ie_ossl :: "'k Ossl"
  ie_from_der :: "bytes \<Rightarrow> (string, X509) result"
  ie_issuer :: "X509 \<Rightarrow> (Nid \<times> string) list"
  ie_serial :: "X509 \<Rightarrow> int option"
  ie_dec_str :: "string \<Rightarrow> int option"
  ie_nid_debug :: "Nid option \<Rightarrow> string"
  ie_rnd :: "nat \<Rightarrow> randomness"
  ie_pkcs1 :: bytes

type_synonym 'a inbound_prog = "(UserMessage Verified, Fault, RevOutcome, 'a) prog"

section \<open>Sender authorization\<close>

definition unauthorized :: "string \<Rightarrow> AsxError" where
  "unauthorized msg = asx_error SecurityVerificationFailed msg (context_new ''as4_inbound_authorize'')"

definition certificate_from_der :: "('k, 'h, 'i, 'st) InboundEnv \<Rightarrow> bytes \<Rightarrow> ('r Error, Certificate) result" where
  "certificate_from_der env der =
     rbind (map_err (\<lambda>e. error_config (''certificate DER is not parseable: '' @ e)) (ie_from_der env der)) (from_x509 (ie_ossl env))"

text \<open>The check of the signer that the profile's rule adds to the pins.\<close>

definition signer_rule :: "('k, 'h, 'i, 'st) InboundEnv \<Rightarrow> SenderRule \<Rightarrow> string \<Rightarrow> (bytes \<Rightarrow> unit res) option" where
  "signer_rule env rule from_party =
     (let readable = (\<lambda>der. map_err (\<lambda>_. unauthorized ''the signer certificate is unreadable'')
          (certificate_from_der env der :: (unit Error, Certificate) result)) in
      case rule of
        AnchorAndSubject \<Rightarrow> Some (\<lambda>der. rbind (readable der) (\<lambda>cert. check (bdew_subject_carries cert from_party)
          (unauthorized (''the signer'' @ [CHR 0x27] @ ''s subject (OU) does not carry the claimed MP-ID '' @ debug_str from_party @
            '' (BDEW AS4-Profil 1.2 '' @ section_sign @ ''2.3.2, '' @ section_sign @ ''2.3.4.4)''))))
      | AnchorAndCn \<Rightarrow> Some (\<lambda>der. rbind (readable der) (\<lambda>cert. check (subject_cn cert = Some from_party)
          (unauthorized (''the signer'' @ [CHR 0x27] @ ''s CN is not the claimed party '' @ debug_str from_party @
            '' (Peppol AS4 '' @ section_sign @ ''4.5)''))))
      | RegisteredOnly \<Rightarrow> None)"

definition authorize :: "('k, 'h, 'i, 'st) InboundEnv \<Rightarrow> authorizer" where
  "authorize env parsed =
     (let config = ie_config env; from_party = sender_party_id parsed; rule = sender_rule (cc_profile config);
          registered = policy_for (cc_partners config) (um_from_party_type parsed) from_party;
          pins = (case registered of Some p \<Rightarrow> pp_pins p | None \<Rightarrow> []); signer_check = signer_rule env rule from_party in
      rbind (check (\<not> (registered = None \<and> rule = RegisteredOnly))
        (unauthorized (''the sender '' @ debug_str from_party @ '' is not a configured partner''))) (\<lambda>_.
      rbind (check (\<not> (pins = [] \<and> signer_check = None))
        (unauthorized (''no pinned signing certificate for '' @ debug_str from_party))) (\<lambda>_.
        Inr \<lparr>sa_pins = pins, sa_check = signer_check\<rparr>)))"

section \<open>Key selection and the second pass\<close>

definition normalize_attribute :: "string \<Rightarrow> string" where
  "normalize_attribute part =
     (let (k, v) = or_else (split_once (CHR ''='') part) (part, []) in to_ascii_uppercase (trim k) @ ''='' @ trim v)"

definition issuer_serial_matches :: "('k, 'h, 'i, 'st) InboundEnv \<Rightarrow> Certificate \<Rightarrow> string \<Rightarrow> string \<Rightarrow> bool" where
  "issuer_serial_matches env cert issuer serial =
     (case (ie_dec_str env (trim serial), ie_serial env (c_x509 cert)) of
        (Some wanted, Some own) \<Rightarrow>
          if own \<noteq> wanted then False
          else
            let ours = map (\<lambda>(nid, v). to_ascii_uppercase (or_else (os_short_name (ie_ossl env) nid) ''?'') @ ''='' @ trim v)
                  (ie_issuer env (c_x509 cert));
                theirs = map normalize_attribute (split_on (CHR '','') issuer) in
            ours = theirs \<or> rev ours = theirs
      | _ \<Rightarrow> False)"

definition recipient_matches :: "('k, 'h, 'i, 'st) InboundEnv \<Rightarrow> RecipientRef option \<Rightarrow> Certificate \<Rightarrow> bool" where
  "recipient_matches env ref cert =
     (case ref of
        Some (RefSki ski) \<Rightarrow> ski \<in> set (ski_candidates (ie_ossl env) cert)
      | Some (RefCertificate der) \<Rightarrow> c_der cert = der
      | Some (RefIssuerSerial issuer serial) \<Rightarrow> issuer_serial_matches env cert issuer serial
      | None \<Rightarrow> False)"

text \<open>The answers of the external decrypters, and the operations a pass asked for.\<close>

type_synonym answers = "nat \<times> OwnedKeyOp \<rightharpoonup> bytes option"

type_synonym pending = "(nat \<times> OwnedKeyOp) list"

definition deferred_step :: "XmlencLib \<Rightarrow> nat \<Rightarrow> answers \<Rightarrow> pending key_step" where
  "deferred_step lib index answers k_op pending =
     (case public_op lib k_op of
        None \<Rightarrow> (Inl seam_fail, pending)
      | Some owned \<Rightarrow>
          (case answers (index, owned) of
             Some (Some secret) \<Rightarrow> (Inr secret, pending)
           | Some None \<Rightarrow> (Inl seam_fail, pending)
           | None \<Rightarrow> (Inl seam_fail, pending @ [(index, owned)])))"

definition select_key ::
  "('k, 'h, 'i, 'st) InboundEnv \<Rightarrow> answers \<Rightarrow> EncryptedKeySpec \<Rightarrow> (RecipientKey \<times> pending key_step) option" where
  "select_key env answers spec =
     (let decrypters = lp_decrypters (cc_local (ie_config env)); xl = rl_xmlenc (ie_lib env) in
      case filter (\<lambda>i. recipient_matches env (ek_recipient spec) (ld_certificate (decrypters ! i))) [0..<length decrypters] of
        [index] \<Rightarrow>
          map_option (\<lambda>recipient. (recipient,
              case ld_key_pair (decrypters ! index) of
                Some pair \<Rightarrow> key_pair_step xl (ie_ossl env) (ie_pkcs1 env) pair
              | None \<Rightarrow> deferred_step xl index answers))
            (recipient_key (ie_nid_debug env) (ld_certificate (decrypters ! index)))
      | _ \<Rightarrow> None)"

section \<open>Verification\<close>

definition joined_result :: "ReceiveSession \<Rightarrow> joined \<Rightarrow> 'a res \<Rightarrow> 'a res" where
  "joined_result rs j r =
     (case j of
        Joined \<Rightarrow> r
      | Died msg _ \<Rightarrow> Inl (asx_error TransportFailure (''blocking task failed: '' @ msg) (for_session ''as4_inbound_verify'' (rs_session rs))))"

text \<open>The external operations are awaited in order; a decrypter that fails answers nothing.\<close>

fun ask :: "pending \<Rightarrow> answers \<Rightarrow> (answers \<Rightarrow> 'a inbound_prog) \<Rightarrow> 'a inbound_prog" where
  "ask [] answers k = k answers"
| "ask ((index, owned) # pending) answers k =
     Decrypt index (as_public owned) (\<lambda>r. ask pending (answers((index, owned) \<mapsto> ok_opt r)) k)"

text \<open>One pass of the opening: its result and what it still has to ask.\<close>

definition pass_result ::
  "('k, 'h, 'i, 'st) InboundEnv \<Rightarrow> string \<Rightarrow> string \<Rightarrow> AuthenticatedInbound \<Rightarrow> nat \<Rightarrow> answers \<Rightarrow> system_time \<Rightarrow> joined \<Rightarrow>
   VerifiedInbound res \<times> pending" where
  "pass_result env body content_type a pass answers now j =
     (let profile = cc_profile (ie_config env); rs = (ie_session env)\<lparr>rs_now := now\<rparr>;
          (result, pending) = open_inbound (ie_lib env) (ie_rnd env pass) rs (receive_view profile) body content_type a
            (select_key env answers) (encryption_suite profile) [] in
      (joined_result rs j result, case j of Joined \<Rightarrow> pending | Died _ asked \<Rightarrow> if asked then pending else []))"

definition open_passes ::
  "('k, 'h, 'i, 'st) InboundEnv \<Rightarrow> string \<Rightarrow> string \<Rightarrow> AuthenticatedInbound \<Rightarrow> VerifiedInbound res inbound_prog" where
  "open_passes env body content_type a =
     Now (\<lambda>t. Spawn (\<lambda>j.
       let (result, pending) = pass_result env body content_type a 0 Map.empty t j in
       if pending = [] then Done result
       else ask pending Map.empty (\<lambda>answers.
         Now (\<lambda>t. Spawn (\<lambda>j. Done (fst (pass_result env body content_type a 1 answers t j)))))))"

definition verify_inbound ::
  "('k, 'h, 'i, 'st) InboundEnv \<Rightarrow> string \<Rightarrow> string \<Rightarrow> VerifiedInbound res inbound_prog" where
  "verify_inbound env body content_type =
     (let config = ie_config env; rs = ie_session env in
      Now (\<lambda>t. Spawn (\<lambda>j.
        case joined_result rs j (authenticate_inbound (ie_lib env) (rs\<lparr>rs_now := t\<rparr>) (receive_view (cc_profile config)) body content_type
            (authorize env) (lp_id (cc_local config)) (lp_party_type (cc_local config))) of
          Inl e \<Rightarrow> Done (Inl e)
        | Inr a \<Rightarrow>
            Revocation (ai_signer_path a) (\<lambda>outcome.
              if refused outcome then
                Done (Inl (asx_error (if is_revoked outcome then CertificateRevoked else SecurityVerificationFailed) (describe outcome)
                  (for_session_with_message ''as4_inbound_revocation'' (rs_session rs) (um_message_id (ai_parsed a)))))
              else open_passes env body content_type a))))"

section \<open>Signals\<close>

definition internal_algorithm :: "SignatureAlgorithm \<Rightarrow> DsSignatureAlgorithm" where
  "internal_algorithm alg = (case alg of RsaSha256 \<Rightarrow> DsRsaSha256 | EcdsaSha256 \<Rightarrow> DsEcdsaSha256)"

definition fresh_message_id :: "(string, 8 word list) result \<Rightarrow> ('r Error, string) result" where
  "fresh_message_id fill =
     rbind (map_err (\<lambda>e. error_new Config (''no randomness for a message id: '' @ e)) fill) (\<lambda>bs. Inr (hex bs @ ''@asx''))"

definition receipt :: "('k, 'h, 'i, 'st) InboundEnv \<Rightarrow> VerifiedInbound \<Rightarrow> (string, string) result inbound_prog" where
  "receipt env v =
     (let config = ie_config env; profile = cc_profile config; alg = signature_algorithm profile;
          chain = map c_der (hd (lp_signers (cc_local config)));
          key_info = (case token_ref profile of PkiPath \<Rightarrow> X509PKIPathv1 | X509v3 \<Rightarrow> BinarySecurityTokenX509v3) in
      Random 16 (\<lambda>fill.
        case (fresh_message_id fill :: (unit Error, string) result) of
          Inl e \<Rightarrow> Done (Inl (display_error e))
        | Inr receipt_id \<Rightarrow>
            Now (\<lambda>t.
              case draft_receipt (ie_sign env) t receipt_id (um_message_id (vi_parsed v)) (vi_nri v) (internal_algorithm alg) of
                Inl e \<Rightarrow> Done (Inl (display_asx_error e))
              | Inr draft \<Rightarrow>
                  Sign alg (snd (to_sign draft)) (\<lambda>raw.
                    case raw of
                      Inl e \<Rightarrow> Done (Inl (''the signer failed: '' @ e))
                    | Inr raw \<Rightarrow> Done (map_err display_asx_error (finish_signal (ie_sign env) draft raw chain key_info))))))"

definition error_body ::
  "system_time \<Rightarrow> string option \<Rightarrow> string \<Rightarrow> string \<Rightarrow> string \<Rightarrow> string \<Rightarrow> string option \<Rightarrow> string inbound_prog" where
  "error_body now ref_to code short category description detail =
     Random 16 (\<lambda>fill.
       let i = (case (fresh_message_id fill :: (unit Error, string) result) of Inr i \<Rightarrow> i | Inl _ \<Rightarrow> ''error@asx'') in
       Done (case error_signal now i ref_to code short category description detail of Inr body \<Rightarrow> body | Inl _ \<Rightarrow> []))"

text \<open>The code, its short name and its category that a refusal is answered with; none for a message over the limit.\<close>

definition refusal_code :: "AsxError \<Rightarrow> (string \<times> string \<times> string) option" where
  "refusal_code err =
     (if err_code err = PayloadTooLarge then None
      else Some
        (if ec_stage (err_context err) = TO_PARTY_STAGE then (''EBMS:0004'', ''Other'', ''Content'')
         else if str_contains (err_message err) ''signature is required but not present'' then
           (''EBMS:0103'', ''PolicyNoncompliance'', ''Processing'')
         else if str_contains (ec_stage (err_context err)) ''decompress'' then (''EBMS:0303'', ''DecompressionFailure'', ''Content'')
         else case err_code err of
           DecryptionFailed \<Rightarrow> (''EBMS:0102'', ''FailedDecryption'', ''Processing'')
         | SecurityVerificationFailed \<Rightarrow> (''EBMS:0101'', ''FailedAuthentication'', ''Processing'')
         | CertificateExpired \<Rightarrow> (''EBMS:0101'', ''FailedAuthentication'', ''Processing'')
         | CertificateRevoked \<Rightarrow> (''EBMS:0101'', ''FailedAuthentication'', ''Processing'')
         | PolicyViolation \<Rightarrow> (''EBMS:0103'', ''PolicyNoncompliance'', ''Processing'')
         | _ \<Rightarrow> (''EBMS:0004'', ''Other'', ''Content'')))"

definition refusal_text :: "AsxError \<Rightarrow> string \<Rightarrow> string" where
  "refusal_text err code = (if code = ''EBMS:0102'' then ''decryption failed'' else err_message err)"

definition refusal :: "AsxError \<Rightarrow> system_time \<Rightarrow> Response inbound_prog" where
  "refusal err now =
     (case refusal_code err of
        None \<Rightarrow> Done (empty_response 413)
      | Some (code, short, category) \<Rightarrow>
          seq (error_body now (ec_message_id (err_context err)) code short category (refusal_text err code) None)
            (\<lambda>body. Done (with_body 400 SOAP body)))"

section \<open>Delivery\<close>

definition backend_failure :: "string \<Rightarrow> string \<Rightarrow> Answer inbound_prog" where
  "backend_failure mid detail =
     Now (\<lambda>t. seq (error_body t (Some mid) ''EBMS:0004'' ''Other'' ''Content'' ''the message could not be processed; retry later'' None)
       (\<lambda>body. Done \<lparr>an_response = with_body 500 SOAP body, an_outcome = RoStorage, an_message_id = Some mid,
          an_error = Some (asx_error StorageBackendFailure detail (with_message_id mid (context_new ''as4_inbound''))),
          an_code = Some ''EBMS:0004''\<rparr>))"

definition abandon :: "string \<Rightarrow> ClaimToken \<Rightarrow> 'a inbound_prog \<Rightarrow> 'a inbound_prog" where
  "abandon key token k = AbandonKey key token (\<lambda>_. k)"

definition finish_now :: "AuditRecord \<Rightarrow> AuditOutcome \<Rightarrow> string option \<Rightarrow> AuditRecord res inbound_prog" where
  "finish_now r outcome error_kind =
     (case check_record r outcome error_kind of
        Inl e \<Rightarrow> Done (Inl e)
      | Inr _ \<Rightarrow> Now (\<lambda>t. Random 10 (\<lambda>fill. Done (finish_record r outcome error_kind t fill))))"

definition write_evidence :: "AuditDurability option \<Rightarrow> AuditRecord \<Rightarrow> string \<Rightarrow> unit res inbound_prog" where
  "write_evidence sink r stage =
     (case sink of
        None \<Rightarrow> Done (record_evidence None (Inr ()) r stage)
      | Some _ \<Rightarrow> Sink r (\<lambda>answer. Done (record_evidence sink answer r stage)))"

definition run_handler :: "UserMessage Verified \<Rightarrow> (Fault, unit) result inbound_prog" where
  "run_handler msg = Handler msg (\<lambda>r. Done (case r of Returned r \<Rightarrow> r | Panicked \<Rightarrow> Inl DeliveryFailure))"

text \<open>The evidence of a message: the builder of its record.\<close>

definition inbound_builder :: "('k, 'h, 'i, 'st) InboundEnv \<Rightarrow> VerifiedInbound \<Rightarrow> AuditRecord" where
  "inbound_builder env v =
     (let config = ie_config env; parsed = vi_parsed v; lib = ie_audit env;
          r = record_builder AuditAs4 Inbound (um_message_id parsed) (lp_id (cc_local config)) (sender_party_id parsed);
          r = r\<lparr>ar_ref_to_message_id := um_ref_to_message_id parsed, ar_conversation_id := um_conversation_id parsed,
            ar_profile := Some (profile_name (cc_profile config))\<rparr>;
          r = with_service_action (um_service parsed) (Some (um_action parsed)) r;
          r = r\<lparr>ar_message_timestamp := um_timestamp parsed\<rparr>;
          r = with_signer_der lib (Some (vi_signer_der v)) r in
      with_references lib (vi_references v) r)"

definition user_message :: "('k, 'h, 'i, 'st) InboundEnv \<Rightarrow> VerifiedInbound \<Rightarrow> UserMessage" where
  "user_message env v =
     (let parsed = vi_parsed v in
      \<lparr>u_message_id = um_message_id parsed, u_conversation_id = or_else (um_conversation_id parsed) [],
       u_from = sender_party_id parsed, u_service = or_else (um_service parsed) [], u_action = um_action parsed,
       u_payloads = map (\<lambda>(_, bs, mime_type). payload_new bs mime_type) (vi_payloads v),
       u_path_switch = (if path_switch (cc_profile (ie_config env))
         then classify_path_switch (or_else (um_service parsed) []) (um_action parsed) else None)\<rparr>)"

text \<open>What a refusal of the handler is answered with.\<close>

fun fault_signal :: "Fault \<Rightarrow> string \<times> string \<times> string \<times> string \<times> string option" where
  "fault_signal DeliveryFailure =
     (''EBMS:0202'', ''DeliveryFailure'', ''Communication'', ''the receiving application refused the message'', None)"
| "fault_signal Permanent =
     (''EBMS:0004'', ''Other'', ''Content'', ''the receiving application refused the message permanently'', None)"
| "fault_signal NotServiced =
     (''EBMS:0004'', ''Other'', ''Content'', ''the receiver is not serviced by this access point'', Some ''PEPPOL:NOT_SERVICED'')"

definition answer_fault :: "string \<Rightarrow> Fault \<Rightarrow> Answer inbound_prog" where
  "answer_fault mid fault =
     (let (code, short, category, description, detail) = fault_signal fault in
      Now (\<lambda>t. seq (error_body t (Some mid) code short category description detail)
        (\<lambda>body. Done \<lparr>an_response = with_body 200 SOAP body, an_outcome = RoRejected, an_message_id = Some mid, an_error = None,
           an_code = Some code\<rparr>)))"

definition accepted_answer :: "ReceiveOutcome \<Rightarrow> string \<Rightarrow> string \<Rightarrow> Answer" where
  "accepted_answer outcome mid receipt_text =
     \<lparr>an_response = with_body 200 SOAP receipt_text, an_outcome = outcome, an_message_id = Some mid, an_error = None, an_code = None\<rparr>"

text \<open>After the handler accepted: the receipt, its evidence, the acceptance, in this order.\<close>

definition record_receipt :: "('k, 'h, 'i, 'st) InboundEnv \<Rightarrow> VerifiedInbound \<Rightarrow> string \<Rightarrow> unit res inbound_prog" where
  "record_receipt env v receipt_text =
     seq (finish_now (with_signal (ie_audit env)
         \<lparr>sn_bytes = bytes_of receipt_text, sn_message_id = None, sn_ref_to_message_id = Some (um_message_id (vi_parsed v)),
          sn_timestamp = None, sn_signed = True, sn_nrr = []\<rparr> (inbound_builder env v)) AoAccepted None) (\<lambda>finished.
       case finished of
         Inr r \<Rightarrow> write_evidence (cc_audit (ie_config env)) r ''as4_inbound_audit''
       | Inl e \<Rightarrow> Done (Inl e))"

definition settle_written :: "string \<Rightarrow> ClaimToken \<Rightarrow> string \<Rightarrow> string \<Rightarrow> unit res \<Rightarrow> Answer inbound_prog" where
  "settle_written key token mid receipt_text written =
     (case written of
        Inl e \<Rightarrow> abandon key token (backend_failure mid (display_asx_error e))
      | Inr _ \<Rightarrow>
          AcceptKey key token (\<lambda>r.
            case r of
              Inl e \<Rightarrow> backend_failure mid (''dedup accept failed: '' @ e)
            | Inr _ \<Rightarrow> Done (accepted_answer RoAccepted mid receipt_text)))"

definition settle_accepted :: "('k, 'h, 'i, 'st) InboundEnv \<Rightarrow> VerifiedInbound \<Rightarrow> string \<Rightarrow> ClaimToken \<Rightarrow> Answer inbound_prog" where
  "settle_accepted env v key token =
     (let mid = um_message_id (vi_parsed v) in
      seq (receipt env v) (\<lambda>r.
        case r of
          Inl e \<Rightarrow> abandon key token (backend_failure mid e)
        | Inr receipt_text \<Rightarrow> seq (record_receipt env v receipt_text) (settle_written key token mid receipt_text)))"

definition deliver :: "('k, 'h, 'i, 'st) InboundEnv \<Rightarrow> VerifiedInbound \<Rightarrow> string \<Rightarrow> ClaimToken \<Rightarrow> Answer inbound_prog" where
  "deliver env v key token =
     (let mid = um_message_id (vi_parsed v) in
      seq (finish_now (inbound_builder env v) AoAccepted None) (\<lambda>built.
        case (built, certificate_from_der env (vi_signer_der v) :: (unit Error, Certificate) result) of
          (Inr r, Inr signer) \<Rightarrow>
            seq (run_handler \<lparr>v_inner = user_message env v, v_signer = signer, v_evidence = r\<rparr>) (\<lambda>answer.
              case answer of
                Inr _ \<Rightarrow> settle_accepted env v key token
              | Inl fault \<Rightarrow> abandon key token (answer_fault mid fault))
        | _ \<Rightarrow> abandon key token (backend_failure mid ''the inbound evidence could not be built'')))"

definition receipt_answer :: "('k, 'h, 'i, 'st) InboundEnv \<Rightarrow> VerifiedInbound \<Rightarrow> ReceiveOutcome \<Rightarrow> Answer inbound_prog" where
  "receipt_answer env v outcome =
     (let mid = um_message_id (vi_parsed v) in
      seq (receipt env v) (\<lambda>r.
        case r of
          Inl e \<Rightarrow> backend_failure mid e
        | Inr receipt_text \<Rightarrow> Done (accepted_answer outcome mid receipt_text)))"

definition inbound_key :: "('k, 'h, 'i, 'st) InboundEnv \<Rightarrow> ParsedAs4UserMessage \<Rightarrow> string" where
  "inbound_key env parsed =
     dedup_key (os_sha256 (ie_ossl env)) As4Key (or_else (um_from_party_type parsed) []) (sender_party_id parsed) (um_message_id parsed)"

text \<open>A verified message: the test service is receipted without a claim, any other message is claimed.\<close>

definition admit :: "('k, 'h, 'i, 'st) InboundEnv \<Rightarrow> VerifiedInbound \<Rightarrow> Answer inbound_prog" where
  "admit env v =
     (let parsed = vi_parsed v; mid = um_message_id parsed; key = inbound_key env parsed in
      if is_test_service parsed then receipt_answer env v RoAccepted
      else
        ClaimKey key (\<lambda>r.
          case r of
            Inr (Claimed token) \<Rightarrow> deliver env v key token
          | Inr Duplicate \<Rightarrow> receipt_answer env v RoDuplicate
          | Inr InFlight \<Rightarrow> Done \<lparr>an_response = empty_response 503, an_outcome = RoInFlight, an_message_id = Some mid,
              an_error = None, an_code = None\<rparr>
          | Inl e \<Rightarrow> backend_failure mid (''dedup claim failed: '' @ e)))"

definition refuse_request :: "AsxError \<Rightarrow> Answer inbound_prog" where
  "refuse_request err =
     Now (\<lambda>t. seq (refusal err t) (\<lambda>response.
       Done \<lparr>an_response = response, an_outcome = RoRejected, an_message_id = ec_message_id (err_context err),
         an_error = Some err, an_code = None\<rparr>))"

definition handle :: "('k, 'h, 'i, 'st) InboundEnv \<Rightarrow> string option \<Rightarrow> string \<Rightarrow> Answer inbound_prog" where
  "handle env content_type body =
     seq (verify_inbound env body (or_else content_type [])) (\<lambda>verified.
       case verified of Inl err \<Rightarrow> refuse_request err | Inr v \<Rightarrow> admit env v)"

section \<open>The service\<close>

text \<open>\<open>HeaderValue::to_str\<close>: visible ASCII and tabs.\<close>

definition header_to_str :: "string \<Rightarrow> string option" where
  "header_to_str v = (if list_all (\<lambda>c. 32 \<le> byte c \<and> byte c < 127 \<or> byte c = 9) v then Some v else None)"

definition parse_u64 :: "string \<Rightarrow> nat option" where
  "parse_u64 s =
     Option.bind (parse_digits (case s of c # cs \<Rightarrow> if c = CHR ''+'' then cs else s | [] \<Rightarrow> s))
       (\<lambda>n. if n < 2 ^ 64 then Some n else None)"

record Request =
  rq_content_length :: "string option"
  rq_content_type :: "string option"

text \<open>\<open>collect limit\<close>: the body read through a limit of that many octets, or whether it was over the limit.\<close>

definition call_service ::
  "nat \<Rightarrow> (string option \<Rightarrow> string \<Rightarrow> Answer inbound_prog) \<Rightarrow> Request \<Rightarrow> (nat \<Rightarrow> (bool, string) result) \<Rightarrow> Response inbound_prog" where
  "call_service limit core request collect =
     (let declared = Option.bind (Option.bind (rq_content_length request) header_to_str) parse_u64 in
      if (case declared of Some n \<Rightarrow> n > limit | None \<Rightarrow> False) then Done (empty_response 413)
      else case collect limit of
        Inl over \<Rightarrow> Done (empty_response (if over then 413 else 400))
      | Inr body \<Rightarrow> seq (core (Option.bind (rq_content_type request) header_to_str) body) (\<lambda>a. Done (an_response a)))"

definition inbound_service ::
  "('k, 'h, 'i, 'st) InboundEnv \<Rightarrow> Request \<Rightarrow> (nat \<Rightarrow> (bool, string) result) \<Rightarrow> Response inbound_prog" where
  "inbound_service env = call_service (max_bytes (cc_profile (ie_config env))) (handle env)"

end
