(* ===== verification/Inbound_Protocol.thy ===== *)
theory Inbound_Protocol
  imports As4_Inbound
begin

text \<open>
  The delivery protocol of the receive endpoint, as an automaton that watches an execution: nothing but quiet steps before the
  claim; a claim that is granted is followed by at most one call of the handler, with a message that was verified; evidence is
  written only after the handler accepted; the claim is settled exactly once, under its own key and token, accepted only when
  the handler accepted and no demanded evidence was lost, abandoned otherwise; the answer agrees with how the exchange ended.
  Shown: every execution of the endpoint refines the protocol, every execution ends within a fixed number of interactions and
  none is ever stuck.
\<close>

section \<open>The protocol\<close>

datatype phase =
    Idle
  | Known
  | Busy
  | Unclaimed
  | Holding string ClaimToken
  | Accepting string ClaimToken
  | Recorded string ClaimToken
  | Lost string ClaimToken
  | Refusing string ClaimToken
  | Settled
  | Unsettled
  | Released

text \<open>
  \<open>ok k m\<close>: under the claim of key \<open>k\<close> the message \<open>m\<close> may be handed over; \<open>sink\<close>: the audit sink's durability. A lost record
  counts only with a durable sink.
\<close>

fun delivery :: "(string \<Rightarrow> 'm \<Rightarrow> bool) \<Rightarrow> AuditDurability option \<Rightarrow> ('m, 'f) event \<Rightarrow> phase \<Rightarrow> phase option" where
  "delivery ok sink Quiet s = Some s"
| "delivery ok sink (EClaim k r) s =
     (if s \<noteq> Idle then None
      else Some (case r of Inr (Claimed t) \<Rightarrow> Holding k t | Inr Duplicate \<Rightarrow> Known | Inr InFlight \<Rightarrow> Busy | Inl _ \<Rightarrow> Unclaimed))"
| "delivery ok sink (EHandler m r) s =
     (case s of
        Holding k t \<Rightarrow> if ok k m then Some (case r of Returned (Inr _) \<Rightarrow> Accepting k t | _ \<Rightarrow> Refusing k t) else None
      | _ \<Rightarrow> None)"
| "delivery ok sink (ESink rec r) s =
     (case s of
        Accepting k t \<Rightarrow> if sink = None then None else Some (if sink = Some Durable \<and> \<not> is_ok r then Lost k t else Recorded k t)
      | _ \<Rightarrow> None)"
| "delivery ok sink (EAccept k t r) s =
     (if s = Recorded k t \<or> (sink = None \<and> s = Accepting k t) then Some (if is_ok r then Settled else Unsettled) else None)"
| "delivery ok sink (EAbandon k t r) s =
     (if s \<in> {Holding k t, Accepting k t, Lost k t, Refusing k t} then Some Released else None)"

text \<open>How an exchange may end, and the answer that goes with it. A claim is never left open.\<close>

fun concluded :: "ReceiveOutcome \<Rightarrow> nat \<Rightarrow> phase \<Rightarrow> bool" where
  "concluded outcome status Idle =
     (outcome = RoRejected \<and> (status = 400 \<or> status = 413) \<or> outcome = RoAccepted \<and> status = 200 \<or> outcome = RoStorage \<and> status = 500)"
| "concluded outcome status Known = (outcome = RoDuplicate \<and> status = 200 \<or> outcome = RoStorage \<and> status = 500)"
| "concluded outcome status Busy = (outcome = RoInFlight \<and> status = 503)"
| "concluded outcome status Unclaimed = (outcome = RoStorage \<and> status = 500)"
| "concluded outcome status Settled = (outcome = RoAccepted \<and> status = 200)"
| "concluded outcome status Unsettled = (outcome = RoStorage \<and> status = 500)"
| "concluded outcome status Released = (outcome = RoRejected \<and> status = 200 \<or> outcome = RoStorage \<and> status = 500)"
| "concluded outcome status _ = False"

text \<open>A message the endpoint verified: it was authenticated, its signer's path was not refused, and it was opened.\<close>

definition verified_as :: "('k, 'h, 'i, 'st) InboundEnv \<Rightarrow> string \<Rightarrow> string \<Rightarrow> VerifiedInbound \<Rightarrow> bool" where
  "verified_as env body content_type v \<longleftrightarrow>
     (\<exists>t t' a outcome pass answers pending. let config = ie_config env; rs = ie_session env; profile = cc_profile config in
        authenticate_inbound (ie_lib env) (rs\<lparr>rs_now := t\<rparr>) (receive_view profile) body content_type (authorize env)
          (lp_id (cc_local config)) (lp_party_type (cc_local config)) = Inr a \<and>
        \<not> refused outcome \<and>
        open_inbound (ie_lib env) (ie_rnd env pass) (rs\<lparr>rs_now := t'\<rparr>) (receive_view profile) body content_type a
          (select_key env answers) (encryption_suite profile) [] = (Inr v, pending))"

definition deliverable :: "('k, 'h, 'i, 'st) InboundEnv \<Rightarrow> string \<Rightarrow> string \<Rightarrow> string \<Rightarrow> UserMessage Verified \<Rightarrow> bool" where
  "deliverable env body content_type key m \<longleftrightarrow>
     (\<exists>v. verified_as env body content_type v \<and> \<not> is_test_service (vi_parsed v) \<and> key = inbound_key env (vi_parsed v) \<and>
        v_inner m = user_message env v \<and>
        certificate_from_der env (vi_signer_der v) = (Inr (v_signer m) :: (unit Error, Certificate) result))"

text \<open>
  The answer agrees with the end of the exchange; without a claim only a verified test message is not refused.
\<close>

definition concludes :: "('k, 'h, 'i, 'st) InboundEnv \<Rightarrow> string \<Rightarrow> string \<Rightarrow> Answer \<Rightarrow> phase \<Rightarrow> bool" where
  "concludes env body content_type a s \<longleftrightarrow>
     concluded (an_outcome a) (ht_status (an_response a)) s \<and>
     (s = Idle \<and> an_outcome a \<noteq> RoRejected \<longrightarrow>
        (\<exists>v. verified_as env body content_type v \<and> is_test_service (vi_parsed v) \<and> an_message_id a = Some (um_message_id (vi_parsed v))))"

section \<open>Refinement\<close>

lemma allowed_quiet [simp]: "allowed (delivery ok sink) Quiet s P = P s"
  by (simp add: allowed_def)

lemma error_body_demands [simp]:
  "demands (delivery ok sink) (error_body now ref_to code short category description detail) Q s = (\<forall>body \<in> range (\<lambda>fill.
     case error_signal now (case (fresh_message_id fill :: (unit Error, string) result) of Inr i \<Rightarrow> i | Inl _ \<Rightarrow> ''error@asx'') ref_to code short
       category description detail of Inr body \<Rightarrow> body | Inl _ \<Rightarrow> []). Q body s)"
  by (simp add: error_body_def Let_def)

lemma backend_failure_concludes:
  "concluded RoStorage 500 s \<Longrightarrow> (\<And>a. an_outcome a = RoStorage \<Longrightarrow> ht_status (an_response a) = 500 \<Longrightarrow> an_message_id a = Some mid \<Longrightarrow> Q a s) \<Longrightarrow>
   demands (delivery ok sink) (backend_failure mid detail) Q s"
  by (simp add: backend_failure_def demands_seq with_body_def)

lemma answer_fault_concludes:
  "demands (delivery ok sink) (answer_fault mid fault) (concludes env body content_type) Released"
  by (cases fault) (simp_all add: answer_fault_def demands_seq with_body_def concludes_def)

lemma failure_released:
  "s \<in> {Known, Unclaimed, Unsettled, Released} \<Longrightarrow>
   demands (delivery ok sink) (backend_failure mid detail) (concludes env body content_type) s"
  by (auto intro!: backend_failure_concludes simp: concludes_def)

lemma receipt_quiet: "(\<And>r. Q r s) \<Longrightarrow> demands (delivery ok sink) (receipt env v) Q s"
  by (auto simp: receipt_def Let_def split: sum.splits)

lemma finish_now_quiet: "(\<And>r. Q r s) \<Longrightarrow> demands (delivery ok sink) (finish_now r outcome error_kind) Q s"
  by (auto simp: finish_now_def split: sum.splits)

lemma receipt_answer_concludes:
  assumes "s = Known \<and> outcome = RoDuplicate \<or> s = Idle \<and> outcome = RoAccepted \<and> verified_as env body content_type v \<and> is_test_service (vi_parsed v)"
  shows "demands (delivery ok sink) (receipt_answer env v outcome) (concludes env body content_type) s"
  unfolding receipt_answer_def Let_def demands_seq
  by (rule receipt_quiet)
    (use assms in \<open>auto split: sum.splits intro!: backend_failure_concludes simp: accepted_answer_def with_body_def concludes_def\<close>)

lemma abandon_demands:
  "s \<in> {Holding key token, Accepting key token, Lost key token, Refusing key token} \<Longrightarrow> demands (delivery ok sink) k Q Released \<Longrightarrow>
   demands (delivery ok sink) (abandon key token k) Q s"
  by (auto simp: abandon_def allowed_def)

lemma write_evidence_demands:
  assumes "\<And>e. Q (Inl e) (Lost key token)" "Q (Inr ()) (if sink = None then Accepting key token else Recorded key token)"
  shows "demands (delivery ok sink) (write_evidence sink r stage) Q (Accepting key token)"
  using assms by (cases sink) (auto simp: write_evidence_def record_evidence_def allowed_def is_ok_def
      split: sum.splits AuditDurability.splits)

lemma record_receipt_demands:
  assumes "\<And>e. Q (Inl e) (Lost key token)" "\<And>e. Q (Inl e) (Accepting key token)"
    "Q (Inr ()) (if cc_audit (ie_config env) = None then Accepting key token else Recorded key token)"
  shows "demands (delivery ok (cc_audit (ie_config env))) (record_receipt env v receipt_text) Q (Accepting key token)"
  unfolding record_receipt_def demands_seq
  by (rule finish_now_quiet) (use assms in \<open>auto intro!: write_evidence_demands split: sum.splits\<close>)

lemma settle_written_concludes:
  "demands (delivery ok sink) (settle_written key token mid receipt_text (Inl e)) (concludes env body content_type) (Lost key token)"
  "demands (delivery ok sink) (settle_written key token mid receipt_text (Inl e)) (concludes env body content_type) (Accepting key token)"
  "demands (delivery ok sink) (settle_written key token mid receipt_text (Inr ())) (concludes env body content_type)
     (if sink = None then Accepting key token else Recorded key token)"
  by (auto simp: settle_written_def allowed_def accepted_answer_def with_body_def is_ok_def concludes_def
      intro!: abandon_demands failure_released split: sum.splits)

lemma settle_accepted_concludes:
  "demands (delivery ok (cc_audit (ie_config env))) (settle_accepted env v key token) (concludes env body content_type) (Accepting key token)"
proof -
  have "demands (delivery ok (cc_audit (ie_config env))) (case r of
      Inl e \<Rightarrow> abandon key token (backend_failure mid e)
    | Inr receipt_text \<Rightarrow> seq (record_receipt env v receipt_text) (settle_written key token mid receipt_text))
      (concludes env body content_type) (Accepting key token)" for r mid
    by (cases r) (auto simp: demands_seq intro!: abandon_demands failure_released record_receipt_demands settle_written_concludes)
  then show ?thesis unfolding settle_accepted_def Let_def demands_seq by (rule receipt_quiet)
qed

lemma deliver_concludes:
  assumes "verified_as env body content_type v" "\<not> is_test_service (vi_parsed v)" "key = inbound_key env (vi_parsed v)"
  shows "demands (delivery (deliverable env body content_type) (cc_audit (ie_config env))) (deliver env v key token)
    (concludes env body content_type) (Holding key token)"
proof -
  let ?d = "delivery (deliverable env body content_type) (cc_audit (ie_config env))"
  let ?Q = "concludes env body content_type"
  have hand_over: "demands ?d (seq (run_handler \<lparr>v_inner = user_message env v, v_signer = signer, v_evidence = r\<rparr>) (\<lambda>answer. case answer of
        Inr _ \<Rightarrow> settle_accepted env v key token | Inl fault \<Rightarrow> abandon key token (answer_fault mid fault))) ?Q (Holding key token)"
    if "certificate_from_der env (vi_signer_der v) = (Inr signer :: (unit Error, Certificate) result)" for mid signer r
  proof -
    have "deliverable env body content_type key \<lparr>v_inner = user_message env v, v_signer = signer, v_evidence = r\<rparr>"
      using assms that by (auto simp: deliverable_def)
    then show ?thesis
      by (auto simp: run_handler_def allowed_def settle_accepted_concludes intro!: abandon_demands answer_fault_concludes
          split: handled.splits sum.splits)
  qed
  show ?thesis
    unfolding deliver_def Let_def demands_seq
    by (rule finish_now_quiet)
      (auto intro!: abandon_demands failure_released intro: hand_over split: sum.splits prod.splits)
qed

lemma ask_quiet: "(\<And>answers. demands (delivery ok sink) (k answers) Q s) \<Longrightarrow> demands (delivery ok sink) (ask pending answers k) Q s"
  by (induction pending answers k rule: ask.induct) auto

lemma pass_result_Inr:
  "pass_result env body content_type a pass answers now j = (Inr v, pending) \<Longrightarrow>
   \<exists>pending. open_inbound (ie_lib env) (ie_rnd env pass) ((ie_session env)\<lparr>rs_now := now\<rparr>) (receive_view (cc_profile (ie_config env))) body
     content_type a (select_key env answers) (encryption_suite (cc_profile (ie_config env))) [] = (Inr v, pending)"
  by (auto simp: pass_result_def joined_result_def Let_def split: prod.splits joined.splits)

lemma verify_quiet:
  assumes "\<And>e. Q (Inl e) s" "\<And>v. verified_as env body content_type v \<Longrightarrow> Q (Inr v) s"
  shows "demands (delivery ok sink) (verify_inbound env body content_type) Q s"
proof -
  have opened: "demands (delivery ok sink) (open_passes env body content_type a) Q s"
    if "authenticate_inbound (ie_lib env) ((ie_session env)\<lparr>rs_now := t\<rparr>) (receive_view (cc_profile (ie_config env))) body content_type
      (authorize env) (lp_id (cc_local (ie_config env))) (lp_party_type (cc_local (ie_config env))) = Inr a" "\<not> refused outcome" for t a outcome
  proof -
    have result: "Q (fst (pass_result env body content_type a pass answers now j)) s" for pass answers now j
    proof (cases "pass_result env body content_type a pass answers now j")
      case (Pair r pending)
      then show ?thesis
      proof (cases r)
        case (Inr v)
        with Pair pass_result_Inr obtain pending where "open_inbound (ie_lib env) (ie_rnd env pass) ((ie_session env)\<lparr>rs_now := now\<rparr>)
            (receive_view (cc_profile (ie_config env))) body content_type a (select_key env answers)
            (encryption_suite (cc_profile (ie_config env))) [] = (Inr v, pending)" by blast
        with that have "verified_as env body content_type v" unfolding verified_as_def Let_def by blast
        with Pair Inr assms(2) show ?thesis by simp
      qed (simp add: assms(1))
    qed
    show ?thesis
      unfolding open_passes_def using result by (auto simp: Let_def split: prod.splits intro!: ask_quiet)
        (metis fst_conv)+
  qed
  show ?thesis
    unfolding verify_inbound_def Let_def
    by (auto simp: joined_result_def assms(1) intro: opened split: joined.splits sum.splits)
qed

lemma refuse_request_concludes:
  "demands (delivery ok sink) (refuse_request err) (concludes env body content_type) Idle"
  by (auto simp: refuse_request_def refusal_def demands_seq concludes_def empty_response_def with_body_def split: option.splits)

lemma admit_concludes:
  assumes "verified_as env body content_type v"
  shows "demands (delivery (deliverable env body content_type) (cc_audit (ie_config env))) (admit env v) (concludes env body content_type) Idle"
proof (cases "is_test_service (vi_parsed v)")
  case True
  with assms show ?thesis by (auto simp: admit_def Let_def intro!: receipt_answer_concludes)
next
  case False
  with assms show ?thesis
    by (auto simp: admit_def Let_def allowed_def concludes_def empty_response_def
        intro!: deliver_concludes receipt_answer_concludes failure_released split: sum.splits Claim.splits)
qed

lemma handle_concludes:
  "demands (delivery (deliverable env body (or_else content_type [])) (cc_audit (ie_config env))) (handle env content_type body)
    (concludes env body (or_else content_type [])) Idle"
  unfolding handle_def demands_seq by (rule verify_quiet) (simp_all add: refuse_request_concludes admit_concludes)


section \<open>Termination\<close>

text \<open>A pass asks a deferred key at most once.\<close>

lemma deferred_step_asks: "length (snd (deferred_step lib index answers k_op pending)) \<le> Suc (length pending)"
  by (auto simp: deferred_step_def split: option.splits)

lemma select_key_asks:
  assumes "select_key env answers spec = Some (recipient, decrypter)"
  shows "length (snd (decrypter k_op pending)) \<le> Suc (length pending)"
  using assms deferred_step_asks by (auto simp: select_key_def key_pair_step_def Let_def split: list.splits option.splits)

lemma unlock_cek_asks:
  assumes "\<And>k_op pending. length (snd (decrypter k_op pending)) \<le> Suc (length (pending :: pending))"
  shows "length (snd (unlock_cek lib rnd bound cipher decrypter pending)) \<le> Suc (length pending)"
  using assms by (cases bound) (auto simp: unlock_cek_def Let_def case_prod_beta)

lemma decrypt_attachments_asks:
  "length (snd (decrypt_attachments lib rnd envelope bodies (select_key env answers) pending)) \<le> Suc (length pending)"
proof (cases "select_key env answers (re_key envelope)")
  case (Some rd)
  obtain recipient decrypter where rd: "rd = (recipient, decrypter)" by fastforce
  have "length (snd (unlock_cek lib rnd bound cipher decrypter pending)) \<le> Suc (length pending)" for bound cipher
    using select_key_asks Some rd by (blast intro: unlock_cek_asks)
  then show ?thesis
    using Some rd by (auto simp: decrypt_attachments_def Let_def case_prod_beta split: list.splits sum.splits)
qed (auto simp: decrypt_attachments_def Let_def split: list.splits)

lemma pass_asks_once: "length (snd (pass_result env body content_type a pass answers now j)) \<le> 1"
  using decrypt_attachments_asks [of _ _ _ _ env answers "[]"]
  by (auto simp: pass_result_def open_inbound_def Let_def case_prod_beta split: joined.splits sum.splits Opening.splits)

text \<open>What each part of the endpoint takes of the interactions that are left.\<close>

lemma ask_takes:
  "k + length pending \<le> n \<Longrightarrow> (\<And>answers m. k \<le> m \<Longrightarrow> demands countdown (f answers) Q m) \<Longrightarrow> demands countdown (ask pending answers f) Q n"
  by (induction pending answers f arbitrary: n rule: ask.induct) auto

lemma open_passes_takes:
  assumes "k + 5 \<le> n" "\<And>r m. k \<le> m \<Longrightarrow> Q r m"
  shows "demands countdown (open_passes env body content_type a) Q n"
proof -
  have "demands countdown (let (result, pending) = pass_result env body content_type a 0 Map.empty t j in
       if pending = [] then Done result
       else ask pending Map.empty (\<lambda>answers. Now (\<lambda>t. Spawn (\<lambda>j. Done (fst (pass_result env body content_type a 1 answers t j)))))) Q m"
    if "k + 3 \<le> m" for t j m
    using that assms(2) pass_asks_once [of env body content_type a 0 Map.empty t j]
    by (auto simp: Let_def split: prod.splits intro!: ask_takes [where k = "k + 2"])
  with assms(1) show ?thesis by (auto simp: open_passes_def)
qed

lemma verify_takes: "k + 8 \<le> n \<Longrightarrow> (\<And>r m. k \<le> m \<Longrightarrow> Q r m) \<Longrightarrow> demands countdown (verify_inbound env body content_type) Q n"
  by (auto simp: verify_inbound_def Let_def intro!: open_passes_takes [where k = k] split: sum.splits)

lemma receipt_takes: "k + 3 \<le> n \<Longrightarrow> (\<And>r m. k \<le> m \<Longrightarrow> Q r m) \<Longrightarrow> demands countdown (receipt env v) Q n"
  by (auto simp: receipt_def Let_def split: sum.splits)

lemma error_body_takes:
  "k + 1 \<le> n \<Longrightarrow> (\<And>r m. k \<le> m \<Longrightarrow> Q r m) \<Longrightarrow> demands countdown (error_body now ref_to code short category description detail) Q n"
  by (auto simp: error_body_def Let_def)

lemma finish_now_takes: "k + 2 \<le> n \<Longrightarrow> (\<And>r m. k \<le> m \<Longrightarrow> Q r m) \<Longrightarrow> demands countdown (finish_now r outcome error_kind) Q n"
  by (auto simp: finish_now_def split: sum.splits)

lemma failure_takes: "2 \<le> n \<Longrightarrow> demands countdown (backend_failure mid detail) (\<lambda>_ _. True) n"
  by (auto simp: backend_failure_def demands_seq intro!: error_body_takes [where k = 0])

lemma fault_takes: "2 \<le> n \<Longrightarrow> demands countdown (answer_fault mid fault) (\<lambda>_ _. True) n"
  by (auto simp: answer_fault_def demands_seq split: prod.splits intro!: error_body_takes [where k = 0])

lemma refuse_takes: "2 \<le> n \<Longrightarrow> demands countdown (refuse_request err) (\<lambda>_ _. True) n"
  by (auto simp: refuse_request_def refusal_def demands_seq split: option.splits intro!: error_body_takes [where k = 0])

lemma receipt_answer_takes: "5 \<le> n \<Longrightarrow> demands countdown (receipt_answer env v outcome) (\<lambda>_ _. True) n"
  by (auto simp: receipt_answer_def demands_seq Let_def intro!: receipt_takes [where k = 2] failure_takes split: sum.splits)

lemma record_receipt_takes:
  "k + 3 \<le> n \<Longrightarrow> (\<And>r m. k \<le> m \<Longrightarrow> Q r m) \<Longrightarrow> demands countdown (record_receipt env v receipt_text) Q n"
  by (auto simp: record_receipt_def demands_seq write_evidence_def intro!: finish_now_takes [where k = "k + 1"] split: sum.splits option.splits)

lemma settle_takes: "9 \<le> n \<Longrightarrow> demands countdown (settle_accepted env v key token) (\<lambda>_ _. True) n"
  by (auto simp: settle_accepted_def demands_seq Let_def abandon_def settle_written_def
      intro!: receipt_takes [where k = 6] record_receipt_takes [where k = 3] failure_takes split: sum.splits) arith+

lemma deliver_takes: "12 \<le> n \<Longrightarrow> demands countdown (deliver env v key token) (\<lambda>_ _. True) n"
  by (auto simp: deliver_def demands_seq Let_def abandon_def run_handler_def
      intro!: finish_now_takes [where k = 10] failure_takes fault_takes settle_takes split: sum.splits prod.splits)

lemma handle_takes: "demands countdown (handle env content_type body) (\<lambda>_ _. True) 21"
  unfolding handle_def demands_seq
  by (rule verify_takes [where k = 13])
    (auto simp: admit_def Let_def intro!: refuse_takes receipt_answer_takes deliver_takes failure_takes split: sum.splits Claim.splits)

text \<open>
  C4. Every request is answered. No execution of the endpoint makes more than 21 interactions, whatever they answer, and from every
  point of every execution the endpoint goes on to an answer: it never waits for something that no answer of its services can give, the
  second decryption pass included.
\<close>

theorem inbound_terminates:
  assumes "steps (handle env content_type body) tr q"
  shows "length tr \<le> 21 \<and> (\<exists>tr' a. steps q tr' (Done a) \<and> length tr + length tr' \<le> 21)"
proof -
  from demands_steps [OF assms handle_takes] obtain n where n: "watch countdown tr 21 = Some n" "demands countdown q (\<lambda>_ _. True) n" by blast
  obtain tr' a where q: "steps q tr' (Done a)" using steps_finish [of q] by blast
  from demands_steps [OF q n(2)] obtain n' where "watch countdown tr' n = Some n'" by blast
  then have "length tr + length tr' \<le> 21" using watch_countdown [OF n(1)] watch_countdown [of tr' n n'] by simp
  with q show ?thesis by auto
qed

section \<open>Deliveries over one store\<close>

text \<open>
  The log of several tasks that share the in-memory store: who did what and when. The store answers its own operations, one at a
  time; the other interactions do not touch it.
\<close>

type_synonym ('m, 'f) log = "(nat \<times> instant \<times> ('m, 'f) event) list"

fun store_event :: "('m, 'f) event \<Rightarrow> bool" where
  "store_event (EClaim _ _) = True"
| "store_event (EAccept _ _ _) = True"
| "store_event (EAbandon _ _ _) = True"
| "store_event _ = False"

inductive served :: "memory_dedup \<Rightarrow> ('m, 'f) log \<Rightarrow> memory_dedup \<Rightarrow> bool" where
  served_nil: "served m [] m"
| served_claim: "claim_now n rnd k m = (r, m') \<Longrightarrow> served m' log m'' \<Longrightarrow> served m ((i, n, EClaim k r) # log) m''"
| served_accept: "settle True n k t m = (r, m') \<Longrightarrow> served m' log m'' \<Longrightarrow> served m ((i, n, EAccept k t r) # log) m''"
| served_abandon: "settle False n k t m = (r, m') \<Longrightarrow> served m' log m'' \<Longrightarrow> served m ((i, n, EAbandon k t r) # log) m''"
| served_other: "\<not> store_event e \<Longrightarrow> served m log m'' \<Longrightarrow> served m ((i, n, e) # log) m''"

definition local_trace :: "nat \<Rightarrow> ('m, 'f) log \<Rightarrow> ('m, 'f) event list" where
  "local_trace j log = map (snd \<circ> snd) (filter (\<lambda>x. fst x = j) log)"

lemma local_trace_member: "e \<in> set (local_trace j log) \<longleftrightarrow> (\<exists>n. (j, n, e) \<in> set log)"
  by (force simp: local_trace_def)

text \<open>While a key is accepted, every claim of it is a duplicate.\<close>

lemma served_duplicate:
  assumes "served m log m'" "mem_accepted m k N" "\<forall>(i, n, e) \<in> set log. n \<le> N" "(j, n, EClaim k r) \<in> set log"
  shows "r = Inr Duplicate"
  using assms
proof (induction rule: served.induct)
  case (served_claim n0 rnd k0 m0 r0 m1 log m2 i)
  have "mem_accepted m1 k N"
    using served_claim.prems served_claim.hyps(1) mem.step_keeps_accepted [of m0 k N "OpClaim n0 rnd k0"] by simp
  moreover have "r0 = Inr Duplicate" if "k0 = k"
    using that served_claim.prems served_claim.hyps(1) mem.claim_duplicate [of n0 rnd k m0] mem.accepted_earlier [of m0 k N n0] by simp
  ultimately show ?case using served_claim by auto
next
  case (served_accept n0 k0 t0 m0 r0 m1 log m2 i)
  have "mem_accepted m1 k N"
    using served_accept.prems served_accept.hyps(1) mem.step_keeps_accepted [of m0 k N "OpAccept n0 k0 t0"] by simp
  with served_accept show ?case by auto
next
  case (served_abandon n0 k0 t0 m0 r0 m1 log m2 i)
  have "mem_accepted m1 k N"
    using served_abandon.prems served_abandon.hyps(1) mem.step_keeps_accepted [of m0 k N "OpAbandon n0 k0 t0"] by simp
  with served_abandon show ?case by auto
qed auto

text \<open>A task calls the handler only under a claim it was granted.\<close>

fun claim_of :: "phase \<Rightarrow> (string \<times> ClaimToken) option" where
  "claim_of (Holding k t) = Some (k, t)"
| "claim_of (Accepting k t) = Some (k, t)"
| "claim_of (Recorded k t) = Some (k, t)"
| "claim_of (Lost k t) = Some (k, t)"
| "claim_of (Refusing k t) = Some (k, t)"
| "claim_of _ = None"

lemma watch_handler:
  assumes "watch (delivery ok sink) tr s = Some s'" "EHandler m h \<in> set tr"
  shows "\<exists>k t. ok k m \<and> (claim_of s = Some (k, t) \<or> EClaim k (Inr (Claimed t)) \<in> set tr)"
  using assms
proof (induction tr arbitrary: s)
  case (Cons e tr)
  then obtain s1 where s1: "delivery ok sink e s = Some s1" "watch (delivery ok sink) tr s1 = Some s'" by (auto split: option.splits)
  show ?case
  proof (cases "e = EHandler m h")
    case True
    with s1(1) show ?thesis by (cases s) (auto split: if_splits)
  next
    case False
    with Cons.prems have "EHandler m h \<in> set tr" by simp
    with Cons.IH [OF s1(2)] obtain k t where kt: "ok k m" "claim_of s1 = Some (k, t) \<or> EClaim k (Inr (Claimed t)) \<in> set tr" by blast
    moreover have "claim_of s = Some (k, t) \<or> e = EClaim k (Inr (Claimed t))" if "claim_of s1 = Some (k, t)"
      using that s1(1) by (cases e; cases s) (auto split: if_splits sum.splits Claim.splits handled.splits)
    ultimately show ?thesis by auto
  qed
qed simp

text \<open>
  C2. An accepted message is delivered once. Let the acceptance of a key succeed, and let any number of requests run afterwards,
  interleaved in any way, over the same store and within the retention: every claim of the key is answered as a duplicate, and no
  request hands a message over under that key. A message that is handed over at all is a verified one whose own, different, dedup key the
  request was granted.
\<close>

theorem accepted_message_is_delivered_once:
  assumes "fst (settle True n k t m) = Inr ()" "served (snd (settle True n k t m)) log m'"
    and "\<forall>(i, n', e) \<in> set log. n' \<le> N" "N < n + RETENTION"
    and "\<And>j. steps (handle env (fst (request j)) (snd (request j))) (local_trace j log) (q j)"
  shows "(\<forall>j n' r. (j, n', EClaim k r) \<in> set log \<longrightarrow> r = Inr Duplicate) \<and>
    (\<forall>j n' msg h. (j, n', EHandler msg h) \<in> set log \<longrightarrow>
       (\<exists>k' t' n''. k' \<noteq> k \<and> (j, n'', EClaim k' (Inr (Claimed t'))) \<in> set log \<and>
          deliverable env (snd (request j)) (or_else (fst (request j)) []) k' msg))"
proof -
  have duplicate: "r = Inr Duplicate" if "(j, n', EClaim k r) \<in> set log" for j n' r
    using served_duplicate [OF assms(2) mem.accept_remembers [OF assms(1,4)] assms(3) that] .
  have handed: "\<exists>k' t' n''. k' \<noteq> k \<and> (j, n'', EClaim k' (Inr (Claimed t'))) \<in> set log \<and>
      deliverable env (snd (request j)) (or_else (fst (request j)) []) k' msg" if "(j, n', EHandler msg h) \<in> set log" for j n' msg h
  proof -
    obtain s where watched: "watch (delivery (deliverable env (snd (request j)) (or_else (fst (request j)) [])) (cc_audit (ie_config env)))
        (local_trace j log) Idle = Some s"
      using demands_steps [OF assms(5) handle_concludes] by blast
    from that have "EHandler msg h \<in> set (local_trace j log)" unfolding local_trace_member by (rule exI)
    from watch_handler [OF watched this] obtain k' t' where k': "deliverable env (snd (request j)) (or_else (fst (request j)) []) k' msg"
      "EClaim k' (Inr (Claimed t')) \<in> set (local_trace j log)" by (simp only: claim_of.simps option.distinct) blast
    then obtain n'' where "(j, n'', EClaim k' (Inr (Claimed t'))) \<in> set log" unfolding local_trace_member by blast
    moreover from this duplicate [of j n'' "Inr (Claimed t')"] have "k' \<noteq> k" by (cases "k' = k") simp_all
    ultimately show ?thesis using k'(1) by blast
  qed
  from duplicate handed show ?thesis by blast
qed

section \<open>What the sender is told\<close>


section \<open>A refused request\<close>

inductive_simps steps_simps: "steps p [] q" "steps p (e # tr) q"

definition demo_endpoint :: "(unit, unit, unit, unit) InboundEnv" where
  "demo_endpoint =
     \<lparr>ie_config = \<lparr>cc_profile = preset Bdew12, cc_local = local_party_new ''receiver'', cc_partners = [], cc_anchors = [], cc_http = Inl (),
        cc_audit = Some Durable, cc_crl_signers = []\<rparr>,
      ie_session = \<lparr>rs_session = \<lparr>session_id = ''s'', partner_id = ''p''\<rparr>, rs_profile_built = True, rs_signer_pins = [],
        rs_fingerprint = [], rs_anchor_pems = [''anchor''], rs_now = 0\<rparr>,
      ie_lib = \<lparr>rl_verify = demo_verify_lib, rl_xmlenc = Xmlenc.demo_lib, rl_codec = demo_codec, rl_utf8_error = (\<lambda>_. []), rl_stack = (\<lambda>_. Inr []),
        rl_build_store = (\<lambda>_. Inr ())\<rparr>,
      ie_sign = \<lparr>sg_parse = (\<lambda>_ _. Inl []), sg_range = (\<lambda>_. (0, 0)), sg_hash = vl_hash demo_verify_lib, sg_b64 = (\<lambda>_. []),
        sg_from_der = (\<lambda>_. Inl []), sg_to_pem = (\<lambda>_. Inl []), sg_pem_to_der = (\<lambda>_. Inl []), sg_rsa = (\<lambda>_. None), sg_ecdsa = vl_ecdsa demo_verify_lib\<rparr>,
      ie_audit = \<lparr>al_sha256 = (\<lambda>b. b), al_b64_decode = (\<lambda>_. None)\<rparr>, ie_ossl = demo_ossl, ie_from_der = (\<lambda>_. Inl []), ie_issuer = (\<lambda>_. []),
      ie_serial = (\<lambda>_. None), ie_dec_str = (\<lambda>_. None), ie_nid_debug = (\<lambda>_. []), ie_rnd = (\<lambda>_ _. None), ie_pkcs1 = []\<rparr>"

lemma steps_Now: "steps (k x) tr q \<Longrightarrow> steps (Now k) (Quiet # tr) q"
  by (rule steps_step [OF step.intros(1)])

lemma steps_Spawn: "steps (k x) tr q \<Longrightarrow> steps (Spawn k) (Quiet # tr) q"
  by (rule steps_step [OF step.intros(3)])

text \<open>The verifying task dies, and the request is refused: two interactions to verify, two to answer.\<close>

lemma demo_refused: "\<exists>a. steps (handle demo_endpoint None []) [Quiet, Quiet, Quiet, Quiet] (Done a)"
proof -
  define err where "err = asx_error TransportFailure (''blocking task failed: '' @ []) (for_session ''as4_inbound_verify'' (rs_session (ie_session demo_endpoint)))"
  have "\<exists>a. steps (refuse_request err) [Quiet, Quiet] (Done a)"
    by (simp add: refuse_request_def refusal_def refusal_code_def err_def error_body_def steps_simps Let_def TO_PARTY_STAGE_def
        for_session_def with_session_and_partner_def context_new_def) (blast intro: step.intros)
  then obtain a where "steps (refuse_request err) [Quiet, Quiet] (Done a)" ..
  then have "steps (handle demo_endpoint None []) [Quiet, Quiet, Quiet, Quiet] (Done a)"
    unfolding handle_def verify_inbound_def Let_def seq.simps
    by (intro steps_Now [where x = 0] steps_Spawn [where x = "Died [] False"]) (simp add: joined_result_def err_def)
  then show ?thesis ..
qed


theorem inbound_terminates_witness:
  "\<exists>a. steps (handle demo_endpoint None []) [Quiet, Quiet, Quiet, Quiet] (Done a) \<and>
     (\<exists>tr' a'. steps (Done a :: Answer inbound_prog) tr' (Done a') \<and> 4 + length tr' \<le> 21)"
proof -
  obtain a where run: "steps (handle demo_endpoint None []) [Quiet, Quiet, Quiet, Quiet] (Done a)" using demo_refused ..
  from run inbound_terminates [OF run] show ?thesis by auto
qed

text \<open>One request that is refused while another one's key has just been accepted.\<close>

definition demo_log :: "(UserMessage Verified, Fault) log" where
  "demo_log = [(0, 11, Quiet), (0, 12, Quiet), (0, 12, Quiet), (0, 13, Quiet)]"

theorem accepted_message_is_delivered_once_witness:
  "\<exists>m m'. fst (settle True 10 ''k'' (ClaimToken ''t'') m) = Inr () \<and>
     served (snd (settle True 10 ''k'' (ClaimToken ''t'') m)) demo_log m' \<and>
     (\<forall>j n' r. (j, n', EClaim ''k'' r) \<in> set demo_log \<longrightarrow> r = Inr Duplicate) \<and>
     (\<forall>j n' msg h. (j, n', EHandler msg h) \<in> set demo_log \<longrightarrow>
        (\<exists>k' t' n''. k' \<noteq> ''k'' \<and> (j, n'', EClaim k' (Inr (Claimed t'))) \<in> set demo_log \<and> deliverable demo_endpoint [] [] k' msg))"
proof -
  let ?m = "[''k'' \<mapsto> Held (ClaimToken ''t'') 20] :: memory_dedup"
  let ?p = "handle demo_endpoint None []"
  obtain a where run: "steps ?p [Quiet, Quiet, Quiet, Quiet] (Done a)" using demo_refused ..
  have settled: "fst (settle True 10 ''k'' (ClaimToken ''t'') ?m) = Inr ()" by (simp add: settle_def retain_unexpired_def)
  have log: "served m demo_log m" for m by (simp add: demo_log_def served.intros)
  have times: "\<forall>(i, n', e) \<in> set demo_log. n' \<le> 13" by (simp add: demo_log_def)
  have retention: "13 < 10 + RETENTION" by (simp add: RETENTION_def MIN_RETENTION_def)
  have runs: "steps (handle demo_endpoint (fst (None, [])) (snd (None, []))) (local_trace j demo_log) (if j = 0 then Done a else ?p)" for j
    using run by (simp add: local_trace_def demo_log_def steps_refl)
  show ?thesis
    using settled log accepted_message_is_delivered_once [OF settled log times retention, of demo_endpoint "\<lambda>_. (None, [])", OF runs]
    by (auto simp: or_else_def)
qed

end
