(* ===== verification/Spec2Isabelle.thy ===== *)
theory Spec2Isabelle
  imports Calendar Receive_Safety Inbound_Protocol
begin

text \<open>
  asx-rs: a Rust library for the exchange of business messages, verified on its AS4 receive side. Paths below are those
  of the crate (src/...).

  The program. A client is built from a network profile, a local party and its partners (builder.rs, profile.rs, party.rs).
  A request that reaches the receive endpoint (as4/inbound.rs behind the service of inbound.rs) is split into its MIME parts
  (as4/stream.rs), its envelope is parsed under limits (xml/, as4/parser.rs), its signature is verified over canonical XML
  (crypto/wssec/), the signer's path is checked for revocation (revocation/), the parts are decrypted, compared with their
  signed digests and decompressed (as4/receive/, crypto/wssec/xmlenc/, crypto/compression.rs), and the message is claimed in a
  dedup store (dedup.rs), handed to the application's handler and answered with a signed receipt or an error signal
  (as4/signals.rs, xml/writer.rs, crypto/wssec/sign.rs), with evidence written to an audit sink (audit.rs). What the library
  sends itself goes through hardened egress rules (transport/egress.rs, http_client.rs).

  How code is modelled.
  \<^item> Fallible code returns a sum, with the error on the left; a panic is a value where the source can panic. Errors have
    the codes and contexts of core/error.rs and are mapped to public errors as error.rs does.
  \<^item> A byte slice or a string is the list of its bytes; integers have their width where a value may wrap or overflow
    (time_utils.rs, egress addresses), and are natural numbers where the source bounds them.
  \<^item> Third-party code (OpenSSL, the XML, URL, X.509 and ASN.1 parsers, base64, the stream codecs, the HTTP library) is a record of
    functions passed to the definitions that call it. What a theorem needs of it is a hypothesis, and a witness gives an instance.
  \<^item> Asynchronous code is a program of Interaction: a tree of requests to the environment, each answered by anything of its type.
    Its executions are the step relation \<open>steps\<close>, and an execution may be cut off after any prefix, as a dropped future is.
  \<^item> Loops are recursive functions with a termination proof. Nothing in the model of the code has fuel. The resolver of character
    references in Xml_Writer, which is specification, has: the length of its input, and every call consumes at least one byte.

  The theories.
  \<^item> Asx_Prelude, Wire_Text: results and their sequencing, bytes and text of the Rust standard library, shared lemmas.
  \<^item> Core_Error (core/error.rs, error.rs): what a retry decision may rely on survives the mapping of errors.
  \<^item> Time_Utils (time_utils.rs), Calendar: the conversion of day counts against the Gregorian calendar, right everywhere off
    29 February and wrong there.
  \<^item> Dedup (dedup.rs): the contract of a store is the locale \<open>dedup_store\<close>, the in-memory store interprets it. Over any
    interleaving of operations an accepted key stays a duplicate for the retention (seven days), and a lease (five minutes) is
    exclusive and fenced by its token.
  \<^item> Egress, Http_Client (transport/egress.rs, http_client.rs): a request reaches validated public addresses only, every IPv6 form
    of an IPv4 address included; a body is read up to its cap; a failure is classified by whether the partner may have the message.
  \<^item> Keys, Crypto_Alg (keys.rs, crypto/fingerprint.rs, crypto/alg.rs, crypto/alg/ecdsa.rs): no decryption oracle, the
    conversion of signature values, the registry of algorithms, fingerprints.
  \<^item> Profile, Builder (profile.rs, party.rs, as4/types/, builder.rs): no partner loosens a profile; the validation decides exactly
    the configurations a profile admits.
  \<^item> Mime (as4/mime_packaging.rs, as4/send_mime.rs, as4/stream.rs): the reader splits what the packager writes.
  \<^item> Xml_Dom, As4_Types, As4_Parser (xml/, as4/types/, as4/parser.rs): the pre-scan decides the limits exactly; an accepted
    message or signal is unambiguous and bounded.
  \<^item> Canonicalize, Wssec_Parse, Wssec_X509, Wssec_Verify (crypto/wssec/): canonical XML, the parsing of a signature and
    its verification; what a verified signature covers, and a token that panics the splitter.
  \<^item> Xmlenc_Parse, Xmlenc (crypto/wssec/xmlenc/): what an accepted envelope has, the key derivation, the round trip of the content, and
    one uniform error.
  \<^item> Compression, As4_Receive, Receive_Safety (crypto/compression.rs, as4/receive.rs, as4/receive/, as4/services.rs): what is delivered is
    what was signed; and two ways in which a message that was not signed as read is accepted.
  \<^item> Revocation_Check (revocation/): an accepted path has a current status for every certificate.
  \<^item> Xml_Writer, Wssec_Sign, As4_Signals (xml/writer.rs, crypto/wssec/sign.rs, crypto/soap_builder.rs, as4/signals.rs): the
    writer prints its tree with every value escaped, a receipt is read back by the library's own parser, and the attribute
    by which an error names its message is not read.
  \<^item> Audit_Trail (audit.rs): the invariant of a finished record, the order of record identifiers, the writing of evidence.
  \<^item> Interaction, As4_Inbound, Inbound_Protocol (as4/inbound.rs, inbound.rs, verified.rs): the endpoint as a program, and the delivery
    protocol as an automaton that watches its executions. \<open>demands\<close> is the weakest precondition of a program for an automaton, and
    \<open>demands_steps\<close> its soundness for every prefix of an execution. Every execution refines the protocol; the same
    calculus with a counter gives the bound of 21 interactions (eight to verify, with at most one question to a deferred key and a
    second pass, one claim, twelve to deliver and settle); with the contract of the store, a message that
    was accepted is not delivered again by any interleaving of requests.

  What is not modelled. The outbound exchange (as4/client.rs, as4/send.rs, as4/send_client.rs, send_pipeline.rs,
  as4/receipt_verify.rs, crypto/wssec/xmlenc/emit.rs) but for the writers it shares with the answers; AS2, whose security is in CMS
  structures that OpenSSL builds and checks; partner discovery (smp.rs, peppol.rs, sbdh.rs); telemetry, spans, caches and the
  background refresh of CRLs, which are I/O and do not change an answer; serialization of records, which a library derives;
  and the test kit.
\<close>

end
